(* ===== verification/Collections.thy ===== *)
theory Collections
  imports Prelude
begin

text \<open>
  The ordered containers of the Rust standard library, in the representation the model uses:
  a \<open>BTreeSet\<close> is the strictly increasing list of its elements and a \<open>BTreeMap\<close> is the
  association list with strictly increasing keys, so iteration order is list order and equality
  of containers is equality of lists.

  Two interfaces are stated as locales. \<open>seen_set\<close> is what a duplicate check needs of a
  set, and its lemmas characterise the loops that reject the first repeated name.
  \<open>keyed_map\<close> is what the readers need of a map, and its lemmas characterise the loops that
  insert entries and reject a key that is already present. Both are interpreted on the
  \<open>BTreeSet\<close> and \<open>BTreeMap\<close> models.
\<close>

section \<open>Interfaces\<close>

text \<open>A loop that inserts names in a set and stops at the first one it already holds.\<close>

fun first_repeat :: "('s \<Rightarrow> 'a \<Rightarrow> bool) \<Rightarrow> ('a \<Rightarrow> 's \<Rightarrow> 's) \<Rightarrow> 's \<Rightarrow> 'a list \<Rightarrow> 'a option" where
  "first_repeat mem add s [] = None"
| "first_repeat mem add s (x # xs) =
     (if mem s x then Some x else first_repeat mem add (add x s) xs)"

text \<open>A loop that inserts entries in a map and stops at the first key it already holds.\<close>

fun insert_new :: "('m \<Rightarrow> 'k \<Rightarrow> 'v option) \<Rightarrow> ('k \<Rightarrow> 'v \<Rightarrow> 'm \<Rightarrow> 'm) \<Rightarrow> ('k \<Rightarrow> 'e) \<Rightarrow> 'm
    \<Rightarrow> ('k \<times> 'v) list \<Rightarrow> 'e + 'm" where
  "insert_new get put dup m [] = Inr m"
| "insert_new get put dup m ((k, v) # kvs) =
     (if get m k \<noteq> None then Inl (dup k) else insert_new get put dup (put k v m) kvs)"

locale seen_set =
  fixes empty :: "'s" and mem :: "'s \<Rightarrow> 'a \<Rightarrow> bool" and add :: "'a \<Rightarrow> 's \<Rightarrow> 's" and ok :: "'s \<Rightarrow> bool"
  assumes ok_empty: "ok empty"
    and mem_empty: "\<not> mem empty x"
    and ok_add: "ok s \<Longrightarrow> ok (add x s)"
    and mem_add: "ok s \<Longrightarrow> mem (add x s) y \<longleftrightarrow> x = y \<or> mem s y"
begin

lemma first_repeat_None:
  "ok s \<Longrightarrow> first_repeat mem add s xs = None \<longleftrightarrow> distinct xs \<and> (\<forall>x\<in>set xs. \<not> mem s x)"
  by (induction xs arbitrary: s) (auto simp: ok_add mem_add)

lemma first_repeat_Some:
  "ok s \<Longrightarrow> first_repeat mem add s xs = Some x \<longleftrightarrow>
     (\<exists>ys zs. xs = ys @ x # zs \<and> distinct ys \<and> (\<forall>y\<in>set ys. \<not> mem s y) \<and> (x \<in> set ys \<or> mem s x))"
proof (induction xs arbitrary: s)
  case (Cons a xs)
  show ?case
  proof (cases "mem s a")
    case True
    then show ?thesis using Cons.prems by (auto simp: Cons_eq_append_conv)
  next
    case False
    have "first_repeat mem add s (a # xs) = Some x \<longleftrightarrow>
        (\<exists>ys zs. xs = ys @ x # zs \<and> distinct ys \<and> (\<forall>y\<in>set ys. \<not> mem (add a s) y)
           \<and> (x \<in> set ys \<or> mem (add a s) x))"
      using False Cons.IH [OF ok_add [OF Cons.prems]] by simp
    also have "\<dots> \<longleftrightarrow> (\<exists>ys zs. a # xs = (a # ys) @ x # zs \<and> distinct (a # ys)
           \<and> (\<forall>y\<in>set (a # ys). \<not> mem s y) \<and> (x \<in> set (a # ys) \<or> mem s x))"
      using False by (auto simp: mem_add [OF Cons.prems])
    also have "\<dots> \<longleftrightarrow> (\<exists>ys zs. a # xs = ys @ x # zs \<and> distinct ys
           \<and> (\<forall>y\<in>set ys. \<not> mem s y) \<and> (x \<in> set ys \<or> mem s x))"
      using False by (auto simp: Cons_eq_append_conv) (metis append_Cons distinct.simps(2) list.set_intros set_ConsD)+
    finally show ?thesis .
  qed
qed simp

lemma all_new: "first_repeat mem add empty xs = None \<longleftrightarrow> distinct xs"
  by (simp add: first_repeat_None ok_empty mem_empty)

lemma first_duplicate:
  "first_repeat mem add empty xs = Some x \<longleftrightarrow>
     (\<exists>ys zs. xs = ys @ x # zs \<and> distinct ys \<and> x \<in> set ys)"
  by (simp add: first_repeat_Some ok_empty mem_empty)

end

locale keyed_map =
  fixes empty :: "'m" and get :: "'m \<Rightarrow> 'k \<Rightarrow> 'v option" and put :: "'k \<Rightarrow> 'v \<Rightarrow> 'm \<Rightarrow> 'm"
    and keys :: "'m \<Rightarrow> 'k list" and ok :: "'m \<Rightarrow> bool"
  assumes ok_empty: "ok empty"
    and get_empty: "get empty k = None"
    and ok_put: "ok m \<Longrightarrow> ok (put k v m)"
    and get_put: "ok m \<Longrightarrow> get (put k v m) k' = (if k' = k then Some v else get m k')"
    and keys_get: "k \<in> set (keys m) \<longleftrightarrow> get m k \<noteq> None"
    and ext: "ok m \<Longrightarrow> ok m' \<Longrightarrow> get m = get m' \<Longrightarrow> m = m'"
begin

lemma insert_new_ok: "ok m \<Longrightarrow> insert_new get put dup m kvs = Inr m' \<Longrightarrow> ok m'"
proof (induction kvs arbitrary: m)
  case (Cons kv kvs)
  then show ?case by (cases kv) (auto intro: ok_put split: if_splits)
qed simp

lemma insert_new_iff:
  "ok m \<Longrightarrow> insert_new get put dup m kvs = Inr m' \<longleftrightarrow>
     distinct (map fst kvs) \<and> (\<forall>k\<in>fst ` set kvs. get m k = None)
     \<and> ok m' \<and> get m' = get m ++ map_of kvs"
proof (induction kvs arbitrary: m)
  case Nil
  then show ?case by (auto intro: ext)
next
  case (Cons kv kvs)
  obtain k v where kv: "kv = (k, v)" by force
  show ?case
  proof (cases "get m k")
    case None
    have upd: "get (put k v m) j = (if j = k then Some v else get m j)" for j
      by (simp add: get_put Cons.prems)
    have eq: "get (put k v m) ++ map_of kvs = get m ++ map_of (kv # kvs)" if "k \<notin> fst ` set kvs"
    proof -
      have "map_of kvs k = None" using that by (simp add: map_of_eq_None_iff)
      then show ?thesis by (auto simp: kv upd fun_eq_iff map_add_def split: option.split)
    qed
    have "insert_new get put dup m (kv # kvs) = Inr m' \<longleftrightarrow>
        distinct (map fst kvs) \<and> (\<forall>j\<in>fst ` set kvs. get (put k v m) j = None)
        \<and> ok m' \<and> get m' = get (put k v m) ++ map_of kvs"
      using None Cons.IH [OF ok_put [OF Cons.prems, of k v]] by (simp add: kv)
    also have "\<dots> \<longleftrightarrow> distinct (map fst (kv # kvs)) \<and> (\<forall>j\<in>fst ` set (kv # kvs). get m j = None)
        \<and> ok m' \<and> get m' = get m ++ map_of (kv # kvs)"
    proof (cases "k \<in> fst ` set kvs")
      case True
      then show ?thesis by (auto simp: kv upd)
    next
      case False
      then show ?thesis using None by (auto simp: eq upd kv simp del: map_of.simps)
    qed
    finally show ?thesis .
  qed (simp add: kv)
qed

lemma insert_new_empty:
  "insert_new get put dup empty kvs = Inr m \<longleftrightarrow> distinct (map fst kvs) \<and> ok m \<and> get m = map_of kvs"
proof -
  have "get empty = Map.empty" by (rule HOL.ext) (simp add: get_empty)
  then show ?thesis by (simp add: insert_new_iff [OF ok_empty] get_empty)
qed

lemma insert_new_error:
  "ok m \<Longrightarrow> insert_new get put dup m kvs = Inl e \<Longrightarrow>
     \<exists>k\<in>fst ` set kvs. e = dup k"
proof (induction kvs arbitrary: m)
  case (Cons kv kvs)
  then show ?case
    by (cases kv) (auto simp: ok_put split: if_splits dest: Cons.IH [OF ok_put])
qed simp

end

section \<open>BTreeSet\<close>

type_synonym 'a bset = "'a list"

definition bs_ok :: "'a::linorder bset \<Rightarrow> bool" where
  "bs_ok s \<longleftrightarrow> sorted_wrt (<) s"

definition bs_member :: "'a bset \<Rightarrow> 'a \<Rightarrow> bool" where
  "bs_member s x \<longleftrightarrow> x \<in> set s"

fun bs_insert :: "'a::linorder \<Rightarrow> 'a bset \<Rightarrow> 'a bset" where
  "bs_insert x [] = [x]"
| "bs_insert x (y # ys) =
     (if x < y then x # y # ys else if x = y then y # ys else y # bs_insert x ys)"

text \<open>\<open>collect::<BTreeSet<_>>()\<close>.\<close>

definition bs_of_list :: "'a::linorder list \<Rightarrow> 'a bset" where
  "bs_of_list xs = fold bs_insert xs []"

definition bs_inter :: "'a bset \<Rightarrow> 'a bset \<Rightarrow> 'a bset" where
  "bs_inter s t = filter (bs_member t) s"

lemma set_bs_insert [simp]: "set (bs_insert x s) = insert x (set s)"
  by (induction s) auto

lemma bs_ok_Nil [simp]: "bs_ok []"
  by (simp add: bs_ok_def)

lemma bs_ok_insert [simp]: "bs_ok s \<Longrightarrow> bs_ok (bs_insert x s)"
  by (induction s) (auto simp: bs_ok_def)

lemma bs_ok_fold: "bs_ok s \<Longrightarrow> bs_ok (fold bs_insert xs s)"
  by (induction xs arbitrary: s) simp_all

lemma set_fold_insert [simp]: "set (fold bs_insert xs s) = set xs \<union> set s"
  by (induction xs arbitrary: s) auto

lemma bs_ok_of_list [simp]: "bs_ok (bs_of_list xs)"
  by (simp add: bs_of_list_def bs_ok_fold)

lemma set_bs_of_list [simp]: "set (bs_of_list xs) = set xs"
  by (simp add: bs_of_list_def)

lemma bs_ok_filter [simp]: "bs_ok s \<Longrightarrow> bs_ok (filter P s)"
  by (simp add: bs_ok_def sorted_wrt_filter)

lemma set_bs_inter [simp]: "set (bs_inter s t) = set s \<inter> set t"
  by (auto simp: bs_inter_def bs_member_def)

lemma bs_ok_inter [simp]: "bs_ok s \<Longrightarrow> bs_ok (bs_inter s t)"
  by (simp add: bs_inter_def)

lemma bs_ok_distinct: "bs_ok s \<Longrightarrow> distinct s"
  by (simp add: bs_ok_def strict_sorted_iff)

lemma bs_eq_iff: "bs_ok s \<Longrightarrow> bs_ok t \<Longrightarrow> s = t \<longleftrightarrow> set s = set t"
  by (metis bs_ok_def strict_sorted_equal)

lemma bs_of_list_ok: "bs_ok s \<Longrightarrow> bs_of_list s = s"
  by (simp add: bs_eq_iff)

interpretation btree_set: seen_set "[]" bs_member bs_insert bs_ok
  by unfold_locales (auto simp: bs_member_def)

section \<open>BTreeMap\<close>

type_synonym ('k, 'v) bmap = "('k \<times> 'v) list"

definition bm_ok :: "('k::linorder, 'v) bmap \<Rightarrow> bool" where
  "bm_ok m \<longleftrightarrow> sorted_wrt (<) (map fst m)"

definition bm_get :: "('k, 'v) bmap \<Rightarrow> 'k \<Rightarrow> 'v option" where
  "bm_get m k = map_of m k"

definition bm_contains :: "('k, 'v) bmap \<Rightarrow> 'k \<Rightarrow> bool" where
  "bm_contains m k \<longleftrightarrow> bm_get m k \<noteq> None"

definition bm_keys :: "('k, 'v) bmap \<Rightarrow> 'k list" where
  "bm_keys m = map fst m"

fun bm_insert :: "'k::linorder \<Rightarrow> 'v \<Rightarrow> ('k, 'v) bmap \<Rightarrow> ('k, 'v) bmap" where
  "bm_insert k v [] = [(k, v)]"
| "bm_insert k v ((k', v') # m) =
     (if k < k' then (k, v) # (k', v') # m
      else if k = k' then (k', v) # m
      else (k', v') # bm_insert k v m)"

definition bm_remove :: "'k \<Rightarrow> ('k, 'v) bmap \<Rightarrow> ('k, 'v) bmap" where
  "bm_remove k m = filter (\<lambda>(k', _). k' \<noteq> k) m"

text \<open>\<open>collect::<BTreeMap<_, _>>()\<close>: a later entry of a key replaces an earlier one.\<close>

definition bm_of_list :: "('k::linorder \<times> 'v) list \<Rightarrow> ('k, 'v) bmap" where
  "bm_of_list kvs = fold (\<lambda>(k, v). bm_insert k v) kvs []"

lemma map_fst_bm_insert: "map fst (bm_insert k v m) = bs_insert k (map fst m)"
  by (induction m) auto

lemma fst_bm_insert: "fst ` set (bm_insert k v m) = insert k (fst ` set m)"
  by (metis list.set_map map_fst_bm_insert set_bs_insert)

lemma bm_ok_Nil [simp]: "bm_ok []"
  by (simp add: bm_ok_def)

lemma bm_ok_Cons: "bm_ok ((k, v) # m) \<longleftrightarrow> (\<forall>j\<in>fst ` set m. k < j) \<and> bm_ok m"
  by (auto simp: bm_ok_def)

lemma bm_ok_insert [simp]: "bm_ok m \<Longrightarrow> bm_ok (bm_insert k v m)"
  using bs_ok_insert [of "map fst m" k] by (simp add: bm_ok_def bs_ok_def map_fst_bm_insert)

lemma bm_get_Nil [simp]: "bm_get [] k = None"
  by (simp add: bm_get_def)

lemma bm_get_Cons: "bm_get ((k, v) # m) k' = (if k' = k then Some v else bm_get m k')"
  by (simp add: bm_get_def)

lemma bm_get_insert: "bm_ok m \<Longrightarrow> bm_get (bm_insert k v m) k' = (if k' = k then Some v else bm_get m k')"
  by (induction m) (auto simp: bm_get_Cons bm_ok_Cons)

lemma bm_keys_get: "k \<in> set (bm_keys m) \<longleftrightarrow> bm_get m k \<noteq> None"
  by (simp add: bm_keys_def bm_get_def map_of_eq_None_iff)

lemma bm_contains_keys: "bm_contains m k \<longleftrightarrow> k \<in> set (bm_keys m)"
  by (simp add: bm_contains_def bm_keys_get)

lemma bm_ok_distinct: "bm_ok m \<Longrightarrow> distinct (map fst m)"
  by (simp add: bm_ok_def strict_sorted_iff)

lemma bm_get_iff: "bm_ok m \<Longrightarrow> bm_get m k = Some v \<longleftrightarrow> (k, v) \<in> set m"
  by (simp add: bm_get_def map_of_eq_Some_iff bm_ok_distinct)

lemma bm_get_in: "bm_get m k = Some v \<Longrightarrow> (k, v) \<in> set m"
  by (simp add: bm_get_def map_of_SomeD)

lemma bm_ext:
  assumes "bm_ok m" and "bm_ok m'" and "bm_get m = bm_get m'"
  shows "m = m'"
proof -
  have "set m = set m'"
    by (rule set_eqI) (metis assms bm_get_iff surj_pair)
  moreover from assms have "sorted (map fst m)" "sorted (map fst m')"
    by (simp_all add: bm_ok_def strict_sorted_iff)
  ultimately show ?thesis
    using assms bm_ok_distinct [OF assms(1)] bm_ok_distinct [OF assms(2)]
    by (intro map_sorted_distinct_set_unique [of fst]) (auto simp: distinct_map)
qed

interpretation btree_map: keyed_map "[]" bm_get bm_insert bm_keys bm_ok
  by unfold_locales (auto simp: bm_get_insert bm_keys_get intro: bm_ext)

lemma bm_ok_fold: "bm_ok m \<Longrightarrow> bm_ok (fold (\<lambda>(k, v). bm_insert k v) kvs m)"
  by (induction kvs arbitrary: m) auto

lemma bm_ok_of_list [simp]: "bm_ok (bm_of_list kvs)"
  by (simp add: bm_of_list_def bm_ok_fold)

lemma bm_get_fold:
  "bm_ok m \<Longrightarrow> bm_get (fold (\<lambda>(k, v). bm_insert k v) kvs m) = bm_get m ++ map_of (rev kvs)"
proof (induction kvs arbitrary: m)
  case (Cons kv kvs)
  then show ?case
    by (cases kv) (auto simp: bm_get_insert map_add_def fun_eq_iff split: option.split)
qed simp

lemma bm_get_of_list: "bm_get (bm_of_list kvs) = map_of (rev kvs)"
proof -
  have "bm_get ([] :: ('a \<times> 'b) list) = Map.empty" by (rule ext) simp
  then show ?thesis by (simp add: bm_of_list_def bm_get_fold)
qed

lemma bm_ok_filter: "bm_ok m \<Longrightarrow> bm_ok (filter P m)"
proof (induction m)
  case (Cons kv m)
  then show ?case by (cases kv) (auto simp: bm_ok_Cons)
qed simp

lemma bm_ok_remove [simp]: "bm_ok m \<Longrightarrow> bm_ok (bm_remove k m)"
  by (simp add: bm_remove_def bm_ok_filter)

lemma bm_get_remove: "bm_get (bm_remove k m) k' = (if k' = k then None else bm_get m k')"
  by (induction m) (auto simp: bm_remove_def bm_get_def)

end
