(* ===== verification/Json.thy ===== *)
theory Json
  imports Collections
begin

text \<open>
  JSON values and the two passes the core makes over them
  (\<open>crates/soroban-upgrades-core/src/lib.rs\<close>): \<open>UniqueJson\<close>, the visitor that rejects a
  repeated object key at any depth before a document is decoded, and \<open>strip_documentation\<close>,
  which removes the documentation of a contract specification entry before it is compared.

  \<open>json\<close> has the constructors of \<open>serde_json::Value\<close> that the source matches on; an object is
  a \<open>BTreeMap\<close>, as in the \<open>serde_json\<close> configuration of the workspace. The accessors
  (\<open>get\<close>, \<open>pointer\<close>, \<open>as_array\<close>, \<open>as_str\<close>) are the lookups of that enum that the source
  uses. The decoder is a parameter here: \<open>json_doc\<close> is the sequence of visitor calls that it makes
  for an input, with its own failures as leaves. \<open>Decoders\<close> gives the decoders of the program's types.
\<close>

section \<open>Values\<close>

datatype json_number = Int_Number int | Float_Number u64

datatype json =
    Null
  | Bool bool
  | Number json_number
  | String string
  | Array "json list"
  | Object "(string \<times> json) list"

fun json_get :: "json \<Rightarrow> string \<Rightarrow> json option" where
  "json_get (Object kvs) k = bm_get kvs k"
| "json_get v k = None"

fun as_array :: "json \<Rightarrow> json list option" where
  "as_array (Array xs) = Some xs"
| "as_array v = None"

fun as_str :: "json \<Rightarrow> string option" where
  "as_str (String s) = Some s"
| "as_str v = None"

text \<open>\<open>pointer\<close> with its path split at the slashes; the paths of the source name object keys only.\<close>

fun json_pointer :: "json \<Rightarrow> string list \<Rightarrow> json option" where
  "json_pointer v [] = Some v"
| "json_pointer v (k # ks) = (case json_get v k of None \<Rightarrow> None | Some w \<Rightarrow> json_pointer w ks)"

fun json_ok :: "json \<Rightarrow> bool" where
  "json_ok (Array xs) = list_all json_ok xs"
| "json_ok (Object kvs) = (bm_ok kvs \<and> list_all (\<lambda>kv. json_ok (snd kv)) kvs)"
| "json_ok v = True"

lemma as_array_Some [simp]: "as_array v = Some xs \<longleftrightarrow> v = Array xs"
  by (cases v) auto

lemma as_str_Some [simp]: "as_str v = Some s \<longleftrightarrow> v = String s"
  by (cases v) auto

lemma set_bm_remove: "set (bm_remove k m) = {kv \<in> set m. fst kv \<noteq> k}"
  by (auto simp: bm_remove_def)

lemma size_json_member:
  "(k, v) \<in> set kvs \<Longrightarrow> size v < Suc (size_list (\<lambda>x. Suc (size (snd x))) kvs)"
  by (induction kvs) auto

lemma size_json_remove [termination_simp]:
  "(k, v) \<in> set (bm_remove d kvs) \<Longrightarrow> size v < Suc (size_list (\<lambda>x. Suc (size (snd x))) kvs)"
  using size_json_member [of k v kvs] by (simp add: set_bm_remove)

section \<open>Documentation\<close>

fun strip_documentation :: "json \<Rightarrow> json" where
  "strip_documentation (Object kvs) =
     Object (map (\<lambda>(k, v). (k, strip_documentation v)) (bm_remove ''doc'' kvs))"
| "strip_documentation (Array xs) = Array (map strip_documentation xs)"
| "strip_documentation v = v"

text \<open>
  The specification: two values with the same content outside the members named \<open>doc\<close>.
\<close>

inductive same_but_doc :: "json \<Rightarrow> json \<Rightarrow> bool" where
  null: "same_but_doc Null Null"
| bool: "same_but_doc (Bool b) (Bool b)"
| num: "same_but_doc (Number n) (Number n)"
| str: "same_but_doc (String s) (String s)"
| arr: "list_all2 same_but_doc xs ys \<Longrightarrow> same_but_doc (Array xs) (Array ys)"
| obj: "list_all2 (\<lambda>kv kw. fst kv = fst kw \<and> same_but_doc (snd kv) (snd kw))
          (bm_remove ''doc'' kvs) (bm_remove ''doc'' kws) \<Longrightarrow>
        same_but_doc (Object kvs) (Object kws)"

inductive_cases same_but_doc_ArrayE: "same_but_doc (Array xs) v"
inductive_cases same_but_doc_ObjectE: "same_but_doc (Object kvs) v"
inductive_simps same_but_doc_leaf:
  "same_but_doc Null v" "same_but_doc (Bool b) v" "same_but_doc (Number n) v" "same_but_doc (String s) v"

text \<open>A value with no member named \<open>doc\<close> at any depth.\<close>

fun doc_free :: "json \<Rightarrow> bool" where
  "doc_free (Object kvs) = list_all (\<lambda>kv. fst kv \<noteq> ''doc'' \<and> doc_free (snd kv)) kvs"
| "doc_free (Array xs) = list_all doc_free xs"
| "doc_free v = True"

lemma strip_documentation_doc_free: "doc_free (strip_documentation v)"
  by (induction v rule: strip_documentation.induct)
    (auto simp: list_all_iff set_bm_remove)

lemma strip_documentation_id: "doc_free v \<Longrightarrow> strip_documentation v = v"
proof (induction v rule: strip_documentation.induct)
  case (1 kvs)
  then have "bm_remove ''doc'' kvs = kvs"
    by (auto simp: bm_remove_def list_all_iff filter_id_conv)
  with 1 show ?case by (auto simp: list_all_iff intro!: map_idI)
qed (auto simp: list_all_iff intro!: map_idI)

lemma strip_documentation_get:
  "k \<noteq> ''doc'' \<Longrightarrow>
   json_get (strip_documentation v) k = map_option strip_documentation (json_get v k)"
proof (cases v)
  case (Object kvs)
  assume k: "k \<noteq> ''doc''"
  have "bm_get (map (\<lambda>(k, v). (k, strip_documentation v)) m) k = map_option strip_documentation (bm_get m k)" for m
    by (induction m) (auto simp: bm_get_def)
  with k show ?thesis by (simp add: Object bm_get_remove)
qed simp_all

lemma map_fst_strip: "map fst (map (\<lambda>(k, v). (k, strip_documentation v)) m) = map fst m"
  by (induction m) auto

lemma strip_documentation_ok: "json_ok v \<Longrightarrow> json_ok (strip_documentation v)"
proof (induction v rule: strip_documentation.induct)
  case (1 kvs)
  have "bm_ok (map (\<lambda>(k, v). (k, strip_documentation v)) (bm_remove ''doc'' kvs))"
    using "1.prems" bm_ok_remove [of kvs "''doc''"] by (simp add: bm_ok_def map_fst_strip del: map_map)
  with 1 show ?case by (fastforce simp: list_all_iff set_bm_remove)
qed (auto simp: list_all_iff)

lemma same_but_doc_strip: "same_but_doc v (strip_documentation v)"
proof (induction v rule: strip_documentation.induct)
  case (1 kvs)
  have "bm_remove ''doc'' (map (\<lambda>(k, v). (k, strip_documentation v)) (bm_remove ''doc'' kvs))
      = map (\<lambda>(k, v). (k, strip_documentation v)) (bm_remove ''doc'' kvs)"
    by (auto simp: bm_remove_def filter_id_conv)
  moreover have "same_but_doc (snd kv) (strip_documentation (snd kv))" if "kv \<in> set (bm_remove ''doc'' kvs)" for kv
    using "1.IH" [of kv "fst kv" "snd kv"] that by simp
  then have "list_all2 (\<lambda>kv kw. fst kv = fst kw \<and> same_but_doc (snd kv) (snd kw))
      (bm_remove ''doc'' kvs) (map (\<lambda>(k, v). (k, strip_documentation v)) (bm_remove ''doc'' kvs))"
    by (auto simp: list_all2_conv_all_nth split_beta)
  ultimately show ?case by (auto intro: same_but_doc.obj)
next
  case (2 xs)
  then show ?case by (auto intro!: same_but_doc.arr simp: list_all2_conv_all_nth)
qed (auto intro: same_but_doc.intros)

lemma same_but_doc_strip_eq: "same_but_doc v w \<Longrightarrow> strip_documentation v = strip_documentation w"
proof (induction rule: same_but_doc.induct)
  case (arr xs ys)
  then show ?case by (auto simp: list_all2_conv_all_nth intro!: nth_equalityI)
next
  case (obj kvs kws)
  then show ?case by (auto simp: list_all2_conv_all_nth split_beta intro!: nth_equalityI)
qed simp_all

lemma strip_eq_same_but_doc: "strip_documentation v = strip_documentation w \<Longrightarrow> same_but_doc v w"
proof (induction v arbitrary: w rule: strip_documentation.induct)
  case (1 kvs)
  from "1.prems" obtain kws where w: "w = Object kws"
    and eq: "map (\<lambda>(k, v). (k, strip_documentation v)) (bm_remove ''doc'' kvs)
        = map (\<lambda>(k, v). (k, strip_documentation v)) (bm_remove ''doc'' kws)"
    by (cases w) auto
  have "list_all2 (\<lambda>kv kw. fst kv = fst kw \<and> same_but_doc (snd kv) (snd kw))
      (bm_remove ''doc'' kvs) (bm_remove ''doc'' kws)"
  proof (rule list_all2_all_nthI)
    show len: "length (bm_remove ''doc'' kvs) = length (bm_remove ''doc'' kws)"
      using arg_cong [OF eq, of length] by simp
    fix n assume n: "n < length (bm_remove ''doc'' kvs)"
    have "(\<lambda>(k, v). (k, strip_documentation v)) (bm_remove ''doc'' kvs ! n)
        = (\<lambda>(k, v). (k, strip_documentation v)) (bm_remove ''doc'' kws ! n)"
      using arg_cong [OF eq, of "\<lambda>xs. xs ! n"] n len by simp
    then show "fst (bm_remove ''doc'' kvs ! n) = fst (bm_remove ''doc'' kws ! n)
        \<and> same_but_doc (snd (bm_remove ''doc'' kvs ! n)) (snd (bm_remove ''doc'' kws ! n))"
      using "1.IH" [OF nth_mem [OF n] prod.collapse] by (simp add: split_beta)
  qed
  then show ?case by (simp add: w same_but_doc.obj)
next
  case (2 xs)
  from "2.prems" obtain ys where w: "w = Array ys" and eq: "map strip_documentation xs = map strip_documentation ys"
    by (cases w) auto
  have "list_all2 same_but_doc xs ys"
  proof (rule list_all2_all_nthI)
    show len: "length xs = length ys" using arg_cong [OF eq, of length] by simp
    fix n assume n: "n < length xs"
    have "strip_documentation (xs ! n) = strip_documentation (ys ! n)"
      using arg_cong [OF eq, of "\<lambda>zs. zs ! n"] n len by simp
    with 2 n show "same_but_doc (xs ! n) (ys ! n)" by simp
  qed
  then show ?case by (simp add: w same_but_doc.arr)
next
  case "3_1" then show ?case by (cases w) (auto intro: same_but_doc.intros)
next
  case "3_2" then show ?case by (cases w) (auto intro: same_but_doc.intros)
next
  case "3_3" then show ?case by (cases w) (auto intro: same_but_doc.intros)
next
  case "3_4" then show ?case by (cases w) (auto intro: same_but_doc.intros)
qed

section \<open>Strict parsing\<close>

text \<open>
  An error of the JSON layer: one the decoder reports, or the visitor's own
  \<open>de::Error::custom\<close>, determined by the repeated key.
\<close>

datatype json_error = Decoder_Error string | Duplicate_Key string

text \<open>
  The calls a decoder makes on a visitor. \<open>Doc_Fail\<close> is a failure of the decoder at that
  point of the input; an entry of an object is a failed \<open>next_key\<close> (\<open>Key_Fail\<close>) or a key
  with the value that follows it.
\<close>

datatype json_doc =
    Doc_Unit
  | Doc_Bool bool
  | Doc_Int int
  | Doc_Float u64
  | Doc_Str string
  | Doc_Seq "json_doc list"
  | Doc_Map "json_entry list"
  | Doc_Fail string
and json_entry =
    Key_Fail string
  | Entry string json_doc

fun unique_json :: "json_doc \<Rightarrow> json_error + unit"
  and visit_seq :: "json_doc list \<Rightarrow> json_error + unit"
  and visit_map :: "string bset \<Rightarrow> json_entry list \<Rightarrow> json_error + unit" where
  "unique_json (Doc_Seq xs) = visit_seq xs"
| "unique_json (Doc_Map entries) = visit_map [] entries"
| "unique_json (Doc_Fail e) = Inl (Decoder_Error e)"
| "unique_json (Doc_Unit) = Inr ()"
| "unique_json (Doc_Bool b) = Inr ()"
| "unique_json (Doc_Int i) = Inr ()"
| "unique_json (Doc_Float f) = Inr ()"
| "unique_json (Doc_Str s) = Inr ()"
| "visit_seq [] = Inr ()"
| "visit_seq (x # xs) = and_then (unique_json x) (\<lambda>_. visit_seq xs)"
| "visit_map keys [] = Inr ()"
| "visit_map keys (Key_Fail e # entries) = Inl (Decoder_Error e)"
| "visit_map keys (Entry key v # entries) =
     (if bs_member keys key then Inl (Duplicate_Key key)
      else and_then (unique_json v) (\<lambda>_. visit_map (bs_insert key keys) entries))"

text \<open>What the decoder crate provides for one input and one target type.\<close>

record 'a json_decoder =
  doc_of :: "bytes \<Rightarrow> json_doc"
  doc_end :: "bytes \<Rightarrow> string + unit"
  from_slice :: "bytes \<Rightarrow> string + 'a"

definition decoded :: "string + 'a \<Rightarrow> json_error + 'a" where
  "decoded r = (case r of Inl e \<Rightarrow> Inl (Decoder_Error e) | Inr x \<Rightarrow> Inr x)"

definition parse_json_strict :: "'a json_decoder \<Rightarrow> bytes \<Rightarrow> json_error + 'a" where
  "parse_json_strict d bs =
     and_then (unique_json (doc_of d bs)) (\<lambda>_.
     and_then (decoded (doc_end d bs)) (\<lambda>_.
     decoded (from_slice d bs)))"

text \<open>
  The specification: the decoder reads the whole document without failure and no object of
  it, however deep, repeats a key.
\<close>

fun entry_keys :: "json_entry list \<Rightarrow> string list" where
  "entry_keys [] = []"
| "entry_keys (Key_Fail e # entries) = entry_keys entries"
| "entry_keys (Entry k v # entries) = k # entry_keys entries"

fun keys_distinct :: "json_doc \<Rightarrow> bool"
  and entry_distinct :: "json_entry \<Rightarrow> bool" where
  "keys_distinct (Doc_Seq xs) = list_all keys_distinct xs"
| "keys_distinct (Doc_Map entries) =
     (distinct (entry_keys entries) \<and> list_all entry_distinct entries)"
| "keys_distinct (Doc_Fail e) = False"
| "keys_distinct d = True"
| "entry_distinct (Key_Fail e) = False"
| "entry_distinct (Entry k v) = keys_distinct v"

lemma unique_json_iff_aux:
  shows "unique_json d = Inr () \<longleftrightarrow> keys_distinct d"
    and "visit_seq xs = Inr () \<longleftrightarrow> list_all keys_distinct xs"
    and "visit_map keys entries = Inr () \<longleftrightarrow>
      distinct (entry_keys entries) \<and> set (entry_keys entries) \<inter> set keys = {}
      \<and> list_all entry_distinct entries"
  by (induction d and xs and keys entries rule: unique_json_visit_seq_visit_map.induct)
    (auto simp: and_then_Inr_iff bs_member_def)

lemma parse_json_strict_iff:
  "parse_json_strict d bs = Inr x \<longleftrightarrow>
     keys_distinct (doc_of d bs) \<and> doc_end d bs = Inr () \<and> from_slice d bs = Inr x"
  by (auto simp: parse_json_strict_def and_then_Inr_iff unique_json_iff_aux decoded_def split: sum.splits)

end
