(* ===== verification/Artifact.thy ===== *)
theory Artifact
  imports Json
begin

text \<open>
  The data model of a compiled contract and the errors of the core
  (\<open>crates/soroban-upgrades-core/src/lib.rs\<close>, \<open>Error\<close> to \<open>impl Artifact\<close>).

  A struct is a record whose fields carry a short prefix of the struct's name; the structs that
  derive \<open>Ord\<close> and live in ordered sets are single-constructor datatypes, ordered field by field
  as the derived instance orders them. An error value of a third-party crate is represented by
  its message.
\<close>

section \<open>Errors\<close>

datatype core_error =
    ArtifactTooLarge usize usize
  | SpecError string
  | ContractSpecSectionCount usize
  | ContractEnvMetaSectionCount usize
  | ContractEnvVersionCount usize
  | DuplicateSpecName string string
  | DuplicateSpecMember string string string
  | DuplicateMetadataKey string
  | WasmError string
  | CallGraphError string
  | XdrError string
  | JsonError json_error
  | InvalidContractId string
  | PlanError string

text \<open>The question-mark operator on a third-party result converts its error with \<open>From\<close>.\<close>

definition lift_error :: "('e \<Rightarrow> core_error) \<Rightarrow> 'e + 'a \<Rightarrow> core_error + 'a" where
  "lift_error wrap r = (case r of Inl e \<Rightarrow> Inl (wrap e) | Inr x \<Rightarrow> Inr x)"

lemma lift_error_simps [simp]:
  "lift_error wrap (Inl e) = Inl (wrap e)"
  "lift_error wrap (Inr x) = Inr x"
  by (simp_all add: lift_error_def)

lemma lift_error_Inr_iff [simp]: "lift_error wrap r = Inr x \<longleftrightarrow> r = Inr x"
  by (cases r) auto

lemma lift_error_Inl_iff: "lift_error wrap r = Inl e \<longleftrightarrow> (\<exists>x. r = Inl x \<and> e = wrap x)"
  by (cases r) auto

section \<open>Limits and host imports\<close>

definition MAX_ARTIFACT_SIZE_BYTES :: usize where
  "MAX_ARTIFACT_SIZE_BYTES = 16 * 1024 * 1024"

definition CAP_0086_PROTOCOL :: u32 where
  "CAP_0086_PROTOCOL = 28"

definition CAP_0086_SPARSE_WRITE_IMPORT :: string where
  "CAP_0086_SPARSE_WRITE_IMPORT = ''m.b''"

definition CAP_0086_SPARSE_READ_IMPORT :: string where
  "CAP_0086_SPARSE_READ_IMPORT = ''m.c''"

definition UPDATE_CURRENT_CONTRACT_WASM_IMPORT :: string where
  "UPDATE_CURRENT_CONTRACT_WASM_IMPORT = ''l.6''"

section \<open>Interface entries and the public type graph\<close>

record interface_entry =
  ie_kind :: string
  ie_name :: string
  ie_canonical :: json

datatype boundary_position = Input | Output

instantiation boundary_position :: linorder
begin

definition less_eq_boundary_position :: "boundary_position \<Rightarrow> boundary_position \<Rightarrow> bool" where
  "x \<le> y \<longleftrightarrow> x = Input \<or> y = Output"

definition less_boundary_position :: "boundary_position \<Rightarrow> boundary_position \<Rightarrow> bool" where
  "x < y \<longleftrightarrow> x = Input \<and> y = Output"

instance
proof
  fix x y z :: boundary_position
  show "(x < y) = (x \<le> y \<and> \<not> y \<le> x)" and "x \<le> x" and "x \<le> y \<or> y \<le> x"
    by (cases x; cases y; simp add: less_eq_boundary_position_def less_boundary_position_def)+
  show "x \<le> y \<Longrightarrow> y \<le> z \<Longrightarrow> x \<le> z" and "x \<le> y \<Longrightarrow> y \<le> x \<Longrightarrow> x = y"
    by (cases x; cases y; cases z; simp add: less_eq_boundary_position_def)+
qed

end

datatype public_type_boundary =
  PublicTypeBoundary (b_function: string) (b_position: boundary_position) (b_index: usize)
    (b_label: "string option") (b_root_type: string)

fun boundary_key :: "public_type_boundary \<Rightarrow> string \<times> boundary_position \<times> usize \<times> string option \<times> string" where
  "boundary_key (PublicTypeBoundary f p i l r) = (f, p, i, l, r)"

lemma boundary_key_inject: "boundary_key x = boundary_key y \<longleftrightarrow> x = y"
  by (cases x; cases y) simp

instantiation public_type_boundary :: linorder
begin

definition less_eq_public_type_boundary :: "public_type_boundary \<Rightarrow> public_type_boundary \<Rightarrow> bool" where
  "x \<le> y \<longleftrightarrow> boundary_key x \<le> boundary_key y"

definition less_public_type_boundary :: "public_type_boundary \<Rightarrow> public_type_boundary \<Rightarrow> bool" where
  "x < y \<longleftrightarrow> boundary_key x < boundary_key y"

instance
  by standard
    (simp_all add: less_eq_public_type_boundary_def less_public_type_boundary_def less_le_not_le
      linear boundary_key_inject [symmetric] antisym order_trans del: less_eq_prod_simp less_prod_simp)

end

text \<open>\<open>TypeReference\<close>, and \<open>ImpactStep\<close> with the same three fields.\<close>

datatype type_reference =
  TypeReference (tr_owner_type: string) (tr_member: string) (tr_target_type: string)

datatype impact_step =
  ImpactStep (is_owner_type: string) (is_member: string) (is_target_type: string)

fun reference_key :: "type_reference \<Rightarrow> string \<times> string \<times> string" where
  "reference_key (TypeReference ow mb tg) = (ow, mb, tg)"

fun step_key :: "impact_step \<Rightarrow> string \<times> string \<times> string" where
  "step_key (ImpactStep ow mb tg) = (ow, mb, tg)"

lemma reference_key_inject: "reference_key x = reference_key y \<longleftrightarrow> x = y"
  by (cases x; cases y) simp

lemma step_key_inject: "step_key x = step_key y \<longleftrightarrow> x = y"
  by (cases x; cases y) simp

instantiation type_reference :: linorder
begin

definition less_eq_type_reference :: "type_reference \<Rightarrow> type_reference \<Rightarrow> bool" where
  "x \<le> y \<longleftrightarrow> reference_key x \<le> reference_key y"

definition less_type_reference :: "type_reference \<Rightarrow> type_reference \<Rightarrow> bool" where
  "x < y \<longleftrightarrow> reference_key x < reference_key y"

instance
  by standard
    (simp_all add: less_eq_type_reference_def less_type_reference_def less_le_not_le
      linear reference_key_inject [symmetric] antisym order_trans del: less_eq_prod_simp less_prod_simp)

end

instantiation impact_step :: linorder
begin

definition less_eq_impact_step :: "impact_step \<Rightarrow> impact_step \<Rightarrow> bool" where
  "x \<le> y \<longleftrightarrow> step_key x \<le> step_key y"

definition less_impact_step :: "impact_step \<Rightarrow> impact_step \<Rightarrow> bool" where
  "x < y \<longleftrightarrow> step_key x < step_key y"

instance
  by standard
    (simp_all add: less_eq_impact_step_def less_impact_step_def less_le_not_le
      linear step_key_inject [symmetric] antisym order_trans del: less_eq_prod_simp less_prod_simp)

end

section \<open>Artifacts\<close>

record export_call_evidence =
  ev_host_imports :: "string bset"
  ev_dynamic_dispatch_reachable :: bool

record function_import =
  fi_function_index :: u32
  fi_module :: string
  fi_name :: string

definition canonical_name :: "function_import \<Rightarrow> string" where
  "canonical_name i = fi_module i @ ''.'' @ fi_name i"

record artifact =
  art_format_version :: u32
  art_sha256 :: string
  art_size_bytes :: usize
  art_env_protocol_version :: u32
  art_env_pre_release :: u32
  art_metadata :: "(string, string) bmap"
  art_host_imports :: "string bset"
  art_functions :: "(string, interface_entry) bmap"
  art_events :: "(string, interface_entry) bmap"
  art_user_types :: "(string, interface_entry) bmap"
  art_public_type_boundaries :: "public_type_boundary list"
  art_type_references :: "type_reference list"
  art_export_call_evidence :: "(string, export_call_evidence) bmap"

definition art_version :: "artifact \<Rightarrow> string option" where
  "art_version a = bm_get (art_metadata a) ''binver''"

definition has_function :: "artifact \<Rightarrow> string \<Rightarrow> bool" where
  "has_function a name = bm_contains (art_functions a) name"

definition uses_cap_0086_sparse_read :: "artifact \<Rightarrow> bool" where
  "uses_cap_0086_sparse_read a = bs_member (art_host_imports a) CAP_0086_SPARSE_READ_IMPORT"

definition uses_cap_0086_sparse_write :: "artifact \<Rightarrow> bool" where
  "uses_cap_0086_sparse_write a = bs_member (art_host_imports a) CAP_0086_SPARSE_WRITE_IMPORT"

text \<open>
  The invariant of an artifact that the reader builds: its containers are ordered, every map
  entry is stored under its own name with the kind of its map, and every canonical value is a
  well-formed JSON value without documentation.
\<close>

definition entries_ok :: "string list \<Rightarrow> (string, interface_entry) bmap \<Rightarrow> bool" where
  "entries_ok kinds m \<longleftrightarrow> bm_ok m
     \<and> (\<forall>(k, e) \<in> set m. ie_name e = k \<and> ie_kind e \<in> set kinds \<and> doc_free (ie_canonical e))"

definition artifact_ok :: "artifact \<Rightarrow> bool" where
  "artifact_ok a \<longleftrightarrow>
     art_format_version a = 1 \<and> art_size_bytes a \<le> MAX_ARTIFACT_SIZE_BYTES
     \<and> bm_ok (art_metadata a) \<and> bs_ok (art_host_imports a)
     \<and> entries_ok [''function''] (art_functions a)
     \<and> entries_ok [''event''] (art_events a)
     \<and> entries_ok [''struct'', ''union'', ''enum'', ''error_enum''] (art_user_types a)
     \<and> bs_ok (art_public_type_boundaries a) \<and> bs_ok (art_type_references a)
     \<and> bm_ok (art_export_call_evidence a)"

lemma entries_ok_Nil [simp]: "entries_ok kinds []"
  by (simp add: entries_ok_def)

lemma set_bm_insert_subset: "set (bm_insert k v m) \<subseteq> insert (k, v) (set m)"
  by (induction m) (auto split: if_splits)

lemma entries_ok_insert:
  "entries_ok kinds m \<Longrightarrow> ie_name e = k \<Longrightarrow> ie_kind e \<in> set kinds \<Longrightarrow> doc_free (ie_canonical e) \<Longrightarrow>
   entries_ok kinds (bm_insert k e m)"
  using set_bm_insert_subset [of k e m] by (fastforce simp: entries_ok_def)

end
