(* ===== verification/Call_Graph.thy ===== *)
theory Call_Graph
  imports Artifact
begin

text \<open>
  The static call-graph evidence of a module (\<open>crates/soroban-upgrades-core/src/lib.rs\<close>,
  \<open>inspect_function_imports\<close>, \<open>inspect_export_call_evidence\<close> and
  \<open>collect_export_call_evidence\<close>).

  The parser crate is a parameter: \<open>wasm_lib\<close> holds its validator and the sequence of payloads
  it yields, each of which may be an error. A payload has the constructors the source matches on.
  The main result is that the worklist loop terminates and computes exactly the host imports and
  the dynamic dispatch reachable from the exported function.
\<close>

section \<open>Payloads\<close>

datatype operator =
    Call u32
  | ReturnCall u32
  | CallIndirect
  | ReturnCallIndirect
  | CallRef
  | ReturnCallRef
  | OtherOperator

record wasm_import =
  wi_module :: string
  wi_name :: string
  wi_is_func :: bool

record wasm_export =
  we_name :: string
  we_is_func :: bool
  we_index :: u32

datatype payload =
    CustomSection string bytes
  | ImportSection "(string + wasm_import) list"
  | ExportSection "(string + wasm_export) list"
  | CodeSectionEntry "string + (string + operator) list"
  | OtherPayload

record wasm_lib =
  validate_all :: "bytes \<Rightarrow> string + unit"
  parse_all :: "bytes \<Rightarrow> (string + payload) list"

definition u32_try_from :: "usize \<Rightarrow> u32 option" where
  "u32_try_from n = (if n < 2 ^ 32 then Some (word_of_nat n) else None)"

definition nth_opt :: "'a list \<Rightarrow> usize \<Rightarrow> 'a option" where
  "nth_opt xs i = (if i < length xs then Some (xs ! i) else None)"

lemma nth_opt_Some: "nth_opt xs i = Some x \<longleftrightarrow> i < length xs \<and> xs ! i = x"
  by (simp add: nth_opt_def)

lemma nth_opt_None: "nth_opt xs i = None \<longleftrightarrow> length xs \<le> i"
  by (simp add: nth_opt_def)

lemma u32_try_from_Some: "u32_try_from n = Some w \<longleftrightarrow> n < 2 ^ 32 \<and> unat w = n"
  by (auto simp: u32_try_from_def unat_of_nat)

section \<open>Function imports\<close>

definition too_many_imports :: core_error where
  "too_many_imports = CallGraphError ''too many function imports to inspect''"

definition add_function_import ::
  "function_import list \<Rightarrow> string + wasm_import \<Rightarrow> core_error + function_import list" where
  "add_function_import imports item =
     and_then (lift_error WasmError item) (\<lambda>import.
       if wi_is_func import then
         and_then (ok_or (u32_try_from (length imports)) too_many_imports) (\<lambda>index.
           Inr (imports @ [\<lparr>fi_function_index = index, fi_module = wi_module import,
             fi_name = wi_name import\<rparr>]))
       else Inr imports)"

definition inspect_function_imports :: "wasm_lib \<Rightarrow> bytes \<Rightarrow> core_error + function_import list" where
  "inspect_function_imports lib bs =
     try_fold (\<lambda>imports item.
         and_then (lift_error WasmError item) (\<lambda>payload.
           case payload of
             ImportSection section \<Rightarrow> try_fold add_function_import imports section
           | _ \<Rightarrow> Inr imports))
       [] (parse_all lib bs)"

definition read_host_imports :: "wasm_lib \<Rightarrow> bytes \<Rightarrow> core_error + string bset" where
  "read_host_imports lib bs =
     and_then (inspect_function_imports lib bs) (\<lambda>imports.
       Inr (bs_of_list (map canonical_name imports)))"

section \<open>Function bodies, imports and exports\<close>

record function_body_calls =
  direct_calls :: "u32 list"
  has_dynamic_dispatch :: bool

definition add_operator :: "function_body_calls \<Rightarrow> string + operator \<Rightarrow> core_error + function_body_calls" where
  "add_operator calls item =
     and_then (lift_error WasmError item) (\<lambda>op.
       case op of
         Call i \<Rightarrow> Inr (calls\<lparr>direct_calls := direct_calls calls @ [i]\<rparr>)
       | ReturnCall i \<Rightarrow> Inr (calls\<lparr>direct_calls := direct_calls calls @ [i]\<rparr>)
       | CallIndirect \<Rightarrow> Inr (calls\<lparr>has_dynamic_dispatch := True\<rparr>)
       | ReturnCallIndirect \<Rightarrow> Inr (calls\<lparr>has_dynamic_dispatch := True\<rparr>)
       | CallRef \<Rightarrow> Inr (calls\<lparr>has_dynamic_dispatch := True\<rparr>)
       | ReturnCallRef \<Rightarrow> Inr (calls\<lparr>has_dynamic_dispatch := True\<rparr>)
       | OtherOperator \<Rightarrow> Inr calls)"

record module_calls =
  mc_function_imports :: "string list"
  mc_function_exports :: "(string, u32) bmap"
  mc_function_bodies :: "function_body_calls list"

definition add_import_name :: "string list \<Rightarrow> string + wasm_import \<Rightarrow> core_error + string list" where
  "add_import_name names item =
     and_then (lift_error WasmError item) (\<lambda>import.
       Inr (if wi_is_func import then names @ [wi_module import @ ''.'' @ wi_name import] else names))"

definition add_function_export ::
  "(string, u32) bmap \<Rightarrow> string + wasm_export \<Rightarrow> core_error + (string, u32) bmap" where
  "add_function_export exports item =
     and_then (lift_error WasmError item) (\<lambda>export.
       Inr (if we_is_func export then bm_insert (we_name export) (we_index export) exports else exports))"

definition scan_payload :: "module_calls \<Rightarrow> string + payload \<Rightarrow> core_error + module_calls" where
  "scan_payload m item =
     and_then (lift_error WasmError item) (\<lambda>payload.
       case payload of
         ImportSection section \<Rightarrow>
           and_then (try_fold add_import_name (mc_function_imports m) section) (\<lambda>names.
             Inr (m\<lparr>mc_function_imports := names\<rparr>))
       | ExportSection section \<Rightarrow>
           and_then (try_fold add_function_export (mc_function_exports m) section) (\<lambda>exports.
             Inr (m\<lparr>mc_function_exports := exports\<rparr>))
       | CodeSectionEntry reader \<Rightarrow>
           and_then (lift_error WasmError reader) (\<lambda>operators.
           and_then (try_fold add_operator \<lparr>direct_calls = [], has_dynamic_dispatch = False\<rparr> operators)
             (\<lambda>calls. Inr (m\<lparr>mc_function_bodies := mc_function_bodies m @ [calls]\<rparr>)))
       | _ \<Rightarrow> Inr m)"

section \<open>The worklist\<close>

text \<open>
  \<open>pending\<close> is the stack of the source with its top first, so that
  \<open>pending.extend(direct_calls.iter().rev())\<close> puts the first call on top. A \<open>u32\<close> always fits
  the \<open>usize\<close> of the 32- and 64-bit platforms the tool is built for. The set of visited
  functions grows inside the finite type of indices, or the stack shrinks.
\<close>

function collect_export_call_evidence ::
  "u32 \<Rightarrow> string list \<Rightarrow> function_body_calls list \<Rightarrow> u32 list \<Rightarrow> u32 bset \<Rightarrow> export_call_evidence
     \<Rightarrow> core_error + export_call_evidence" where
  "collect_export_call_evidence n imports bodies [] visited evidence = Inr evidence"
| "collect_export_call_evidence n imports bodies (current # pending) visited evidence =
     (if current < n then
        (case nth_opt imports (unat current) of
           None \<Rightarrow> Inl (CallGraphError ''function import index is out of range'')
         | Some import \<Rightarrow>
             collect_export_call_evidence n imports bodies pending visited
               (evidence\<lparr>ev_host_imports := bs_insert import (ev_host_imports evidence)\<rparr>))
      else if bs_member visited current then
        collect_export_call_evidence n imports bodies pending visited evidence
      else
        (case nth_opt bodies (unat (current - n)) of
           None \<Rightarrow> Inl (CallGraphError ''function body index is out of range'')
         | Some body \<Rightarrow>
             collect_export_call_evidence n imports bodies (direct_calls body @ pending)
               (bs_insert current visited)
               (evidence\<lparr>ev_dynamic_dispatch_reachable :=
                  ev_dynamic_dispatch_reachable evidence \<or> has_dynamic_dispatch body\<rparr>)))"
  by pat_completeness auto

termination
proof (relation "inv_image (less_than <*lex*> less_than)
    (\<lambda>(n, imports, bodies, pending, visited, evidence). (card (UNIV - set visited), length pending))")
  fix current :: u32 and visited :: "u32 bset"
  assume "\<not> bs_member visited current"
  then have "UNIV - set (bs_insert current visited) \<subset> UNIV - set visited"
    by (auto simp: bs_member_def)
  then have "card (UNIV - set (bs_insert current visited)) < card (UNIV - set visited)"
    by (intro psubset_card_mono) simp_all
  then show "((n, imps, bodies, direct_calls body @ pending, bs_insert current visited, ev),
      (n, imps, bodies, current # pending, visited, evidence))
      \<in> inv_image (less_than <*lex*> less_than)
          (\<lambda>(n, imports, bodies, pending, visited, evidence). (card (UNIV - set visited), length pending))"
    for n :: u32 and imps :: "string list" and bodies :: "function_body_calls list" and body pending ev evidence
    by simp
qed auto

definition no_evidence :: export_call_evidence where
  "no_evidence = \<lparr>ev_host_imports = [], ev_dynamic_dispatch_reachable = False\<rparr>"

definition add_export_evidence ::
  "u32 \<Rightarrow> string list \<Rightarrow> function_body_calls list \<Rightarrow> (string, export_call_evidence) bmap
     \<Rightarrow> string \<times> u32 \<Rightarrow> core_error + (string, export_call_evidence) bmap" where
  "add_export_evidence n imports bodies result item =
     (case item of (export, function_index) \<Rightarrow>
       and_then (collect_export_call_evidence n imports bodies [function_index] [] no_evidence) (\<lambda>evidence.
         Inr (bm_insert export evidence result)))"

definition inspect_export_call_evidence ::
  "wasm_lib \<Rightarrow> bytes \<Rightarrow> core_error + (string, export_call_evidence) bmap" where
  "inspect_export_call_evidence lib bs =
     and_then (try_fold scan_payload
         \<lparr>mc_function_imports = [], mc_function_exports = [], mc_function_bodies = []\<rparr> (parse_all lib bs)) (\<lambda>m.
     and_then (ok_or (u32_try_from (length (mc_function_imports m))) too_many_imports) (\<lambda>n.
     try_fold (add_export_evidence n (mc_function_imports m) (mc_function_bodies m)) []
       (mc_function_exports m)))"

section \<open>Specification: reachability in the call graph\<close>

text \<open>
  \<open>calls_of n bodies f\<close> are the functions that \<open>f\<close> calls directly: none for an imported
  function, those of its body for a defined one.
\<close>

definition body_of :: "u32 \<Rightarrow> function_body_calls list \<Rightarrow> u32 \<Rightarrow> function_body_calls option" where
  "body_of n bodies f = (if f < n then None else nth_opt bodies (unat (f - n)))"

inductive call_reachable :: "u32 \<Rightarrow> function_body_calls list \<Rightarrow> u32 \<Rightarrow> u32 \<Rightarrow> bool"
  for n bodies f where
  self: "call_reachable n bodies f f"
| call: "call_reachable n bodies f g \<Longrightarrow> body_of n bodies g = Some body \<Longrightarrow> h \<in> set (direct_calls body)
    \<Longrightarrow> call_reachable n bodies f h"

text \<open>An index that names neither an import nor a body.\<close>

definition dangling :: "u32 \<Rightarrow> string list \<Rightarrow> function_body_calls list \<Rightarrow> u32 \<Rightarrow> bool" where
  "dangling n imports bodies f \<longleftrightarrow>
     (if f < n then length imports \<le> unat f else length bodies \<le> unat (f - n))"

declare collect_export_call_evidence.simps(2) [simp del]
lemmas collect_step = collect_export_call_evidence.simps(2)

section \<open>The worklist computes reachability\<close>

text \<open>
  Completeness: the functions the loop has expanded form a set that holds every pending
  defined function and is closed under calls, and the evidence records what the set reaches.
\<close>

definition recorded :: "u32 \<Rightarrow> string list \<Rightarrow> u32 set \<Rightarrow> export_call_evidence \<Rightarrow> u32 \<Rightarrow> bool" where
  "recorded n imports V evidence g \<longleftrightarrow>
     (if g < n then unat g < length imports \<and> imports ! unat g \<in> set (ev_host_imports evidence)
      else g \<in> V)"

definition expanded :: "u32 \<Rightarrow> string list \<Rightarrow> function_body_calls list \<Rightarrow> u32 set \<Rightarrow> export_call_evidence
    \<Rightarrow> u32 \<Rightarrow> bool" where
  "expanded n imports bodies V evidence g \<longleftrightarrow>
     (\<exists>body. body_of n bodies g = Some body
        \<and> (has_dynamic_dispatch body \<longrightarrow> ev_dynamic_dispatch_reachable evidence)
        \<and> (\<forall>h\<in>set (direct_calls body). recorded n imports V evidence h))"

definition extends :: "export_call_evidence \<Rightarrow> export_call_evidence \<Rightarrow> bool" where
  "extends e e' \<longleftrightarrow> set (ev_host_imports e) \<subseteq> set (ev_host_imports e')
     \<and> (ev_dynamic_dispatch_reachable e \<longrightarrow> ev_dynamic_dispatch_reachable e')"

lemma collect_complete:
  "collect_export_call_evidence n imps bodies pending visited evidence = Inr evidence' \<Longrightarrow>
   \<exists>V. set visited \<subseteq> V \<and> extends evidence evidence'
     \<and> (\<forall>g\<in>set pending. recorded n imps V evidence' g)
     \<and> (\<forall>g\<in>V - set visited. expanded n imps bodies V evidence' g)"
proof (induction n imps bodies pending visited evidence rule: collect_export_call_evidence.induct)
  case (1 n imps bodies visited evidence)
  then show ?case by (auto simp: extends_def intro: exI [of _ "set visited"])
next
  case (2 n imps bodies current pending visited evidence)
  consider (import) "current < n" | (seen) "\<not> current < n" "bs_member visited current"
    | (body) "\<not> current < n" "\<not> bs_member visited current" by blast
  then show ?case
  proof cases
    case import
    with "2.prems" obtain nm where nm: "nth_opt imps (unat current) = Some nm"
      and rec: "collect_export_call_evidence n imps bodies pending visited
        (evidence\<lparr>ev_host_imports := bs_insert nm (ev_host_imports evidence)\<rparr>) = Inr evidence'"
      by (simp add: collect_step split: option.splits)
    from "2.IH"(1) [OF import nm rec] obtain V where V: "set visited \<subseteq> V"
      and ext: "extends (evidence\<lparr>ev_host_imports := bs_insert nm (ev_host_imports evidence)\<rparr>) evidence'"
      and pend: "\<forall>g\<in>set pending. recorded n imps V evidence' g"
      and exp: "\<forall>g\<in>V - set visited. expanded n imps bodies V evidence' g"
      by blast
    have "recorded n imps V evidence' current"
      using nm import ext by (auto simp: recorded_def extends_def nth_opt_Some)
    with V ext pend exp show ?thesis by (intro exI [of _ V]) (simp add: extends_def)
  next
    case seen
    with "2.prems" have "collect_export_call_evidence n imps bodies pending visited evidence = Inr evidence'"
      by (simp add: collect_step)
    from "2.IH"(2) [OF seen this] obtain V where V: "set visited \<subseteq> V" "extends evidence evidence'"
      and pend: "\<forall>g\<in>set pending. recorded n imps V evidence' g"
      and exp: "\<forall>g\<in>V - set visited. expanded n imps bodies V evidence' g"
      by blast
    have "recorded n imps V evidence' current"
      using seen V by (auto simp: recorded_def bs_member_def)
    with V pend exp show ?thesis by (intro exI [of _ V]) simp
  next
    case body
    with "2.prems" obtain b where b: "nth_opt bodies (unat (current - n)) = Some b"
      and rec: "collect_export_call_evidence n imps bodies (direct_calls b @ pending)
        (bs_insert current visited) (evidence\<lparr>ev_dynamic_dispatch_reachable :=
          ev_dynamic_dispatch_reachable evidence \<or> has_dynamic_dispatch b\<rparr>) = Inr evidence'"
      by (simp add: collect_step split: option.splits)
    from "2.IH"(3) [OF body b rec] obtain V where V: "insert current (set visited) \<subseteq> V"
      and ext: "extends (evidence\<lparr>ev_dynamic_dispatch_reachable :=
          ev_dynamic_dispatch_reachable evidence \<or> has_dynamic_dispatch b\<rparr>) evidence'"
      and pend: "\<forall>g\<in>set (direct_calls b @ pending). recorded n imps V evidence' g"
      and exp: "\<forall>g\<in>V - insert current (set visited). expanded n imps bodies V evidence' g"
      by auto
    have "expanded n imps bodies V evidence' current"
      using body b ext pend by (simp add: expanded_def body_of_def extends_def)
    then have "\<forall>g\<in>V - set visited. expanded n imps bodies V evidence' g" using exp by blast
    with V ext pend body show ?thesis
      by (intro exI [of _ V]) (simp add: extends_def recorded_def)
  qed
qed

text \<open>Soundness: for any set closed under calls that holds the pending functions.\<close>

definition call_closed :: "u32 \<Rightarrow> function_body_calls list \<Rightarrow> (u32 \<Rightarrow> bool) \<Rightarrow> bool" where
  "call_closed n bodies R \<longleftrightarrow>
     (\<forall>g body h. R g \<and> body_of n bodies g = Some body \<and> h \<in> set (direct_calls body) \<longrightarrow> R h)"

lemma collect_sound:
  "(\<forall>g\<in>set pending. R g) \<Longrightarrow> call_closed n bodies R \<Longrightarrow>
    (case collect_export_call_evidence n imps bodies pending visited evidence of
       Inl e \<Rightarrow> \<exists>g. R g \<and> dangling n imps bodies g
     | Inr evidence' \<Rightarrow>
         (\<forall>nm\<in>set (ev_host_imports evidence'). nm \<in> set (ev_host_imports evidence)
            \<or> (\<exists>g. R g \<and> g < n \<and> unat g < length imps \<and> nm = imps ! unat g))
         \<and> (ev_dynamic_dispatch_reachable evidence' \<longrightarrow> ev_dynamic_dispatch_reachable evidence
            \<or> (\<exists>g body. R g \<and> body_of n bodies g = Some body \<and> has_dynamic_dispatch body)))"
proof (induction n imps bodies pending visited evidence rule: collect_export_call_evidence.induct)
  case (1 n imps bodies visited evidence)
  then show ?case by simp
next
  case (2 n imps bodies current pending visited evidence)
  consider (import) "current < n" | (seen) "\<not> current < n" "bs_member visited current"
    | (body) "\<not> current < n" "\<not> bs_member visited current" by blast
  then show ?case
  proof cases
    case import
    show ?thesis
    proof (cases "nth_opt imps (unat current)")
      case None
      then have "dangling n imps bodies current" using import by (simp add: dangling_def nth_opt_None)
      with None import "2.prems"(1) show ?thesis by (auto simp: collect_step)
    next
      case (Some nm)
      then have new: "unat current < length imps" "nm = imps ! unat current" by (simp_all add: nth_opt_Some)
      let ?run = "collect_export_call_evidence n imps bodies pending visited
        (evidence\<lparr>ev_host_imports := bs_insert nm (ev_host_imports evidence)\<rparr>)"
      have "collect_export_call_evidence n imps bodies (current # pending) visited evidence = ?run"
        using import Some by (simp add: collect_step)
      then show ?thesis
        using "2.IH"(1) [OF import Some _ "2.prems"(2)] "2.prems"(1) import new
        by (cases ?run) auto
    qed
  next
    case seen
    with "2.IH"(2) [OF seen _ "2.prems"(2)] "2.prems"(1) show ?thesis by (simp add: collect_step)
  next
    case body
    show ?thesis
    proof (cases "nth_opt bodies (unat (current - n))")
      case None
      then have "dangling n imps bodies current" using body by (simp add: dangling_def nth_opt_None)
      with None body "2.prems"(1) show ?thesis by (auto simp: collect_step)
    next
      case (Some b)
      have of_b: "body_of n bodies current = Some b" using body Some by (simp add: body_of_def)
      have pend: "\<forall>g\<in>set (direct_calls b @ pending). R g"
        using "2.prems" of_b unfolding call_closed_def by auto
      let ?run = "collect_export_call_evidence n imps bodies (direct_calls b @ pending)
        (bs_insert current visited) (evidence\<lparr>ev_dynamic_dispatch_reachable :=
          ev_dynamic_dispatch_reachable evidence \<or> has_dynamic_dispatch b\<rparr>)"
      have "collect_export_call_evidence n imps bodies (current # pending) visited evidence = ?run"
        using body Some by (simp add: collect_step)
      then show ?thesis
        using "2.IH"(3) [OF body Some pend "2.prems"(2)] of_b "2.prems"(1)
        by (cases ?run) auto
    qed
  qed
qed

lemma recorded_reachable:
  assumes "call_reachable n bodies f g" and "recorded n imps V evidence f"
    and "\<forall>g\<in>V. expanded n imps bodies V evidence g"
  shows "recorded n imps V evidence g"
  using assms
proof (induction rule: call_reachable.induct)
  case (call g body h)
  then have "\<not> g < n" by (auto simp: body_of_def split: if_splits)
  with call have "expanded n imps bodies V evidence g" by (simp add: recorded_def)
  with call show ?case by (auto simp: expanded_def)
qed

lemma bs_ok_collect:
  "bs_ok (ev_host_imports evidence) \<Longrightarrow>
   collect_export_call_evidence n imps bodies pending visited evidence = Inr evidence' \<Longrightarrow>
   bs_ok (ev_host_imports evidence')"
  by (induction n imps bodies pending visited evidence rule: collect_export_call_evidence.induct)
    (auto simp: collect_step split: if_splits option.splits)

lemma reachable_closed: "call_closed n bodies (call_reachable n bodies f)"
  by (auto simp: call_closed_def intro: call_reachable.call)

lemma collect_from_root:
  assumes "collect_export_call_evidence n imps bodies [f] [] no_evidence = Inr evidence"
  obtains V where "recorded n imps V evidence f" and "\<forall>g\<in>V. expanded n imps bodies V evidence g"
  using collect_complete [OF assms] by auto

lemma collect_no_dangling:
  assumes "collect_export_call_evidence n imps bodies [f] [] no_evidence = Inr evidence"
    and "call_reachable n bodies f g"
  shows "\<not> dangling n imps bodies g"
proof -
  obtain V where "recorded n imps V evidence f" and V: "\<forall>g\<in>V. expanded n imps bodies V evidence g"
    by (rule collect_from_root [OF assms(1)])
  then have "recorded n imps V evidence g" by (intro recorded_reachable [OF assms(2)])
  with V show ?thesis
    by (auto simp: recorded_def dangling_def expanded_def body_of_def nth_opt_Some split: if_splits)
qed

lemma collect_evidence_exact:
  "(case collect_export_call_evidence n imps bodies [f] [] no_evidence of
      Inl e \<Rightarrow> \<exists>g. call_reachable n bodies f g \<and> dangling n imps bodies g
    | Inr evidence \<Rightarrow>
        \<not> (\<exists>g. call_reachable n bodies f g \<and> dangling n imps bodies g)
        \<and> bs_ok (ev_host_imports evidence)
        \<and> set (ev_host_imports evidence) = {imps ! unat g |g. call_reachable n bodies f g \<and> g < n}
        \<and> (ev_dynamic_dispatch_reachable evidence \<longleftrightarrow>
             (\<exists>g body. call_reachable n bodies f g \<and> body_of n bodies g = Some body
                \<and> has_dynamic_dispatch body)))"
proof (cases "collect_export_call_evidence n imps bodies [f] [] no_evidence")
  case (Inl e)
  with collect_sound [where pending = "[f]" and R = "call_reachable n bodies f" and n = n and bodies = bodies
      and imps = imps and visited = "[]" and evidence = no_evidence]
  show ?thesis by (simp add: reachable_closed call_reachable.self)
next
  case (Inr evidence)
  obtain V where f: "recorded n imps V evidence f" and V: "\<forall>g\<in>V. expanded n imps bodies V evidence g"
    by (rule collect_from_root [OF Inr])
  have rec: "recorded n imps V evidence g" if "call_reachable n bodies f g" for g
    using that f V by (rule recorded_reachable)
  have sound: "(\<forall>nm\<in>set (ev_host_imports evidence).
        \<exists>g. call_reachable n bodies f g \<and> g < n \<and> unat g < length imps \<and> nm = imps ! unat g)
      \<and> (ev_dynamic_dispatch_reachable evidence \<longrightarrow>
        (\<exists>g body. call_reachable n bodies f g \<and> body_of n bodies g = Some body \<and> has_dynamic_dispatch body))"
    using collect_sound [where pending = "[f]" and R = "call_reachable n bodies f" and n = n and bodies = bodies
      and imps = imps and visited = "[]" and evidence = no_evidence] Inr
    by (simp add: reachable_closed call_reachable.self no_evidence_def)
  have "set (ev_host_imports evidence) = {imps ! unat g |g. call_reachable n bodies f g \<and> g < n}"
    using sound rec by (fastforce simp: recorded_def)
  moreover have "ev_dynamic_dispatch_reachable evidence"
    if "call_reachable n bodies f g" "body_of n bodies g = Some body" "has_dynamic_dispatch body" for g body
    using rec [OF that(1)] that V by (auto simp: recorded_def body_of_def expanded_def split: if_splits)
  moreover have "bs_ok (ev_host_imports evidence)"
    by (rule bs_ok_collect [OF _ Inr]) (simp add: no_evidence_def)
  ultimately show ?thesis using Inr sound collect_no_dangling [OF Inr] by (simp; blast)
qed

text \<open>
  C28: The worklist of \<open>collect_export_call_evidence\<close> always returns, and it succeeds exactly
  when no function reachable from the exported one has an index outside the module. On success
  the evidence holds exactly the host imports reachable through direct calls, as an ordered set,
  and the dynamic-dispatch flag is set exactly when a reachable body contains an indirect or
  reference call.
\<close>

theorem call_evidence_exact:
  "(case collect_export_call_evidence n imps bodies [f] [] no_evidence of
      Inl e \<Rightarrow> \<exists>g. call_reachable n bodies f g \<and> dangling n imps bodies g
    | Inr evidence \<Rightarrow>
        \<not> (\<exists>g. call_reachable n bodies f g \<and> dangling n imps bodies g)
        \<and> bs_ok (ev_host_imports evidence)
        \<and> set (ev_host_imports evidence) = {imps ! unat g |g. call_reachable n bodies f g \<and> g < n}
        \<and> (ev_dynamic_dispatch_reachable evidence \<longleftrightarrow>
             (\<exists>g body. call_reachable n bodies f g \<and> body_of n bodies g = Some body
                \<and> has_dynamic_dispatch body)))"
  by (rule collect_evidence_exact)

section \<open>The module level\<close>

lemma add_export_evidence_Inr:
  "add_export_evidence n imps bodies result (name, f) = Inr result' \<longleftrightarrow>
     (\<exists>evidence. collect_export_call_evidence n imps bodies [f] [] no_evidence = Inr evidence
        \<and> result' = bm_insert name evidence result)"
  by (auto simp: add_export_evidence_def and_then_Inr_iff)

lemma add_export_evidence_fold:
  "try_fold (add_export_evidence n imps bodies) result exports = Inr result' \<Longrightarrow> bm_ok result \<Longrightarrow>
   distinct (map fst exports) \<Longrightarrow>
   bm_ok result' \<and>
   (\<forall>name. bm_get result' name =
      (case map_of exports name of
         None \<Rightarrow> bm_get result name
       | Some f \<Rightarrow> (case collect_export_call_evidence n imps bodies [f] [] no_evidence of
                     Inl e \<Rightarrow> None | Inr evidence \<Rightarrow> Some evidence)))"
proof (induction exports arbitrary: result)
  case Nil
  then show ?case by simp
next
  case (Cons ex exports)
  obtain name f where ex: "ex = (name, f)" by force
  with Cons.prems obtain evidence
    where ev: "collect_export_call_evidence n imps bodies [f] [] no_evidence = Inr evidence"
      and rest: "try_fold (add_export_evidence n imps bodies) (bm_insert name evidence result) exports = Inr result'"
    by (auto simp: add_export_evidence_Inr and_then_Inr_iff)
  have "map_of exports name = None" using Cons.prems ex by (simp add: map_of_eq_None_iff)
  with Cons.IH [OF rest] Cons.prems ex ev show ?case
    by (auto simp: bm_get_insert split: option.split)
qed

lemma scan_exports_ok:
  assumes "try_fold scan_payload m payloads = Inr m'" and "bm_ok (mc_function_exports m)"
  shows "bm_ok (mc_function_exports m')"
proof (rule try_fold_invariant [OF assms(1), where I = "\<lambda>m. bm_ok (mc_function_exports m)"])
  fix s x s'
  assume ok: "bm_ok (mc_function_exports s)" and step: "scan_payload s x = Inr s'"
  have inner: "bm_ok e'" if "try_fold add_function_export e section = Inr e'" "bm_ok e" for e e' "section"
    by (rule try_fold_invariant [OF that(1), where I = bm_ok])
      (auto simp: that add_function_export_def and_then_Inr_iff)
  from step obtain payload where "x = Inr payload" by (cases x) (auto simp: scan_payload_def)
  with step ok show "bm_ok (mc_function_exports s')"
    by (cases payload) (auto simp: scan_payload_def and_then_Inr_iff intro: inner)
qed (rule assms(2))

text \<open>Both readers of the import section see the same names in the same order.\<close>

lemma add_function_import_Inr:
  "add_function_import fis (Inr import) = Inr fis' \<longleftrightarrow>
     (if wi_is_func import then
        (\<exists>index. u32_try_from (length fis) = Some index
           \<and> fis' = fis @ [\<lparr>fi_function_index = index, fi_module = wi_module import, fi_name = wi_name import\<rparr>])
      else fis' = fis)"
  by (auto simp: add_function_import_def and_then_Inr_iff)

lemma import_section_names:
  "try_fold add_function_import fis section = Inr fis' \<Longrightarrow>
   try_fold add_import_name (map canonical_name fis) section = Inr (map canonical_name fis')"
proof (induction "section" arbitrary: fis)
  case (Cons item items)
  then obtain import where item: "item = Inr import" by (cases item) (auto simp: add_function_import_def)
  show ?case
  proof (cases "wi_is_func import")
    case True
    with Cons.prems item obtain index where
      "try_fold add_function_import (fis @ [\<lparr>fi_function_index = index, fi_module = wi_module import,
         fi_name = wi_name import\<rparr>]) items = Inr fis'"
      by (auto simp: add_function_import_Inr and_then_Inr_iff)
    from Cons.IH [OF this] True item show ?thesis
      by (simp add: add_import_name_def canonical_name_def)
  next
    case False
    with Cons item show ?thesis by (simp add: add_function_import_def add_import_name_def)
  qed
qed simp

lemma inspect_imports_scan:
  "try_fold (\<lambda>fis item. and_then (lift_error WasmError item) (\<lambda>payload.
       case payload of ImportSection section \<Rightarrow> try_fold add_function_import fis section
       | _ \<Rightarrow> Inr fis)) fis payloads = Inr fis' \<Longrightarrow>
   mc_function_imports m = map canonical_name fis \<Longrightarrow>
   try_fold scan_payload m payloads = Inr m' \<Longrightarrow>
   mc_function_imports m' = map canonical_name fis'"
proof (induction payloads arbitrary: fis m)
  case (Cons item items)
  then obtain payload m1 where item: "item = Inr payload" and m1: "scan_payload m item = Inr m1"
    and rest: "try_fold scan_payload m1 items = Inr m'"
    by (cases item) (auto simp: and_then_Inr_iff)
  show ?case
  proof (cases "\<exists>section. payload = ImportSection section")
    case True
    then obtain "section" where sec: "payload = ImportSection section" by blast
    with Cons.prems item obtain fis1 where i1: "try_fold add_function_import fis section = Inr fis1"
      and rec: "try_fold (\<lambda>fis item. and_then (lift_error WasmError item) (\<lambda>payload.
       case payload of ImportSection section \<Rightarrow> try_fold add_function_import fis section
       | _ \<Rightarrow> Inr fis)) fis1 items = Inr fis'"
      by (auto simp: and_then_Inr_iff)
    have "mc_function_imports m1 = map canonical_name fis1"
      using m1 import_section_names [OF i1] Cons.prems(2) item sec
      by (auto simp: scan_payload_def and_then_Inr_iff)
    from Cons.IH [OF rec this rest] show ?thesis .
  next
    case False
    with Cons.prems item have rec: "try_fold (\<lambda>fis item. and_then (lift_error WasmError item) (\<lambda>payload.
       case payload of ImportSection section \<Rightarrow> try_fold add_function_import fis section
       | _ \<Rightarrow> Inr fis)) fis items = Inr fis'"
      by (cases payload) auto
    have "mc_function_imports m1 = map canonical_name fis"
      using m1 False Cons.prems(2) item
      by (cases payload) (auto simp: scan_payload_def and_then_Inr_iff)
    from Cons.IH [OF rec this rest] show ?thesis .
  qed
qed simp

definition empty_module_calls :: module_calls where
  "empty_module_calls = \<lparr>mc_function_imports = [], mc_function_exports = [], mc_function_bodies = []\<rparr>"

lemma inspect_exports_get:
  assumes "inspect_export_call_evidence lib bs = Inr result"
  obtains m n where "try_fold scan_payload empty_module_calls (parse_all lib bs) = Inr m"
    and "unat n = length (mc_function_imports m)" and "bm_ok result"
    and "\<And>name evidence. bm_get result name = Some evidence \<longleftrightarrow>
      (\<exists>f. bm_get (mc_function_exports m) name = Some f
         \<and> collect_export_call_evidence n (mc_function_imports m) (mc_function_bodies m) [f] [] no_evidence
             = Inr evidence)"
proof -
  obtain m n where m: "try_fold scan_payload empty_module_calls (parse_all lib bs) = Inr m"
    and n: "u32_try_from (length (mc_function_imports m)) = Some n"
    and fold: "try_fold (add_export_evidence n (mc_function_imports m) (mc_function_bodies m)) []
       (mc_function_exports m) = Inr result"
    using assms by (auto simp: inspect_export_call_evidence_def and_then_Inr_iff empty_module_calls_def)
  have "bm_ok (mc_function_exports m)"
    by (rule scan_exports_ok [OF m]) (simp add: empty_module_calls_def)
  then have "distinct (map fst (mc_function_exports m))" by (rule bm_ok_distinct)
  then have result: "bm_ok result" and get: "\<And>name. bm_get result name =
      (case map_of (mc_function_exports m) name of None \<Rightarrow> None
       | Some f \<Rightarrow> (case collect_export_call_evidence n (mc_function_imports m) (mc_function_bodies m) [f] []
            no_evidence of Inl e \<Rightarrow> None | Inr evidence \<Rightarrow> Some evidence))"
    using add_export_evidence_fold [OF fold] by (simp_all cong: option.case_cong)
  have "bm_get result name = Some evidence \<longleftrightarrow>
      (\<exists>f. bm_get (mc_function_exports m) name = Some f
         \<and> collect_export_call_evidence n (mc_function_imports m) (mc_function_bodies m) [f] [] no_evidence
             = Inr evidence)" for name evidence
    unfolding get by (auto simp: bm_get_def split: option.splits sum.splits)
  moreover have "unat n = length (mc_function_imports m)" using n by (simp add: u32_try_from_Some)
  ultimately show ?thesis using that [OF m _ result] by blast
qed

lemma call_evidence_names:
  assumes "collect_export_call_evidence n imps bodies [f] [] no_evidence = Inr evidence"
    and "unat n = length imps"
  shows "set (ev_host_imports evidence) \<subseteq> set imps"
proof -
  have "\<exists>g. nm = imps ! unat g \<and> g < n" if "nm \<in> set (ev_host_imports evidence)" for nm
    using that collect_sound [where pending = "[f]" and R = "\<lambda>_. True" and n = n and bodies = bodies
      and imps = imps and visited = "[]" and evidence = no_evidence] assms(1)
    by (auto simp: call_closed_def no_evidence_def)
  then show ?thesis using assms(2) by (force simp: word_less_nat_alt)
qed

text \<open>A module of two imports and two exports, one of which reaches an indirect call.\<close>

definition sample_module :: wasm_lib where
  "sample_module = \<lparr>validate_all = (\<lambda>_. Inr ()), parse_all = (\<lambda>_.
     [Inr (ImportSection
        [Inr \<lparr>wi_module = ''m'', wi_name = ''c'', wi_is_func = True\<rparr>,
         Inr \<lparr>wi_module = ''e'', wi_name = ''t'', wi_is_func = False\<rparr>,
         Inr \<lparr>wi_module = ''l'', wi_name = ''6'', wi_is_func = True\<rparr>]),
      Inr (ExportSection
        [Inr \<lparr>we_name = ''upgrade'', we_is_func = True, we_index = 2\<rparr>,
         Inr \<lparr>we_name = ''read'', we_is_func = True, we_index = 3\<rparr>]),
      Inr (CodeSectionEntry (Inr [Inr OtherOperator, Inr (Call 1)])),
      Inr (CodeSectionEntry (Inr [Inr (Call 2), Inr CallIndirect, Inr (Call 3)]))])\<rparr>"

lemma sample_module_evidence:
  "inspect_export_call_evidence sample_module bs = Inr
     [(''read'', \<lparr>ev_host_imports = [''l.6''], ev_dynamic_dispatch_reachable = True\<rparr>),
      (''upgrade'', \<lparr>ev_host_imports = [''l.6''], ev_dynamic_dispatch_reachable = False\<rparr>)]"
  by code_simp

lemma sample_module_imports: "read_host_imports sample_module bs = Inr [''l.6'', ''m.c'']"
  by code_simp

text \<open>
  The call evidence of an export never names a host function outside the module's own import
  section: both readers of the module see the same imports.
\<close>

theorem evidence_within_host_imports:
  assumes "inspect_export_call_evidence lib bs = Inr result"
    and "read_host_imports lib bs = Inr hosts"
    and "bm_get result export = Some evidence"
  shows "set (ev_host_imports evidence) \<subseteq> set hosts"
proof -
  obtain m n where m: "try_fold scan_payload empty_module_calls (parse_all lib bs) = Inr m"
    and n: "unat n = length (mc_function_imports m)"
    and get: "\<And>name evidence. bm_get result name = Some evidence \<longleftrightarrow>
      (\<exists>f. bm_get (mc_function_exports m) name = Some f
         \<and> collect_export_call_evidence n (mc_function_imports m) (mc_function_bodies m) [f] [] no_evidence
             = Inr evidence)"
    using inspect_exports_get [OF assms(1)] by metis
  obtain fis where fis: "inspect_function_imports lib bs = Inr fis" and hosts: "hosts = bs_of_list (map canonical_name fis)"
    using assms(2) by (auto simp: read_host_imports_def and_then_Inr_iff)
  have "mc_function_imports m = map canonical_name fis"
    by (rule inspect_imports_scan [OF fis [unfolded inspect_function_imports_def] _ m])
      (simp add: empty_module_calls_def)
  moreover have "set (ev_host_imports evidence) \<subseteq> set (mc_function_imports m)"
    using assms(3) get call_evidence_names [OF _ n] by blast
  ultimately show ?thesis by (simp add: hosts)
qed

theorem evidence_within_host_imports_witness:
  "set (ev_host_imports \<lparr>ev_host_imports = [''l.6''], ev_dynamic_dispatch_reachable = True\<rparr>)
     \<subseteq> set [''l.6'', ''m.c'']"
  by (rule evidence_within_host_imports [OF sample_module_evidence sample_module_imports, where export = "''read''"])
    (simp add: bm_get_def)

lemma add_imports_indices:
  assumes "try_fold add_function_import fis section = Inr fis'"
    and "\<forall>i<length fis. unat (fi_function_index (fis ! i)) = i"
  shows "\<forall>i<length fis'. unat (fi_function_index (fis' ! i)) = i"
proof (rule try_fold_invariant [where I = "\<lambda>s. \<forall>i<length s. unat (fi_function_index (s ! i)) = i",
      OF assms])
  fix s x s'
  assume inv: "\<forall>i<length s. unat (fi_function_index (s ! i)) = i"
    and step: "add_function_import s x = Inr s'"
  then obtain import where "x = Inr import" by (cases x) (auto simp: add_function_import_def)
  with step inv show "\<forall>i<length s'. unat (fi_function_index (s' ! i)) = i"
    by (auto simp: add_function_import_Inr u32_try_from_Some nth_append less_Suc_eq split: if_splits)
qed

text \<open>
  The import inspector numbers the function imports by their position in the function index
  space: the import at position \<open>i\<close> has index \<open>i\<close>, and no index wraps around.
\<close>

theorem function_import_indices:
  assumes "inspect_function_imports lib bs = Inr fis" and "i < length fis"
  shows "unat (fi_function_index (fis ! i)) = i"
proof -
  have "\<forall>i<length fis. unat (fi_function_index (fis ! i)) = i"
  proof (rule try_fold_invariant [OF assms(1) [unfolded inspect_function_imports_def],
        where I = "\<lambda>s. \<forall>i<length s. unat (fi_function_index (s ! i)) = i"])
    fix s x s'
    assume inv: "\<forall>i<length s. unat (fi_function_index (s ! i)) = i"
      and step: "and_then (lift_error WasmError x) (\<lambda>payload. case payload of
          ImportSection section \<Rightarrow> try_fold add_function_import s section | _ \<Rightarrow> Inr s) = Inr s'"
    then obtain payload where "x = Inr payload" by (cases x) auto
    with step inv show "\<forall>i<length s'. unat (fi_function_index (s' ! i)) = i"
      by (cases payload) (auto dest: add_imports_indices)
  qed simp
  with assms(2) show ?thesis by blast
qed

definition sample_imports :: "function_import list" where
  "sample_imports = [\<lparr>fi_function_index = 0, fi_module = ''m'', fi_name = ''c''\<rparr>,
     \<lparr>fi_function_index = 1, fi_module = ''l'', fi_name = ''6''\<rparr>]"

lemma sample_inspect: "inspect_function_imports sample_module [] = Inr sample_imports"
  by code_simp

theorem function_import_indices_witness: "unat (fi_function_index (sample_imports ! 1)) = 1"
  by (rule function_import_indices [OF sample_inspect]) (simp add: sample_imports_def)

end
