(* ===== verification/Spec_Reader.thy ===== *)
theory Spec_Reader
  imports Call_Graph
begin

text \<open>
  Reading an artifact from a compiled module (\<open>Artifact::from_wasm\<close> and its helpers in
  \<open>crates/soroban-upgrades-core/src/lib.rs\<close>): the size limit, the metadata and environment
  sections, the contract specification with its duplicate checks, and the public type graph.

  The XDR crates are a parameter, the record \<open>spec_lib\<close>: a decoded specification entry is its
  shape, with the constructors the source matches on, paired with what \<open>serde_json::to_value\<close>
  returns for it. SHA-256 with hexadecimal encoding is a parameter as well.

  \<open>scan_spec_iff\<close> characterises the loop over the specification; the theorems at the end say
  what an artifact that is read holds. \<open>Accepted_Modules\<close> says when one is read.
\<close>

section \<open>Specification entries\<close>

datatype spec_type =
    TVal | TBool | TVoid | TError | TU32 | TI32 | TU64 | TI64 | TTimepoint | TDuration
  | TU128 | TI128 | TU256 | TI256 | TBytes | TString | TSymbol | TAddress | TMuxedAddress
  | TBytesN u32
  | TOption spec_type
  | TResult spec_type spec_type
  | TVec spec_type
  | TMap spec_type spec_type
  | TTuple "spec_type list"
  | TUdt bytes

datatype union_case = VoidCase bytes | TupleCase bytes "spec_type list"

datatype spec_shape =
    FunctionV0 bytes "(bytes \<times> spec_type) list" "spec_type list"
  | UdtStructV0 bytes "(bytes \<times> spec_type) list"
  | UdtUnionV0 bytes "union_case list"
  | UdtEnumV0 bytes "bytes list"
  | UdtErrorEnumV0 bytes "bytes list"
  | EventV0 bytes "bytes list"

record spec_entry =
  se_shape :: spec_shape
  se_to_value :: "string + json"

record interface_version =
  iv_protocol :: u32
  iv_pre_release :: u32

record spec_lib =
  utf8_lossy :: "bytes \<Rightarrow> string"
  spec_from_wasm :: "bytes \<Rightarrow> string + spec_entry list"
  meta_entries :: "bytes \<Rightarrow> (string + bytes \<times> bytes) list"
  env_meta_entries :: "bytes \<Rightarrow> (string + interface_version) list"

section \<open>Referenced types\<close>

fun collect_udt_names :: "spec_lib \<Rightarrow> spec_type \<Rightarrow> string bset \<Rightarrow> string bset" where
  "collect_udt_names sl (TUdt name) d = bs_insert (utf8_lossy sl name) d"
| "collect_udt_names sl (TOption t) d = collect_udt_names sl t d"
| "collect_udt_names sl (TResult ok err) d = collect_udt_names sl err (collect_udt_names sl ok d)"
| "collect_udt_names sl (TVec t) d = collect_udt_names sl t d"
| "collect_udt_names sl (TMap k v) d = collect_udt_names sl v (collect_udt_names sl k d)"
| "collect_udt_names sl (TTuple ts) d = fold (collect_udt_names sl) ts d"
| "collect_udt_names sl t d = d"

text \<open>Specification: the user-defined type \<open>n\<close> occurs in the type.\<close>

inductive mentions :: "spec_lib \<Rightarrow> spec_type \<Rightarrow> string \<Rightarrow> bool" for sl where
  udt: "mentions sl (TUdt name) (utf8_lossy sl name)"
| opt: "mentions sl t n \<Longrightarrow> mentions sl (TOption t) n"
| ok: "mentions sl t n \<Longrightarrow> mentions sl (TResult t e) n"
| err: "mentions sl e n \<Longrightarrow> mentions sl (TResult t e) n"
| vec: "mentions sl t n \<Longrightarrow> mentions sl (TVec t) n"
| key: "mentions sl k n \<Longrightarrow> mentions sl (TMap k v) n"
| val: "mentions sl v n \<Longrightarrow> mentions sl (TMap k v) n"
| tup: "t \<in> set ts \<Longrightarrow> mentions sl t n \<Longrightarrow> mentions sl (TTuple ts) n"

inductive_simps mentions_simps [simp]:
  "mentions sl TVal n" "mentions sl TBool n" "mentions sl TVoid n" "mentions sl TError n"
  "mentions sl TU32 n" "mentions sl TI32 n" "mentions sl TU64 n" "mentions sl TI64 n"
  "mentions sl TTimepoint n" "mentions sl TDuration n" "mentions sl TU128 n" "mentions sl TI128 n"
  "mentions sl TU256 n" "mentions sl TI256 n" "mentions sl TBytes n" "mentions sl TString n"
  "mentions sl TSymbol n" "mentions sl TAddress n" "mentions sl TMuxedAddress n"
  "mentions sl (TBytesN k) n" "mentions sl (TOption t) n" "mentions sl (TResult t e) n"
  "mentions sl (TVec t) n" "mentions sl (TMap t e) n" "mentions sl (TTuple ts) n"
  "mentions sl (TUdt name) n"

lemma fold_collects:
  "(\<And>t d. t \<in> set ts \<Longrightarrow> set (f t d) = P t \<union> set d) \<Longrightarrow>
   set (fold f ts d) = \<Union> (P ` set ts) \<union> set d"
  by (induction ts arbitrary: d) auto

lemma set_collect_udt_names: "set (collect_udt_names sl t d) = {n. mentions sl t n} \<union> set d"
proof (induction sl t d rule: collect_udt_names.induct)
  case (6 sl ts d)
  then have "set (fold (collect_udt_names sl) ts d) = (\<Union>t\<in>set ts. {n. mentions sl t n}) \<union> set d"
    by (intro fold_collects)
  then show ?case by auto
qed auto

section \<open>Sections of the module\<close>

definition require_single_contract_spec_section :: "wasm_lib \<Rightarrow> bytes \<Rightarrow> core_error + unit" where
  "require_single_contract_spec_section lib bs =
     and_then (try_fold (\<lambda>count item.
         and_then (lift_error WasmError item) (\<lambda>payload.
           case payload of
             CustomSection name _ \<Rightarrow> Inr (count + (if name = ''contractspecv0'' then 1 else 0))
           | _ \<Rightarrow> Inr count)) 0 (parse_all lib bs)) (\<lambda>count.
     if count = 1 then Inr () else Inl (ContractSpecSectionCount count))"

definition canonicalize_spec_entry :: "spec_entry \<Rightarrow> core_error + json" where
  "canonicalize_spec_entry entry =
     and_then (lift_error (\<lambda>e. JsonError (Decoder_Error e)) (se_to_value entry)) (\<lambda>v.
       Inr (strip_documentation v))"

text \<open>
  \<open>BTreeSet::insert\<close> returns whether the value was new, so the loop stops at the first name that
  is already in the set.
\<close>

definition ensure_unique_spec_members :: "string \<Rightarrow> string \<Rightarrow> string list \<Rightarrow> core_error + unit" where
  "ensure_unique_spec_members kind owner names =
     (case first_repeat bs_member bs_insert [] names of
        Some name \<Rightarrow> Inl (DuplicateSpecMember kind owner name)
      | None \<Rightarrow> Inr ())"

definition insert_user_type ::
  "(string, interface_entry) bmap \<Rightarrow> string \<Rightarrow> string \<Rightarrow> json \<Rightarrow> core_error + (string, interface_entry) bmap" where
  "insert_user_type destination kind name canonical =
     (if bm_get destination name \<noteq> None then Inl (DuplicateSpecName ''user-defined type'' name)
      else Inr (bm_insert name \<lparr>ie_kind = kind, ie_name = name, ie_canonical = canonical\<rparr> destination))"

definition section_data :: "wasm_lib \<Rightarrow> string \<Rightarrow> bytes \<Rightarrow> core_error + nat \<times> bytes" where
  "section_data lib wanted bs =
     try_fold (\<lambda>(count, raw) item.
         and_then (lift_error WasmError item) (\<lambda>payload.
           case payload of
             CustomSection name data \<Rightarrow>
               Inr (if name = wanted then (count + 1, raw @ data) else (count, raw))
           | _ \<Rightarrow> Inr (count, raw))) (0, []) (parse_all lib bs)"

definition read_contract_metadata :: "wasm_lib \<Rightarrow> spec_lib \<Rightarrow> bytes \<Rightarrow> core_error + (string, string) bmap" where
  "read_contract_metadata lib sl bs =
     and_then (section_data lib ''contractmetav0'' bs) (\<lambda>(_, raw).
     and_then (lift_error XdrError (collect_results (meta_entries sl raw))) (\<lambda>entries.
     insert_new bm_get bm_insert DuplicateMetadataKey []
       (map (\<lambda>(key, val). (utf8_lossy sl key, utf8_lossy sl val)) entries)))"

definition read_contract_env_metadata :: "wasm_lib \<Rightarrow> spec_lib \<Rightarrow> bytes \<Rightarrow> core_error + u32 \<times> u32" where
  "read_contract_env_metadata lib sl bs =
     and_then (section_data lib ''contractenvmetav0'' bs) (\<lambda>(section_count, raw).
     if section_count \<noteq> 1 then Inl (ContractEnvMetaSectionCount section_count)
     else and_then (lift_error XdrError (collect_results (env_meta_entries sl raw))) (\<lambda>entries.
       case entries of
         [version] \<Rightarrow> Inr (iv_protocol version, iv_pre_release version)
       | _ \<Rightarrow> Inl (ContractEnvVersionCount (length entries))))"

section \<open>The loop over the specification\<close>

record spec_scan =
  sc_functions :: "(string, interface_entry) bmap"
  sc_events :: "(string, interface_entry) bmap"
  sc_user_types :: "(string, interface_entry) bmap"
  sc_boundaries :: "public_type_boundary bset"
  sc_references :: "type_reference bset"

definition empty_scan :: spec_scan where
  "empty_scan = \<lparr>sc_functions = [], sc_events = [], sc_user_types = [], sc_boundaries = [],
     sc_references = []\<rparr>"

definition input_boundaries ::
  "spec_lib \<Rightarrow> string \<Rightarrow> (bytes \<times> spec_type) list \<Rightarrow> public_type_boundary bset \<Rightarrow> public_type_boundary bset" where
  "input_boundaries sl f ins =
     fold (\<lambda>(index, name, t) acc.
         fold (\<lambda>root_type. bs_insert (PublicTypeBoundary f Input index (Some (utf8_lossy sl name)) root_type))
           (collect_udt_names sl t []) acc)
       (List.enumerate 0 ins)"

definition output_boundaries ::
  "spec_lib \<Rightarrow> string \<Rightarrow> spec_type list \<Rightarrow> public_type_boundary bset \<Rightarrow> public_type_boundary bset" where
  "output_boundaries sl f outs =
     fold (\<lambda>(index, t) acc.
         fold (\<lambda>root_type. bs_insert (PublicTypeBoundary f Output index None root_type))
           (collect_udt_names sl t []) acc)
       (List.enumerate 0 outs)"

definition member_references ::
  "spec_lib \<Rightarrow> string \<Rightarrow> string \<Rightarrow> spec_type \<Rightarrow> type_reference bset \<Rightarrow> type_reference bset" where
  "member_references sl owner member t =
     fold (\<lambda>target_type. bs_insert (TypeReference owner member target_type)) (collect_udt_names sl t [])"

definition struct_references ::
  "spec_lib \<Rightarrow> string \<Rightarrow> (bytes \<times> spec_type) list \<Rightarrow> type_reference bset \<Rightarrow> type_reference bset" where
  "struct_references sl owner fs =
     fold (\<lambda>(name, t). member_references sl owner (utf8_lossy sl name) t) fs"

definition tuple_member :: "string \<Rightarrow> nat \<Rightarrow> string" where
  "tuple_member case_name index = case_name @ ''['' @ show_nat index @ '']''"

definition union_references ::
  "spec_lib \<Rightarrow> string \<Rightarrow> union_case list \<Rightarrow> type_reference bset \<Rightarrow> type_reference bset" where
  "union_references sl owner cs =
     fold (\<lambda>c acc. case c of
         VoidCase _ \<Rightarrow> acc
       | TupleCase name ts \<Rightarrow>
           fold (\<lambda>(index, t). member_references sl owner (tuple_member (utf8_lossy sl name) index) t)
             (List.enumerate 0 ts) acc) cs"

definition union_case_name :: "union_case \<Rightarrow> bytes" where
  "union_case_name c = (case c of VoidCase name \<Rightarrow> name | TupleCase name _ \<Rightarrow> name)"

definition add_function_entry ::
  "spec_lib \<Rightarrow> spec_scan \<Rightarrow> json \<Rightarrow> bytes \<Rightarrow> (bytes \<times> spec_type) list \<Rightarrow> spec_type list \<Rightarrow> core_error + spec_scan" where
  "add_function_entry sl st canonical raw_name ins outs =
     (let name = utf8_lossy sl raw_name in
      and_then (ensure_unique_spec_members ''function'' name (map (\<lambda>i. utf8_lossy sl (fst i)) ins)) (\<lambda>_.
      let boundaries = output_boundaries sl name outs (input_boundaries sl name ins (sc_boundaries st)) in
      if bm_get (sc_functions st) name \<noteq> None then Inl (DuplicateSpecName ''function'' name)
      else Inr (st\<lparr>sc_boundaries := boundaries,
        sc_functions := bm_insert name
          \<lparr>ie_kind = ''function'', ie_name = name, ie_canonical = canonical\<rparr> (sc_functions st)\<rparr>)))"

definition add_event_entry ::
  "spec_lib \<Rightarrow> spec_scan \<Rightarrow> json \<Rightarrow> bytes \<Rightarrow> bytes list \<Rightarrow> core_error + spec_scan" where
  "add_event_entry sl st canonical raw_name params =
     (let name = utf8_lossy sl raw_name in
      and_then (ensure_unique_spec_members ''event'' name (map (utf8_lossy sl) params)) (\<lambda>_.
      if bm_get (sc_events st) name \<noteq> None then Inl (DuplicateSpecName ''event'' name)
      else Inr (st\<lparr>sc_events := bm_insert name
          \<lparr>ie_kind = ''event'', ie_name = name, ie_canonical = canonical\<rparr> (sc_events st)\<rparr>)))"

definition add_user_type ::
  "spec_scan \<Rightarrow> string \<Rightarrow> string \<Rightarrow> string \<Rightarrow> string list \<Rightarrow> (type_reference bset \<Rightarrow> type_reference bset) \<Rightarrow> json
     \<Rightarrow> core_error + spec_scan" where
  "add_user_type st member_kind kind name members references canonical =
     and_then (ensure_unique_spec_members member_kind name members) (\<lambda>_.
     and_then (insert_user_type (sc_user_types st) kind name canonical) (\<lambda>types.
       Inr (st\<lparr>sc_references := references (sc_references st), sc_user_types := types\<rparr>)))"

definition add_spec_entry :: "spec_lib \<Rightarrow> spec_scan \<Rightarrow> spec_entry \<Rightarrow> core_error + spec_scan" where
  "add_spec_entry sl st entry =
     and_then (canonicalize_spec_entry entry) (\<lambda>canonical.
       case se_shape entry of
         FunctionV0 name ins outs \<Rightarrow> add_function_entry sl st canonical name ins outs
       | UdtStructV0 name fs \<Rightarrow>
           add_user_type st ''struct'' ''struct'' (utf8_lossy sl name) (map (\<lambda>f. utf8_lossy sl (fst f)) fs)
             (struct_references sl (utf8_lossy sl name) fs) canonical
       | UdtUnionV0 name cs \<Rightarrow>
           add_user_type st ''union'' ''union'' (utf8_lossy sl name)
             (map (\<lambda>c. utf8_lossy sl (union_case_name c)) cs)
             (union_references sl (utf8_lossy sl name) cs) canonical
       | UdtEnumV0 name cs \<Rightarrow>
           add_user_type st ''enum'' ''enum'' (utf8_lossy sl name) (map (utf8_lossy sl) cs) id canonical
       | UdtErrorEnumV0 name cs \<Rightarrow>
           add_user_type st ''error enum'' ''error_enum'' (utf8_lossy sl name) (map (utf8_lossy sl) cs) id
             canonical
       | EventV0 name params \<Rightarrow> add_event_entry sl st canonical name params)"

definition from_wasm ::
  "wasm_lib \<Rightarrow> spec_lib \<Rightarrow> (bytes \<Rightarrow> string) \<Rightarrow> bytes \<Rightarrow> core_error + artifact" where
  "from_wasm lib sl sha256_hex bs =
     and_then (ensure (length bs \<le> MAX_ARTIFACT_SIZE_BYTES)
       (ArtifactTooLarge (length bs) MAX_ARTIFACT_SIZE_BYTES)) (\<lambda>_.
     and_then (lift_error WasmError (validate_all lib bs)) (\<lambda>_.
     let sha256 = sha256_hex bs in
     and_then (require_single_contract_spec_section lib bs) (\<lambda>_.
     and_then (read_contract_env_metadata lib sl bs) (\<lambda>(env_protocol_version, env_pre_release).
     and_then (lift_error SpecError (spec_from_wasm sl bs)) (\<lambda>spec.
     and_then (read_contract_metadata lib sl bs) (\<lambda>metadata.
     and_then (read_host_imports lib bs) (\<lambda>host_imports.
     and_then (inspect_export_call_evidence lib bs) (\<lambda>export_call_evidence.
     and_then (try_fold (add_spec_entry sl) empty_scan spec) (\<lambda>st.
     Inr \<lparr>art_format_version = 1, art_sha256 = sha256, art_size_bytes = length bs,
       art_env_protocol_version = env_protocol_version, art_env_pre_release = env_pre_release,
       art_metadata = metadata, art_host_imports = host_imports,
       art_functions = sc_functions st, art_events = sc_events st, art_user_types = sc_user_types st,
       art_public_type_boundaries = sc_boundaries st, art_type_references = sc_references st,
       art_export_call_evidence = export_call_evidence\<rparr>)))))))))"

section \<open>What the loop computes\<close>

text \<open>Each entry of a specification claims one name in one of three name spaces.\<close>

datatype slot = Function_Slot string | Event_Slot string | Type_Slot string

fun slot_of :: "spec_lib \<Rightarrow> spec_shape \<Rightarrow> slot" where
  "slot_of sl (FunctionV0 n _ _) = Function_Slot (utf8_lossy sl n)"
| "slot_of sl (EventV0 n _) = Event_Slot (utf8_lossy sl n)"
| "slot_of sl (UdtStructV0 n _) = Type_Slot (utf8_lossy sl n)"
| "slot_of sl (UdtUnionV0 n _) = Type_Slot (utf8_lossy sl n)"
| "slot_of sl (UdtEnumV0 n _) = Type_Slot (utf8_lossy sl n)"
| "slot_of sl (UdtErrorEnumV0 n _) = Type_Slot (utf8_lossy sl n)"

fun slot_name :: "slot \<Rightarrow> string" where
  "slot_name (Function_Slot n) = n"
| "slot_name (Event_Slot n) = n"
| "slot_name (Type_Slot n) = n"

fun shape_kind :: "spec_shape \<Rightarrow> string" where
  "shape_kind (FunctionV0 _ _ _) = ''function''"
| "shape_kind (EventV0 _ _) = ''event''"
| "shape_kind (UdtStructV0 _ _) = ''struct''"
| "shape_kind (UdtUnionV0 _ _) = ''union''"
| "shape_kind (UdtEnumV0 _ _) = ''enum''"
| "shape_kind (UdtErrorEnumV0 _ _) = ''error_enum''"

fun member_names :: "spec_lib \<Rightarrow> spec_shape \<Rightarrow> string list" where
  "member_names sl (FunctionV0 _ ins _) = map (\<lambda>i. utf8_lossy sl (fst i)) ins"
| "member_names sl (EventV0 _ ps) = map (utf8_lossy sl) ps"
| "member_names sl (UdtStructV0 _ fs) = map (\<lambda>f. utf8_lossy sl (fst f)) fs"
| "member_names sl (UdtUnionV0 _ cs) = map (\<lambda>c. utf8_lossy sl (union_case_name c)) cs"
| "member_names sl (UdtEnumV0 _ cs) = map (utf8_lossy sl) cs"
| "member_names sl (UdtErrorEnumV0 _ cs) = map (utf8_lossy sl) cs"

text \<open>The interface of an entry, the public types of its signature, and the types it refers to.\<close>

definition entry_of :: "spec_lib \<Rightarrow> spec_entry \<Rightarrow> interface_entry" where
  "entry_of sl e = \<lparr>ie_kind = shape_kind (se_shape e), ie_name = slot_name (slot_of sl (se_shape e)),
     ie_canonical = (case se_to_value e of Inr v \<Rightarrow> strip_documentation v | Inl _ \<Rightarrow> Null)\<rparr>"

fun boundaries_of :: "spec_lib \<Rightarrow> spec_shape \<Rightarrow> public_type_boundary set" where
  "boundaries_of sl (FunctionV0 f ins outs) =
     {PublicTypeBoundary (utf8_lossy sl f) Input i (Some (utf8_lossy sl (fst (ins ! i)))) r |i r.
        i < length ins \<and> mentions sl (snd (ins ! i)) r}
     \<union> {PublicTypeBoundary (utf8_lossy sl f) Output i None r |i r. i < length outs \<and> mentions sl (outs ! i) r}"
| "boundaries_of sl s = {}"

fun references_of :: "spec_lib \<Rightarrow> spec_shape \<Rightarrow> type_reference set" where
  "references_of sl (UdtStructV0 o_name fs) =
     {TypeReference (utf8_lossy sl o_name) (utf8_lossy sl n) r |n t r. (n, t) \<in> set fs \<and> mentions sl t r}"
| "references_of sl (UdtUnionV0 o_name cs) =
     {TypeReference (utf8_lossy sl o_name) (tuple_member (utf8_lossy sl n) i) r |n ts i r.
        TupleCase n ts \<in> set cs \<and> i < length ts \<and> mentions sl (ts ! i) r}"
| "references_of sl s = {}"

fun slot_get :: "spec_scan \<Rightarrow> slot \<Rightarrow> interface_entry option" where
  "slot_get st (Function_Slot n) = bm_get (sc_functions st) n"
| "slot_get st (Event_Slot n) = bm_get (sc_events st) n"
| "slot_get st (Type_Slot n) = bm_get (sc_user_types st) n"

definition scan_ok :: "spec_scan \<Rightarrow> bool" where
  "scan_ok st \<longleftrightarrow> entries_ok [''function''] (sc_functions st) \<and> entries_ok [''event''] (sc_events st)
     \<and> entries_ok [''struct'', ''union'', ''enum'', ''error_enum''] (sc_user_types st)
     \<and> bs_ok (sc_boundaries st) \<and> bs_ok (sc_references st)"

lemma ensure_unique_iff [simp]:
  "ensure_unique_spec_members kind owner names = Inr () \<longleftrightarrow> distinct names"
  using btree_set.all_new [of names]
  by (auto simp: ensure_unique_spec_members_def split: option.splits)

lemma fold_set_fold:
  "(\<And>x s. x \<in> set xs \<Longrightarrow> set (f x s) = P x \<union> set s) \<Longrightarrow> set (fold f xs s) = (\<Union>x\<in>set xs. P x) \<union> set s"
  by (rule fold_collects)

lemma fold_bs_ok: "(\<And>x s. bs_ok s \<Longrightarrow> bs_ok (f x s)) \<Longrightarrow> bs_ok s \<Longrightarrow> bs_ok (fold f xs s)"
  by (induction xs arbitrary: s) auto

lemma set_fold_image: "set (fold (\<lambda>x. bs_insert (g x)) xs s) = g ` set xs \<union> set s"
  by (induction xs arbitrary: s) auto

lemma set_enumerate0: "set (List.enumerate 0 xs) = (\<lambda>i. (i, xs ! i)) ` {..<length xs}"
  by (auto simp: in_set_enumerate_eq image_iff)

lemma set_input_boundaries:
  "set (input_boundaries sl f ins s) =
     {PublicTypeBoundary f Input i (Some (utf8_lossy sl (fst (ins ! i)))) r |i r.
        i < length ins \<and> mentions sl (snd (ins ! i)) r} \<union> set s"
proof -
  have "set (input_boundaries sl f ins s) = (\<Union>x\<in>set (List.enumerate 0 ins). case x of (i, n, t) \<Rightarrow>
      (\<lambda>r. PublicTypeBoundary f Input i (Some (utf8_lossy sl n)) r) ` {r. mentions sl t r}) \<union> set s"
    unfolding input_boundaries_def
    by (rule fold_set_fold) (simp add: set_fold_image set_collect_udt_names split: prod.split)
  then show ?thesis unfolding set_enumerate0 by (simp add: split_beta) blast
qed

lemma set_output_boundaries:
  "set (output_boundaries sl f outs s) =
     {PublicTypeBoundary f Output i None r |i r. i < length outs \<and> mentions sl (outs ! i) r} \<union> set s"
proof -
  have "set (output_boundaries sl f outs s) = (\<Union>x\<in>set (List.enumerate 0 outs). case x of (i, t) \<Rightarrow>
      (\<lambda>r. PublicTypeBoundary f Output i None r) ` {r. mentions sl t r}) \<union> set s"
    unfolding output_boundaries_def
    by (rule fold_set_fold) (simp add: set_fold_image set_collect_udt_names split: prod.split)
  then show ?thesis unfolding set_enumerate0 by simp blast
qed

lemma set_member_references:
  "set (member_references sl ow mb t s) = (\<lambda>r. TypeReference ow mb r) ` {r. mentions sl t r} \<union> set s"
  by (simp add: member_references_def set_fold_image set_collect_udt_names)

lemma set_struct_references:
  "set (struct_references sl ow fs s) =
     {TypeReference ow (utf8_lossy sl n) r |n t r. (n, t) \<in> set fs \<and> mentions sl t r} \<union> set s"
proof -
  have "set (struct_references sl ow fs s) = (\<Union>x\<in>set fs. case x of (n, t) \<Rightarrow>
      (\<lambda>r. TypeReference ow (utf8_lossy sl n) r) ` {r. mentions sl t r}) \<union> set s"
    unfolding struct_references_def
    by (rule fold_set_fold) (simp add: set_member_references split: prod.split)
  then show ?thesis by (simp add: split_beta) force
qed

lemma set_union_references:
  "set (union_references sl ow cs s) =
     {TypeReference ow (tuple_member (utf8_lossy sl n) i) r |n ts i r.
        TupleCase n ts \<in> set cs \<and> i < length ts \<and> mentions sl (ts ! i) r} \<union> set s"
    (is "_ = ?R \<union> _")
proof -
  have tup: "set (fold (\<lambda>(i, t). member_references sl ow (tuple_member (utf8_lossy sl n) i) t)
        (List.enumerate 0 ts) acc)
      = (\<Union>i\<in>{..<length ts}. (\<lambda>r. TypeReference ow (tuple_member (utf8_lossy sl n) i) r)
           ` {r. mentions sl (ts ! i) r}) \<union> set acc" for n ts acc
  proof -
    have "set (fold (\<lambda>(i, t). member_references sl ow (tuple_member (utf8_lossy sl n) i) t)
        (List.enumerate 0 ts) acc) = (\<Union>x\<in>set (List.enumerate 0 ts). case x of (i, t) \<Rightarrow>
      (\<lambda>r. TypeReference ow (tuple_member (utf8_lossy sl n) i) r) ` {r. mentions sl t r}) \<union> set acc"
      by (rule fold_set_fold) (simp add: set_member_references split: prod.split)
    then show ?thesis by (simp add: set_enumerate0)
  qed
  have "set (union_references sl ow cs s) = (\<Union>c\<in>set cs. case c of VoidCase _ \<Rightarrow> {}
      | TupleCase n ts \<Rightarrow> (\<Union>i\<in>{..<length ts}. (\<lambda>r. TypeReference ow (tuple_member (utf8_lossy sl n) i) r)
           ` {r. mentions sl (ts ! i) r})) \<union> set s" (is "_ = ?L \<union> _")
    unfolding union_references_def
    by (rule fold_set_fold) (simp add: tup split: union_case.split)
  moreover have "?L = ?R"
  proof (rule equalityI; rule subsetI)
    fix x assume "x \<in> ?L"
    then obtain c where c: "c \<in> set cs" and x: "x \<in> (case c of VoidCase _ \<Rightarrow> {}
      | TupleCase n ts \<Rightarrow> (\<Union>i\<in>{..<length ts}. (\<lambda>r. TypeReference ow (tuple_member (utf8_lossy sl n) i) r)
           ` {r. mentions sl (ts ! i) r}))" by blast
    then show "x \<in> ?R" by (cases c rule: union_case.exhaust) auto
  next
    fix x assume "x \<in> ?R"
    then obtain n ts i r where tc: "TupleCase n ts \<in> set cs" and i: "i < length ts" and r: "mentions sl (ts ! i) r"
      and x: "x = TypeReference ow (tuple_member (utf8_lossy sl n) i) r" by blast
    show "x \<in> ?L"
      by (rule UN_I [OF tc], unfold union_case.case x, rule UN_I [of i]) (use i r in simp_all)
  qed
  ultimately show ?thesis by (simp only:)
qed

lemma bs_ok_boundaries:
  "bs_ok s \<Longrightarrow> bs_ok (input_boundaries sl f ins s)" "bs_ok s \<Longrightarrow> bs_ok (output_boundaries sl f outs s)"
  by (auto simp: input_boundaries_def output_boundaries_def intro!: fold_bs_ok)

lemma bs_ok_references:
  "bs_ok s \<Longrightarrow> bs_ok (struct_references sl ow fs s)" "bs_ok s \<Longrightarrow> bs_ok (union_references sl ow cs s)"
  by (auto simp: struct_references_def union_references_def member_references_def
      intro!: fold_bs_ok split: union_case.split)

lemmas reader_sets = set_input_boundaries set_output_boundaries set_struct_references set_union_references
lemmas reader_defs = add_spec_entry_def canonicalize_spec_entry_def add_function_entry_def add_event_entry_def
  add_user_type_def insert_user_type_def Let_def and_then_Inr_iff

lemma bm_insert_slot:
  "entries_ok kinds m \<Longrightarrow> bm_get (bm_insert k v m) = (bm_get m)(k \<mapsto> v)"
  by (rule ext) (simp add: bm_get_insert entries_ok_def)

lemma add_spec_entry_total:
  "(\<exists>st'. add_spec_entry sl st e = Inr st') \<longleftrightarrow>
     (\<exists>v. se_to_value e = Inr v) \<and> distinct (member_names sl (se_shape e))
     \<and> slot_get st (slot_of sl (se_shape e)) = None"
  by (cases "se_shape e"; cases "se_to_value e") (auto simp: reader_defs split: if_splits)

lemma slot_get_update:
  assumes "scan_ok st"
  shows "slot_get (st\<lparr>sc_boundaries := b, sc_functions := bm_insert n v (sc_functions st)\<rparr>)
      = (slot_get st)(Function_Slot n \<mapsto> v)"
    and "slot_get (st\<lparr>sc_events := bm_insert n v (sc_events st)\<rparr>) = (slot_get st)(Event_Slot n \<mapsto> v)"
    and "slot_get (st\<lparr>sc_references := r, sc_user_types := bm_insert n v (sc_user_types st)\<rparr>)
      = (slot_get st)(Type_Slot n \<mapsto> v)"
proof -
  have get: "bm_get (bm_insert n v (sc_functions st)) k = (if k = n then Some v else bm_get (sc_functions st) k)"
    "bm_get (bm_insert n v (sc_events st)) k = (if k = n then Some v else bm_get (sc_events st) k)"
    "bm_get (bm_insert n v (sc_user_types st)) k = (if k = n then Some v else bm_get (sc_user_types st) k)" for k
    using assms by (auto simp: scan_ok_def entries_ok_def bm_get_insert)
  show "slot_get (st\<lparr>sc_boundaries := b, sc_functions := bm_insert n v (sc_functions st)\<rparr>)
      = (slot_get st)(Function_Slot n \<mapsto> v)"
    by (rule ext, rename_tac s, case_tac s) (simp_all add: get)
  show "slot_get (st\<lparr>sc_events := bm_insert n v (sc_events st)\<rparr>) = (slot_get st)(Event_Slot n \<mapsto> v)"
    by (rule ext, rename_tac s, case_tac s) (simp_all add: get)
  show "slot_get (st\<lparr>sc_references := r, sc_user_types := bm_insert n v (sc_user_types st)\<rparr>)
      = (slot_get st)(Type_Slot n \<mapsto> v)"
    by (rule ext, rename_tac s, case_tac s) (simp_all add: get)
qed

lemma scan_ok_update:
  assumes "scan_ok st" and "ie_name v = n" and "doc_free (ie_canonical v)"
  shows "ie_kind v = ''function'' \<Longrightarrow> bs_ok b \<Longrightarrow>
      scan_ok (st\<lparr>sc_boundaries := b, sc_functions := bm_insert n v (sc_functions st)\<rparr>)"
    and "ie_kind v = ''event'' \<Longrightarrow> scan_ok (st\<lparr>sc_events := bm_insert n v (sc_events st)\<rparr>)"
    and "ie_kind v \<in> {''struct'', ''union'', ''enum'', ''error_enum''} \<Longrightarrow> bs_ok r \<Longrightarrow>
      scan_ok (st\<lparr>sc_references := r, sc_user_types := bm_insert n v (sc_user_types st)\<rparr>)"
  using assms by (auto simp: scan_ok_def intro!: entries_ok_insert)

lemma add_spec_entry_step:
  assumes "scan_ok st" and "add_spec_entry sl st e = Inr st'"
  shows "scan_ok st' \<and> slot_get st' = (slot_get st)(slot_of sl (se_shape e) \<mapsto> entry_of sl e)
    \<and> set (sc_boundaries st') = boundaries_of sl (se_shape e) \<union> set (sc_boundaries st)
    \<and> set (sc_references st') = references_of sl (se_shape e) \<union> set (sc_references st)"
proof -
  from assms(1) have "bs_ok (sc_boundaries st)" and "bs_ok (sc_references st)" by (simp_all add: scan_ok_def)
  note oks = bs_ok_boundaries [OF this(1)] bs_ok_references [OF this(2)] this
  obtain v where v: "se_to_value e = Inr v"
    using assms(2) by (cases "se_to_value e") (auto simp: reader_defs)
  show ?thesis
  proof (cases "se_shape e")
    case (FunctionV0 n ins outs)
    with assms(2) v have "st' = st\<lparr>sc_boundaries := output_boundaries sl (utf8_lossy sl n) outs
        (input_boundaries sl (utf8_lossy sl n) ins (sc_boundaries st)),
      sc_functions := bm_insert (utf8_lossy sl n) (entry_of sl e) (sc_functions st)\<rparr>"
      by (auto simp: reader_defs entry_of_def split: if_splits)
    with FunctionV0 v show ?thesis
      by (simp add: scan_ok_update [OF assms(1)] slot_get_update [OF assms(1)] oks bs_ok_boundaries
          strip_documentation_doc_free entry_of_def reader_sets Un_ac)
  next
    case (EventV0 n ps)
    with assms(2) v have "st' = st\<lparr>sc_events := bm_insert (utf8_lossy sl n) (entry_of sl e) (sc_events st)\<rparr>"
      by (auto simp: reader_defs entry_of_def split: if_splits)
    with EventV0 v show ?thesis
      by (simp add: scan_ok_update [OF assms(1)] slot_get_update [OF assms(1)]
          strip_documentation_doc_free entry_of_def)
  next
    case (UdtStructV0 n fs)
    with assms(2) v have "st' = st\<lparr>sc_references := struct_references sl (utf8_lossy sl n) fs (sc_references st),
      sc_user_types := bm_insert (utf8_lossy sl n) (entry_of sl e) (sc_user_types st)\<rparr>"
      by (auto simp: reader_defs entry_of_def split: if_splits)
    with UdtStructV0 v show ?thesis
      by (simp add: scan_ok_update [OF assms(1)] slot_get_update [OF assms(1)] oks
          strip_documentation_doc_free entry_of_def reader_sets)
  next
    case (UdtUnionV0 n cs)
    with assms(2) v have "st' = st\<lparr>sc_references := union_references sl (utf8_lossy sl n) cs (sc_references st),
      sc_user_types := bm_insert (utf8_lossy sl n) (entry_of sl e) (sc_user_types st)\<rparr>"
      by (auto simp: reader_defs entry_of_def split: if_splits)
    with UdtUnionV0 v show ?thesis
      by (simp add: scan_ok_update [OF assms(1)] slot_get_update [OF assms(1)] oks
          strip_documentation_doc_free entry_of_def reader_sets)
  next
    case (UdtEnumV0 n cs)
    with assms(2) v have "st' = st\<lparr>sc_references := sc_references st,
      sc_user_types := bm_insert (utf8_lossy sl n) (entry_of sl e) (sc_user_types st)\<rparr>"
      by (auto simp: reader_defs entry_of_def split: if_splits)
    with UdtEnumV0 v show ?thesis
      using scan_ok_update(3) [OF assms(1), where v = "entry_of sl e" and n = "utf8_lossy sl n" and r = "sc_references st"]
        slot_get_update(3) [OF assms(1), where v = "entry_of sl e" and n = "utf8_lossy sl n" and r = "sc_references st"]
      by (simp add: oks strip_documentation_doc_free entry_of_def)
  next
    case (UdtErrorEnumV0 n cs)
    with assms(2) v have "st' = st\<lparr>sc_references := sc_references st,
      sc_user_types := bm_insert (utf8_lossy sl n) (entry_of sl e) (sc_user_types st)\<rparr>"
      by (auto simp: reader_defs entry_of_def split: if_splits)
    with UdtErrorEnumV0 v show ?thesis
      using scan_ok_update(3) [OF assms(1), where v = "entry_of sl e" and n = "utf8_lossy sl n" and r = "sc_references st"]
        slot_get_update(3) [OF assms(1), where v = "entry_of sl e" and n = "utf8_lossy sl n" and r = "sc_references st"]
      by (simp add: oks strip_documentation_doc_free entry_of_def)
  qed
qed

text \<open>The specification of the duplicate checks: what a well-formed list of entries is.\<close>

definition spec_well_formed :: "spec_lib \<Rightarrow> spec_entry list \<Rightarrow> bool" where
  "spec_well_formed sl es \<longleftrightarrow>
     (\<forall>e\<in>set es. \<exists>v. se_to_value e = Inr v)
     \<and> (\<forall>e\<in>set es. distinct (member_names sl (se_shape e)))
     \<and> distinct (map (\<lambda>e. slot_of sl (se_shape e)) es)"

lemma scan_spec_iff:
  "scan_ok st \<Longrightarrow> (\<exists>st'. try_fold (add_spec_entry sl) st es = Inr st') \<longleftrightarrow>
     spec_well_formed sl es \<and> (\<forall>e\<in>set es. slot_get st (slot_of sl (se_shape e)) = None)"
proof (induction es arbitrary: st)
  case Nil
  then show ?case by (simp add: spec_well_formed_def)
next
  case (Cons e es)
  show ?case
  proof (cases "add_spec_entry sl st e")
    case (Inl err)
    then have "\<not> (\<exists>st'. add_spec_entry sl st e = Inr st')" by simp
    with Inl show ?thesis unfolding add_spec_entry_total by (auto simp: spec_well_formed_def)
  next
    case (Inr st1)
    then have "\<exists>st'. add_spec_entry sl st e = Inr st'" by blast
    then have head: "(\<exists>v. se_to_value e = Inr v) \<and> distinct (member_names sl (se_shape e))
        \<and> slot_get st (slot_of sl (se_shape e)) = None"
      unfolding add_spec_entry_total .
    have st1: "scan_ok st1" "slot_get st1 = (slot_get st)(slot_of sl (se_shape e) \<mapsto> entry_of sl e)"
      using add_spec_entry_step [OF Cons.prems Inr] by simp_all
    have "(\<forall>x\<in>set es. slot_get st1 (slot_of sl (se_shape x)) = None) \<longleftrightarrow>
        slot_of sl (se_shape e) \<notin> (\<lambda>e. slot_of sl (se_shape e)) ` set es
        \<and> (\<forall>x\<in>set es. slot_get st (slot_of sl (se_shape x)) = None)"
      unfolding st1(2) by (auto simp: image_iff split: if_splits)
    with head Cons.IH [OF st1(1)] show ?thesis by (auto simp: Inr spec_well_formed_def)
  qed
qed

lemma scan_spec_result:
  "try_fold (add_spec_entry sl) st es = Inr st' \<Longrightarrow> scan_ok st \<Longrightarrow>
     scan_ok st'
     \<and> (\<forall>s x. slot_get st' s = Some x \<longleftrightarrow>
          slot_get st s = Some x \<or> (\<exists>e\<in>set es. slot_of sl (se_shape e) = s \<and> x = entry_of sl e))
     \<and> set (sc_boundaries st') = (\<Union>e\<in>set es. boundaries_of sl (se_shape e)) \<union> set (sc_boundaries st)
     \<and> set (sc_references st') = (\<Union>e\<in>set es. references_of sl (se_shape e)) \<union> set (sc_references st)"
proof (induction es arbitrary: st)
  case (Cons e es)
  from Cons.prems(1) obtain st1 where st1: "add_spec_entry sl st e = Inr st1"
    and rest: "try_fold (add_spec_entry sl) st1 es = Inr st'"
    by (auto simp: and_then_Inr_iff)
  have free: "slot_get st (slot_of sl (se_shape e)) = None"
    using st1 add_spec_entry_total [of sl st e] by blast
  have step: "scan_ok st1" "slot_get st1 = (slot_get st)(slot_of sl (se_shape e) \<mapsto> entry_of sl e)"
    "set (sc_boundaries st1) = boundaries_of sl (se_shape e) \<union> set (sc_boundaries st)"
    "set (sc_references st1) = references_of sl (se_shape e) \<union> set (sc_references st)"
    using add_spec_entry_step [OF Cons.prems(2) st1] by simp_all
  have get: "slot_get st1 s = Some x \<longleftrightarrow> slot_get st s = Some x \<or> slot_of sl (se_shape e) = s \<and> x = entry_of sl e"
    for s x using free by (auto simp: step(2))
  show ?case
    using Cons.IH [OF rest step(1)] by (simp add: get step(3,4) Un_ac)
qed simp

lemma slot_get_empty: "slot_get empty_scan s = None"
  by (cases s) (simp_all add: empty_scan_def)

lemma scan_ok_empty: "scan_ok empty_scan" "slot_get empty_scan s = None"
  "sc_boundaries empty_scan = []" "sc_references empty_scan = []"
  by (simp_all add: scan_ok_def slot_get_empty) (simp_all add: empty_scan_def)

section \<open>Theorems\<close>

text \<open>
  Contract metadata is read exactly when every entry of the concatenated metadata sections
  decodes and no key occurs twice; the result maps each key to its value.
\<close>

theorem read_contract_metadata_exact:
  "read_contract_metadata lib sl bs = Inr m \<longleftrightarrow>
     (\<exists>count raw entries. section_data lib ''contractmetav0'' bs = Inr (count, raw)
        \<and> meta_entries sl raw = map Inr entries
        \<and> distinct (map (\<lambda>(key, val). utf8_lossy sl key) entries)
        \<and> bm_ok m
        \<and> bm_get m = map_of (map (\<lambda>(key, val). (utf8_lossy sl key, utf8_lossy sl val)) entries))"
proof -
  have "fst \<circ> (\<lambda>(key, val). (utf8_lossy sl key, utf8_lossy sl val)) = (\<lambda>(key, val). utf8_lossy sl key)"
    by auto
  then show ?thesis
    by (auto simp: read_contract_metadata_def and_then_Inr_iff collect_results_Inr_iff
        btree_map.insert_new_empty split: prod.splits)
qed

lemma from_wasm_Inr:
  "from_wasm lib sl sha256_hex bs = Inr a \<longleftrightarrow>
     length bs \<le> MAX_ARTIFACT_SIZE_BYTES \<and> validate_all lib bs = Inr ()
     \<and> require_single_contract_spec_section lib bs = Inr ()
     \<and> (\<exists>protocol pre spec metadata hosts evidence st.
          read_contract_env_metadata lib sl bs = Inr (protocol, pre) \<and> spec_from_wasm sl bs = Inr spec
          \<and> read_contract_metadata lib sl bs = Inr metadata \<and> read_host_imports lib bs = Inr hosts
          \<and> inspect_export_call_evidence lib bs = Inr evidence
          \<and> try_fold (add_spec_entry sl) empty_scan spec = Inr st
          \<and> a = \<lparr>art_format_version = 1, art_sha256 = sha256_hex bs, art_size_bytes = length bs,
              art_env_protocol_version = protocol, art_env_pre_release = pre,
              art_metadata = metadata, art_host_imports = hosts,
              art_functions = sc_functions st, art_events = sc_events st, art_user_types = sc_user_types st,
              art_public_type_boundaries = sc_boundaries st, art_type_references = sc_references st,
              art_export_call_evidence = evidence\<rparr>)"
  by (auto simp: from_wasm_def and_then_Inr_iff Let_def)

lemma bs_ok_hosts: "read_host_imports lib bs = Inr hosts \<Longrightarrow> bs_ok hosts"
  by (auto simp: read_host_imports_def and_then_Inr_iff)

lemma bm_ok_evidence: "inspect_export_call_evidence lib bs = Inr evidence \<Longrightarrow> bm_ok evidence"
  by (rule inspect_exports_get)

lemma bm_ok_metadata: "read_contract_metadata lib sl bs = Inr m \<Longrightarrow> bm_ok m"
  by (auto simp: read_contract_metadata_def and_then_Inr_iff btree_map.insert_new_empty)

lemma from_wasm_facts:
  assumes "from_wasm lib sl sha256_hex bs = Inr a" and "spec_from_wasm sl bs = Inr spec"
  shows "artifact_ok a \<and> art_sha256 a = sha256_hex bs \<and> art_size_bytes a = length bs
    \<and> (\<forall>n x. bm_get (art_functions a) n = Some x \<longleftrightarrow>
         (\<exists>e\<in>set spec. slot_of sl (se_shape e) = Function_Slot n \<and> x = entry_of sl e))
    \<and> (\<forall>n x. bm_get (art_events a) n = Some x \<longleftrightarrow>
         (\<exists>e\<in>set spec. slot_of sl (se_shape e) = Event_Slot n \<and> x = entry_of sl e))
    \<and> (\<forall>n x. bm_get (art_user_types a) n = Some x \<longleftrightarrow>
         (\<exists>e\<in>set spec. slot_of sl (se_shape e) = Type_Slot n \<and> x = entry_of sl e))
    \<and> set (art_public_type_boundaries a) = (\<Union>e\<in>set spec. boundaries_of sl (se_shape e))
    \<and> set (art_type_references a) = (\<Union>e\<in>set spec. references_of sl (se_shape e))"
proof -
  obtain metadata hosts evidence st where
    parts: "length bs \<le> MAX_ARTIFACT_SIZE_BYTES" "read_contract_metadata lib sl bs = Inr metadata"
      "read_host_imports lib bs = Inr hosts" "inspect_export_call_evidence lib bs = Inr evidence"
    and scan: "try_fold (add_spec_entry sl) empty_scan spec = Inr st"
    and a: "art_format_version a = 1" "art_sha256 a = sha256_hex bs" "art_size_bytes a = length bs"
      "art_metadata a = metadata" "art_host_imports a = hosts" "art_export_call_evidence a = evidence"
      "art_functions a = sc_functions st" "art_events a = sc_events st" "art_user_types a = sc_user_types st"
      "art_public_type_boundaries a = sc_boundaries st" "art_type_references a = sc_references st"
    using assms(1) unfolding from_wasm_Inr assms(2) by auto
  note result = scan_spec_result [OF scan scan_ok_empty(1), unfolded scan_ok_empty(2-4)]
  have "artifact_ok a"
    using result parts(1) bm_ok_metadata [OF parts(2)] bs_ok_hosts [OF parts(3)] bm_ok_evidence [OF parts(4)]
    by (simp add: artifact_ok_def a scan_ok_def)
  moreover have "bm_get (art_functions a) n = slot_get st (Function_Slot n)"
    "bm_get (art_events a) n = slot_get st (Event_Slot n)"
    "bm_get (art_user_types a) n = slot_get st (Type_Slot n)" for n
    by (simp_all add: a)
  ultimately show ?thesis using result by (simp del: slot_get.simps add: a(2,3,10,11))
qed

text \<open>
  C32: An artifact that is read satisfies the invariant of the data model (ordered containers, each
  entry under its own name and kind, no documentation in a canonical value, size within the
  limit) and describes the specification exactly: its three maps hold one entry per specification
  entry and nothing else, and its type graph has one boundary for each user-defined type
  mentioned by a function signature and one reference for each one mentioned by a struct field or
  a tuple case.
\<close>

theorem from_wasm_describes_spec:
  assumes "from_wasm lib sl sha256_hex bs = Inr a" and "spec_from_wasm sl bs = Inr spec"
  shows "artifact_ok a \<and> art_sha256 a = sha256_hex bs \<and> art_size_bytes a = length bs
    \<and> (\<forall>n x. bm_get (art_functions a) n = Some x \<longleftrightarrow>
         (\<exists>e\<in>set spec. slot_of sl (se_shape e) = Function_Slot n \<and> x = entry_of sl e))
    \<and> (\<forall>n x. bm_get (art_events a) n = Some x \<longleftrightarrow>
         (\<exists>e\<in>set spec. slot_of sl (se_shape e) = Event_Slot n \<and> x = entry_of sl e))
    \<and> (\<forall>n x. bm_get (art_user_types a) n = Some x \<longleftrightarrow>
         (\<exists>e\<in>set spec. slot_of sl (se_shape e) = Type_Slot n \<and> x = entry_of sl e))
    \<and> set (art_public_type_boundaries a) = (\<Union>e\<in>set spec. boundaries_of sl (se_shape e))
    \<and> set (art_type_references a) = (\<Union>e\<in>set spec. references_of sl (se_shape e))"
  by (rule from_wasm_facts [OF assms])

text \<open>A module with a function over a struct, the struct, and its metadata sections.\<close>

definition doc_value :: "string \<Rightarrow> string \<Rightarrow> string + json" where
  "doc_value kind name = Inr (Object [(kind, Object [(''doc'', String ''text''), (''name'', String name)])])"

definition sample_spec :: "spec_entry list" where
  "sample_spec =
     [\<lparr>se_shape = FunctionV0 ''upgrade'' [(''to'', TBytesN 32)] [], se_to_value = doc_value ''function_v0'' ''upgrade''\<rparr>,
      \<lparr>se_shape = FunctionV0 ''read'' [(''key'', TSymbol)] [TOption (TUdt ''Config'')],
        se_to_value = doc_value ''function_v0'' ''read''\<rparr>,
      \<lparr>se_shape = UdtStructV0 ''Config'' [(''limit'', TU32), (''next'', TVec (TUdt ''Mode''))],
        se_to_value = doc_value ''udt_struct_v0'' ''Config''\<rparr>,
      \<lparr>se_shape = UdtEnumV0 ''Mode'' [''On'', ''Off''], se_to_value = doc_value ''udt_enum_v0'' ''Mode''\<rparr>]"

definition sample_wasm :: wasm_lib where
  "sample_wasm = \<lparr>validate_all = (\<lambda>_. Inr ()), parse_all = (\<lambda>bs.
     Inr (CustomSection ''contractspecv0'' []) # Inr (CustomSection ''contractenvmetav0'' ''e'')
       # Inr (CustomSection ''contractmetav0'' ''m'') # parse_all sample_module bs)\<rparr>"

definition sample_lib :: spec_lib where
  "sample_lib = \<lparr>utf8_lossy = id, spec_from_wasm = (\<lambda>_. Inr sample_spec),
     meta_entries = (\<lambda>_. [Inr (''binver'', ''1.0.0'')]),
     env_meta_entries = (\<lambda>_. [Inr \<lparr>iv_protocol = 23, iv_pre_release = 0\<rparr>])\<rparr>"

definition sample_entry :: "string \<Rightarrow> string \<Rightarrow> string \<Rightarrow> interface_entry" where
  "sample_entry kind tag name =
     \<lparr>ie_kind = kind, ie_name = name, ie_canonical = Object [(tag, Object [(''name'', String name)])]\<rparr>"

definition sample_artifact :: artifact where
  "sample_artifact = \<lparr>art_format_version = 1, art_sha256 = ''00'', art_size_bytes = 3,
     art_env_protocol_version = 23, art_env_pre_release = 0,
     art_metadata = [(''binver'', ''1.0.0'')], art_host_imports = [''l.6'', ''m.c''],
     art_functions = [(''read'', sample_entry ''function'' ''function_v0'' ''read''),
       (''upgrade'', sample_entry ''function'' ''function_v0'' ''upgrade'')],
     art_events = [],
     art_user_types = [(''Config'', sample_entry ''struct'' ''udt_struct_v0'' ''Config''),
       (''Mode'', sample_entry ''enum'' ''udt_enum_v0'' ''Mode'')],
     art_public_type_boundaries = [PublicTypeBoundary ''read'' Output 0 None ''Config''],
     art_type_references = [TypeReference ''Config'' ''next'' ''Mode''],
     art_export_call_evidence =
       [(''read'', \<lparr>ev_host_imports = [''l.6''], ev_dynamic_dispatch_reachable = True\<rparr>),
        (''upgrade'', \<lparr>ev_host_imports = [''l.6''], ev_dynamic_dispatch_reachable = False\<rparr>)]\<rparr>"

lemma sample_from_wasm: "from_wasm sample_wasm sample_lib (\<lambda>_. ''00'') ''abc'' = Inr sample_artifact"
  by code_simp

theorem from_wasm_describes_spec_witness:
  "artifact_ok sample_artifact
   \<and> set (art_type_references sample_artifact) = (\<Union>e\<in>set sample_spec. references_of sample_lib (se_shape e))"
  using from_wasm_describes_spec [OF sample_from_wasm, of sample_spec] by (simp add: sample_lib_def)

end
