(* ===== verification/Type_Graph.thy ===== *)
theory Type_Graph
  imports Spec_Reader
begin

text \<open>
  Public impact of a changed type (\<open>routes_to_type\<close> and \<open>trace_public_impacts\<close> in
  \<open>crates/soroban-upgrades-core/src/lib.rs\<close>): a bounded depth-first search over the references
  between user-defined types, run on both artifacts for every retained public boundary.

  The specification is \<open>simple_route\<close>, a path of references without a repeated owner. The search
  returns only such paths, within its limits, and all of them when it does not report that a limit
  was hit.
\<close>

section \<open>Limits and data\<close>

definition MAX_PUBLIC_IMPACT_DEPTH :: usize where
  "MAX_PUBLIC_IMPACT_DEPTH = 64"

definition MAX_PUBLIC_IMPACT_PATHS :: usize where
  "MAX_PUBLIC_IMPACT_PATHS = 256"

definition MAX_PUBLIC_IMPACT_STEPS :: usize where
  "MAX_PUBLIC_IMPACT_STEPS = 10000"

datatype evidence_status = Fact | Inference | Unknown

fun evidence_rank :: "evidence_status \<Rightarrow> nat" where
  "evidence_rank Fact = 0"
| "evidence_rank Inference = 1"
| "evidence_rank Unknown = 2"

datatype public_impact =
  PublicImpact (pi_changed_type: string) (pi_boundary: public_type_boundary) (pi_steps: "impact_step list")
    (pi_structural_reachability: evidence_status) (pi_runtime_compatibility: evidence_status)

fun impact_key :: "public_impact \<Rightarrow> string \<times> public_type_boundary \<times> impact_step list \<times> nat \<times> nat" where
  "impact_key (PublicImpact c b s x y) = (c, b, s, evidence_rank x, evidence_rank y)"

lemma evidence_rank_inject: "evidence_rank x = evidence_rank y \<longleftrightarrow> x = y"
  by (cases x; cases y) simp_all

lemma impact_key_inject: "impact_key x = impact_key y \<longleftrightarrow> x = y"
  by (cases x; cases y) (simp add: evidence_rank_inject)

instantiation public_impact :: linorder
begin

definition less_eq_public_impact :: "public_impact \<Rightarrow> public_impact \<Rightarrow> bool" where
  "x \<le> y \<longleftrightarrow> impact_key x \<le> impact_key y"

definition less_public_impact :: "public_impact \<Rightarrow> public_impact \<Rightarrow> bool" where
  "x < y \<longleftrightarrow> impact_key x < impact_key y"

instance
  by standard
    (simp_all add: less_eq_public_impact_def less_public_impact_def less_le_not_le
      linear impact_key_inject [symmetric] antisym order_trans del: less_eq_prod_simp less_prod_simp)

end

section \<open>The search\<close>

text \<open>A frame of the stack: the current type, the steps that led to it, the types on the way.\<close>

type_synonym frame = "string \<times> impact_step list \<times> string bset"

definition step_of :: "type_reference \<Rightarrow> impact_step" where
  "step_of edge = ImpactStep (tr_owner_type edge) (tr_member edge) (tr_target_type edge)"

fun push_edges ::
  "usize \<Rightarrow> impact_step list \<Rightarrow> string bset \<Rightarrow> type_reference list \<Rightarrow> frame list \<Rightarrow> frame list \<times> bool" where
  "push_edges visited_steps steps active_types [] pending = (pending, False)"
| "push_edges visited_steps steps active_types (edge # edges) pending =
     (if MAX_PUBLIC_IMPACT_STEPS \<le> length pending + visited_steps then (pending, True)
      else push_edges visited_steps steps active_types edges
        ((tr_target_type edge, steps @ [step_of edge], active_types) # pending))"

text \<open>
  The \<open>while\<close> loop, with the stack's top first. The counter of visited frames grows on every
  iteration and the loop stops when it passes the limit, which is the termination measure.
\<close>

function route_loop ::
  "string \<Rightarrow> type_reference list \<Rightarrow> usize \<Rightarrow> frame list \<Rightarrow> impact_step list bset
     \<Rightarrow> impact_step list bset \<times> bool" where
  "route_loop target refs visited_steps [] result = (result, False)"
| "route_loop target refs visited_steps ((current, steps, active_types) # pending) result =
     (if MAX_PUBLIC_IMPACT_STEPS < visited_steps + 1 \<or> MAX_PUBLIC_IMPACT_DEPTH < length steps
         \<or> MAX_PUBLIC_IMPACT_PATHS \<le> length result
      then (result, True)
      else if current = target then
        route_loop target refs (visited_steps + 1) pending (bs_insert steps result)
      else if bs_member active_types current then
        route_loop target refs (visited_steps + 1) pending result
      else
        (case push_edges (visited_steps + 1) steps (bs_insert current active_types)
            (filter (\<lambda>edge. tr_owner_type edge = current) (rev refs)) pending of
           (pending', limit_exceeded) \<Rightarrow>
             if limit_exceeded then (result, True)
             else route_loop target refs (visited_steps + 1) pending' result))"
  by pat_completeness auto

termination
  by (relation "measure (\<lambda>(target, refs, visited_steps, pending, result). MAX_PUBLIC_IMPACT_STEPS + 1 - visited_steps)")
    auto

definition routes_to_type :: "artifact \<Rightarrow> string \<Rightarrow> string \<Rightarrow> impact_step list bset \<times> bool" where
  "routes_to_type a root_type target_type =
     route_loop target_type (art_type_references a) 0
       (if bm_contains (art_user_types a) root_type then [(root_type, [], [])] else []) []"

definition changed_types :: "artifact \<Rightarrow> artifact \<Rightarrow> string bset" where
  "changed_types source target =
     bs_of_list (concat (map (\<lambda>(name, before).
       case bm_get (art_user_types target) name of
         None \<Rightarrow> []
       | Some after \<Rightarrow> if ie_canonical after \<noteq> ie_canonical before then [name] else [])
       (art_user_types source)))"

definition retained_boundaries :: "artifact \<Rightarrow> artifact \<Rightarrow> public_type_boundary list" where
  "retained_boundaries source target =
     filter (\<lambda>boundary.
         map_option ie_canonical (bm_get (art_functions source) (b_function boundary))
         = map_option ie_canonical (bm_get (art_functions target) (b_function boundary)))
       (bs_inter (bs_of_list (art_public_type_boundaries source))
         (bs_of_list (art_public_type_boundaries target)))"

definition add_impacts ::
  "artifact \<Rightarrow> artifact \<Rightarrow> public_type_boundary \<Rightarrow> string \<Rightarrow> public_impact bset \<times> bool \<Rightarrow> public_impact bset \<times> bool" where
  "add_impacts source target boundary changed_type acc =
     (case (routes_to_type source (b_root_type boundary) changed_type,
            routes_to_type target (b_root_type boundary) changed_type) of
        ((source_routes, source_limited), (target_routes, target_limited)) \<Rightarrow>
          (fold (\<lambda>steps. bs_insert (PublicImpact changed_type boundary steps Fact Unknown))
             (bs_inter source_routes target_routes) (fst acc),
           snd acc \<or> source_limited \<or> target_limited))"

definition trace_public_impacts :: "artifact \<Rightarrow> artifact \<Rightarrow> public_impact list \<times> bool" where
  "trace_public_impacts source target =
     fold (\<lambda>boundary. fold (add_impacts source target boundary) (changed_types source target))
       (retained_boundaries source target) ([], False)"

section \<open>Specification\<close>

inductive type_path :: "type_reference list \<Rightarrow> string \<Rightarrow> impact_step list \<Rightarrow> string \<Rightarrow> bool" for refs where
  here: "type_path refs t [] t"
| step: "edge \<in> set refs \<Longrightarrow> type_path refs (tr_target_type edge) steps t \<Longrightarrow>
    type_path refs (tr_owner_type edge) (step_of edge # steps) t"

inductive_simps type_path_Nil [simp]: "type_path refs s [] t"
inductive_cases type_path_ConsE: "type_path refs s (st # steps) t"

lemma is_owner_step_of [simp]: "is_owner_type (step_of edge) = tr_owner_type edge"
  by (simp add: step_of_def)

lemma type_path_Cons:
  "type_path refs s (st # steps) t \<longleftrightarrow>
     (\<exists>edge\<in>set refs. tr_owner_type edge = s \<and> st = step_of edge \<and> type_path refs (tr_target_type edge) steps t)"
  by (auto elim: type_path_ConsE intro: type_path.step)

text \<open>A path whose owners are distinct and which reaches its target only at the end.\<close>

definition simple_route :: "type_reference list \<Rightarrow> string \<Rightarrow> impact_step list \<Rightarrow> string \<Rightarrow> bool" where
  "simple_route refs root steps t \<longleftrightarrow> type_path refs root steps t
     \<and> distinct (map is_owner_type steps) \<and> t \<notin> is_owner_type ` set steps"

text \<open>The routes that a frame of the stack still stands for.\<close>

fun completions :: "string \<Rightarrow> type_reference list \<Rightarrow> frame \<Rightarrow> impact_step list set" where
  "completions t refs (current, steps, active) =
     {steps @ rest |rest. simple_route refs current rest t \<and> is_owner_type ` set rest \<inter> set active = {}}"

lemma completions_target: "completions t refs (t, steps, active) = {steps}"
  by (auto simp: simple_route_def neq_Nil_conv type_path_Cons) (metis image_eqI list.set_intros(1) is_owner_step_of neq_Nil_conv type_path_Cons)

lemma completions_active: "current \<in> set active \<Longrightarrow> current \<noteq> t \<Longrightarrow> completions t refs (current, steps, active) = {}"
  by (auto simp: simple_route_def) (metis disjoint_iff imageI is_owner_step_of list.set_intros(1) neq_Nil_conv type_path_Cons type_path_Nil)

lemma completions_step:
  assumes "current \<noteq> t" and "current \<notin> set active"
  shows "completions t refs (current, steps, active) =
    (\<Union>edge\<in>{e\<in>set refs. tr_owner_type e = current}.
       completions t refs (tr_target_type edge, steps @ [step_of edge], bs_insert current active))"
    (is "?L = ?R")
proof (rule equalityI; rule subsetI)
  fix x assume "x \<in> ?L"
  then obtain rest where x: "x = steps @ rest" and route: "simple_route refs current rest t"
    and dis: "is_owner_type ` set rest \<inter> set active = {}" by auto
  from route assms(1) obtain st tail where rest: "rest = st # tail"
    by (cases rest) (auto simp: simple_route_def)
  with route obtain edge where e: "edge \<in> set refs" "tr_owner_type edge = current" "st = step_of edge"
    and "type_path refs (tr_target_type edge) tail t"
    by (auto simp: simple_route_def type_path_Cons)
  with route rest dis have "simple_route refs (tr_target_type edge) tail t"
    and "is_owner_type ` set tail \<inter> set (bs_insert current active) = {}"
    by (auto simp: simple_route_def)
  with e show "x \<in> ?R" by (auto simp: x rest intro!: exI [of _ edge])
next
  fix x assume "x \<in> ?R"
  then obtain edge tail where e: "edge \<in> set refs" "tr_owner_type edge = current"
    and x: "x = (steps @ [step_of edge]) @ tail" and route: "simple_route refs (tr_target_type edge) tail t"
    and dis: "is_owner_type ` set tail \<inter> set (bs_insert current active) = {}" by auto
  have "simple_route refs current (step_of edge # tail) t"
    using e route dis assms(1) by (auto simp: simple_route_def type_path_Cons)
  moreover have "is_owner_type ` set (step_of edge # tail) \<inter> set active = {}"
    using dis assms(2) e(2) by auto
  ultimately show "x \<in> ?L" using x by auto
qed

lemma push_edges_completions:
  "push_edges v steps active edges pending = (pending', False) \<Longrightarrow>
     \<Union> (completions t refs ` set pending') =
       (\<Union>edge\<in>set edges. completions t refs (tr_target_type edge, steps @ [step_of edge], active))
       \<union> \<Union> (completions t refs ` set pending)"
  by (induction v steps active edges pending rule: push_edges.induct)
    (auto simp del: completions.simps split: if_splits)

lemma route_loop_correct:
  "route_loop t refs v pending result = (routes, limited) \<Longrightarrow> bs_ok result \<Longrightarrow>
     bs_ok routes
     \<and> set routes \<subseteq> set result \<union> \<Union> (completions t refs ` set pending)
     \<and> (limited \<or> set routes = set result \<union> \<Union> (completions t refs ` set pending))"
proof (induction t refs v pending result rule: route_loop.induct)
  case (2 t refs v current steps active pending result)
  show ?case
  proof (cases "MAX_PUBLIC_IMPACT_STEPS < v + 1 \<or> MAX_PUBLIC_IMPACT_DEPTH < length steps
      \<or> MAX_PUBLIC_IMPACT_PATHS \<le> length result")
    case True
    with "2.prems" show ?thesis by auto
  next
    case within: False
    consider "current = t" | "current \<noteq> t" "bs_member active current"
      | "current \<noteq> t" "\<not> bs_member active current" by blast
    then show ?thesis
    proof cases
      case 1
      with "2.IH"(1) [OF within] "2.prems" within show ?thesis
        by (auto simp: completions_target simp del: completions.simps)
    next
      case 2
      with "2.IH"(2) [OF within] "2.prems" within show ?thesis
        by (auto simp: completions_active bs_member_def simp del: completions.simps)
    next
      case 3
      obtain pending' lim where push: "push_edges (v + 1) steps (bs_insert current active)
          (filter (\<lambda>edge. tr_owner_type edge = current) (rev refs)) pending = (pending', lim)" by force
      show ?thesis
      proof (cases lim)
        case True
        with push 3 "2.prems" within show ?thesis by auto
      next
        case False
        with push have push': "push_edges (v + 1) steps (bs_insert current active)
          (filter (\<lambda>edge. tr_owner_type edge = current) (rev refs)) pending = (pending', False)" by simp
        have "\<Union> (completions t refs ` set pending') =
            completions t refs (current, steps, active) \<union> \<Union> (completions t refs ` set pending)"
          using push_edges_completions [OF push', of t refs] completions_step [of current t active refs steps] 3
          by (simp add: bs_member_def del: completions.simps)
        with "2.IH"(3) [OF within 3 push [symmetric]] "2.prems" within 3 push False show ?thesis
          by (simp del: completions.simps)
      qed
    qed
  qed
qed simp

lemma length_bs_insert: "length (bs_insert x s) \<le> Suc (length s)"
  by (induction s) auto

lemma route_loop_bounds:
  "route_loop t refs v pending result = (routes, limited) \<Longrightarrow>
     length result \<le> MAX_PUBLIC_IMPACT_PATHS \<Longrightarrow> (\<And>steps. steps \<in> set result \<Longrightarrow> length steps \<le> MAX_PUBLIC_IMPACT_DEPTH) \<Longrightarrow>
     length routes \<le> MAX_PUBLIC_IMPACT_PATHS \<and> (\<forall>steps\<in>set routes. length steps \<le> MAX_PUBLIC_IMPACT_DEPTH)"
proof (induction t refs v pending result rule: route_loop.induct)
  case (2 t refs v current steps active pending result)
  show ?case
  proof (cases "MAX_PUBLIC_IMPACT_STEPS < v + 1 \<or> MAX_PUBLIC_IMPACT_DEPTH < length steps
      \<or> MAX_PUBLIC_IMPACT_PATHS \<le> length result")
    case True
    with "2.prems" show ?thesis by auto
  next
    case within: False
    consider "current = t" | "current \<noteq> t" "bs_member active current"
      | "current \<noteq> t" "\<not> bs_member active current" by blast
    then show ?thesis
    proof cases
      case 1
      have "length (bs_insert steps result) \<le> MAX_PUBLIC_IMPACT_PATHS"
        using length_bs_insert [of steps result] within by linarith
      moreover have "length s \<le> MAX_PUBLIC_IMPACT_DEPTH" if "s \<in> set (bs_insert steps result)" for s
        using that "2.prems"(3) within by auto
      moreover have "route_loop t refs (v + 1) pending (bs_insert steps result) = (routes, limited)"
        using "2.prems"(1) within 1 by simp
      ultimately show ?thesis using "2.IH"(1) [OF within 1] by blast
    next
      case 2
      with "2.IH"(2) [OF within 2] "2.prems" within show ?thesis by simp
    next
      case 3
      obtain pending' lim where push: "push_edges (v + 1) steps (bs_insert current active)
          (filter (\<lambda>edge. tr_owner_type edge = current) (rev refs)) pending = (pending', lim)" by force
      with "2.IH"(3) [OF within 3 push [symmetric]] "2.prems" within 3 show ?thesis
        by (cases lim) simp_all
    qed
  qed
qed simp

lemma routes_to_type_spec:
  assumes "routes_to_type a root t = (routes, limited)"
  shows "bs_ok routes" and "length routes \<le> 256" and "\<forall>steps\<in>set routes. length steps \<le> 64"
    and "steps \<in> set routes \<Longrightarrow> bm_contains (art_user_types a) root \<and> simple_route (art_type_references a) root steps t"
    and "\<not> limited \<Longrightarrow> steps \<in> set routes \<longleftrightarrow>
         bm_contains (art_user_types a) root \<and> simple_route (art_type_references a) root steps t"
proof -
  have loop: "route_loop t (art_type_references a) 0
      (if bm_contains (art_user_types a) root then [(root, [], [])] else []) [] = (routes, limited)"
    using assms by (simp add: routes_to_type_def)
  note facts = route_loop_correct [OF loop] route_loop_bounds [OF loop]
  show "bs_ok routes" and "length routes \<le> 256" and "\<forall>steps\<in>set routes. length steps \<le> 64"
    and "steps \<in> set routes \<Longrightarrow> bm_contains (art_user_types a) root \<and> simple_route (art_type_references a) root steps t"
    and "\<not> limited \<Longrightarrow> steps \<in> set routes \<longleftrightarrow>
         bm_contains (art_user_types a) root \<and> simple_route (art_type_references a) root steps t"
    using facts by (auto simp: MAX_PUBLIC_IMPACT_PATHS_def MAX_PUBLIC_IMPACT_DEPTH_def split: if_splits)
qed

text \<open>
  C30: The bounded search for routes from a public root type to a changed type returns only simple
  paths of the artifact's type references, as an ordered set of at most 256 paths of at most 64
  steps; when it does not report that a limit was exceeded, it returns all of them.
\<close>

theorem routes_to_type_exact:
  assumes "routes_to_type a root t = (routes, limited)"
  shows "bs_ok routes \<and> length routes \<le> 256 \<and> (\<forall>steps\<in>set routes. length steps \<le> 64)
    \<and> set routes \<subseteq> {steps. bm_contains (art_user_types a) root \<and> simple_route (art_type_references a) root steps t}
    \<and> (\<not> limited \<longrightarrow>
         set routes = {steps. bm_contains (art_user_types a) root \<and> simple_route (art_type_references a) root steps t})"
proof (intro conjI routes_to_type_spec(1-3) [OF assms])
  show "set routes \<subseteq> {steps. bm_contains (art_user_types a) root \<and> simple_route (art_type_references a) root steps t}"
    by (rule subsetI, rule CollectI, rule routes_to_type_spec(4) [OF assms])
  show "\<not> limited \<longrightarrow>
      set routes = {steps. bm_contains (art_user_types a) root \<and> simple_route (art_type_references a) root steps t}"
    by (rule impI, rule set_eqI, subst mem_Collect_eq, rule routes_to_type_spec(5) [OF assms])
qed

text \<open>A graph with two routes and a cycle.\<close>

definition sample_graph :: artifact where
  "sample_graph = sample_artifact\<lparr>
     art_user_types := [(''A'', sample_entry ''struct'' ''s'' ''A''), (''B'', sample_entry ''struct'' ''s'' ''B''),
       (''C'', sample_entry ''struct'' ''s'' ''C'')],
     art_public_type_boundaries := [PublicTypeBoundary ''read'' Output 0 None ''A''],
     art_type_references := [TypeReference ''A'' ''b'' ''B'', TypeReference ''A'' ''c'' ''C'',
       TypeReference ''B'' ''a'' ''A'', TypeReference ''B'' ''c'' ''C'']\<rparr>"

lemma sample_routes:
  "routes_to_type sample_graph ''A'' ''C'' =
      ([[ImpactStep ''A'' ''b'' ''B'', ImpactStep ''B'' ''c'' ''C''], [ImpactStep ''A'' ''c'' ''C'']], False)"
  by code_simp

theorem routes_to_type_exact_witness:
  "set [[ImpactStep ''A'' ''b'' ''B'', ImpactStep ''B'' ''c'' ''C''], [ImpactStep ''A'' ''c'' ''C'']]
     = {steps. bm_contains (art_user_types sample_graph) ''A''
          \<and> simple_route (art_type_references sample_graph) ''A'' steps ''C''}"
  by (rule routes_to_type_exact [OF sample_routes, THEN conjunct2, THEN conjunct2, THEN conjunct2,
        THEN conjunct2, THEN mp, OF not_False_eq_True [THEN iffD2, OF TrueI]])

section \<open>Impacts\<close>

lemma changed_types_ok [simp]: "bs_ok (changed_types source target)"
  by (simp add: changed_types_def)

lemma changed_types_iff:
  "name \<in> set (changed_types source target) \<longleftrightarrow>
     (\<exists>before after. (name, before) \<in> set (art_user_types source)
        \<and> bm_get (art_user_types target) name = Some after \<and> ie_canonical after \<noteq> ie_canonical before)"
  by (auto simp: changed_types_def split: option.splits if_splits; (metis | blast))

lemma retained_boundaries_iff:
  "b \<in> set (retained_boundaries source target) \<longleftrightarrow>
     b \<in> set (art_public_type_boundaries source) \<and> b \<in> set (art_public_type_boundaries target)
     \<and> map_option ie_canonical (bm_get (art_functions source) (b_function b))
       = map_option ie_canonical (bm_get (art_functions target) (b_function b))"
  by (auto simp: retained_boundaries_def)

text \<open>The routes that both artifacts have.\<close>

definition common_routes :: "artifact \<Rightarrow> artifact \<Rightarrow> string \<Rightarrow> string \<Rightarrow> impact_step list set" where
  "common_routes source target root t =
     set (fst (routes_to_type source root t)) \<inter> set (fst (routes_to_type target root t))"

lemma add_impacts_step:
  "bs_ok (fst acc) \<Longrightarrow>
     bs_ok (fst (add_impacts source target b t acc))
     \<and> set (fst (add_impacts source target b t acc)) =
        (\<lambda>steps. PublicImpact t b steps Fact Unknown) ` common_routes source target (b_root_type b) t \<union> set (fst acc)
     \<and> snd (add_impacts source target b t acc) =
        (snd acc \<or> snd (routes_to_type source (b_root_type b) t) \<or> snd (routes_to_type target (b_root_type b) t))"
  by (auto simp: add_impacts_def common_routes_def set_fold_image split: prod.split intro!: fold_bs_ok)

lemma fold_add_impacts:
  "bs_ok (fst acc) \<Longrightarrow>
     bs_ok (fst (fold (add_impacts source target b) ts acc))
     \<and> set (fst (fold (add_impacts source target b) ts acc)) =
        (\<Union>t\<in>set ts. (\<lambda>steps. PublicImpact t b steps Fact Unknown) ` common_routes source target (b_root_type b) t)
        \<union> set (fst acc)
     \<and> snd (fold (add_impacts source target b) ts acc) =
        (snd acc \<or> (\<exists>t\<in>set ts. snd (routes_to_type source (b_root_type b) t)
           \<or> snd (routes_to_type target (b_root_type b) t)))"
proof (induction ts arbitrary: acc)
  case (Cons t ts)
  from add_impacts_step [OF Cons.prems, of source target b t] Cons.IH [of "add_impacts source target b t acc"]
  show ?case by simp blast
qed simp

lemma fold_fold_add_impacts:
  "bs_ok (fst acc) \<Longrightarrow>
     bs_ok (fst (fold (\<lambda>b. fold (add_impacts source target b) ts) bs acc))
     \<and> set (fst (fold (\<lambda>b. fold (add_impacts source target b) ts) bs acc)) =
        (\<Union>b\<in>set bs. \<Union>t\<in>set ts.
           (\<lambda>steps. PublicImpact t b steps Fact Unknown) ` common_routes source target (b_root_type b) t)
        \<union> set (fst acc)
     \<and> snd (fold (\<lambda>b. fold (add_impacts source target b) ts) bs acc) =
        (snd acc \<or> (\<exists>b\<in>set bs. \<exists>t\<in>set ts. snd (routes_to_type source (b_root_type b) t)
           \<or> snd (routes_to_type target (b_root_type b) t)))"
proof (induction bs arbitrary: acc)
  case (Cons b bs)
  from fold_add_impacts [OF Cons.prems, of source target b ts]
    Cons.IH [of "fold (add_impacts source target b) ts acc"]
  show ?case by simp blast
qed simp

text \<open>
  The specification of an impact, over the artifacts alone. A type changed when both artifacts define it,
  with different canonical forms. A boundary is kept when both artifacts list it, on a function whose
  canonical form is the same in both.
\<close>

definition type_changed :: "artifact \<Rightarrow> artifact \<Rightarrow> string \<Rightarrow> bool" where
  "type_changed source target t \<longleftrightarrow>
     (\<exists>before after. (t, before) \<in> set (art_user_types source)
        \<and> bm_get (art_user_types target) t = Some after \<and> ie_canonical after \<noteq> ie_canonical before)"

definition boundary_kept :: "artifact \<Rightarrow> artifact \<Rightarrow> public_type_boundary \<Rightarrow> bool" where
  "boundary_kept source target b \<longleftrightarrow>
     b \<in> set (art_public_type_boundaries source) \<and> b \<in> set (art_public_type_boundaries target)
     \<and> map_option ie_canonical (bm_get (art_functions source) (b_function b))
       = map_option ie_canonical (bm_get (art_functions target) (b_function b))"

definition impacted :: "artifact \<Rightarrow> artifact \<Rightarrow> public_impact \<Rightarrow> bool" where
  "impacted source target i \<longleftrightarrow>
     type_changed source target (pi_changed_type i) \<and> boundary_kept source target (pi_boundary i)
     \<and> bm_contains (art_user_types source) (b_root_type (pi_boundary i))
     \<and> bm_contains (art_user_types target) (b_root_type (pi_boundary i))
     \<and> simple_route (art_type_references source) (b_root_type (pi_boundary i)) (pi_steps i) (pi_changed_type i)
     \<and> simple_route (art_type_references target) (b_root_type (pi_boundary i)) (pi_steps i) (pi_changed_type i)
     \<and> pi_structural_reachability i = Fact \<and> pi_runtime_compatibility i = Unknown"

lemma changed_types_spec: "t \<in> set (changed_types source target) \<longleftrightarrow> type_changed source target t"
  by (simp add: changed_types_iff type_changed_def)

lemma retained_boundaries_spec: "b \<in> set (retained_boundaries source target) \<longleftrightarrow> boundary_kept source target b"
  by (simp add: retained_boundaries_iff boundary_kept_def)

lemmas routes_spec = routes_to_type_spec [OF surjective_pairing]

lemma common_routes_sound:
  "steps \<in> common_routes source target root t \<Longrightarrow>
     bm_contains (art_user_types source) root \<and> bm_contains (art_user_types target) root
     \<and> simple_route (art_type_references source) root steps t \<and> simple_route (art_type_references target) root steps t"
  using routes_spec(4) by (fastforce simp: common_routes_def)

lemma common_routes_complete:
  "\<not> snd (routes_to_type source root t) \<Longrightarrow> \<not> snd (routes_to_type target root t) \<Longrightarrow>
     steps \<in> common_routes source target root t \<longleftrightarrow>
     bm_contains (art_user_types source) root \<and> bm_contains (art_user_types target) root
     \<and> simple_route (art_type_references source) root steps t \<and> simple_route (art_type_references target) root steps t"
  by (auto simp: common_routes_def routes_spec(5))

lemma trace_facts:
  assumes "trace_public_impacts source target = (impacts, limited)"
  shows "bs_ok impacts"
    and "i \<in> set impacts \<longleftrightarrow> (\<exists>b\<in>set (retained_boundaries source target). \<exists>t\<in>set (changed_types source target).
          \<exists>steps\<in>common_routes source target (b_root_type b) t. i = PublicImpact t b steps Fact Unknown)"
    and "limited \<longleftrightarrow> (\<exists>b\<in>set (retained_boundaries source target). \<exists>t\<in>set (changed_types source target).
          snd (routes_to_type source (b_root_type b) t) \<or> snd (routes_to_type target (b_root_type b) t))"
  using fold_fold_add_impacts [of "([], False)" source target "changed_types source target"
      "retained_boundaries source target"] assms
  by (auto simp: trace_public_impacts_def)

lemma impacted_iff:
  "impacted source target i \<longleftrightarrow>
     (\<exists>b\<in>set (retained_boundaries source target). \<exists>t\<in>set (changed_types source target).
        \<exists>steps. i = PublicImpact t b steps Fact Unknown
          \<and> bm_contains (art_user_types source) (b_root_type b) \<and> bm_contains (art_user_types target) (b_root_type b)
          \<and> simple_route (art_type_references source) (b_root_type b) steps t
          \<and> simple_route (art_type_references target) (b_root_type b) steps t)"
  by (cases i) (auto simp: impacted_def changed_types_spec retained_boundaries_spec)

text \<open>
  C31: The impact analysis reports a public impact only for a type whose canonical form changed, at
  a boundary that both artifacts keep on a function whose own signature is unchanged, along a
  route of type references that exists in both artifacts; unless it reports that a search limit
  was exceeded, it reports every such impact. It reports the limit exactly when the search from the root
  of a kept boundary to a changed type exceeds it in one of the artifacts.
\<close>

theorem trace_public_impacts_exact:
  assumes "trace_public_impacts source target = (impacts, limited)"
  shows "bs_ok impacts \<and> set impacts \<subseteq> {i. impacted source target i}
    \<and> (\<not> limited \<longrightarrow> set impacts = {i. impacted source target i})
    \<and> (limited \<longleftrightarrow> (\<exists>b t. boundary_kept source target b \<and> type_changed source target t
         \<and> (snd (routes_to_type source (b_root_type b) t) \<or> snd (routes_to_type target (b_root_type b) t))))"
proof -
  have "impacted source target i" if "i \<in> set impacts" for i
    using that trace_facts(2) [OF assms] common_routes_sound unfolding impacted_iff by metis
  moreover have "i \<in> set impacts" if "\<not> limited" and "impacted source target i" for i
    using that trace_facts(2,3) [OF assms] common_routes_complete unfolding impacted_iff by metis
  moreover note trace_facts(3) [OF assms]
  ultimately show ?thesis
    using trace_facts(1) [OF assms] unfolding changed_types_spec [symmetric] retained_boundaries_spec [symmetric]
    by blast
qed

definition changed_graph :: artifact where
  "changed_graph = sample_graph\<lparr>art_user_types :=
     bm_insert ''C'' (sample_entry ''struct'' ''t'' ''C'') (art_user_types sample_graph)\<rparr>"

lemma trace_sample:
  "trace_public_impacts sample_graph changed_graph =
     (map (\<lambda>steps. PublicImpact ''C'' (PublicTypeBoundary ''read'' Output 0 None ''A'') steps Fact Unknown)
        [[ImpactStep ''A'' ''b'' ''B'', ImpactStep ''B'' ''c'' ''C''], [ImpactStep ''A'' ''c'' ''C'']], False)"
  by code_simp

theorem trace_public_impacts_exact_witness:
  "impacted sample_graph changed_graph
     (PublicImpact ''C'' (PublicTypeBoundary ''read'' Output 0 None ''A'') [ImpactStep ''A'' ''c'' ''C''] Fact Unknown)"
  using trace_public_impacts_exact [OF trace_sample] by auto

end
