(* ===== verification/Findings.thy ===== *)
theory Findings
  imports Type_Graph
begin

text \<open>
  The inputs of validation and its findings (\<open>Severity\<close>, \<open>Finding\<close>, \<open>Policy\<close>,
  \<open>ValidationContext\<close>, \<open>StorageSchema\<close>, \<open>SchemaHistory\<close> and the constructors \<open>error\<close>,
  \<open>warning\<close> and \<open>info\<close> in \<open>crates/soroban-upgrades-core/src/lib.rs\<close>).

  Every check takes the vector of findings and returns it extended. The locale \<open>check_contract\<close>
  states what a caller relies on: a check only appends, and it adds an error exactly under its
  blocking condition. Each check of the following theories is an interpretation, and contracts
  compose, so the verdict of the whole validation is the disjunction of the conditions.
\<close>

section \<open>Findings\<close>

datatype severity = Info | Warning | Error

fun severity_rank :: "severity \<Rightarrow> nat" where
  "severity_rank Info = 0"
| "severity_rank Warning = 1"
| "severity_rank Error = 2"

lemma severity_rank_inject: "severity_rank x = severity_rank y \<longleftrightarrow> x = y"
  by (cases x; cases y) simp_all

instantiation severity :: linorder
begin

definition less_eq_severity :: "severity \<Rightarrow> severity \<Rightarrow> bool" where
  "x \<le> y \<longleftrightarrow> severity_rank x \<le> severity_rank y"

definition less_severity :: "severity \<Rightarrow> severity \<Rightarrow> bool" where
  "x < y \<longleftrightarrow> severity_rank x < severity_rank y"

instance
  by standard (auto simp: less_eq_severity_def less_severity_def severity_rank_inject [symmetric])

end

record finding =
  f_code :: string
  f_severity :: severity
  f_title :: string
  f_detail :: string
  f_remediation :: string

definition error :: "string \<Rightarrow> string \<Rightarrow> string \<Rightarrow> string \<Rightarrow> finding" where
  "error code title detail remediation =
     \<lparr>f_code = code, f_severity = Error, f_title = title, f_detail = detail, f_remediation = remediation\<rparr>"

definition warning :: "string \<Rightarrow> string \<Rightarrow> string \<Rightarrow> string \<Rightarrow> finding" where
  "warning code title detail remediation =
     \<lparr>f_code = code, f_severity = Warning, f_title = title, f_detail = detail, f_remediation = remediation\<rparr>"

definition info :: "string \<Rightarrow> string \<Rightarrow> string \<Rightarrow> string \<Rightarrow> finding" where
  "info code title detail remediation =
     \<lparr>f_code = code, f_severity = Info, f_title = title, f_detail = detail, f_remediation = remediation\<rparr>"

lemmas finding_defs = error_def warning_def info_def

section \<open>Inputs of validation\<close>

datatype protocol_source = Unpinned | OfflineAssertion | StellarCliNetworkInfo

record validation_context =
  ctx_target_protocol_version :: "u32 option"
  ctx_protocol_source :: protocol_source
  ctx_network_name :: "string option"
  ctx_network_id :: "string option"
  ctx_network_passphrase :: "string option"
  ctx_rpc_version :: "string option"
  ctx_captive_core_version :: "string option"
  ctx_observed_at_unix_seconds :: "u64 option"

definition default_context :: validation_context where
  "default_context = \<lparr>ctx_target_protocol_version = None, ctx_protocol_source = Unpinned,
     ctx_network_name = None, ctx_network_id = None, ctx_network_passphrase = None,
     ctx_rpc_version = None, ctx_captive_core_version = None, ctx_observed_at_unix_seconds = None\<rparr>"

record policy =
  pol_format_version :: u32
  pol_name :: string
  pol_require_upgrade_function :: bool
  pol_forbid_constructor :: bool
  pol_require_semver_increase :: bool
  pol_require_storage_schema :: bool
  pol_require_schema_history :: bool
  pol_deny_removed_functions :: bool
  pol_deny_changed_functions :: bool
  pol_deny_removed_events :: bool
  pol_deny_changed_events :: bool
  pol_deny_changed_user_types :: bool

definition default_policy :: policy where
  "default_policy = \<lparr>pol_format_version = 1, pol_name = ''soroban-upgrades-default'',
     pol_require_upgrade_function = True, pol_forbid_constructor = False,
     pol_require_semver_increase = True, pol_require_storage_schema = True,
     pol_require_schema_history = True, pol_deny_removed_functions = True,
     pol_deny_changed_functions = True, pol_deny_removed_events = True,
     pol_deny_changed_events = True, pol_deny_changed_user_types = True\<rparr>"

record migration =
  mig_strategy :: string
  mig_entrypoint :: "string option"
  mig_notes :: "string option"

datatype durability = Instance | Persistent | Temporary

record storage_entry =
  se_key :: string
  se_durability :: durability
  se_value_type :: string
  se_migration :: "migration option"

record storage_schema =
  ss_format_version :: u32
  ss_complete :: bool
  ss_schema_version :: u32
  ss_contract_version :: string
  ss_entries :: "storage_entry list"

record historical_field =
  hf_value_type :: json
  hf_first_seen :: string
  hf_retired_in :: "string option"

record type_history =
  th_fields :: "(string, historical_field) bmap"
  th_reserved_fields :: "string bset"

record schema_history =
  sh_format_version :: u32
  sh_complete :: bool
  sh_types :: "(string, type_history) bmap"
  sh_source_sha256 :: string

text \<open>
  The crates that validation calls: semantic versions (\<open>'v\<close> is \<open>semver::Version\<close>), the JSON
  printer, SHA-256 as hexadecimal text, and the serializers of the values it hashes.
\<close>

record 'v core_lib =
  semver_parse :: "string \<Rightarrow> 'v option"
  semver_less :: "'v \<Rightarrow> 'v \<Rightarrow> bool"
  semver_show :: "'v \<Rightarrow> string"
  json_to_string :: "json \<Rightarrow> string option"
  hash_hex :: "bytes \<Rightarrow> string"
  policy_to_vec :: "policy \<Rightarrow> bytes option"
  schema_to_vec :: "storage_schema \<Rightarrow> bytes option"

text \<open>\<open>Policy::from_json\<close>, \<open>StorageSchema::from_json\<close> and \<open>SchemaHistory::from_json\<close>.\<close>

definition policy_from_json :: "policy json_decoder \<Rightarrow> bytes \<Rightarrow> core_error + policy" where
  "policy_from_json d bs = lift_error JsonError (parse_json_strict d bs)"

definition storage_schema_from_json :: "storage_schema json_decoder \<Rightarrow> bytes \<Rightarrow> core_error + storage_schema" where
  "storage_schema_from_json d bs = lift_error JsonError (parse_json_strict d bs)"

definition schema_history_from_json ::
  "schema_history json_decoder \<Rightarrow> (bytes \<Rightarrow> string) \<Rightarrow> bytes \<Rightarrow> core_error + schema_history" where
  "schema_history_from_json d sha256_hex bs =
     and_then (lift_error JsonError (parse_json_strict d bs)) (\<lambda>history.
       Inr (history\<lparr>sh_source_sha256 := sha256_hex bs\<rparr>))"

section \<open>Pushing findings\<close>

definition push_if :: "bool \<Rightarrow> finding \<Rightarrow> finding list \<Rightarrow> finding list" where
  "push_if condition f findings = (if condition then findings @ [f] else findings)"

definition has_error :: "finding list \<Rightarrow> bool" where
  "has_error findings \<longleftrightarrow> list_ex (\<lambda>f. f_severity f = Error) findings"

definition appends :: "(finding list \<Rightarrow> finding list) \<Rightarrow> bool" where
  "appends check \<longleftrightarrow> (\<forall>findings. check findings = findings @ check [])"

named_theorems appends_intros

lemma has_error_simps [simp]:
  "\<not> has_error []"
  "has_error (fs @ gs) \<longleftrightarrow> has_error fs \<or> has_error gs"
  "has_error [f] \<longleftrightarrow> f_severity f = Error"
  by (simp_all add: has_error_def)

lemma has_error_iff: "has_error fs \<longleftrightarrow> (\<exists>f\<in>set fs. f_severity f = Error)"
  by (simp add: has_error_def list_ex_iff)

lemma has_error_push_if [errs_simps]:
  "has_error (push_if c f fs) \<longleftrightarrow> has_error fs \<or> c \<and> f_severity f = Error"
  by (simp add: push_if_def)

lemma appends_push_if [appends_intros]: "appends (\<lambda>fs. push_if c f fs)"
  by (simp add: appends_def push_if_def)

lemma appends_id [appends_intros]: "appends (\<lambda>fs. fs)"
  by (simp add: appends_def)

lemma appends_push [appends_intros]: "appends (\<lambda>fs. fs @ [f])"
  by (simp add: appends_def)

lemma appends_if [appends_intros]:
  "appends f \<Longrightarrow> appends g \<Longrightarrow> appends (\<lambda>fs. if c then f fs else g fs)"
  by (cases c) simp_all

lemma appendsD: "appends f \<Longrightarrow> f fs = fs @ f []"
  unfolding appends_def by blast

lemma appends_comp:
  assumes "appends f" and "appends g"
  shows "appends (\<lambda>fs. g (f fs))"
  unfolding appends_def
proof
  fix fs
  have fs: "f fs = fs @ f []" and gf: "g (f fs) = f fs @ g []" and g0: "g (f []) = f [] @ g []"
    by (rule appendsD [OF assms(1)] appendsD [OF assms(2)])+
  show "g (f fs) = fs @ g (f [])"
    unfolding gf g0 by (subst fs) (rule append_assoc)
qed

lemma appends_fold [appends_intros]:
  assumes "\<And>x. appends (step x)"
  shows "appends (fold step xs)"
proof (induction xs)
  case (Cons x xs)
  have "appends (\<lambda>fs. fold step xs (step x fs))" by (rule appends_comp [OF assms Cons.IH])
  then show ?case by (simp add: comp_def)
qed (simp add: appends_def)

lemma appends_push_if_after [appends_intros]:
  "appends g \<Longrightarrow> appends (\<lambda>fs. push_if c f (g fs))"
  by (rule appends_comp [OF _ appends_push_if])

lemma appends_push_after [appends_intros]: "appends g \<Longrightarrow> appends (\<lambda>fs. g fs @ [f])"
  by (rule appends_comp [OF _ appends_push])

lemma appends_fold_after [appends_intros]:
  "(\<And>x. appends (step x)) \<Longrightarrow> appends g \<Longrightarrow> appends (\<lambda>fs. fold step xs (g fs))"
  by (rule appends_comp [OF _ appends_fold])

lemma has_error_appends: "appends f \<Longrightarrow> has_error (f fs) \<longleftrightarrow> has_error fs \<or> has_error (f [])"
  using appendsD [of f fs] by simp

lemma has_error_comp:
  "appends f \<Longrightarrow> appends g \<Longrightarrow> has_error (g (f fs)) \<longleftrightarrow> has_error fs \<or> has_error (f []) \<or> has_error (g [])"
  using has_error_appends [of g "f fs"] has_error_appends [of f fs] by blast

lemma has_error_fold:
  assumes "\<And>x. appends (step x)"
  shows "has_error (fold step xs fs) \<longleftrightarrow> has_error fs \<or> (\<exists>x\<in>set xs. has_error (step x []))"
proof (induction xs arbitrary: fs)
  case (Cons x xs)
  then show ?case using has_error_appends [OF assms, of x fs] by auto
qed simp

section \<open>The contract of a check\<close>

locale check_contract =
  fixes check :: "finding list \<Rightarrow> finding list" and blocks :: bool
  assumes only_appends: "appends check"
    and error_iff: "has_error (check []) \<longleftrightarrow> blocks"
begin

lemma keeps: "check findings = findings @ check []"
  by (rule appendsD [OF only_appends])

lemma verdict [errs_simps]: "has_error (check findings) \<longleftrightarrow> has_error findings \<or> blocks"
  using has_error_appends [OF only_appends, of findings] error_iff by simp

lemma never_removes: "f \<in> set findings \<Longrightarrow> f \<in> set (check findings)"
  by (simp add: keeps [of findings])

lemma blocks_after: "blocks \<Longrightarrow> has_error (check findings)"
  by (simp add: verdict)

end

text \<open>The introduction rule for a check given by its defining equation.\<close>

lemma check_contractI:
  assumes "\<And>findings. check findings = body findings" and "appends body" and "has_error (body []) \<longleftrightarrow> blocks"
  shows "check_contract check blocks"
proof
  have "check = body" by (rule ext) (rule assms(1))
  then show "appends check" and "has_error (check []) \<longleftrightarrow> blocks" using assms(2,3) by simp_all
qed

lemma check_contract_comp:
  assumes "check_contract f a" and "check_contract g b"
  shows "check_contract (\<lambda>fs. g (f fs)) (a \<or> b)"
proof
  have f: "appends f" and g: "appends g"
    using assms by (simp_all add: check_contract_def)
  show "appends (\<lambda>fs. g (f fs))" by (rule appends_comp [OF f g])
  show "has_error (g (f [])) \<longleftrightarrow> a \<or> b"
    using has_error_comp [OF f g, of "[]"] assms by (simp add: check_contract_def)
qed

end
