(* ===== verification/Checks_Context.thy ===== *)
theory Checks_Context
  imports Findings
begin

text \<open>
  The checks of the policy, the network context and the upgrade path of a candidate:
  \<open>check_policy\<close>, \<open>check_protocol_context\<close>, \<open>check_environment_compatibility\<close>,
  \<open>check_cap_0086\<close>, \<open>check_upgrade_host_capability\<close>, \<open>check_versions\<close> and the entrypoint and
  constructor rules of \<open>validate_with_history\<close> in \<open>crates/soroban-upgrades-core/src/lib.rs\<close>.

  Each finding is a definition of its own, with the texts of the source. Each check is followed by
  its blocking condition and by the interpretation of \<open>check_contract\<close> that proves it.
\<close>

section \<open>Policy\<close>

definition POL001_policy_format :: "policy \<Rightarrow> finding" where
  "POL001_policy_format p = error ''POL001''
     ''Unsupported policy format''
     (''Policy `'' @ pol_name p @ ''` uses format version '' @ show_u32 (pol_format_version p)
       @ ''. This build supports version 1.'')
     ''Regenerate the policy with a supported format or upgrade the validator before relying on its result.''"

lemma POL001_policy_format_fields [finding_simps]:
  "f_severity (POL001_policy_format p) = Error" "f_code (POL001_policy_format p) = ''POL001''"
  by (simp_all add: POL001_policy_format_def finding_defs)

definition POL002_protections_disabled :: "policy \<Rightarrow> string list \<Rightarrow> finding" where
  "POL002_protections_disabled p disabled = warning ''POL002''
     ''Policy disables compatibility protections''
     (''Policy `'' @ pol_name p @ ''` disables checks for: '' @ join '', '' disabled @ ''.'')
     ''Use the conservative default or ensure every exception is reviewed and preserved in the plan digest.''"

lemma POL002_protections_disabled_fields [finding_simps]:
  "f_severity (POL002_protections_disabled p disabled) = Warning" "f_code (POL002_protections_disabled p disabled) = ''POL002''"
  by (simp_all add: POL002_protections_disabled_def finding_defs)

definition disabled_protections :: "policy \<Rightarrow> string list" where
  "disabled_protections p =
     concat (map (\<lambda>(is_disabled, label). if is_disabled then [label] else [])
       [(\<not> pol_require_upgrade_function p, ''retained upgrade entrypoint''),
        (\<not> pol_require_semver_increase p, ''increasing `binver`''),
        (\<not> pol_require_storage_schema p, ''complete storage schemas''),
        (\<not> pol_require_schema_history p, ''complete schema history''),
        (\<not> pol_deny_removed_functions p, ''removed public functions''),
        (\<not> pol_deny_changed_functions p, ''changed function signatures''),
        (\<not> pol_deny_removed_events p, ''removed contract events''),
        (\<not> pol_deny_changed_events p, ''changed contract events''),
        (\<not> pol_deny_changed_user_types p, ''changed or removed user-defined types'')])"

definition check_policy :: "policy \<Rightarrow> finding list \<Rightarrow> finding list" where
  "check_policy p findings =
     push_if (disabled_protections p \<noteq> []) (POL002_protections_disabled p (disabled_protections p))
       (push_if (pol_format_version p \<noteq> 1) (POL001_policy_format p) findings)"

interpretation pol: check_contract "check_policy p" "pol_format_version p \<noteq> 1"
  by (rule check_contractI [OF check_policy_def]) (simp_all add: appends_intros errs_simps finding_simps)

section \<open>Host interface of the candidate\<close>

definition ENV001_prerelease :: "artifact \<Rightarrow> finding" where
  "ENV001_prerelease t = error ''ENV001''
     ''Candidate uses a prerelease host interface''
     (''The candidate declares environment protocol '' @ show_u32 (art_env_protocol_version t)
       @ '' with prerelease value '' @ show_u32 (art_env_pre_release t) @ ''.'')
     ''Build the candidate with a stable Soroban SDK before release.''"

lemma ENV001_prerelease_fields [finding_simps]:
  "f_severity (ENV001_prerelease t) = Error" "f_code (ENV001_prerelease t) = ''ENV001''"
  by (simp_all add: ENV001_prerelease_def finding_defs)

definition ENV002_newer_protocol :: "artifact \<Rightarrow> u32 \<Rightarrow> finding" where
  "ENV002_newer_protocol t protocol = error ''ENV002''
     ''Candidate requires a newer network protocol''
     (''The candidate requires protocol '' @ show_u32 (art_env_protocol_version t)
       @ '', but the selected network evidence reports protocol '' @ show_u32 protocol @ ''.'')
     ''Use a compatible SDK or wait for the network protocol upgrade.''"

lemma ENV002_newer_protocol_fields [finding_simps]:
  "f_severity (ENV002_newer_protocol t protocol) = Error" "f_code (ENV002_newer_protocol t protocol) = ''ENV002''"
  by (simp_all add: ENV002_newer_protocol_def finding_defs)

definition version_below :: "u32 option \<Rightarrow> u32 \<Rightarrow> bool" where
  "version_below v bound = (case v of None \<Rightarrow> False | Some protocol \<Rightarrow> protocol < bound)"

definition unwrap_or_zero :: "u32 option \<Rightarrow> u32" where
  "unwrap_or_zero v = (case v of None \<Rightarrow> 0 | Some protocol \<Rightarrow> protocol)"

definition check_environment_compatibility ::
  "artifact \<Rightarrow> validation_context \<Rightarrow> finding list \<Rightarrow> finding list" where
  "check_environment_compatibility t ctx findings =
     push_if (version_below (ctx_target_protocol_version ctx) (art_env_protocol_version t))
       (ENV002_newer_protocol t (unwrap_or_zero (ctx_target_protocol_version ctx)))
       (push_if (art_env_pre_release t \<noteq> 0) (ENV001_prerelease t) findings)"

definition environment_blocks :: "artifact \<Rightarrow> validation_context \<Rightarrow> bool" where
  "environment_blocks t ctx \<longleftrightarrow> art_env_pre_release t \<noteq> 0
     \<or> (\<exists>protocol. ctx_target_protocol_version ctx = Some protocol \<and> protocol < art_env_protocol_version t)"

interpretation env: check_contract "check_environment_compatibility t ctx" "environment_blocks t ctx"
  by (rule check_contractI [OF check_environment_compatibility_def])
    (auto simp: environment_blocks_def version_below_def appends_intros errs_simps finding_simps split: option.splits)

section \<open>Protocol evidence\<close>

definition NET001_not_pinned :: "finding" where
  "NET001_not_pinned = warning ''NET001''
     ''Target protocol was not pinned''
     ''Protocol-dependent host capabilities cannot be approved without the target network's active protocol version.''
     ''Pass `--network` for a live Stellar CLI network read or `--protocol-version` for an explicitly recorded offline assertion.''"

lemma NET001_not_pinned_fields [finding_simps]:
  "f_severity (NET001_not_pinned) = Warning" "f_code (NET001_not_pinned) = ''NET001''"
  by (simp_all add: NET001_not_pinned_def finding_defs)

definition NET002_no_source :: "finding" where
  "NET002_no_source = error ''NET002''
     ''Protocol version has no evidence source''
     ''The validation context contains a protocol version but does not state whether it came from a live network read or an offline assertion.''
     ''Construct the context through the CLI resolver so provenance is recorded and plan-bound.''"

lemma NET002_no_source_fields [finding_simps]:
  "f_severity (NET002_no_source) = Error" "f_code (NET002_no_source) = ''NET002''"
  by (simp_all add: NET002_no_source_def finding_defs)

definition NET003_offline :: "finding" where
  "NET003_offline = warning ''NET003''
     ''Target protocol is an offline assertion''
     ''The protocol version was supplied by the operator and was not read from live network state during this validation.''
     ''Re-run with `--network` immediately before release, or preserve independent protocol evidence with the reviewed plan.''"

lemma NET003_offline_fields [finding_simps]:
  "f_severity (NET003_offline) = Warning" "f_code (NET003_offline) = ''NET003''"
  by (simp_all add: NET003_offline_def finding_defs)

definition NET004_offline_empty :: "finding" where
  "NET004_offline_empty = error ''NET004''
     ''Offline protocol assertion is empty''
     ''The context marks its protocol as an offline assertion but contains no protocol version.''
     ''Supply an explicit protocol version or use a live network read.''"

lemma NET004_offline_empty_fields [finding_simps]:
  "f_severity (NET004_offline_empty) = Error" "f_code (NET004_offline_empty) = ''NET004''"
  by (simp_all add: NET004_offline_empty_def finding_defs)

definition NET005_live :: "u32 \<Rightarrow> string \<Rightarrow> string \<Rightarrow> finding" where
  "NET005_live protocol name net = info ''NET005''
     ''Target protocol resolved from live network state''
     (''Stellar CLI read protocol '' @ show_u32 protocol @ '' for network `'' @ name
       @ ''` (network ID '' @ net @ '').'')
     ''Keep this evidence in the content-addressed plan and resolve it again immediately before submission.''"

lemma NET005_live_fields [finding_simps]:
  "f_severity (NET005_live protocol name net) = Info" "f_code (NET005_live protocol name net) = ''NET005''"
  by (simp_all add: NET005_live_def finding_defs)

definition NET006_live_incomplete :: "finding" where
  "NET006_live_incomplete = error ''NET006''
     ''Live network evidence is incomplete''
     ''The context claims a Stellar CLI network read but is missing protocol, network identity, passphrase, RPC version, or observation time.''
     ''Discard the incomplete context and repeat the live network query.''"

lemma NET006_live_incomplete_fields [finding_simps]:
  "f_severity (NET006_live_incomplete) = Error" "f_code (NET006_live_incomplete) = ''NET006''"
  by (simp_all add: NET006_live_incomplete_def finding_defs)

definition unwrap_or_unknown :: "string option \<Rightarrow> string" where
  "unwrap_or_unknown s = (case s of None \<Rightarrow> ''unknown'' | Some x \<Rightarrow> x)"

definition live_evidence_complete :: "validation_context \<Rightarrow> bool" where
  "live_evidence_complete ctx \<longleftrightarrow>
     ctx_target_protocol_version ctx \<noteq> None \<and> ctx_network_name ctx \<noteq> None \<and> ctx_network_id ctx \<noteq> None
     \<and> ctx_network_passphrase ctx \<noteq> None \<and> ctx_rpc_version ctx \<noteq> None
     \<and> ctx_observed_at_unix_seconds ctx \<noteq> None"

definition check_protocol_context :: "validation_context \<Rightarrow> finding list \<Rightarrow> finding list" where
  "check_protocol_context ctx findings =
     (case ctx_protocol_source ctx of
        Unpinned \<Rightarrow>
          if ctx_target_protocol_version ctx = None then findings @ [NET001_not_pinned]
          else findings @ [NET002_no_source]
      | OfflineAssertion \<Rightarrow>
          if ctx_target_protocol_version ctx \<noteq> None then findings @ [NET003_offline]
          else findings @ [NET004_offline_empty]
      | StellarCliNetworkInfo \<Rightarrow>
          if live_evidence_complete ctx then
            findings @ [NET005_live (unwrap_or_zero (ctx_target_protocol_version ctx))
              (unwrap_or_unknown (ctx_network_name ctx)) (unwrap_or_unknown (ctx_network_id ctx))]
          else findings @ [NET006_live_incomplete])"

definition protocol_context_blocks :: "validation_context \<Rightarrow> bool" where
  "protocol_context_blocks ctx \<longleftrightarrow>
     (case ctx_protocol_source ctx of
        Unpinned \<Rightarrow> ctx_target_protocol_version ctx \<noteq> None
      | OfflineAssertion \<Rightarrow> ctx_target_protocol_version ctx = None
      | StellarCliNetworkInfo \<Rightarrow> \<not> live_evidence_complete ctx)"

interpretation net: check_contract "check_protocol_context ctx" "protocol_context_blocks ctx"
  by unfold_locales
    (auto simp: check_protocol_context_def protocol_context_blocks_def appends_def finding_simps
      split: protocol_source.splits)

section \<open>CAP-0086\<close>

definition CAP001_before_activation :: "u32 \<Rightarrow> finding" where
  "CAP001_before_activation protocol = error ''CAP001''
     ''Candidate requires CAP-0086 before network activation''
     (''The target imports CAP-0086 sparse-map host functions, which require protocol ''
       @ show_u32 CAP_0086_PROTOCOL @ '', but the selected target protocol is '' @ show_u32 protocol
       @ ''.'')
     ''Deploy a protocol-27-compatible build or wait until the target network activates protocol 28 and re-run validation.''"

lemma CAP001_before_activation_fields [finding_simps]:
  "f_severity (CAP001_before_activation protocol) = Error" "f_code (CAP001_before_activation protocol) = ''CAP001''"
  by (simp_all add: CAP001_before_activation_def finding_defs)

definition CAP002_sparse_read :: "u32 \<Rightarrow> finding" where
  "CAP002_sparse_read protocol = info ''CAP002''
     ''Candidate imports CAP-0086 sparse decoding''
     (''The candidate imports `sparse_map_unpack_to_linear_memory` and the selected protocol ''
       @ show_u32 protocol
       @ '' supports it. This artifact-level fact does not prove which contract type uses the sparse reader.'')
     ''Require type-specific reader evidence plus field-history and cross-contract rollout checks before approving schema evolution.''"

lemma CAP002_sparse_read_fields [finding_simps]:
  "f_severity (CAP002_sparse_read protocol) = Info" "f_code (CAP002_sparse_read protocol) = ''CAP002''"
  by (simp_all add: CAP002_sparse_read_def finding_defs)

definition CAP003_strict_decoding :: "u32 \<Rightarrow> finding" where
  "CAP003_strict_decoding protocol = warning ''CAP003''
     ''Protocol supports CAP-0086 but the candidate does not use sparse decoding''
     (''Protocol '' @ show_u32 protocol
       @ '' exposes CAP-0086, but this WASM does not import `sparse_map_unpack_to_linear_memory`. Its contract-type decoding remains strict.'')
     ''Use an SDK or explicit implementation that opts into CAP-0086 before treating missing or additional fields as compatible.''"

lemma CAP003_strict_decoding_fields [finding_simps]:
  "f_severity (CAP003_strict_decoding protocol) = Warning" "f_code (CAP003_strict_decoding protocol) = ''CAP003''"
  by (simp_all add: CAP003_strict_decoding_def finding_defs)

definition CAP004_writer_without_reader :: "finding" where
  "CAP004_writer_without_reader = warning ''CAP004''
     ''Sparse writer is enabled without sparse reader''
     ''Omitting `Void` fields can break older strict readers in cross-contract calls when contracts are upgraded independently.''
     ''Prefer sparse reads first, keep sparse writes explicitly opt-in, and validate a staged dependency-aware rollout.''"

lemma CAP004_writer_without_reader_fields [finding_simps]:
  "f_severity (CAP004_writer_without_reader) = Warning" "f_code (CAP004_writer_without_reader) = ''CAP004''"
  by (simp_all add: CAP004_writer_without_reader_def finding_defs)

definition CAP007_reader_unreachable :: "finding" where
  "CAP007_reader_unreachable = error ''CAP007''
     ''Sparse-reader import is not directly reachable from an exported function''
     ''The candidate imports `m.c`, but the direct-call graph does not connect that import to any exported function. An unused or dynamically reached import is not evidence that a contract entrypoint decodes sparsely.''
     ''Provide an artifact whose relevant exported entrypoint directly reaches the sparse reader, and retain the call evidence with the report.''"

lemma CAP007_reader_unreachable_fields [finding_simps]:
  "f_severity (CAP007_reader_unreachable) = Error" "f_code (CAP007_reader_unreachable) = ''CAP007''"
  by (simp_all add: CAP007_reader_unreachable_def finding_defs)

definition CAP009_writer_unreachable :: "finding" where
  "CAP009_writer_unreachable = error ''CAP009''
     ''Sparse-writer import is not directly reachable from an exported function''
     ''The candidate imports `m.b`, but the direct-call graph does not connect that import to any exported function. An unused or dynamically reached import is not evidence that a contract entrypoint writes sparsely.''
     ''Provide an artifact whose relevant exported entrypoint directly reaches the sparse writer, and retain the call evidence with the report.''"

lemma CAP009_writer_unreachable_fields [finding_simps]:
  "f_severity (CAP009_writer_unreachable) = Error" "f_code (CAP009_writer_unreachable) = ''CAP009''"
  by (simp_all add: CAP009_writer_unreachable_def finding_defs)

definition CAP008_dynamic_dispatch :: "string list \<Rightarrow> finding" where
  "CAP008_dynamic_dispatch exports = warning ''CAP008''
     ''Dynamic dispatch limits CAP-0086 call-graph evidence''
     (''Exported function(s) '' @ join '', '' exports
       @ '' reach indirect or reference calls, so static host-import reachability is incomplete even where direct CAP-0086 paths are present.'')
     ''Remove dynamic dispatch from the compatibility-critical path or provide a separately verified complete call-target set.''"

lemma CAP008_dynamic_dispatch_fields [finding_simps]:
  "f_severity (CAP008_dynamic_dispatch exports) = Warning" "f_code (CAP008_dynamic_dispatch exports) = ''CAP008''"
  by (simp_all add: CAP008_dynamic_dispatch_def finding_defs)

definition exports_where :: "(export_call_evidence \<Rightarrow> bool) \<Rightarrow> artifact \<Rightarrow> string list" where
  "exports_where holds a =
     concat (map (\<lambda>(export, evidence). if holds evidence then [export] else []) (art_export_call_evidence a))"

definition reaches_import :: "string \<Rightarrow> export_call_evidence \<Rightarrow> bool" where
  "reaches_import import evidence = bs_member (ev_host_imports evidence) import"

definition check_cap_0086_protocol ::
  "artifact \<Rightarrow> validation_context \<Rightarrow> finding list \<Rightarrow> finding list" where
  "check_cap_0086_protocol t ctx findings =
     (case ctx_target_protocol_version ctx of
        None \<Rightarrow> findings
      | Some protocol \<Rightarrow>
          if (uses_cap_0086_sparse_read t \<or> uses_cap_0086_sparse_write t) \<and> protocol < CAP_0086_PROTOCOL
          then findings @ [CAP001_before_activation protocol]
          else if CAP_0086_PROTOCOL \<le> protocol \<and> uses_cap_0086_sparse_read t
          then findings @ [CAP002_sparse_read protocol]
          else if CAP_0086_PROTOCOL \<le> protocol then findings @ [CAP003_strict_decoding protocol]
          else findings)"

definition check_cap_0086 :: "artifact \<Rightarrow> validation_context \<Rightarrow> finding list \<Rightarrow> finding list" where
  "check_cap_0086 t ctx findings =
     (let sparse_read = uses_cap_0086_sparse_read t;
          sparse_write = uses_cap_0086_sparse_write t;
          sparse_read_exports = exports_where (reaches_import CAP_0086_SPARSE_READ_IMPORT) t;
          sparse_write_exports = exports_where (reaches_import CAP_0086_SPARSE_WRITE_IMPORT) t;
          dynamic_exports = exports_where ev_dynamic_dispatch_reachable t
      in push_if ((sparse_read \<or> sparse_write) \<and> dynamic_exports \<noteq> []) (CAP008_dynamic_dispatch dynamic_exports)
        (push_if (sparse_write \<and> sparse_write_exports = []) CAP009_writer_unreachable
        (push_if (sparse_read \<and> sparse_read_exports = []) CAP007_reader_unreachable
        (push_if (sparse_write \<and> \<not> sparse_read) CAP004_writer_without_reader
        (check_cap_0086_protocol t ctx findings)))))"

definition reached_by_some_export :: "artifact \<Rightarrow> string \<Rightarrow> bool" where
  "reached_by_some_export a import \<longleftrightarrow>
     (\<exists>(export, evidence) \<in> set (art_export_call_evidence a). import \<in> set (ev_host_imports evidence))"

definition cap_0086_blocks :: "artifact \<Rightarrow> validation_context \<Rightarrow> bool" where
  "cap_0086_blocks t ctx \<longleftrightarrow>
     (\<exists>protocol. ctx_target_protocol_version ctx = Some protocol \<and> protocol < 28
        \<and> (uses_cap_0086_sparse_read t \<or> uses_cap_0086_sparse_write t))
     \<or> uses_cap_0086_sparse_read t \<and> \<not> reached_by_some_export t ''m.c''
     \<or> uses_cap_0086_sparse_write t \<and> \<not> reached_by_some_export t ''m.b''"

lemma exports_where_empty: "exports_where (reaches_import i) a = [] \<longleftrightarrow> \<not> reached_by_some_export a i"
  by (auto simp: exports_where_def reaches_import_def reached_by_some_export_def bs_member_def split_beta)

lemma appends_cap_protocol [appends_intros]: "appends (check_cap_0086_protocol t ctx)"
  by (auto simp: appends_def check_cap_0086_protocol_def split: option.splits)

interpretation cap: check_contract "check_cap_0086 t ctx" "cap_0086_blocks t ctx"
  by (rule check_contractI [OF check_cap_0086_def [unfolded Let_def]], intro appends_intros,
      simp add: errs_simps finding_simps exports_where_empty
        CAP_0086_SPARSE_READ_IMPORT_def CAP_0086_SPARSE_WRITE_IMPORT_def cap_0086_blocks_def)
    (auto simp: check_cap_0086_protocol_def finding_simps CAP_0086_PROTOCOL_def split: option.splits)

section \<open>The upgrade path\<close>

definition UPG001_entrypoint_removed :: "finding" where
  "UPG001_entrypoint_removed = error ''UPG001''
     ''Target removes the upgrade entrypoint''
     ''The target contract specification has no `upgrade` function. A successful deployment makes subsequent upgrades unavailable without another authorized host update.''
     ''Retain an authorized `upgrade` entrypoint or explicitly approve immutability as a terminal release.''"

lemma UPG001_entrypoint_removed_fields [finding_simps]:
  "f_severity (UPG001_entrypoint_removed) = Error" "f_code (UPG001_entrypoint_removed) = ''UPG001''"
  by (simp_all add: UPG001_entrypoint_removed_def finding_defs)

definition UPG_no_upgrade_path :: "string \<Rightarrow> finding" where
  "UPG_no_upgrade_path code = error code
     ''Source has no executable upgrade path''
     ''The source Contract Spec has no `upgrade` function for the planned replacement.''
     ''Deploy through an existing authorized replacement path before you use the standard planner.''"

lemma UPG_no_upgrade_path_fields [finding_simps]:
  "f_severity (UPG_no_upgrade_path code) = Error" "f_code (UPG_no_upgrade_path code) = code"
  by (simp_all add: UPG_no_upgrade_path_def finding_defs)

definition UPG_cannot_replace :: "string \<Rightarrow> string \<Rightarrow> finding" where
  "UPG_cannot_replace code side = error code
     (side @ '' upgrade function cannot replace WASM'')
     (''The '' @ side @ '' `upgrade` export does not reach Stellar host import `''
       @ UPDATE_CURRENT_CONTRACT_WASM_IMPORT @ ''`.'')
     ''Call `update_current_contract_wasm` from the authorized upgrade path and rebuild the exact candidate.''"

lemma UPG_cannot_replace_fields [finding_simps]:
  "f_severity (UPG_cannot_replace code side) = Error" "f_code (UPG_cannot_replace code side) = code"
  by (simp_all add: UPG_cannot_replace_def finding_defs)

definition check_upgrade_host_capability ::
  "artifact \<Rightarrow> string \<Rightarrow> string \<Rightarrow> finding list \<Rightarrow> finding list" where
  "check_upgrade_host_capability a side code findings =
     (if \<not> has_function a ''upgrade'' then
        push_if (side = ''source'') (UPG_no_upgrade_path code) findings
      else
        (let reaches_update =
           (case bm_get (art_export_call_evidence a) ''upgrade'' of
              None \<Rightarrow> False
            | Some evidence \<Rightarrow> bs_member (ev_host_imports evidence) UPDATE_CURRENT_CONTRACT_WASM_IMPORT)
         in push_if (\<not> reaches_update) (UPG_cannot_replace code side) findings))"

definition check_upgrade_entrypoint :: "artifact \<Rightarrow> artifact \<Rightarrow> policy \<Rightarrow> finding list \<Rightarrow> finding list" where
  "check_upgrade_entrypoint source t p findings =
     (let findings = push_if (pol_require_upgrade_function p \<and> \<not> has_function t ''upgrade'')
        UPG001_entrypoint_removed findings
      in if pol_require_upgrade_function p then
        check_upgrade_host_capability t ''target'' ''UPG004''
          (check_upgrade_host_capability source ''source'' ''UPG003'' findings)
      else findings)"

text \<open>An artifact can be upgraded when its entrypoint reaches the host function that replaces the code.\<close>

definition can_upgrade :: "artifact \<Rightarrow> bool" where
  "can_upgrade a \<longleftrightarrow> has_function a ''upgrade''
     \<and> (\<exists>evidence. bm_get (art_export_call_evidence a) ''upgrade'' = Some evidence
          \<and> ''l.6'' \<in> set (ev_host_imports evidence))"

lemma appends_host_capability [appends_intros]: "appends (check_upgrade_host_capability a side code)"
  by (auto simp: appends_def check_upgrade_host_capability_def push_if_def Let_def)

lemma has_error_host_capability:
  "has_error (check_upgrade_host_capability a side code findings) \<longleftrightarrow>
     has_error findings
     \<or> (if has_function a ''upgrade'' then \<not> can_upgrade a else side = ''source'')"
  by (auto simp: check_upgrade_host_capability_def can_upgrade_def errs_simps finding_simps Let_def
      bs_member_def UPDATE_CURRENT_CONTRACT_WASM_IMPORT_def split: option.splits)

interpretation upg: check_contract "check_upgrade_entrypoint source t p"
  "pol_require_upgrade_function p \<and> \<not> (can_upgrade source \<and> can_upgrade t)"
proof
  show "appends (check_upgrade_entrypoint source t p)"
    by (auto simp: appends_def check_upgrade_entrypoint_def check_upgrade_host_capability_def push_if_def Let_def)
  show "has_error (check_upgrade_entrypoint source t p []) \<longleftrightarrow>
      pol_require_upgrade_function p \<and> \<not> (can_upgrade source \<and> can_upgrade t)"
    by (auto simp: check_upgrade_entrypoint_def has_error_host_capability errs_simps finding_simps Let_def
        can_upgrade_def)
qed

section \<open>Constructors\<close>

definition UPG002_constructor_forbidden :: "finding" where
  "UPG002_constructor_forbidden = error ''UPG002''
     ''Target contains a constructor''
     ''Soroban does not invoke `__constructor` when WASM is replaced. Any state initialization placed there will be skipped during this upgrade.''
     ''Move upgrade-time initialization to an idempotent migration entrypoint and test it against the pre-upgrade state.''"

lemma UPG002_constructor_forbidden_fields [finding_simps]:
  "f_severity (UPG002_constructor_forbidden) = Error" "f_code (UPG002_constructor_forbidden) = ''UPG002''"
  by (simp_all add: UPG002_constructor_forbidden_def finding_defs)

definition UPG002_constructor_skipped :: "finding" where
  "UPG002_constructor_skipped = warning ''UPG002''
     ''Target constructor will not run during upgrade''
     ''The target can validly retain a constructor for fresh deployments, but Soroban will not invoke it when replacing WASM.''
     ''Confirm that upgrade-time initialization is handled by an idempotent migration and that no upgrade invariant depends on the constructor.''"

lemma UPG002_constructor_skipped_fields [finding_simps]:
  "f_severity (UPG002_constructor_skipped) = Warning" "f_code (UPG002_constructor_skipped) = ''UPG002''"
  by (simp_all add: UPG002_constructor_skipped_def finding_defs)

definition check_constructor :: "artifact \<Rightarrow> policy \<Rightarrow> finding list \<Rightarrow> finding list" where
  "check_constructor t p findings =
     push_if (has_function t ''__constructor'')
       (if pol_forbid_constructor p then UPG002_constructor_forbidden else UPG002_constructor_skipped) findings"

interpretation ctor: check_contract "check_constructor t p"
  "pol_forbid_constructor p \<and> has_function t ''__constructor''"
  by (rule check_contractI [OF check_constructor_def]) (auto simp: appends_intros errs_simps finding_simps)

section \<open>Versions\<close>

definition VER001_missing_binver :: "finding" where
  "VER001_missing_binver = error ''VER001''
     ''Missing SEP-49 `binver` metadata''
     ''Both source and target WASM must embed a semantic version under the `binver` contract metadata key.''
     ''Build with `stellar contract build --meta binver=<semver>` for both artifacts.''"

lemma VER001_missing_binver_fields [finding_simps]:
  "f_severity (VER001_missing_binver) = Error" "f_code (VER001_missing_binver) = ''VER001''"
  by (simp_all add: VER001_missing_binver_def finding_defs)

definition VER002_not_increasing :: "string \<Rightarrow> string \<Rightarrow> finding" where
  "VER002_not_increasing new old = error ''VER002''
     ''Target version does not increase''
     (''Target `binver` '' @ new @ '' must be greater than source `binver` '' @ old @ ''.'')
     ''Use a higher semantic version matching the compatibility impact of the release.''"

lemma VER002_not_increasing_fields [finding_simps]:
  "f_severity (VER002_not_increasing new old) = Error" "f_code (VER002_not_increasing new old) = ''VER002''"
  by (simp_all add: VER002_not_increasing_def finding_defs)

definition VER003_invalid_versions :: "string \<Rightarrow> string \<Rightarrow> finding" where
  "VER003_invalid_versions old new = error ''VER003''
     ''Invalid semantic version metadata''
     (''Could not compare source `'' @ old @ ''` with target `'' @ new @ ''` as semantic versions.'')
     ''Use valid SemVer values such as `1.2.0`.''"

lemma VER003_invalid_versions_fields [finding_simps]:
  "f_severity (VER003_invalid_versions old new) = Error" "f_code (VER003_invalid_versions old new) = ''VER003''"
  by (simp_all add: VER003_invalid_versions_def finding_defs)

definition check_versions :: "'v core_lib \<Rightarrow> artifact \<Rightarrow> artifact \<Rightarrow> policy \<Rightarrow> finding list \<Rightarrow> finding list" where
  "check_versions lib source t p findings =
     (if \<not> pol_require_semver_increase p then findings
      else
        (case (art_version source, art_version t) of
           (Some old, Some new) \<Rightarrow>
             (case (semver_parse lib old, semver_parse lib new) of
                (Some old', Some new') \<Rightarrow>
                  if semver_less lib old' new' then findings
                  else findings @ [VER002_not_increasing (semver_show lib new') (semver_show lib old')]
              | _ \<Rightarrow> findings @ [VER003_invalid_versions old new])
         | _ \<Rightarrow> findings @ [VER001_missing_binver]))"

definition version_increases :: "'v core_lib \<Rightarrow> artifact \<Rightarrow> artifact \<Rightarrow> bool" where
  "version_increases lib source t \<longleftrightarrow>
     (\<exists>old new old' new'. art_version source = Some old \<and> art_version t = Some new
        \<and> semver_parse lib old = Some old' \<and> semver_parse lib new = Some new' \<and> semver_less lib old' new')"

interpretation ver: check_contract "check_versions lib source t p"
  "pol_require_semver_increase p \<and> \<not> version_increases lib source t"
  by unfold_locales
    (auto simp: check_versions_def version_increases_def appends_def finding_simps split: option.splits)

end
