(* ===== verification/Checks_Interface.thy ===== *)
theory Checks_Interface
  imports Checks_Context
begin

text \<open>
  The comparison of two public interfaces: \<open>struct_fields\<close>, \<open>optional_struct_fields_added\<close>,
  \<open>is_option_type\<close>, \<open>artifact_struct_fields\<close> and \<open>compare_interfaces\<close> in
  \<open>crates/soroban-upgrades-core/src/lib.rs\<close>.

  \<open>extends_by_options\<close> is the specification of an optional-field extension; \<open>interface_breaks\<close>
  is the condition under which the comparison blocks a release.
\<close>

section \<open>Struct fields of a canonical value\<close>

definition option_bind :: "'a option \<Rightarrow> ('a \<Rightarrow> 'b option) \<Rightarrow> 'b option" where
  "option_bind x f = (case x of None \<Rightarrow> None | Some a \<Rightarrow> f a)"

lemma option_bind_Some [simp]: "option_bind x f = Some b \<longleftrightarrow> (\<exists>a. x = Some a \<and> f a = Some b)"
  by (cases x) (simp_all add: option_bind_def)

definition field_of :: "json \<Rightarrow> (string \<times> json) option" where
  "field_of field =
     option_bind (option_bind (json_get field ''name'') as_str) (\<lambda>name.
     option_bind (json_get field ''type_'') (\<lambda>t. Some (name, t)))"

definition struct_fields :: "interface_entry \<Rightarrow> (string, json) bmap option" where
  "struct_fields entry =
     option_bind (json_pointer (ie_canonical entry) [''udt_struct_v0'', ''fields'']) (\<lambda>v.
     option_bind (as_array v) (\<lambda>field_list.
     map_option bm_of_list (those (map field_of field_list))))"

definition is_option_type :: "json \<Rightarrow> bool" where
  "is_option_type v = (case v of Object kvs \<Rightarrow> bm_contains kvs ''option'' | _ \<Rightarrow> False)"

definition optional_struct_fields_added :: "interface_entry \<Rightarrow> interface_entry \<Rightarrow> string list option" where
  "optional_struct_fields_added old new =
     (if ie_kind old \<noteq> ''struct'' \<or> ie_kind new \<noteq> ''struct'' then None
      else option_bind (struct_fields old) (\<lambda>old_fields.
      option_bind (struct_fields new) (\<lambda>new_fields.
        if length new_fields \<le> length old_fields
          \<or> list_ex (\<lambda>(name, old_type). bm_get new_fields name \<noteq> Some old_type) old_fields
        then None
        else option_bind
          (those (map (\<lambda>(name, field_type). if is_option_type field_type then Some name else None)
            (filter (\<lambda>(name, _). \<not> bm_contains old_fields name) new_fields)))
          (\<lambda>added. if added \<noteq> [] then Some added else None))))"

definition artifact_struct_fields :: "artifact \<Rightarrow> (string, (string, json) bmap) bmap" where
  "artifact_struct_fields a =
     bm_of_list (concat (map (\<lambda>(name, entry).
       case struct_fields entry of None \<Rightarrow> [] | Some flds \<Rightarrow> [(name, flds)]) (art_user_types a)))"

text \<open>Specification: the new struct keeps every field and its type and adds only optional ones.\<close>

definition extends_by_options :: "(string, json) bmap \<Rightarrow> (string, json) bmap \<Rightarrow> string list \<Rightarrow> bool" where
  "extends_by_options old new added \<longleftrightarrow>
     (\<forall>name t. bm_get old name = Some t \<longrightarrow> bm_get new name = Some t)
     \<and> added \<noteq> [] \<and> bs_ok added
     \<and> set added = set (bm_keys new) - set (bm_keys old)
     \<and> (\<forall>name\<in>set added. \<exists>t. bm_get new name = Some t \<and> is_option_type t)"

lemma those_Some: "those xs = Some ys \<longleftrightarrow> xs = map Some ys"
proof (induction xs arbitrary: ys)
  case Nil
  show ?case by (cases ys) simp_all
next
  case (Cons x xs)
  then show ?case by (cases x; cases ys) auto
qed

lemma struct_fields_ok: "struct_fields entry = Some m \<Longrightarrow> bm_ok m"
  by (auto simp: struct_fields_def)

lemma those_map_if:
  "those (map (\<lambda>(name, t). if P t then Some name else None) m) = Some added \<longleftrightarrow>
     (\<forall>(name, t)\<in>set m. P t) \<and> added = map fst m"
  unfolding those_Some by (induction m arbitrary: added) (auto simp: Cons_eq_map_conv split: if_splits)

lemma bm_length_subset:
  assumes "bm_ok old" and "bm_ok new" and "\<forall>name t. bm_get old name = Some t \<longrightarrow> bm_get new name = Some t"
    and "(name, t) \<in> set new" and "bm_get old name = None"
  shows "length old < length new"
proof -
  have "set (bm_keys old) \<subset> set (bm_keys new)"
  proof (rule psubsetI)
    show "set (bm_keys old) \<subseteq> set (bm_keys new)" using assms(3) by (auto simp: bm_keys_get)
    show "set (bm_keys old) \<noteq> set (bm_keys new)"
      using assms(2,4,5) bm_get_iff [OF assms(2), of name t] bm_keys_get [of name old] bm_keys_get [of name new] by auto
  qed
  then have "card (set (bm_keys old)) < card (set (bm_keys new))" by (simp add: psubset_card_mono)
  then show ?thesis
    using distinct_card [OF bm_ok_distinct [OF assms(1)]] distinct_card [OF bm_ok_distinct [OF assms(2)]]
    by (simp add: bm_keys_def)
qed

lemma map_fst_filter: "map fst (filter (\<lambda>(k, v). P k) m) = filter P (map fst m)"
  by (induction m) auto

lemma optional_fields_iff:
  assumes "bm_ok old" and "bm_ok new"
  shows "\<not> (length new \<le> length old \<or> list_ex (\<lambda>(name, t). bm_get new name \<noteq> Some t) old)
      \<and> (\<forall>(name, t)\<in>set (filter (\<lambda>(name, _). \<not> bm_contains old name) new). is_option_type t)
      \<and> added = map fst (filter (\<lambda>(name, _). \<not> bm_contains old name) new) \<and> added \<noteq> []
    \<longleftrightarrow> extends_by_options old new added" (is "?code \<longleftrightarrow> ?spec")
proof -
  have keeps: "\<not> list_ex (\<lambda>(name, t). bm_get new name \<noteq> Some t) old \<longleftrightarrow>
      (\<forall>name t. bm_get old name = Some t \<longrightarrow> bm_get new name = Some t)"
    by (auto simp: list_ex_iff bm_get_iff [OF assms(1)])
  have added: "bs_ok (map fst (filter (\<lambda>(name, _). \<not> bm_contains old name) new))"
    "set (map fst (filter (\<lambda>(name, _). \<not> bm_contains old name) new)) = set (bm_keys new) - set (bm_keys old)"
    using assms(2) by (auto simp: map_fst_filter bm_ok_def bs_ok_def sorted_wrt_filter bm_contains_keys bm_keys_def)
  have opts: "(\<forall>(name, t)\<in>set (filter (\<lambda>(name, _). \<not> bm_contains old name) new). is_option_type t) \<longleftrightarrow>
      (\<forall>name\<in>set (bm_keys new) - set (bm_keys old). \<exists>t. bm_get new name = Some t \<and> is_option_type t)"
  proof -
    have "name \<in> set (bm_keys new) - set (bm_keys old) \<longleftrightarrow> bm_get old name = None \<and> (\<exists>t. bm_get new name = Some t)"
      for name by (auto simp: bm_keys_get)
    moreover have "(name, t) \<in> set (filter (\<lambda>(name, _). \<not> bm_contains old name) new) \<longleftrightarrow>
        bm_get old name = None \<and> bm_get new name = Some t" for name t
      by (auto simp: bm_contains_def bm_get_iff [OF assms(2)])
    ultimately show ?thesis unfolding Ball_def split_paired_All by (metis case_prodI case_prodD option.inject)
  qed
  show ?thesis
  proof
    assume code: ?code
    then show ?spec using keeps added opts by (auto simp: extends_by_options_def)
  next
    assume spec: ?spec
    then have eq: "added = map fst (filter (\<lambda>(name, _). \<not> bm_contains old name) new)"
      unfolding extends_by_options_def by (subst bs_eq_iff) (use added in auto)
    from spec obtain name where "name \<in> set (bm_keys new)" and "name \<notin> set (bm_keys old)"
      unfolding extends_by_options_def by (metis DiffD1 DiffD2 list.set_sel(1))
    then obtain t where "(name, t) \<in> set new" and "bm_get old name = None"
      unfolding bm_keys_get by (auto dest: bm_get_in)
    then have "length old < length new"
      using bm_length_subset [OF assms] spec by (auto simp: extends_by_options_def)
    moreover have "\<forall>name\<in>set (bm_keys new) - set (bm_keys old). \<exists>t. bm_get new name = Some t \<and> is_option_type t"
      using spec by (simp add: extends_by_options_def)
    moreover have "\<forall>name t. bm_get old name = Some t \<longrightarrow> bm_get new name = Some t" and "added \<noteq> []"
      using spec by (simp_all add: extends_by_options_def)
    ultimately show ?code using eq unfolding opts [symmetric] keeps [symmetric] by simp
  qed
qed

text \<open>
  C39: A changed struct is classified as an optional-field extension exactly when both definitions
  are structs whose fields can be read, every old field keeps its name and type, at least one
  field is new, and every new field is of an option type; the reported names are the new fields in
  order. In particular the length comparison of the code never rejects a real extension.
\<close>

theorem optional_struct_fields_added_exact:
  "optional_struct_fields_added old new = Some added \<longleftrightarrow>
     ie_kind old = ''struct'' \<and> ie_kind new = ''struct''
     \<and> (\<exists>old_fields new_fields. struct_fields old = Some old_fields \<and> struct_fields new = Some new_fields
          \<and> extends_by_options old_fields new_fields added)"
proof -
  have "optional_struct_fields_added old new = Some added \<longleftrightarrow>
     ie_kind old = ''struct'' \<and> ie_kind new = ''struct''
     \<and> (\<exists>o' n'. struct_fields old = Some o' \<and> struct_fields new = Some n'
          \<and> \<not> (length n' \<le> length o' \<or> list_ex (\<lambda>(name, t). bm_get n' name \<noteq> Some t) o')
          \<and> (\<forall>(name, t)\<in>set (filter (\<lambda>(name, _). \<not> bm_contains o' name) n'). is_option_type t)
          \<and> added = map fst (filter (\<lambda>(name, _). \<not> bm_contains o' name) n') \<and> added \<noteq> [])"
    unfolding optional_struct_fields_added_def by (auto simp: those_map_if)
  also have "\<dots> \<longleftrightarrow> ie_kind old = ''struct'' \<and> ie_kind new = ''struct''
     \<and> (\<exists>old_fields new_fields. struct_fields old = Some old_fields \<and> struct_fields new = Some new_fields
          \<and> extends_by_options old_fields new_fields added)"
    by (intro conj_cong refl ex_cong1) (rule optional_fields_iff [OF struct_fields_ok struct_fields_ok])
  finally show ?thesis .
qed

section \<open>The comparison\<close>

definition ABI001_function_removed :: "string \<Rightarrow> finding" where
  "ABI001_function_removed name = error ''ABI001''
     ''Public function removed''
     (''The target contract removes `'' @ name @ ''` from the public specification.'')
     ''Preserve the function, introduce a compatibility shim, or document and explicitly approve the breaking change.''"

lemma ABI001_function_removed_fields [finding_simps]:
  "f_severity (ABI001_function_removed name) = Error" "f_code (ABI001_function_removed name) = ''ABI001''"
  by (simp_all add: ABI001_function_removed_def finding_defs)

definition ABI002_function_changed :: "string \<Rightarrow> finding" where
  "ABI002_function_changed name = error ''ABI002''
     ''Public function signature changed''
     (''The inputs, output, or specification of `'' @ name @ ''` changed.'')
     ''Add a new entrypoint and keep the old signature until downstream clients have migrated.''"

lemma ABI002_function_changed_fields [finding_simps]:
  "f_severity (ABI002_function_changed name) = Error" "f_code (ABI002_function_changed name) = ''ABI002''"
  by (simp_all add: ABI002_function_changed_def finding_defs)

definition EVT001_event_removed :: "string \<Rightarrow> finding" where
  "EVT001_event_removed name = error ''EVT001''
     ''Contract event was removed''
     (''The target contract removes event `'' @ name @ ''` from the public specification.'')
     ''Keep the event schema or complete a reviewed indexer migration before the release.''"

lemma EVT001_event_removed_fields [finding_simps]:
  "f_severity (EVT001_event_removed name) = Error" "f_code (EVT001_event_removed name) = ''EVT001''"
  by (simp_all add: EVT001_event_removed_def finding_defs)

definition EVT002_event_changed :: "string \<Rightarrow> finding" where
  "EVT002_event_changed name = error ''EVT002''
     ''Contract event schema changed''
     (''The topics, parameters, types, or data format of event `'' @ name @ ''` changed.'')
     ''Add a new event name and keep the old schema for existing consumers.''"

lemma EVT002_event_changed_fields [finding_simps]:
  "f_severity (EVT002_event_changed name) = Error" "f_code (EVT002_event_changed name) = ''EVT002''"
  by (simp_all add: EVT002_event_changed_def finding_defs)

definition ABI003_type_removed :: "string \<Rightarrow> interface_entry \<Rightarrow> finding" where
  "ABI003_type_removed name old = error ''ABI003''
     ''Contract Spec type removed''
     (''The target contract removes the `'' @ name @ ''` '' @ ie_kind old
       @ '' definition. Contract Spec alone does not identify every public, stored, or cross-contract use of this type.'')
     ''Preserve the type or prove every relevant public, storage, and cross-contract migration path before approving removal.''"

lemma ABI003_type_removed_fields [finding_simps]:
  "f_severity (ABI003_type_removed name old) = Error" "f_code (ABI003_type_removed name old) = ''ABI003''"
  by (simp_all add: ABI003_type_removed_def finding_defs)

definition CAP005_reader_binding :: "string \<Rightarrow> string list \<Rightarrow> finding" where
  "CAP005_reader_binding name added = error ''CAP005''
     ''CAP-0086 reader binding is not proven for the changed type''
     (''The `'' @ name @ ''` struct adds only optional field(s): '' @ join '', '' added
       @ ''. Protocol support and a global sparse-read import are present, but the artifact does not prove that this specific type is decoded through that reader.'')
     ''Provide generated type-to-reader evidence and test old/new reader-writer directions against historical state before approving the change.''"

lemma CAP005_reader_binding_fields [finding_simps]:
  "f_severity (CAP005_reader_binding name added) = Error" "f_code (CAP005_reader_binding name added) = ''CAP005''"
  by (simp_all add: CAP005_reader_binding_def finding_defs)

definition CAP006_optional_unsupported :: "string \<Rightarrow> string list \<Rightarrow> finding" where
  "CAP006_optional_unsupported name added = error ''CAP006''
     ''Optional field addition is not supported by the selected artifact and protocol''
     (''The `'' @ name @ ''` struct adds optional field(s) '' @ join '', '' added
       @ '', but compatibility requires both protocol 28+ and a candidate that imports CAP-0086 sparse decoding.'')
     ''Use explicit versioned migration today, or rebuild with CAP-0086 support after activation and re-run validation against the target protocol.''"

lemma CAP006_optional_unsupported_fields [finding_simps]:
  "f_severity (CAP006_optional_unsupported name added) = Error" "f_code (CAP006_optional_unsupported name added) = ''CAP006''"
  by (simp_all add: CAP006_optional_unsupported_def finding_defs)

definition ABI004_type_changed :: "string \<Rightarrow> interface_entry \<Rightarrow> finding" where
  "ABI004_type_changed name old = error ''ABI004''
     ''Contract Spec type changed''
     (''The `'' @ name @ ''` '' @ ie_kind old
       @ '' definition changed in a way this policy does not classify as compatible. Contract Spec alone does not prove the type's runtime role.'')
     ''Introduce a versioned type and migration path instead of mutating the existing definition in place.''"

lemma ABI004_type_changed_fields [finding_simps]:
  "f_severity (ABI004_type_changed name old) = Error" "f_code (ABI004_type_changed name old) = ''ABI004''"
  by (simp_all add: ABI004_type_changed_def finding_defs)

definition compare_function :: "artifact \<Rightarrow> policy \<Rightarrow> string \<times> interface_entry \<Rightarrow> finding list \<Rightarrow> finding list" where
  "compare_function t p item findings =
     (case item of (name, old) \<Rightarrow>
        case bm_get (art_functions t) name of
          None \<Rightarrow> push_if (pol_deny_removed_functions p) (ABI001_function_removed name) findings
        | Some new \<Rightarrow> push_if (pol_deny_changed_functions p \<and> ie_canonical old \<noteq> ie_canonical new)
            (ABI002_function_changed name) findings)"

definition compare_event :: "artifact \<Rightarrow> policy \<Rightarrow> string \<times> interface_entry \<Rightarrow> finding list \<Rightarrow> finding list" where
  "compare_event t p item findings =
     (case item of (name, old) \<Rightarrow>
        case bm_get (art_events t) name of
          None \<Rightarrow> push_if (pol_deny_removed_events p) (EVT001_event_removed name) findings
        | Some new \<Rightarrow> push_if (pol_deny_changed_events p \<and> ie_canonical old \<noteq> ie_canonical new)
            (EVT002_event_changed name) findings)"

definition changed_type_finding ::
  "artifact \<Rightarrow> validation_context \<Rightarrow> string \<Rightarrow> interface_entry \<Rightarrow> interface_entry \<Rightarrow> finding" where
  "changed_type_finding t ctx name old new =
     (case optional_struct_fields_added old new of
        Some added \<Rightarrow>
          if CAP_0086_PROTOCOL \<le> unwrap_or_zero (ctx_target_protocol_version ctx) \<and> uses_cap_0086_sparse_read t
          then CAP005_reader_binding name added
          else CAP006_optional_unsupported name added
      | None \<Rightarrow> ABI004_type_changed name old)"

definition compare_user_type ::
  "artifact \<Rightarrow> policy \<Rightarrow> validation_context \<Rightarrow> string \<times> interface_entry \<Rightarrow> finding list \<Rightarrow> finding list" where
  "compare_user_type t p ctx item findings =
     (case item of (name, old) \<Rightarrow>
        case bm_get (art_user_types t) name of
          None \<Rightarrow> push_if (pol_deny_changed_user_types p) (ABI003_type_removed name old) findings
        | Some new \<Rightarrow> push_if (pol_deny_changed_user_types p \<and> ie_canonical old \<noteq> ie_canonical new)
            (changed_type_finding t ctx name old new) findings)"

definition compare_interfaces ::
  "artifact \<Rightarrow> artifact \<Rightarrow> policy \<Rightarrow> validation_context \<Rightarrow> finding list \<Rightarrow> finding list" where
  "compare_interfaces source t p ctx findings =
     fold (compare_user_type t p ctx) (art_user_types source)
       (fold (compare_event t p) (art_events source)
         (fold (compare_function t p) (art_functions source) findings))"

text \<open>The blocking condition: an entry of the source that the target drops or changes.\<close>

definition drops :: "(string, interface_entry) bmap \<Rightarrow> (string, interface_entry) bmap \<Rightarrow> bool" where
  "drops old new \<longleftrightarrow> (\<exists>(name, entry)\<in>set old. bm_get new name = None)"

definition changes :: "(string, interface_entry) bmap \<Rightarrow> (string, interface_entry) bmap \<Rightarrow> bool" where
  "changes old new \<longleftrightarrow>
     (\<exists>(name, entry)\<in>set old. \<exists>entry'. bm_get new name = Some entry' \<and> ie_canonical entry \<noteq> ie_canonical entry')"

definition interface_breaks :: "artifact \<Rightarrow> artifact \<Rightarrow> policy \<Rightarrow> bool" where
  "interface_breaks source t p \<longleftrightarrow>
     pol_deny_removed_functions p \<and> drops (art_functions source) (art_functions t)
     \<or> pol_deny_changed_functions p \<and> changes (art_functions source) (art_functions t)
     \<or> pol_deny_removed_events p \<and> drops (art_events source) (art_events t)
     \<or> pol_deny_changed_events p \<and> changes (art_events source) (art_events t)
     \<or> pol_deny_changed_user_types p
        \<and> (drops (art_user_types source) (art_user_types t) \<or> changes (art_user_types source) (art_user_types t))"

lemma changed_type_severity [finding_simps]: "f_severity (changed_type_finding t ctx name old new) = Error"
  by (simp add: changed_type_finding_def finding_simps split: option.split)

lemma appends_compare [appends_intros]:
  "appends (compare_function t p item)" "appends (compare_event t p item)" "appends (compare_user_type t p ctx item)"
  by (auto simp: appends_def compare_function_def compare_event_def compare_user_type_def push_if_def
      split: prod.split option.split)

lemma has_error_compare_fold:
  assumes "\<And>item. appends (step item)"
    and "\<And>name old. has_error (step (name, old) []) \<longleftrightarrow>
      (case bm_get new name of None \<Rightarrow> removed
       | Some entry' \<Rightarrow> changed \<and> ie_canonical old \<noteq> ie_canonical entry')"
  shows "has_error (fold step m fs) \<longleftrightarrow> has_error fs \<or> removed \<and> drops m new \<or> changed \<and> changes m new"
  unfolding has_error_fold [OF assms(1)] drops_def changes_def
  using assms(2) by (fastforce split: option.splits)

interpretation ifc: check_contract "compare_interfaces source t p ctx" "interface_breaks source t p"
proof (rule check_contractI [OF compare_interfaces_def], intro appends_intros)
  have steps: "has_error (compare_function t p (name, old) []) \<longleftrightarrow> (case bm_get (art_functions t) name of
        None \<Rightarrow> pol_deny_removed_functions p
      | Some new \<Rightarrow> pol_deny_changed_functions p \<and> ie_canonical old \<noteq> ie_canonical new)"
    "has_error (compare_event t p (name, old) []) \<longleftrightarrow> (case bm_get (art_events t) name of
        None \<Rightarrow> pol_deny_removed_events p
      | Some new \<Rightarrow> pol_deny_changed_events p \<and> ie_canonical old \<noteq> ie_canonical new)"
    "has_error (compare_user_type t p ctx (name, old) []) \<longleftrightarrow> (case bm_get (art_user_types t) name of
        None \<Rightarrow> pol_deny_changed_user_types p
      | Some new \<Rightarrow> pol_deny_changed_user_types p \<and> ie_canonical old \<noteq> ie_canonical new)" for name old
    by (simp_all add: compare_function_def compare_event_def compare_user_type_def errs_simps finding_simps
        split: option.split)
  show "has_error (fold (compare_user_type t p ctx) (art_user_types source)
       (fold (compare_event t p) (art_events source)
         (fold (compare_function t p) (art_functions source) []))) \<longleftrightarrow> interface_breaks source t p"
    unfolding has_error_compare_fold [OF appends_compare(3) steps(3)]
      has_error_compare_fold [OF appends_compare(2) steps(2)]
      has_error_compare_fold [OF appends_compare(1) steps(1)] interface_breaks_def
    by auto
qed

end
