(* ===== verification/Checks_Storage.thy ===== *)
theory Checks_Storage
  imports Checks_Interface
begin

text \<open>
  The storage manifests and their comparison: \<open>validate_schema_manifests\<close> and
  \<open>compare_storage_schemas\<close> in \<open>crates/soroban-upgrades-core/src/lib.rs\<close>, with the case
  distinction of \<open>validate_with_history\<close> on which manifests were given.

  The duplicate counter is a \<open>u32\<close>; it is exact for manifests of fewer than \<open>2 ^ 32\<close> entries.
\<close>

section \<open>Manifests\<close>

definition STO006_manifest_format :: "string \<Rightarrow> storage_schema \<Rightarrow> finding" where
  "STO006_manifest_format side s = error ''STO006''
     ''Unsupported storage manifest format''
     (''The '' @ side @ '' manifest uses format version '' @ show_u32 (ss_format_version s)
       @ ''. This build supports version 1.'')
     ''Regenerate the manifest with a supported tool version or upgrade the validator before relying on its result.''"

lemma STO006_manifest_format_fields [finding_simps]:
  "f_severity (STO006_manifest_format side s) = Error" "f_code (STO006_manifest_format side s) = ''STO006''"
  by (simp_all add: STO006_manifest_format_def finding_defs)

definition STO010_incomplete :: "string \<Rightarrow> finding" where
  "STO010_incomplete side = error ''STO010''
     ''Storage schema is not marked complete''
     (''The '' @ side
       @ '' storage schema does not declare complete coverage of its known storage keys.'')
     ''Set `complete` to true only after you include every known storage key and value type.''"

lemma STO010_incomplete_fields [finding_simps]:
  "f_severity (STO010_incomplete side) = Error" "f_code (STO010_incomplete side) = ''STO010''"
  by (simp_all add: STO010_incomplete_def finding_defs)

definition STO011_version_zero :: "string \<Rightarrow> finding" where
  "STO011_version_zero side = error ''STO011''
     ''Storage schema version is zero''
     (''The '' @ side @ '' storage schema must use a positive schema version.'')
     ''Set `schemaVersion` to the version that the contract stores or enforces.''"

lemma STO011_version_zero_fields [finding_simps]:
  "f_severity (STO011_version_zero side) = Error" "f_code (STO011_version_zero side) = ''STO011''"
  by (simp_all add: STO011_version_zero_def finding_defs)

definition STO012_invalid_version :: "string \<Rightarrow> storage_schema \<Rightarrow> finding" where
  "STO012_invalid_version side s = error ''STO012''
     ''Storage schema contract version is invalid''
     (''The '' @ side @ '' storage schema uses `'' @ ss_contract_version s
       @ ''` as its contract version.'')
     ''Use the exact semantic version from the artifact `binver` metadata.''"

lemma STO012_invalid_version_fields [finding_simps]:
  "f_severity (STO012_invalid_version side s) = Error" "f_code (STO012_invalid_version side s) = ''STO012''"
  by (simp_all add: STO012_invalid_version_def finding_defs)

definition STO007_version_mismatch :: "string \<Rightarrow> storage_schema \<Rightarrow> string \<Rightarrow> finding" where
  "STO007_version_mismatch side s artifact_version = error ''STO007''
     ''Storage manifest version does not match WASM''
     (''The '' @ side @ '' manifest declares contract version `'' @ ss_contract_version s
       @ ''`, but its WASM `binver` is `'' @ artifact_version @ ''`.'')
     ''Generate and commit the storage manifest from the same source revision and build as the reviewed WASM.''"

lemma STO007_version_mismatch_fields [finding_simps]:
  "f_severity (STO007_version_mismatch side s artifact_version) = Error" "f_code (STO007_version_mismatch side s artifact_version) = ''STO007''"
  by (simp_all add: STO007_version_mismatch_def finding_defs)

definition STO008_duplicate_key :: "string \<Rightarrow> string \<Rightarrow> u32 \<Rightarrow> finding" where
  "STO008_duplicate_key side key count = error ''STO008''
     ''Storage manifest contains duplicate keys''
     (''The '' @ side @ '' manifest declares storage key `'' @ key @ ''` '' @ show_u32 count
       @ '' times, making comparison ambiguous.'')
     ''Keep exactly one declaration for each logical storage key.''"

lemma STO008_duplicate_key_fields [finding_simps]:
  "f_severity (STO008_duplicate_key side key count) = Error" "f_code (STO008_duplicate_key side key count) = ''STO008''"
  by (simp_all add: STO008_duplicate_key_def finding_defs)

definition STO013_strategy :: "storage_entry \<Rightarrow> finding" where
  "STO013_strategy entry = error ''STO013''
     ''Migration strategy is invalid''
     (''Storage key `'' @ se_key entry @ ''` has an empty, oversized, or invalid migration strategy.'')
     ''Use a short reviewed strategy name without control characters.''"

lemma STO013_strategy_fields [finding_simps]:
  "f_severity (STO013_strategy entry) = Error" "f_code (STO013_strategy entry) = ''STO013''"
  by (simp_all add: STO013_strategy_def finding_defs)

definition STO014_no_entrypoint :: "storage_entry \<Rightarrow> finding" where
  "STO014_no_entrypoint entry = error ''STO014''
     ''Migration entrypoint is not declared''
     (''Storage key `'' @ se_key entry @ ''` has migration data without an entrypoint.'')
     ''Name the exported idempotent migration function in the storage declaration.''"

lemma STO014_no_entrypoint_fields [finding_simps]:
  "f_severity (STO014_no_entrypoint entry) = Error" "f_code (STO014_no_entrypoint entry) = ''STO014''"
  by (simp_all add: STO014_no_entrypoint_def finding_defs)

definition STO009_entrypoint_missing :: "storage_entry \<Rightarrow> string \<Rightarrow> finding" where
  "STO009_entrypoint_missing entry entrypoint = error ''STO009''
     ''Declared migration entrypoint is missing''
     (''Storage key `'' @ se_key entry @ ''` declares migration entrypoint `'' @ entrypoint
       @ ''`, but the target WASM specification does not export it.'')
     ''Export the declared migration function or correct the manifest and rehearse the selected strategy.''"

lemma STO009_entrypoint_missing_fields [finding_simps]:
  "f_severity (STO009_entrypoint_missing entry entrypoint) = Error" "f_code (STO009_entrypoint_missing entry entrypoint) = ''STO009''"
  by (simp_all add: STO009_entrypoint_missing_def finding_defs)

definition count_key :: "storage_entry \<Rightarrow> (string, u32) bmap \<Rightarrow> (string, u32) bmap" where
  "count_key entry counts =
     bm_insert (se_key entry)
       ((case bm_get counts (se_key entry) of None \<Rightarrow> 0 | Some count \<Rightarrow> count) + 1) counts"

definition key_counts :: "storage_entry list \<Rightarrow> (string, u32) bmap" where
  "key_counts entries = fold count_key entries []"

definition check_duplicate :: "string \<Rightarrow> string \<times> u32 \<Rightarrow> finding list \<Rightarrow> finding list" where
  "check_duplicate side item findings =
     (case item of (key, count) \<Rightarrow> push_if (1 < count) (STO008_duplicate_key side key count) findings)"

definition check_manifest_version :: "string \<Rightarrow> artifact \<Rightarrow> storage_schema \<Rightarrow> finding list \<Rightarrow> finding list" where
  "check_manifest_version side a s findings =
     (case art_version a of
        None \<Rightarrow> findings
      | Some artifact_version \<Rightarrow> push_if (artifact_version \<noteq> ss_contract_version s)
          (STO007_version_mismatch side s artifact_version) findings)"

definition check_manifest ::
  "'v core_lib \<Rightarrow> string \<times> artifact \<times> storage_schema \<Rightarrow> finding list \<Rightarrow> finding list" where
  "check_manifest lib item findings =
     (case item of (side, a, s) \<Rightarrow>
        fold (check_duplicate side) (key_counts (ss_entries s))
          (check_manifest_version side a s
            (push_if (semver_parse lib (ss_contract_version s) = None) (STO012_invalid_version side s)
              (push_if (ss_schema_version s = 0) (STO011_version_zero side)
                (push_if (\<not> ss_complete s) (STO010_incomplete side)
                  (push_if (ss_format_version s \<noteq> 1) (STO006_manifest_format side s) findings))))))"

definition check_migration :: "artifact \<Rightarrow> storage_entry \<Rightarrow> finding list \<Rightarrow> finding list" where
  "check_migration t entry findings =
     (case se_migration entry of
        None \<Rightarrow> findings
      | Some mig \<Rightarrow>
          (let findings = push_if (is_blank (mig_strategy mig) \<or> 128 < length (mig_strategy mig)
             \<or> has_control (mig_strategy mig)) (STO013_strategy entry) findings
           in case mig_entrypoint mig of
                None \<Rightarrow> findings @ [STO014_no_entrypoint entry]
              | Some entrypoint \<Rightarrow>
                  push_if (\<not> has_function t entrypoint) (STO009_entrypoint_missing entry entrypoint) findings))"

definition validate_schema_manifests ::
  "'v core_lib \<Rightarrow> artifact \<Rightarrow> artifact \<Rightarrow> storage_schema \<Rightarrow> storage_schema \<Rightarrow> finding list \<Rightarrow> finding list" where
  "validate_schema_manifests lib source t source_schema target_schema findings =
     fold (check_migration t) (ss_entries target_schema)
       (fold (check_manifest lib) [(''source'', source, source_schema), (''target'', t, target_schema)] findings)"

text \<open>Specification of an acceptable manifest and an acceptable migration declaration.\<close>

definition manifest_ok :: "'v core_lib \<Rightarrow> artifact \<Rightarrow> storage_schema \<Rightarrow> bool" where
  "manifest_ok lib a s \<longleftrightarrow>
     ss_format_version s = 1 \<and> ss_complete s \<and> ss_schema_version s \<noteq> 0
     \<and> semver_parse lib (ss_contract_version s) \<noteq> None
     \<and> (\<forall>v. art_version a = Some v \<longrightarrow> v = ss_contract_version s)
     \<and> (\<forall>(key, count)\<in>set (key_counts (ss_entries s)). count \<le> 1)"

definition migration_ok :: "artifact \<Rightarrow> migration \<Rightarrow> bool" where
  "migration_ok t mig \<longleftrightarrow>
     \<not> is_blank (mig_strategy mig) \<and> length (mig_strategy mig) \<le> 128 \<and> \<not> has_control (mig_strategy mig)
     \<and> (\<exists>entrypoint. mig_entrypoint mig = Some entrypoint \<and> has_function t entrypoint)"

definition manifests_ok :: "'v core_lib \<Rightarrow> artifact \<Rightarrow> artifact \<Rightarrow> storage_schema \<Rightarrow> storage_schema \<Rightarrow> bool" where
  "manifests_ok lib source t source_schema target_schema \<longleftrightarrow>
     manifest_ok lib source source_schema \<and> manifest_ok lib t target_schema
     \<and> (\<forall>entry\<in>set (ss_entries target_schema). \<forall>mig. se_migration entry = Some mig \<longrightarrow> migration_ok t mig)"

lemma key_counts_fold:
  "bm_ok m \<Longrightarrow> bm_ok (fold count_key entries m)
     \<and> bm_get (fold count_key entries m) k =
        (if bm_get m k = None \<and> k \<notin> se_key ` set entries then None
         else Some ((case bm_get m k of None \<Rightarrow> 0 | Some c \<Rightarrow> c) + of_nat (count_list (map se_key entries) k)))"
proof (induction entries arbitrary: m)
  case (Cons entry entries)
  have "bm_ok (count_key entry m)" using Cons.prems by (simp add: count_key_def)
  from Cons.IH [OF this] show ?case
    using Cons.prems by (auto simp: count_key_def bm_get_insert split: option.split)
qed (auto split: option.split)

lemma key_counts_ok: "bm_ok (key_counts entries)"
  using key_counts_fold [of "[]" entries] by (simp add: key_counts_def)

lemma key_counts_get:
  "bm_get (key_counts entries) k =
     (if k \<in> se_key ` set entries then Some (of_nat (count_list (map se_key entries) k)) else None)"
  using key_counts_fold [of "[]" entries k] by (simp add: key_counts_def)

lemma count_list_le: "count_list xs x \<le> length xs"
  by (induction xs) auto

lemma distinct_count: "distinct xs \<longleftrightarrow> (\<forall>x. count_list xs x \<le> 1)"
proof (induction xs)
  case (Cons a xs)
  show ?case
  proof
    assume "distinct (a # xs)"
    then show "\<forall>x. count_list (a # xs) x \<le> 1"
      using Cons.IH count_notin [of a xs] by auto
  next
    assume le: "\<forall>x. count_list (a # xs) x \<le> 1"
    have "count_list xs x \<le> 1" for x using spec [OF le, of x] by (simp split: if_splits)
    moreover have "count_list xs a = 0" using spec [OF le, of a] by simp
    ultimately show "distinct (a # xs)" using Cons.IH by (simp add: count_list_0_iff)
  qed
qed simp

text \<open>Below the wrap-around of the counter, no count passes one exactly when the keys are distinct.\<close>

lemma key_counts_distinct:
  assumes "length entries < 2 ^ 32"
  shows "(\<forall>(key, count)\<in>set (key_counts entries). count \<le> 1) \<longleftrightarrow> distinct (map se_key entries)"
proof -
  have small: "count_list (map se_key entries) k < 2 ^ 32" for k
    using count_list_le [of "map se_key entries" k] assms by simp
  have one: "(of_nat (count_list (map se_key entries) k) :: u32) \<le> 1 \<longleftrightarrow> count_list (map se_key entries) k \<le> 1" for k
    using small [of k] by (simp add: word_le_nat_alt unat_of_nat)
  have mem: "(key, count) \<in> set (key_counts entries) \<longleftrightarrow>
      key \<in> se_key ` set entries \<and> count = of_nat (count_list (map se_key entries) key)" for key count
    unfolding bm_get_iff [OF key_counts_ok, symmetric] key_counts_get by auto
  have "(\<forall>(key, count)\<in>set (key_counts entries). count \<le> 1) \<longleftrightarrow>
      (\<forall>key count. (key, count) \<in> set (key_counts entries) \<longrightarrow> count \<le> 1)" by auto
  then have "(\<forall>(key, count)\<in>set (key_counts entries). count \<le> 1) \<longleftrightarrow>
      (\<forall>k\<in>se_key ` set entries. (of_nat (count_list (map se_key entries) k) :: u32) \<le> 1)"
    unfolding mem by blast
  moreover have "count_list (map se_key entries) k \<le> 1" if "k \<notin> se_key ` set entries" for k
    using that by (simp add: count_notin)
  ultimately show ?thesis unfolding distinct_count one by blast
qed

lemma appends_duplicate [appends_intros]: "appends (check_duplicate side item)"
  by (auto simp: appends_def check_duplicate_def push_if_def split: prod.splits)

lemma appends_manifest_version [appends_intros]: "appends (check_manifest_version side a s)"
  by (auto simp: appends_def check_manifest_version_def push_if_def split: option.splits)

lemma appends_manifest [appends_intros]: "appends (check_manifest lib item)"
proof (cases item)
  case (fields side a s)
  show ?thesis
    unfolding check_manifest_def [abs_def] fields prod.case
    by (intro appends_fold_after appends_duplicate appends_comp [OF _ appends_manifest_version]
        appends_push_if_after appends_id)
qed

lemma appends_migration [appends_intros]: "appends (check_migration t entry)"
  by (auto simp: appends_def check_migration_def push_if_def Let_def split: option.splits)

lemma has_error_manifest:
  "has_error (check_manifest lib (side, a, s) findings) \<longleftrightarrow> has_error findings \<or> \<not> manifest_ok lib a s"
proof -
  have dup: "has_error (check_duplicate side item []) \<longleftrightarrow> 1 < snd item" for item
    by (simp add: check_duplicate_def errs_simps finding_simps split: prod.split)
  have ver: "has_error (check_manifest_version side a s fs) \<longleftrightarrow>
      has_error fs \<or> (\<exists>v. art_version a = Some v \<and> v \<noteq> ss_contract_version s)" for fs
    by (simp add: check_manifest_version_def errs_simps finding_simps split: option.split)
  show ?thesis
    by (simp add: check_manifest_def has_error_fold appends_duplicate dup ver errs_simps finding_simps
        manifest_ok_def Ball_def Bex_def split_beta not_le) blast
qed

lemma has_error_migration:
  "has_error (check_migration t entry []) \<longleftrightarrow> (\<exists>mig. se_migration entry = Some mig \<and> \<not> migration_ok t mig)"
  by (auto simp: check_migration_def migration_ok_def errs_simps finding_simps Let_def split: option.splits)

interpretation man: check_contract "validate_schema_manifests lib source t source_schema target_schema"
  "\<not> manifests_ok lib source t source_schema target_schema"
proof (rule check_contractI [OF validate_schema_manifests_def], intro appends_intros)
  show "has_error (fold (check_migration t) (ss_entries target_schema)
       (fold (check_manifest lib) [(''source'', source, source_schema), (''target'', t, target_schema)] []))
     \<longleftrightarrow> \<not> manifests_ok lib source t source_schema target_schema"
    by (auto simp: has_error_fold appends_migration has_error_migration has_error_manifest manifests_ok_def)
qed

section \<open>Comparison of layouts\<close>

fun show_durability :: "durability \<Rightarrow> string" where
  "show_durability Instance = ''Instance''"
| "show_durability Persistent = ''Persistent''"
| "show_durability Temporary = ''Temporary''"

definition STO001_key_removed :: "string \<Rightarrow> finding" where
  "STO001_key_removed key = error ''STO001''
     ''Storage key removed without a retirement plan''
     (''Storage key `'' @ key @ ''` is absent from the target schema.'')
     ''Keep the key readable through the migration window or declare and test a versioned retirement strategy.''"

lemma STO001_key_removed_fields [finding_simps]:
  "f_severity (STO001_key_removed key) = Error" "f_code (STO001_key_removed key) = ''STO001''"
  by (simp_all add: STO001_key_removed_def finding_defs)

definition STO002_migration_declared :: "string \<Rightarrow> storage_entry \<Rightarrow> storage_entry \<Rightarrow> migration \<Rightarrow> finding" where
  "STO002_migration_declared key old new mig = warning ''STO002''
     ''Storage layout change requires migration''
     (''Storage key `'' @ key @ ''` changes from `'' @ show_durability (se_durability old) @ ''/''
       @ se_value_type old @ ''` to `'' @ show_durability (se_durability new) @ ''/'' @ se_value_type new
       @ ''` and declares `'' @ mig_strategy mig @ ''` migration.'')
     ''Exercise the migration against a representative pre-upgrade ledger snapshot and verify idempotency.''"

lemma STO002_migration_declared_fields [finding_simps]:
  "f_severity (STO002_migration_declared key old new mig) = Warning" "f_code (STO002_migration_declared key old new mig) = ''STO002''"
  by (simp_all add: STO002_migration_declared_def finding_defs)

definition STO003_no_migration :: "string \<Rightarrow> storage_entry \<Rightarrow> storage_entry \<Rightarrow> finding" where
  "STO003_no_migration key old new = error ''STO003''
     ''Storage layout changes without migration''
     (''Storage key `'' @ key @ ''` changes from `'' @ show_durability (se_durability old) @ ''/''
       @ se_value_type old @ ''` to `'' @ show_durability (se_durability new) @ ''/'' @ se_value_type new
       @ ''` with no migration declaration.'')
     ''Declare an eager, lazy, or versioned migration and test it before generating a signer review plan.''"

lemma STO003_no_migration_fields [finding_simps]:
  "f_severity (STO003_no_migration key old new) = Error" "f_code (STO003_no_migration key old new) = ''STO003''"
  by (simp_all add: STO003_no_migration_def finding_defs)

definition STO005_version_not_incremented :: "storage_schema \<Rightarrow> storage_schema \<Rightarrow> finding" where
  "STO005_version_not_incremented source t = error ''STO005''
     ''Schema version was not incremented''
     (''Storage changed but target schema version '' @ show_u32 (ss_schema_version t)
       @ '' is not greater than source schema version '' @ show_u32 (ss_schema_version source) @ ''.'')
     ''Increment `schemaVersion` and guard migration execution with the on-chain schema version.''"

lemma STO005_version_not_incremented_fields [finding_simps]:
  "f_severity (STO005_version_not_incremented source t) = Error" "f_code (STO005_version_not_incremented source t) = ''STO005''"
  by (simp_all add: STO005_version_not_incremented_def finding_defs)

definition layout_differs :: "storage_entry \<Rightarrow> storage_entry \<Rightarrow> bool" where
  "layout_differs old new \<longleftrightarrow> se_durability old \<noteq> se_durability new \<or> se_value_type old \<noteq> se_value_type new"

definition entry_map :: "storage_schema \<Rightarrow> (string, storage_entry) bmap" where
  "entry_map s = bm_of_list (map (\<lambda>e. (se_key e, e)) (ss_entries s))"

definition compare_storage_entry ::
  "(string, storage_entry) bmap \<Rightarrow> string \<times> storage_entry \<Rightarrow> bool \<times> finding list \<Rightarrow> bool \<times> finding list" where
  "compare_storage_entry new item st =
     (case (item, st) of ((key, old_entry), (layout_changed, findings)) \<Rightarrow>
        case bm_get new key of
          None \<Rightarrow> (True, findings @ [STO001_key_removed key])
        | Some new_entry \<Rightarrow>
            if layout_differs old_entry new_entry then
              (True, case se_migration new_entry of
                 Some mig \<Rightarrow> findings @ [STO002_migration_declared key old_entry new_entry mig]
               | None \<Rightarrow> findings @ [STO003_no_migration key old_entry new_entry])
            else (layout_changed, findings))"

definition compare_storage_schemas :: "storage_schema \<Rightarrow> storage_schema \<Rightarrow> finding list \<Rightarrow> finding list" where
  "compare_storage_schemas source t findings =
     (case fold (compare_storage_entry (entry_map t)) (entry_map source) (False, findings) of
        (layout_changed, findings) \<Rightarrow>
          push_if (layout_changed \<and> ss_schema_version t \<le> ss_schema_version source)
            (STO005_version_not_incremented source t) findings)"

text \<open>Specification: how an entry of the source may be carried to the target.\<close>

definition entry_kept :: "storage_schema \<Rightarrow> storage_schema \<Rightarrow> string \<times> storage_entry \<Rightarrow> bool" where
  "entry_kept source t item \<longleftrightarrow>
     (\<exists>new. bm_get (entry_map t) (fst item) = Some new
        \<and> (\<not> layout_differs (snd item) new
           \<or> se_migration new \<noteq> None \<and> ss_schema_version source < ss_schema_version t))"

definition storage_compatible :: "storage_schema \<Rightarrow> storage_schema \<Rightarrow> bool" where
  "storage_compatible source t \<longleftrightarrow> (\<forall>item\<in>set (entry_map source). entry_kept source t item)"

definition entry_changes :: "(string, storage_entry) bmap \<Rightarrow> string \<times> storage_entry \<Rightarrow> bool" where
  "entry_changes new item \<longleftrightarrow>
     (case bm_get new (fst item) of None \<Rightarrow> True | Some new_entry \<Rightarrow> layout_differs (snd item) new_entry)"

definition entry_findings :: "(string, storage_entry) bmap \<Rightarrow> string \<times> storage_entry \<Rightarrow> finding list" where
  "entry_findings new item = snd (compare_storage_entry new item (False, []))"

lemma compare_storage_entry_split:
  "compare_storage_entry new item (c, fs) = (c \<or> entry_changes new item, fs @ entry_findings new item)"
  by (auto simp: compare_storage_entry_def entry_changes_def entry_findings_def split: prod.split option.split)

lemma compare_storage_fold:
  "fold (compare_storage_entry new) items (c, fs) =
     (c \<or> list_ex (entry_changes new) items, fs @ concat (map (entry_findings new) items))"
  by (induction items arbitrary: c fs) (simp_all add: compare_storage_entry_split)

lemma has_error_entry_findings:
  "has_error (entry_findings new (key, old)) \<longleftrightarrow>
     (case bm_get new key of None \<Rightarrow> True | Some e \<Rightarrow> layout_differs old e \<and> se_migration e = None)"
  by (auto simp: entry_findings_def compare_storage_entry_def finding_simps split: option.split)

lemma has_error_concat: "has_error (concat fss) \<longleftrightarrow> (\<exists>fs\<in>set fss. has_error fs)"
  by (auto simp: has_error_iff)

lemma entry_kept_iff:
  "\<not> entry_kept source t item \<longleftrightarrow>
     has_error (entry_findings (entry_map t) item)
     \<or> entry_changes (entry_map t) item \<and> ss_schema_version t \<le> ss_schema_version source"
  by (cases item) (auto simp: entry_kept_def entry_changes_def has_error_entry_findings not_le split: option.splits)

interpretation sto: check_contract "compare_storage_schemas source t" "\<not> storage_compatible source t"
proof (rule check_contractI [where body = "\<lambda>findings.
      push_if (list_ex (entry_changes (entry_map t)) (entry_map source) \<and> ss_schema_version t \<le> ss_schema_version source)
        (STO005_version_not_incremented source t)
        (findings @ concat (map (entry_findings (entry_map t)) (entry_map source)))"])
  show "compare_storage_schemas source t findings = push_if
      (list_ex (entry_changes (entry_map t)) (entry_map source) \<and> ss_schema_version t \<le> ss_schema_version source)
      (STO005_version_not_incremented source t)
      (findings @ concat (map (entry_findings (entry_map t)) (entry_map source)))" for findings
    by (simp add: compare_storage_schemas_def compare_storage_fold)
  show "has_error (push_if
      (list_ex (entry_changes (entry_map t)) (entry_map source) \<and> ss_schema_version t \<le> ss_schema_version source)
      (STO005_version_not_incremented source t)
      ([] @ concat (map (entry_findings (entry_map t)) (entry_map source)))) \<longleftrightarrow> \<not> storage_compatible source t"
    by (auto simp: errs_simps finding_simps has_error_concat list_ex_iff storage_compatible_def)
      (use entry_kept_iff in blast)+
qed (simp add: appends_def push_if_def)

section \<open>The storage rule of the validation\<close>

definition STO000_required :: "finding" where
  "STO000_required = error ''STO000''
     ''Storage compatibility was not checked''
     ''Soroban WASM does not contain a complete description of all storage keys and value layouts.''
     ''Commit complete source and target storage schemas and pass both files.''"

lemma STO000_required_fields [finding_simps]:
  "f_severity (STO000_required) = Error" "f_code (STO000_required) = ''STO000''"
  by (simp_all add: STO000_required_def finding_defs)

definition STO000_optional :: "finding" where
  "STO000_optional = warning ''STO000''
     ''Storage compatibility was not checked''
     ''Soroban WASM does not contain a complete description of all storage keys and value layouts.''
     ''Commit complete source and target storage schemas and pass both files.''"

lemma STO000_optional_fields [finding_simps]:
  "f_severity (STO000_optional) = Warning" "f_code (STO000_optional) = ''STO000''"
  by (simp_all add: STO000_optional_def finding_defs)

definition STO004_incomplete_pair :: "finding" where
  "STO004_incomplete_pair = error ''STO004''
     ''Storage schema pair is incomplete''
     ''Only one side of the upgrade supplied a storage schema, so compatibility cannot be evaluated.''
     ''Supply both `--from-schema` and `--to-schema`.''"

lemma STO004_incomplete_pair_fields [finding_simps]:
  "f_severity (STO004_incomplete_pair) = Error" "f_code (STO004_incomplete_pair) = ''STO004''"
  by (simp_all add: STO004_incomplete_pair_def finding_defs)

definition check_storage ::
  "'v core_lib \<Rightarrow> artifact \<Rightarrow> artifact \<Rightarrow> policy \<Rightarrow> storage_schema option \<Rightarrow> storage_schema option
     \<Rightarrow> finding list \<Rightarrow> finding list" where
  "check_storage lib source t p source_schema target_schema findings =
     (case (source_schema, target_schema) of
        (Some old, Some new) \<Rightarrow>
          compare_storage_schemas old new (validate_schema_manifests lib source t old new findings)
      | (None, None) \<Rightarrow>
          findings @ [if pol_require_storage_schema p then STO000_required else STO000_optional]
      | _ \<Rightarrow> findings @ [STO004_incomplete_pair])"

definition storage_ok ::
  "'v core_lib \<Rightarrow> artifact \<Rightarrow> artifact \<Rightarrow> policy \<Rightarrow> storage_schema option \<Rightarrow> storage_schema option \<Rightarrow> bool" where
  "storage_ok lib source t p source_schema target_schema \<longleftrightarrow>
     (case (source_schema, target_schema) of
        (Some old, Some new) \<Rightarrow> manifests_ok lib source t old new \<and> storage_compatible old new
      | (None, None) \<Rightarrow> \<not> pol_require_storage_schema p
      | _ \<Rightarrow> False)"

interpretation stc: check_contract "check_storage lib source t p source_schema target_schema"
  "\<not> storage_ok lib source t p source_schema target_schema"
proof
  have pair: "appends (\<lambda>fs. compare_storage_schemas old new (validate_schema_manifests lib source t old new fs))"
    for old new by (rule appends_comp [OF man.only_appends sto.only_appends])
  show "appends (check_storage lib source t p source_schema target_schema)"
    by (cases source_schema; cases target_schema; simp add: check_storage_def [abs_def] appends_push pair)
  show "has_error (check_storage lib source t p source_schema target_schema []) \<longleftrightarrow>
      \<not> storage_ok lib source t p source_schema target_schema"
    by (simp add: check_storage_def storage_ok_def errs_simps finding_simps split: option.split)
qed

end
