(* ===== verification/Checks_History.thy ===== *)
theory Checks_History
  imports Checks_Storage
begin

text \<open>
  The cumulative history of struct fields: \<open>validate_schema_history\<close> in
  \<open>crates/soroban-upgrades-core/src/lib.rs\<close> and the rule of \<open>validate_with_history\<close> for a
  missing history.

  \<open>history_ok\<close> is the specification: a well-formed history that records every field of both
  artifacts with its type, never reuses a reserved or retired name, and retires what is removed.
\<close>

section \<open>Findings\<close>

definition HIS000_required :: "finding" where
  "HIS000_required = error ''HIS000''
     ''Historical field lifecycle was not checked''
     ''A two-artifact comparison cannot detect reuse of a field name from an older release.''
     ''Commit a complete schema-history manifest and pass `--schema-history`.''"

lemma HIS000_required_fields [finding_simps]:
  "f_severity (HIS000_required) = Error" "f_code (HIS000_required) = ''HIS000''"
  by (simp_all add: HIS000_required_def finding_defs)

definition HIS000_optional :: "finding" where
  "HIS000_optional = warning ''HIS000''
     ''Historical field lifecycle was not checked''
     ''A two-artifact comparison cannot detect reuse of a field name that existed in an older release or prove that archived state no longer contains retired layouts.''
     ''Commit a complete schema-history manifest and pass `--schema-history`.''"

lemma HIS000_optional_fields [finding_simps]:
  "f_severity (HIS000_optional) = Warning" "f_code (HIS000_optional) = ''HIS000''"
  by (simp_all add: HIS000_optional_def finding_defs)

definition HIS001_format :: "schema_history \<Rightarrow> finding" where
  "HIS001_format h = error ''HIS001''
     ''Unsupported schema-history format''
     (''The history manifest uses format version '' @ show_u32 (sh_format_version h)
       @ ''. This build supports version 1.'')
     ''Regenerate the history manifest with a supported format before relying on it.''"

lemma HIS001_format_fields [finding_simps]:
  "f_severity (HIS001_format h) = Error" "f_code (HIS001_format h) = ''HIS001''"
  by (simp_all add: HIS001_format_def finding_defs)

definition HIS012_incomplete :: "finding" where
  "HIS012_incomplete = error ''HIS012''
     ''Schema history is not marked complete''
     ''The history does not declare complete coverage of all known releases and fields.''
     ''Set `complete` to true only after you reconstruct and review the full release history.''"

lemma HIS012_incomplete_fields [finding_simps]:
  "f_severity (HIS012_incomplete) = Error" "f_code (HIS012_incomplete) = ''HIS012''"
  by (simp_all add: HIS012_incomplete_def finding_defs)

definition HIS013_invalid_version :: "string \<Rightarrow> string \<Rightarrow> finding" where
  "HIS013_invalid_version ty fd = error ''HIS013''
     ''History contains an invalid semantic version''
     (''History for `'' @ ty @ ''.'' @ fd @ ''` has an invalid `firstSeen` or `retiredIn` value.'')
     ''Use exact semantic versions from released `binver` metadata.''"

lemma HIS013_invalid_version_fields [finding_simps]:
  "f_severity (HIS013_invalid_version ty fd) = Error" "f_code (HIS013_invalid_version ty fd) = ''HIS013''"
  by (simp_all add: HIS013_invalid_version_def finding_defs)

definition HIS014_retired_too_early :: "string \<Rightarrow> string \<Rightarrow> string \<Rightarrow> string \<Rightarrow> finding" where
  "HIS014_retired_too_early ty fd retired first_seen = error ''HIS014''
     ''Field retirement precedes its first release''
     (''History retires `'' @ ty @ ''.'' @ fd @ ''` in '' @ retired @ '', before its first release ''
       @ first_seen @ ''.'')
     ''Correct the release versions from attested historical artifacts.''"

lemma HIS014_retired_too_early_fields [finding_simps]:
  "f_severity (HIS014_retired_too_early ty fd retired first_seen) = Error" "f_code (HIS014_retired_too_early ty fd retired first_seen) = ''HIS014''"
  by (simp_all add: HIS014_retired_too_early_def finding_defs)

definition HIS015_not_reserved :: "string \<Rightarrow> string \<Rightarrow> finding" where
  "HIS015_not_reserved ty fd = error ''HIS015''
     ''Retired field name is not reserved''
     (''History retires `'' @ ty @ ''.'' @ fd @ ''` but does not reserve the field name.'')
     ''Add every retired field name to `reservedFields` and never reuse it.''"

lemma HIS015_not_reserved_fields [finding_simps]:
  "f_severity (HIS015_not_reserved ty fd) = Error" "f_code (HIS015_not_reserved ty fd) = ''HIS015''"
  by (simp_all add: HIS015_not_reserved_def finding_defs)

definition HIS016_no_retirement :: "string \<Rightarrow> string \<Rightarrow> finding" where
  "HIS016_no_retirement ty fd = error ''HIS016''
     ''Reserved field has no retirement record''
     (''History reserves `'' @ ty @ ''.'' @ fd @ ''` without a matching retired field record.'')
     ''Record the historical type and retirement release for each reserved field name.''"

lemma HIS016_no_retirement_fields [finding_simps]:
  "f_severity (HIS016_no_retirement ty fd) = Error" "f_code (HIS016_no_retirement ty fd) = ''HIS016''"
  by (simp_all add: HIS016_no_retirement_def finding_defs)

definition HIS002_baseline :: "string \<Rightarrow> string \<Rightarrow> string \<Rightarrow> finding" where
  "HIS002_baseline source_version ty fd = error ''HIS002''
     ''Historical baseline is incomplete''
     (''Source '' @ source_version @ '' contains `'' @ ty @ ''.'' @ fd
       @ ''`, but the cumulative history has no record of it.'')
     ''Bootstrap the manifest from all known releases and preserve every historical field before approving an upgrade.''"

lemma HIS002_baseline_fields [finding_simps]:
  "f_severity (HIS002_baseline source_version ty fd) = Error" "f_code (HIS002_baseline source_version ty fd) = ''HIS002''"
  by (simp_all add: HIS002_baseline_def finding_defs)

definition HIS003_source_type :: "string \<Rightarrow> string \<Rightarrow> string \<Rightarrow> string \<Rightarrow> string \<Rightarrow> finding" where
  "HIS003_source_type ty fd known source_version actual = error ''HIS003''
     ''Historical field type does not match the source artifact''
     (''History records `'' @ ty @ ''.'' @ fd @ ''` as '' @ known @ '', but source '' @ source_version
       @ '' contains '' @ actual @ ''.'')
     ''Correct the history from attested release artifacts. Do not rewrite history to fit the candidate.''"

lemma HIS003_source_type_fields [finding_simps]:
  "f_severity (HIS003_source_type ty fd known source_version actual) = Error" "f_code (HIS003_source_type ty fd known source_version actual) = ''HIS003''"
  by (simp_all add: HIS003_source_type_def finding_defs)

definition HIS004_type_missing :: "string \<Rightarrow> string \<Rightarrow> finding" where
  "HIS004_type_missing target_version ty = error ''HIS004''
     ''Candidate type is missing from schema history''
     (''Target '' @ target_version @ '' contains struct `'' @ ty
       @ ''`, but the cumulative history has no record for the type.'')
     ''Add the type and every field with accurate `firstSeen` values in the same reviewed release change.''"

lemma HIS004_type_missing_fields [finding_simps]:
  "f_severity (HIS004_type_missing target_version ty) = Error" "f_code (HIS004_type_missing target_version ty) = ''HIS004''"
  by (simp_all add: HIS004_type_missing_def finding_defs)

definition HIS005_reserved_reused :: "string \<Rightarrow> string \<Rightarrow> string \<Rightarrow> finding" where
  "HIS005_reserved_reused target_version ty fd = error ''HIS005''
     ''Reserved field name was reused''
     (''Target '' @ target_version @ '' reintroduces reserved field `'' @ ty @ ''.'' @ fd
       @ ''`, creating a historical type-confusion risk.'')
     ''Choose a new field name and keep the historical name permanently reserved.''"

lemma HIS005_reserved_reused_fields [finding_simps]:
  "f_severity (HIS005_reserved_reused target_version ty fd) = Error" "f_code (HIS005_reserved_reused target_version ty fd) = ''HIS005''"
  by (simp_all add: HIS005_reserved_reused_def finding_defs)

definition HIS006_field_missing :: "string \<Rightarrow> string \<Rightarrow> string \<Rightarrow> finding" where
  "HIS006_field_missing target_version ty fd = error ''HIS006''
     ''Candidate field is missing from schema history''
     (''Target '' @ target_version @ '' contains `'' @ ty @ ''.'' @ fd
       @ ''`, but the cumulative history was not updated.'')
     ''Record the field type and set `firstSeen` to the candidate contract version.''"

lemma HIS006_field_missing_fields [finding_simps]:
  "f_severity (HIS006_field_missing target_version ty fd) = Error" "f_code (HIS006_field_missing target_version ty fd) = ''HIS006''"
  by (simp_all add: HIS006_field_missing_def finding_defs)

definition HIS007_retired_reintroduced :: "string \<Rightarrow> string \<Rightarrow> string \<Rightarrow> string \<Rightarrow> finding" where
  "HIS007_retired_reintroduced target_version ty fd retired = error ''HIS007''
     ''Retired field was reintroduced''
     (''Target '' @ target_version @ '' contains `'' @ ty @ ''.'' @ fd
       @ ''`, which history marks retired in '' @ retired @ ''.'')
     ''Use a new field name. Never reinterpret a retired key across stored or cross-contract maps.''"

lemma HIS007_retired_reintroduced_fields [finding_simps]:
  "f_severity (HIS007_retired_reintroduced target_version ty fd retired) = Error" "f_code (HIS007_retired_reintroduced target_version ty fd retired) = ''HIS007''"
  by (simp_all add: HIS007_retired_reintroduced_def finding_defs)

definition HIS008_type_changed :: "string \<Rightarrow> string \<Rightarrow> string \<Rightarrow> string \<Rightarrow> string \<Rightarrow> finding" where
  "HIS008_type_changed ty fd known target_version actual = error ''HIS008''
     ''Historical field type changed''
     (''History fixes `'' @ ty @ ''.'' @ fd @ ''` as '' @ known @ '', but target '' @ target_version
       @ '' contains '' @ actual @ ''.'')
     ''Add a new field and explicit migration rather than changing the meaning or representation of a historical field name.''"

lemma HIS008_type_changed_fields [finding_simps]:
  "f_severity (HIS008_type_changed ty fd known target_version actual) = Error" "f_code (HIS008_type_changed ty fd known target_version actual) = ''HIS008''"
  by (simp_all add: HIS008_type_changed_def finding_defs)

definition HIS009_first_seen :: "string \<Rightarrow> string \<Rightarrow> string \<Rightarrow> string \<Rightarrow> finding" where
  "HIS009_first_seen ty fd target_version first_seen = error ''HIS009''
     ''New field has an incorrect first-seen release''
     (''`'' @ ty @ ''.'' @ fd @ ''` first appears in target '' @ target_version
       @ '', but history declares `'' @ first_seen @ ''`.'')
     ''Set `firstSeen` to the exact candidate `binver` and review the history change with the WASM.''"

lemma HIS009_first_seen_fields [finding_simps]:
  "f_severity (HIS009_first_seen ty fd target_version first_seen) = Error" "f_code (HIS009_first_seen ty fd target_version first_seen) = ''HIS009''"
  by (simp_all add: HIS009_first_seen_def finding_defs)

definition HIS010_not_retired :: "string \<Rightarrow> string \<Rightarrow> string \<Rightarrow> finding" where
  "HIS010_not_retired target_version ty fd = error ''HIS010''
     ''Removed field is not retired and reserved''
     (''Target '' @ target_version @ '' removes `'' @ ty @ ''.'' @ fd
       @ ''` without recording retirement in this release and permanently reserving the name.'')
     ''Keep the field, or record `retiredIn` and add it to `reservedFields`. Prove all migration and reader compatibility assumptions separately.''"

lemma HIS010_not_retired_fields [finding_simps]:
  "f_severity (HIS010_not_retired target_version ty fd) = Error" "f_code (HIS010_not_retired target_version ty fd) = ''HIS010''"
  by (simp_all add: HIS010_not_retired_def finding_defs)

definition HIS011_retired :: "string \<Rightarrow> string \<Rightarrow> string \<Rightarrow> finding" where
  "HIS011_retired ty fd target_version = warning ''HIS011''
     ''Field removal is explicitly retired but remains migration-sensitive''
     (''`'' @ ty @ ''.'' @ fd @ ''` is retired and reserved in '' @ target_version
       @ ''. Archived records or older contracts can still carry it.'')
     ''Rehearse archived-state reads and dependency rollout, and never reuse the field name.''"

lemma HIS011_retired_fields [finding_simps]:
  "f_severity (HIS011_retired ty fd target_version) = Warning" "f_code (HIS011_retired ty fd target_version) = ''HIS011''"
  by (simp_all add: HIS011_retired_def finding_defs)

section \<open>The history itself\<close>

definition display_json :: "'v core_lib \<Rightarrow> json \<Rightarrow> string" where
  "display_json lib v = (case json_to_string lib v of Some s \<Rightarrow> s | None \<Rightarrow> ''<invalid type>'')"

text \<open>
  \<open>retired_in.as_deref().map(Version::parse).transpose()\<close>: None stands for the error, Some None
  for a field that is not retired.
\<close>

definition parse_retired :: "'v core_lib \<Rightarrow> string option \<Rightarrow> 'v option option" where
  "parse_retired lib retired =
     (case retired of None \<Rightarrow> Some None
      | Some text \<Rightarrow> (case semver_parse lib text of None \<Rightarrow> None | Some v \<Rightarrow> Some (Some v)))"

definition check_field_record ::
  "'v core_lib \<Rightarrow> string \<Rightarrow> type_history \<Rightarrow> string \<times> historical_field \<Rightarrow> finding list \<Rightarrow> finding list" where
  "check_field_record lib ty th item findings =
     (case item of (fd, record) \<Rightarrow>
        case (semver_parse lib (hf_first_seen record), parse_retired lib (hf_retired_in record)) of
          (Some first_seen, Some (Some retired_in)) \<Rightarrow>
            push_if (\<not> bs_member (th_reserved_fields th) fd) (HIS015_not_reserved ty fd)
              (push_if (semver_less lib retired_in first_seen)
                (HIS014_retired_too_early ty fd (semver_show lib retired_in) (semver_show lib first_seen)) findings)
        | (Some first_seen, Some None) \<Rightarrow> findings
        | _ \<Rightarrow> findings @ [HIS013_invalid_version ty fd])"

definition check_reserved_field ::
  "string \<Rightarrow> type_history \<Rightarrow> string \<Rightarrow> finding list \<Rightarrow> finding list" where
  "check_reserved_field ty th fd findings =
     push_if (case bm_get (th_fields th) fd of None \<Rightarrow> True | Some record \<Rightarrow> hf_retired_in record = None)
       (HIS016_no_retirement ty fd) findings"

definition check_type_history ::
  "'v core_lib \<Rightarrow> string \<times> type_history \<Rightarrow> finding list \<Rightarrow> finding list" where
  "check_type_history lib item findings =
     (case item of (ty, th) \<Rightarrow>
        fold (check_reserved_field ty th) (th_reserved_fields th)
          (fold (check_field_record lib ty th) (th_fields th) findings))"

section \<open>The history against the artifacts\<close>

definition recorded_field :: "schema_history \<Rightarrow> string \<Rightarrow> string \<Rightarrow> historical_field option" where
  "recorded_field h ty fd =
     option_bind (bm_get (sh_types h) ty) (\<lambda>th. bm_get (th_fields th) fd)"

definition check_source_field ::
  "'v core_lib \<Rightarrow> schema_history \<Rightarrow> string \<Rightarrow> string \<Rightarrow> string \<times> json \<Rightarrow> finding list \<Rightarrow> finding list" where
  "check_source_field lib h source_version ty item findings =
     (case item of (fd, field_type) \<Rightarrow>
        case recorded_field h ty fd of
          None \<Rightarrow> findings @ [HIS002_baseline source_version ty fd]
        | Some record \<Rightarrow>
            push_if (hf_value_type record \<noteq> field_type)
              (HIS003_source_type ty fd (display_json lib (hf_value_type record)) source_version
                (display_json lib field_type)) findings)"

definition check_source_type ::
  "'v core_lib \<Rightarrow> schema_history \<Rightarrow> string \<Rightarrow> string \<times> (string, json) bmap \<Rightarrow> finding list \<Rightarrow> finding list" where
  "check_source_type lib h source_version item findings =
     (case item of (ty, flds) \<Rightarrow> fold (check_source_field lib h source_version ty) flds findings)"

definition in_source :: "(string, (string, json) bmap) bmap \<Rightarrow> string \<Rightarrow> string \<Rightarrow> bool" where
  "in_source types ty fd = (case bm_get types ty of None \<Rightarrow> False | Some flds \<Rightarrow> bm_contains flds fd)"

definition check_target_field ::
  "'v core_lib \<Rightarrow> (string, (string, json) bmap) bmap \<Rightarrow> string \<Rightarrow> string \<Rightarrow> type_history \<Rightarrow> string \<times> json
     \<Rightarrow> finding list \<Rightarrow> finding list" where
  "check_target_field lib source_types target_version ty th item findings =
     (case item of (fd, field_type) \<Rightarrow>
        let findings = push_if (bs_member (th_reserved_fields th) fd)
          (HIS005_reserved_reused target_version ty fd) findings
        in case bm_get (th_fields th) fd of
             None \<Rightarrow> findings @ [HIS006_field_missing target_version ty fd]
           | Some record \<Rightarrow>
               push_if (\<not> in_source source_types ty fd \<and> hf_first_seen record \<noteq> target_version)
                 (HIS009_first_seen ty fd target_version (hf_first_seen record))
                 (push_if (hf_value_type record \<noteq> field_type)
                   (HIS008_type_changed ty fd (display_json lib (hf_value_type record)) target_version
                     (display_json lib field_type))
                   (push_if (hf_retired_in record \<noteq> None)
                     (HIS007_retired_reintroduced target_version ty fd
                       (case hf_retired_in record of Some r \<Rightarrow> r | None \<Rightarrow> ''an earlier release'')) findings)))"

definition check_target_type ::
  "'v core_lib \<Rightarrow> schema_history \<Rightarrow> (string, (string, json) bmap) bmap \<Rightarrow> string
     \<Rightarrow> string \<times> (string, json) bmap \<Rightarrow> finding list \<Rightarrow> finding list" where
  "check_target_type lib h source_types target_version item findings =
     (case item of (ty, flds) \<Rightarrow>
        case bm_get (sh_types h) ty of
          None \<Rightarrow> findings @ [HIS004_type_missing target_version ty]
        | Some th \<Rightarrow> fold (check_target_field lib source_types target_version ty th) flds findings)"

definition check_removed_field ::
  "schema_history \<Rightarrow> (string, (string, json) bmap) bmap \<Rightarrow> string \<Rightarrow> string \<Rightarrow> string \<times> json
     \<Rightarrow> finding list \<Rightarrow> finding list" where
  "check_removed_field h target_types target_version ty item findings =
     (case item of (fd, _) \<Rightarrow>
        if in_source target_types ty fd then findings
        else
          (let reserved = (case bm_get (sh_types h) ty of None \<Rightarrow> False
             | Some th \<Rightarrow> bs_member (th_reserved_fields th) fd)
           in if (case recorded_field h ty fd of None \<Rightarrow> True
                  | Some record \<Rightarrow> hf_retired_in record \<noteq> Some target_version) \<or> \<not> reserved
              then findings @ [HIS010_not_retired target_version ty fd]
              else findings @ [HIS011_retired ty fd target_version]))"

definition check_removed_fields ::
  "schema_history \<Rightarrow> (string, (string, json) bmap) bmap \<Rightarrow> string \<Rightarrow> string \<times> (string, json) bmap
     \<Rightarrow> finding list \<Rightarrow> finding list" where
  "check_removed_fields h target_types target_version item findings =
     (case item of (ty, flds) \<Rightarrow> fold (check_removed_field h target_types target_version ty) flds findings)"

definition version_or_unknown :: "artifact \<Rightarrow> string" where
  "version_or_unknown a = (case art_version a of None \<Rightarrow> ''unknown'' | Some v \<Rightarrow> v)"

definition validate_schema_history ::
  "'v core_lib \<Rightarrow> artifact \<Rightarrow> artifact \<Rightarrow> schema_history \<Rightarrow> finding list \<Rightarrow> finding list" where
  "validate_schema_history lib source t h findings =
     (if sh_format_version h \<noteq> 1 then findings @ [HIS001_format h]
      else
        fold (check_removed_fields h (artifact_struct_fields t) (version_or_unknown t)) (artifact_struct_fields source)
          (fold (check_target_type lib h (artifact_struct_fields source) (version_or_unknown t))
              (artifact_struct_fields t)
            (fold (check_source_type lib h (version_or_unknown source)) (artifact_struct_fields source)
              (fold (check_type_history lib) (sh_types h)
                (push_if (\<not> sh_complete h) HIS012_incomplete findings)))))"

section \<open>Specification\<close>

text \<open>The fields of the structs of an artifact, as triples.\<close>

definition struct_field :: "artifact \<Rightarrow> string \<Rightarrow> string \<Rightarrow> json \<Rightarrow> bool" where
  "struct_field a ty fd t \<longleftrightarrow>
     (\<exists>flds. bm_get (artifact_struct_fields a) ty = Some flds \<and> bm_get flds fd = Some t)"

definition is_struct :: "artifact \<Rightarrow> string \<Rightarrow> bool" where
  "is_struct a ty \<longleftrightarrow> bm_get (artifact_struct_fields a) ty \<noteq> None"

definition reserved_field :: "schema_history \<Rightarrow> string \<Rightarrow> string \<Rightarrow> bool" where
  "reserved_field h ty fd \<longleftrightarrow> (\<exists>th. bm_get (sh_types h) ty = Some th \<and> fd \<in> set (th_reserved_fields th))"

definition record_ok :: "'v core_lib \<Rightarrow> type_history \<Rightarrow> string \<Rightarrow> historical_field \<Rightarrow> bool" where
  "record_ok lib th fd record \<longleftrightarrow>
     (\<exists>first_seen. semver_parse lib (hf_first_seen record) = Some first_seen
        \<and> (\<forall>text. hf_retired_in record = Some text \<longrightarrow>
             (\<exists>retired_in. semver_parse lib text = Some retired_in \<and> \<not> semver_less lib retired_in first_seen
                \<and> fd \<in> set (th_reserved_fields th))))"

definition type_history_ok :: "'v core_lib \<Rightarrow> type_history \<Rightarrow> bool" where
  "type_history_ok lib th \<longleftrightarrow>
     (\<forall>(fd, record)\<in>set (th_fields th). record_ok lib th fd record)
     \<and> (\<forall>fd\<in>set (th_reserved_fields th). \<exists>record. bm_get (th_fields th) fd = Some record \<and> hf_retired_in record \<noteq> None)"

definition target_field_ok :: "artifact \<Rightarrow> artifact \<Rightarrow> schema_history \<Rightarrow> string \<Rightarrow> string \<Rightarrow> json \<Rightarrow> bool" where
  "target_field_ok source t h ty fd v \<longleftrightarrow>
     \<not> reserved_field h ty fd
     \<and> (\<exists>record. recorded_field h ty fd = Some record \<and> hf_retired_in record = None \<and> hf_value_type record = v
          \<and> ((\<exists>v'. struct_field source ty fd v') \<or> hf_first_seen record = version_or_unknown t))"

definition history_ok :: "'v core_lib \<Rightarrow> artifact \<Rightarrow> artifact \<Rightarrow> schema_history \<Rightarrow> bool" where
  "history_ok lib source t h \<longleftrightarrow>
     sh_format_version h = 1 \<and> sh_complete h
     \<and> (\<forall>(ty, th)\<in>set (sh_types h). type_history_ok lib th)
     \<and> (\<forall>ty fd v. struct_field source ty fd v \<longrightarrow>
          (\<exists>record. recorded_field h ty fd = Some record \<and> hf_value_type record = v))
     \<and> (\<forall>ty. is_struct t ty \<longrightarrow> bm_get (sh_types h) ty \<noteq> None)
     \<and> (\<forall>ty fd v. struct_field t ty fd v \<longrightarrow> target_field_ok source t h ty fd v)
     \<and> (\<forall>ty fd v. struct_field source ty fd v \<longrightarrow> (\<nexists>v'. struct_field t ty fd v') \<longrightarrow>
          reserved_field h ty fd
          \<and> (\<exists>record. recorded_field h ty fd = Some record \<and> hf_retired_in record = Some (version_or_unknown t)))"

section \<open>The check decides the specification\<close>

lemma appends_history_steps [appends_intros]:
  "appends (check_field_record lib ty th item)" "appends (check_reserved_field ty th fd)"
  "appends (check_source_field lib h sv ty fitem)" "appends (check_target_field lib st tv ty th fitem)"
  "appends (check_removed_field h tt tv ty fitem)"
  by (auto simp: appends_def check_field_record_def check_reserved_field_def check_source_field_def
      check_target_field_def check_removed_field_def push_if_def Let_def split: prod.splits option.splits)

lemma appends_history_folds [appends_intros]:
  "appends (check_type_history lib item)" "appends (check_source_type lib h sv fitem)"
  "appends (check_target_type lib h st tv fitem)" "appends (check_removed_fields h tt tv fitem)"
proof -
  show "appends (check_type_history lib item)"
    by (cases item) (simp add: check_type_history_def [abs_def] appends_intros)
  show "appends (check_source_type lib h sv fitem)"
    by (cases fitem) (simp add: check_source_type_def [abs_def] appends_intros)
  show "appends (check_removed_fields h tt tv fitem)"
    by (cases fitem) (simp add: check_removed_fields_def [abs_def] appends_intros)
  show "appends (check_target_type lib h st tv fitem)"
    by (cases fitem; cases "bm_get (sh_types h) (fst fitem)")
      (simp_all add: check_target_type_def [abs_def] appends_intros)
qed

lemma fold_bm_get:
  assumes "bm_ok m" and "\<And>x. appends (step x)"
  shows "has_error (fold step m fs) \<longleftrightarrow> has_error fs \<or> (\<exists>k v. bm_get m k = Some v \<and> has_error (step (k, v) []))"
  using bm_get_iff [OF assms(1)] by (auto simp: has_error_fold [OF assms(2)] Bex_def)

lemma struct_fields_of_artifact_ok:
  "bm_ok (artifact_struct_fields a)"
  "bm_get (artifact_struct_fields a) ty = Some flds \<Longrightarrow> bm_ok flds"
proof -
  show "bm_ok (artifact_struct_fields a)" by (simp add: artifact_struct_fields_def)
  assume "bm_get (artifact_struct_fields a) ty = Some flds"
  then have "(ty, flds) \<in> set (concat (map (\<lambda>(name, entry).
       case struct_fields entry of None \<Rightarrow> [] | Some flds \<Rightarrow> [(name, flds)]) (art_user_types a)))"
    by (auto simp: artifact_struct_fields_def bm_get_of_list dest!: map_of_SomeD)
  then show "bm_ok flds" by (auto simp: struct_fields_ok split: option.splits)
qed

lemma has_error_type_history:
  "has_error (check_type_history lib (ty, th) []) \<longleftrightarrow> \<not> type_history_ok lib th"
proof -
  have rec: "has_error (check_field_record lib ty th item []) \<longleftrightarrow> \<not> record_ok lib th (fst item) (snd item)" for item
    by (cases item) (auto simp: check_field_record_def record_ok_def parse_retired_def bs_member_def errs_simps finding_simps
        split: option.splits)
  have res: "has_error (check_reserved_field ty th fd []) \<longleftrightarrow>
      \<not> (\<exists>record. bm_get (th_fields th) fd = Some record \<and> hf_retired_in record \<noteq> None)" for fd
    by (auto simp: check_reserved_field_def errs_simps finding_simps split: option.splits)
  show ?thesis
    by (auto simp: check_type_history_def has_error_fold appends_history_steps rec res type_history_ok_def split_beta)
qed

lemma has_error_source_type:
  assumes "bm_ok flds"
  shows "has_error (check_source_type lib h sv (ty, flds) []) \<longleftrightarrow>
    (\<exists>fd v. bm_get flds fd = Some v \<and> \<not> (\<exists>record. recorded_field h ty fd = Some record \<and> hf_value_type record = v))"
  by (simp add: check_source_type_def fold_bm_get [OF assms] appends_history_steps)
    (auto simp: check_source_field_def errs_simps finding_simps split: option.splits)

lemma has_error_target_type:
  assumes "bm_ok flds"
  shows "has_error (check_target_type lib h (artifact_struct_fields source) (version_or_unknown t) (ty, flds) []) \<longleftrightarrow>
    bm_get (sh_types h) ty = None \<or> (\<exists>fd v. bm_get flds fd = Some v \<and> \<not> target_field_ok source t h ty fd v)"
proof (cases "bm_get (sh_types h) ty")
  case (Some th)
  have src: "in_source (artifact_struct_fields source) ty fd \<longleftrightarrow> (\<exists>v'. struct_field source ty fd v')" for fd
    by (auto simp: in_source_def struct_field_def bm_contains_def split: option.splits)
  have fields_eq: "has_error (check_target_field lib (artifact_struct_fields source) (version_or_unknown t) ty th (fd, v) [])
      \<longleftrightarrow> \<not> target_field_ok source t h ty fd v" for fd v
    by (auto simp: check_target_field_def target_field_ok_def reserved_field_def recorded_field_def Some src bs_member_def
        errs_simps finding_simps Let_def option_bind_def split: option.splits)
  show ?thesis
    by (simp add: check_target_type_def Some fold_bm_get [OF assms] appends_history_steps fields_eq)
qed (simp add: check_target_type_def finding_simps)

lemma has_error_removed_fields:
  assumes "bm_ok flds"
  shows "has_error (check_removed_fields h (artifact_struct_fields t) (version_or_unknown t) (ty, flds) []) \<longleftrightarrow>
    (\<exists>fd v. bm_get flds fd = Some v \<and> (\<nexists>v'. struct_field t ty fd v')
       \<and> \<not> (reserved_field h ty fd
          \<and> (\<exists>record. recorded_field h ty fd = Some record \<and> hf_retired_in record = Some (version_or_unknown t))))"
proof -
  have tgt: "in_source (artifact_struct_fields t) ty fd \<longleftrightarrow> (\<exists>v'. struct_field t ty fd v')" for fd
    by (auto simp: in_source_def struct_field_def bm_contains_def split: option.splits)
  have one: "has_error (check_removed_field h (artifact_struct_fields t) (version_or_unknown t) ty (fd, v) []) \<longleftrightarrow>
      (\<nexists>v'. struct_field t ty fd v') \<and> \<not> (reserved_field h ty fd
          \<and> (\<exists>record. recorded_field h ty fd = Some record \<and> hf_retired_in record = Some (version_or_unknown t)))" for fd v
    by (auto simp: check_removed_field_def tgt reserved_field_def bs_member_def finding_simps Let_def split: option.splits)
  show ?thesis
    by (simp add: check_removed_fields_def fold_bm_get [OF assms] appends_history_steps one)
qed

lemma ex_pair_cong:
  "(\<And>k v. bm_get m k = Some v \<Longrightarrow> P k v \<longleftrightarrow> Q k v) \<Longrightarrow>
     (\<exists>k v. bm_get m k = Some v \<and> P k v) \<longleftrightarrow> (\<exists>k v. bm_get m k = Some v \<and> Q k v)"
  by blast

interpretation his: check_contract "validate_schema_history lib source t h" "\<not> history_ok lib source t h"
proof
  show "appends (validate_schema_history lib source t h)"
    by (cases "sh_format_version h = 1")
      (simp_all add: validate_schema_history_def [abs_def] appends_intros)
  note ok = struct_fields_of_artifact_ok
  have src: "(\<exists>k v. bm_get (artifact_struct_fields source) k = Some v
        \<and> has_error (check_source_type lib h (version_or_unknown source) (k, v) [])) \<longleftrightarrow>
      \<not> (\<forall>ty fd v. struct_field source ty fd v \<longrightarrow>
          (\<exists>record. recorded_field h ty fd = Some record \<and> hf_value_type record = v))"
    by (rule trans [OF ex_pair_cong], rule has_error_source_type, erule ok(2), unfold struct_field_def, blast)
  have tgt: "(\<exists>k v. bm_get (artifact_struct_fields t) k = Some v
        \<and> has_error (check_target_type lib h (artifact_struct_fields source) (version_or_unknown t) (k, v) [])) \<longleftrightarrow>
      \<not> ((\<forall>ty. is_struct t ty \<longrightarrow> bm_get (sh_types h) ty \<noteq> None)
         \<and> (\<forall>ty fd v. struct_field t ty fd v \<longrightarrow> target_field_ok source t h ty fd v))"
    by (rule trans [OF ex_pair_cong], rule has_error_target_type, erule ok(2), unfold struct_field_def is_struct_def not_None_eq not_Some_eq [symmetric], auto, metis+)
  have rem: "(\<exists>k v. bm_get (artifact_struct_fields source) k = Some v
        \<and> has_error (check_removed_fields h (artifact_struct_fields t) (version_or_unknown t) (k, v) [])) \<longleftrightarrow>
      \<not> (\<forall>ty fd v. struct_field source ty fd v \<longrightarrow> (\<nexists>v'. struct_field t ty fd v') \<longrightarrow>
          reserved_field h ty fd
          \<and> (\<exists>record. recorded_field h ty fd = Some record \<and> hf_retired_in record = Some (version_or_unknown t)))"
    by (rule trans [OF ex_pair_cong], rule has_error_removed_fields, erule ok(2), unfold struct_field_def, blast)
  have types: "(\<exists>item\<in>set (sh_types h). has_error (check_type_history lib item [])) \<longleftrightarrow>
      \<not> (\<forall>(ty, th)\<in>set (sh_types h). type_history_ok lib th)"
    using has_error_type_history [of lib "fst item" "snd item" for item] by (simp add: split_beta)
  show "has_error (validate_schema_history lib source t h []) \<longleftrightarrow> \<not> history_ok lib source t h"
  proof (cases "sh_format_version h = 1")
    case True
    then have "has_error (validate_schema_history lib source t h []) \<longleftrightarrow>
        \<not> sh_complete h \<or> (\<exists>item\<in>set (sh_types h). has_error (check_type_history lib item []))
        \<or> (\<exists>k v. bm_get (artifact_struct_fields source) k = Some v
             \<and> has_error (check_source_type lib h (version_or_unknown source) (k, v) []))
        \<or> (\<exists>k v. bm_get (artifact_struct_fields t) k = Some v
             \<and> has_error (check_target_type lib h (artifact_struct_fields source) (version_or_unknown t) (k, v) []))
        \<or> (\<exists>k v. bm_get (artifact_struct_fields source) k = Some v
             \<and> has_error (check_removed_fields h (artifact_struct_fields t) (version_or_unknown t) (k, v) []))"
      by (simp add: validate_schema_history_def fold_bm_get [OF ok(1)] appends_history_folds
          has_error_fold [OF appends_history_folds(1)] errs_simps finding_simps)
    then show ?thesis unfolding src tgt rem types history_ok_def using True by (simp only: simp_thms de_Morgan_conj disj_assoc)
  qed (simp add: validate_schema_history_def history_ok_def finding_simps)
qed

section \<open>The history rule of the validation\<close>

definition check_history ::
  "'v core_lib \<Rightarrow> artifact \<Rightarrow> artifact \<Rightarrow> policy \<Rightarrow> schema_history option \<Rightarrow> finding list \<Rightarrow> finding list" where
  "check_history lib source t p schema_history findings =
     (case schema_history of
        Some h \<Rightarrow> validate_schema_history lib source t h findings
      | None \<Rightarrow> findings @ [if pol_require_schema_history p then HIS000_required else HIS000_optional])"

definition history_accepted ::
  "'v core_lib \<Rightarrow> artifact \<Rightarrow> artifact \<Rightarrow> policy \<Rightarrow> schema_history option \<Rightarrow> bool" where
  "history_accepted lib source t p schema_history \<longleftrightarrow>
     (case schema_history of Some h \<Rightarrow> history_ok lib source t h | None \<Rightarrow> \<not> pol_require_schema_history p)"

interpretation hic: check_contract "check_history lib source t p schema_history"
  "\<not> history_accepted lib source t p schema_history"
proof
  show "appends (check_history lib source t p schema_history)"
    by (cases schema_history) (simp_all add: check_history_def [abs_def] appends_push his.only_appends)
  show "has_error (check_history lib source t p schema_history []) \<longleftrightarrow> \<not> history_accepted lib source t p schema_history"
    by (simp add: check_history_def history_accepted_def errs_simps finding_simps split: option.split)
qed

end
