(* ===== verification/Validate.thy ===== *)
theory Validate
  imports Checks_History "HOL-Library.Multiset"
begin

text \<open>
  The validation of an upgrade: \<open>validate_with_history\<close> with \<open>validate\<close>, \<open>validate_with_context\<close>,
  \<open>canonical_sha256\<close> and \<open>build_evidence_coverage\<close> in \<open>crates/soroban-upgrades-core/src/lib.rs\<close>.

  \<open>approvable\<close> states, from the inputs alone, when an upgrade may be approved; the composition of
  the contracts of the checks proves that the report is safe exactly then.
\<close>

section \<open>Evidence coverage\<close>

record evidence_item =
  ei_status :: evidence_status
  ei_claim :: string
  ei_basis :: string
  ei_limitation :: "string option"

record evidence_coverage =
  ec_compiled_contract_spec :: evidence_item
  ec_artifact_host_imports :: evidence_item
  ec_target_network_protocol :: evidence_item
  ec_declared_storage_schema :: evidence_item
  ec_declared_schema_history :: evidence_item
  ec_ledger_storage_coverage :: evidence_item
  ec_deployed_caller_graph :: evidence_item
  ec_cap0086_per_type_reader_binding :: evidence_item
  ec_migration_completion :: evidence_item

definition evidence_item :: "evidence_status \<Rightarrow> string \<Rightarrow> string \<Rightarrow> string option \<Rightarrow> evidence_item" where
  "evidence_item status claim basis limitation =
     \<lparr>ei_status = status, ei_claim = claim, ei_basis = basis, ei_limitation = limitation\<rparr>"

definition network_fact :: evidence_item where
  "network_fact = evidence_item Fact
     ''The named network reported the recorded target protocol at the observation time.''
     ''Live Stellar CLI network-info evidence is embedded in the report.''
     (Some ''Network state can change. Resolve it again immediately before execution.'')"

definition network_assumed :: evidence_item where
  "network_assumed = evidence_item Inference
     ''The selected protocol is an offline release assumption.''
     ''The operator supplied a protocol number without live network evidence.''
     (Some ''This does not prove that any named network has activated the protocol.'')"

definition network_unknown :: evidence_item where
  "network_unknown = evidence_item Unknown
     ''The target network protocol is not established.''
     ''No complete live network evidence is present.''
     (Some ''Resolve a named network before producing an executable release plan.'')"

definition spec_compared :: evidence_item where
  "spec_compared = evidence_item Fact
     ''The report compares the exact compiled Contract Spec entries in both artifacts.''
     ''The validator parsed one unambiguous contractspecv0 section from each hashed WASM.''
     (Some ''Contract Spec is not a complete deployed-caller or storage inventory.'')"

definition imports_inspected :: evidence_item where
  "imports_inspected = evidence_item Fact
     ''The report records artifact-wide host imports and direct per-export reachability.''
     ''The validator inspected the WASM import, export, and code sections.''
     (Some ''Dynamic dispatch makes static reachability incomplete.'')"

definition storage_declared :: evidence_item where
  "storage_declared = evidence_item Fact
     ''The source-controlled source and target storage declarations were compared.''
     ''A complete manifest pair was supplied and bound to the validation report.''
     (Some ''A declaration does not prove that it covers every ledger entry.'')"

definition storage_unknown :: evidence_item where
  "storage_unknown = evidence_item Unknown
     ''The declared storage change is not established.''
     ''No complete source/target manifest pair was supplied.''
     (Some ''Contract Spec alone cannot recover a complete storage inventory.'')"

definition history_declared :: evidence_item where
  "history_declared = evidence_item Fact
     ''A cumulative source-controlled field history was checked.''
     ''The history bytes are hashed into the validation and release plan.''
     (Some ''The history is a reviewed declaration, not proof of ledger-wide migration.'')"

definition history_unknown :: evidence_item where
  "history_unknown = evidence_item Unknown
     ''Historical field-name lifecycle is not established.''
     ''No cumulative schema-history manifest was supplied.''
     (Some ''A two-release diff cannot detect older retired-name reuse.'')"

definition ledger_unknown :: evidence_item where
  "ledger_unknown = evidence_item Unknown
     ''Complete live and archived ledger storage coverage is not proven.''
     ''Artifact validation does not sample or enumerate deployed ledger state.''
     (Some ''Use an application-specific snapshot rehearsal before a production migration.'')"

definition callers_unknown :: evidence_item where
  "callers_unknown = evidence_item Unknown
     ''The complete deployed caller graph and rollout order are not proven.''
     ''Public impact paths are structural paths inside the two compiled Contract Specs.''
     (Some ''External contracts and off-chain clients can exist outside both artifacts.'')"

definition reader_binding_unknown :: evidence_item where
  "reader_binding_unknown = evidence_item Unknown
     ''A global sparse-reader import is not bound to the changed type.''
     ''Per-export direct-call reachability narrows the evidence but generated type-level binding is absent.''
     (Some ''Approve schema evolution only after type-specific runtime and rollout evidence.'')"

definition migration_unknown :: evidence_item where
  "migration_unknown = evidence_item Unknown
     ''Ledger-wide migration completion and invariant preservation are not proven.''
     ''The validator checks declarations but does not execute application migrations.''
     (Some ''Record application-specific rehearsal, completion, and invariant evidence.'')"


definition network_evidence :: "validation_context \<Rightarrow> evidence_item" where
  "network_evidence ctx =
     (case ctx_protocol_source ctx of
        StellarCliNetworkInfo \<Rightarrow>
          if ctx_target_protocol_version ctx \<noteq> None \<and> ctx_network_name ctx \<noteq> None
            \<and> ctx_network_id ctx \<noteq> None \<and> ctx_observed_at_unix_seconds ctx \<noteq> None
          then network_fact else network_unknown
      | OfflineAssertion \<Rightarrow> network_assumed
      | Unpinned \<Rightarrow> network_unknown)"

definition build_evidence_coverage :: "validation_context \<Rightarrow> bool \<Rightarrow> bool \<Rightarrow> evidence_coverage" where
  "build_evidence_coverage ctx storage_schema_checked schema_history_checked =
     \<lparr>ec_compiled_contract_spec = spec_compared, ec_artifact_host_imports = imports_inspected,
      ec_target_network_protocol = network_evidence ctx,
      ec_declared_storage_schema = (if storage_schema_checked then storage_declared else storage_unknown),
      ec_declared_schema_history = (if schema_history_checked then history_declared else history_unknown),
      ec_ledger_storage_coverage = ledger_unknown, ec_deployed_caller_graph = callers_unknown,
      ec_cap0086_per_type_reader_binding = reader_binding_unknown,
      ec_migration_completion = migration_unknown\<rparr>"

section \<open>The report\<close>

record validation_report =
  rep_format_version :: u32
  rep_tool_version :: string
  rep_safe :: bool
  rep_policy :: policy
  rep_context :: validation_context
  rep_source :: artifact
  rep_target :: artifact
  rep_findings :: "finding list"
  rep_public_impacts :: "public_impact list"
  rep_evidence :: evidence_coverage
  rep_storage_schema_checked :: bool
  rep_schema_history_checked :: bool
  rep_policy_sha256 :: string
  rep_source_schema_sha256 :: "string option"
  rep_target_schema_sha256 :: "string option"
  rep_schema_history_sha256 :: "string option"
  rep_source_schema :: "storage_schema option"
  rep_target_schema :: "storage_schema option"
  rep_schema_history :: "schema_history option"

definition TOOL_VERSION :: string where
  "TOOL_VERSION = ''1.0.7''"

definition canonical_sha256 :: "'v core_lib \<Rightarrow> bytes option \<Rightarrow> string" where
  "canonical_sha256 lib serialized = (case serialized of Some bs \<Rightarrow> hash_hex lib bs | None \<Rightarrow> [])"

definition RES001_limit :: "finding" where
  "RES001_limit = error ''RES001''
     ''Public type-impact analysis exceeded its limit''
     ''The type graph produced too many paths or too much traversal work for a complete result.''
     ''Reduce the public type graph or split the contract interface before approval.''"

lemma RES001_limit_fields [finding_simps]:
  "f_severity (RES001_limit) = Error" "f_code (RES001_limit) = ''RES001''"
  by (simp_all add: RES001_limit_def finding_defs)

definition run_checks ::
  "'v core_lib \<Rightarrow> artifact \<Rightarrow> artifact \<Rightarrow> storage_schema option \<Rightarrow> storage_schema option \<Rightarrow> policy
     \<Rightarrow> validation_context \<Rightarrow> schema_history option \<Rightarrow> finding list \<Rightarrow> finding list" where
  "run_checks lib source t source_schema target_schema p ctx schema_history findings =
     push_if (snd (trace_public_impacts source t)) RES001_limit
     (check_storage lib source t p source_schema target_schema
     (check_history lib source t p schema_history
     (compare_interfaces source t p ctx
     (check_versions lib source t p
     (check_constructor t p
     (check_upgrade_entrypoint source t p
     (check_cap_0086 t ctx
     (check_environment_compatibility t ctx
     (check_protocol_context ctx
     (check_policy p findings))))))))))"

definition validate_with_history ::
  "'v core_lib \<Rightarrow> artifact \<Rightarrow> artifact \<Rightarrow> storage_schema option \<Rightarrow> storage_schema option \<Rightarrow> policy
     \<Rightarrow> validation_context \<Rightarrow> schema_history option \<Rightarrow> validation_report" where
  "validate_with_history lib source t source_schema target_schema p ctx schema_history =
     (let findings = sort_key (\<lambda>f. (f_severity f, f_code f))
            (run_checks lib source t source_schema target_schema p ctx schema_history []);
          safe = \<not> list_ex (\<lambda>f. f_severity f = Error) findings
      in \<lparr>rep_format_version = 1, rep_tool_version = TOOL_VERSION, rep_safe = safe,
          rep_policy = p, rep_context = ctx, rep_source = source, rep_target = t,
          rep_findings = findings, rep_public_impacts = fst (trace_public_impacts source t),
          rep_evidence = build_evidence_coverage ctx (source_schema \<noteq> None \<and> target_schema \<noteq> None)
            (schema_history \<noteq> None),
          rep_storage_schema_checked = (source_schema \<noteq> None \<and> target_schema \<noteq> None),
          rep_schema_history_checked = (schema_history \<noteq> None),
          rep_policy_sha256 = canonical_sha256 lib (policy_to_vec lib p),
          rep_source_schema_sha256 = map_option (\<lambda>s. canonical_sha256 lib (schema_to_vec lib s)) source_schema,
          rep_target_schema_sha256 = map_option (\<lambda>s. canonical_sha256 lib (schema_to_vec lib s)) target_schema,
          rep_schema_history_sha256 = map_option sh_source_sha256 schema_history,
          rep_source_schema = source_schema, rep_target_schema = target_schema,
          rep_schema_history = schema_history\<rparr>)"

definition validate_with_context ::
  "'v core_lib \<Rightarrow> artifact \<Rightarrow> artifact \<Rightarrow> storage_schema option \<Rightarrow> storage_schema option \<Rightarrow> policy
     \<Rightarrow> validation_context \<Rightarrow> validation_report" where
  "validate_with_context lib source t source_schema target_schema p ctx =
     validate_with_history lib source t source_schema target_schema p ctx None"

definition validate ::
  "'v core_lib \<Rightarrow> artifact \<Rightarrow> artifact \<Rightarrow> storage_schema option \<Rightarrow> storage_schema option \<Rightarrow> policy
     \<Rightarrow> validation_report" where
  "validate lib source t source_schema target_schema p =
     validate_with_history lib source t source_schema target_schema p default_context None"

section \<open>The contract of the validation\<close>

text \<open>When an upgrade may be approved.\<close>

definition approvable ::
  "'v core_lib \<Rightarrow> artifact \<Rightarrow> artifact \<Rightarrow> storage_schema option \<Rightarrow> storage_schema option \<Rightarrow> policy
     \<Rightarrow> validation_context \<Rightarrow> schema_history option \<Rightarrow> bool" where
  "approvable lib source t source_schema target_schema p ctx schema_history \<longleftrightarrow>
     pol_format_version p = 1
     \<and> \<not> protocol_context_blocks ctx
     \<and> \<not> environment_blocks t ctx
     \<and> \<not> cap_0086_blocks t ctx
     \<and> (pol_require_upgrade_function p \<longrightarrow> can_upgrade source \<and> can_upgrade t)
     \<and> (pol_forbid_constructor p \<longrightarrow> \<not> has_function t ''__constructor'')
     \<and> (pol_require_semver_increase p \<longrightarrow> version_increases lib source t)
     \<and> \<not> interface_breaks source t p
     \<and> history_accepted lib source t p schema_history
     \<and> storage_ok lib source t p source_schema target_schema
     \<and> \<not> snd (trace_public_impacts source t)"

interpretation run: check_contract "run_checks lib source t source_schema target_schema p ctx schema_history"
  "\<not> approvable lib source t source_schema target_schema p ctx schema_history"
proof (rule check_contractI [OF run_checks_def])
  show "appends (\<lambda>findings. push_if (snd (trace_public_impacts source t)) RES001_limit
     (check_storage lib source t p source_schema target_schema
     (check_history lib source t p schema_history
     (compare_interfaces source t p ctx
     (check_versions lib source t p
     (check_constructor t p
     (check_upgrade_entrypoint source t p
     (check_cap_0086 t ctx
     (check_environment_compatibility t ctx
     (check_protocol_context ctx
     (check_policy p findings)))))))))))"
    by (intro appends_push_if_after appends_comp [OF _ stc.only_appends] appends_comp [OF _ hic.only_appends]
        appends_comp [OF _ ifc.only_appends] appends_comp [OF _ ver.only_appends]
        appends_comp [OF _ ctor.only_appends] appends_comp [OF _ upg.only_appends]
        appends_comp [OF _ cap.only_appends] appends_comp [OF _ env.only_appends]
        appends_comp [OF _ net.only_appends] pol.only_appends)
  show "has_error (push_if (snd (trace_public_impacts source t)) RES001_limit
     (check_storage lib source t p source_schema target_schema
     (check_history lib source t p schema_history
     (compare_interfaces source t p ctx
     (check_versions lib source t p
     (check_constructor t p
     (check_upgrade_entrypoint source t p
     (check_cap_0086 t ctx
     (check_environment_compatibility t ctx
     (check_protocol_context ctx
     (check_policy p []))))))))))) \<longleftrightarrow> \<not> approvable lib source t source_schema target_schema p ctx schema_history"
    by (simp only: errs_simps finding_simps has_error_simps approvable_def simp_thms de_Morgan_conj not_imp
        disj_assoc disj_comms de_Morgan_disj not_not conj_assoc)
qed

lemma rep_safe_findings:
  "rep_safe (validate_with_history lib source t ss ts p ctx h) \<longleftrightarrow>
     \<not> has_error (run_checks lib source t ss ts p ctx h [])"
  by (simp add: validate_with_history_def Let_def has_error_def list_ex_iff)

text \<open>
  C1: A validation report is marked safe exactly when the upgrade is approvable: the policy format is
  supported, the network evidence is consistent and new enough for the candidate, no CAP-0086 or
  interface rule is broken, both releases keep a working upgrade entrypoint, the version
  increases, the field history and the storage manifests are accepted, and the impact analysis is
  complete; each under the switch of the policy that demands it.
\<close>

theorem report_safe_iff:
  "rep_safe (validate_with_history lib source t ss ts p ctx h) = approvable lib source t ss ts p ctx h"
  using run.error_iff [of lib source t ss ts p ctx h] by (simp add: rep_safe_findings)

text \<open>
  The report loses no finding and invents none: its findings are those of the checks in some
  order, sorted by severity and then by code, and the report is safe exactly when none of them is
  an error.
\<close>

theorem report_findings_complete:
  "sorted (map (\<lambda>f. (f_severity f, f_code f)) (rep_findings (validate_with_history lib source t ss ts p ctx h)))
   \<and> mset (rep_findings (validate_with_history lib source t ss ts p ctx h))
       = mset (run_checks lib source t ss ts p ctx h [])
   \<and> (rep_safe (validate_with_history lib source t ss ts p ctx h) \<longleftrightarrow>
       (\<nexists>f. f \<in> set (rep_findings (validate_with_history lib source t ss ts p ctx h)) \<and> f_severity f = Error))"
  by (auto simp: validate_with_history_def Let_def list_ex_iff)

text \<open>
  The evidence section never overstates what was checked: the network protocol is a fact only for
  a live reading with its protocol, network and time, the storage and history declarations are
  facts exactly when they were supplied, and ledger coverage, the deployed caller graph, the
  reader binding and the completion of a migration always stay unknown, as does the runtime
  compatibility of every public impact.
\<close>

theorem evidence_never_overstates:
  "(let report = validate_with_history lib source t ss ts p ctx h; e = rep_evidence report in
     (ei_status (ec_target_network_protocol e) = Fact \<longleftrightarrow>
        ctx_protocol_source ctx = StellarCliNetworkInfo \<and> ctx_target_protocol_version ctx \<noteq> None
        \<and> ctx_network_name ctx \<noteq> None \<and> ctx_network_id ctx \<noteq> None \<and> ctx_observed_at_unix_seconds ctx \<noteq> None)
     \<and> (ei_status (ec_declared_storage_schema e) = Fact \<longleftrightarrow> ss \<noteq> None \<and> ts \<noteq> None)
     \<and> (ei_status (ec_declared_schema_history e) = Fact \<longleftrightarrow> h \<noteq> None)
     \<and> ei_status (ec_ledger_storage_coverage e) = Unknown
     \<and> ei_status (ec_deployed_caller_graph e) = Unknown
     \<and> ei_status (ec_cap0086_per_type_reader_binding e) = Unknown
     \<and> ei_status (ec_migration_completion e) = Unknown
     \<and> pi_runtime_compatibility ` set (rep_public_impacts report) \<subseteq> {Unknown})"
proof -
  have "pi_runtime_compatibility ` set (fst (trace_public_impacts source t)) \<subseteq> {Unknown}"
    using trace_facts(2) [OF surjective_pairing, of _ source t] by fastforce
  then show ?thesis
    by (auto simp: validate_with_history_def Let_def build_evidence_coverage_def network_evidence_def
        evidence_item_def network_fact_def network_assumed_def network_unknown_def storage_declared_def
        storage_unknown_def history_declared_def history_unknown_def ledger_unknown_def callers_unknown_def
        reader_binding_unknown_def migration_unknown_def split: protocol_source.split)
qed

end
