(* ===== verification/Plan_Data.thy ===== *)
theory Plan_Data
  imports Validate
begin

text \<open>
  The upgrade plan as data and its JSON value: \<open>UpgradePlan\<close> and its parts, and the
  \<open>serde_json::to_value\<close> that the derived \<open>Serialize\<close> instances of
  \<open>crates/soroban-upgrades-core/src/lib.rs\<close> give, field by field with the names the
  \<open>rename_all\<close> attributes produce. An \<open>Option\<close> is its value or \<open>null\<close>, an enum without payload
  is its name in the case of the attribute.

  The encoders are injective; \<open>plan_json_cover\<close> concludes that two plans with the same value
  outside the digest member agree in every other field.
\<close>

section \<open>The plan\<close>

datatype plan_step_kind =
    VerifyCurrentExecutable
  | UploadTargetWasm
  | SimulateUpgrade
  | ExecuteUpgrade
  | ExecuteMigration
  | VerifyExecutable
  | VerifyInvariants

datatype plan_status = OfflineDraft | ReviewReady

record plan_step =
  ps_position :: u32
  ps_kind :: plan_step_kind
  ps_program :: string
  ps_arguments :: "string list"
  ps_command :: string
  ps_expected :: string

record migration_call =
  mc_entrypoint :: string
  mc_arguments :: "(string, string) bmap"

record invariant_check =
  ic_program :: string
  ic_arguments :: "string list"

record plan_operations =
  po_migration :: "migration_call option"
  po_invariant_check :: invariant_check

record plan_input_paths =
  pip_source_wasm :: string
  pip_target_wasm :: string
  pip_source_schema :: string
  pip_target_schema :: string
  pip_schema_history :: string
  pip_policy :: "string option"

record upgrade_plan =
  up_format_version :: u32
  up_plan_sha256 :: string
  up_status :: plan_status
  up_network :: string
  up_contract_id :: string
  up_source_identity :: string
  up_inputs :: plan_input_paths
  up_source_wasm_sha256 :: string
  up_target_wasm_sha256 :: string
  up_rollback_wasm_sha256 :: string
  up_from_version :: "string option"
  up_to_version :: "string option"
  up_migration :: "migration_call option"
  up_invariant_check :: invariant_check
  up_validation :: validation_report
  up_steps :: "plan_step list"

section \<open>Encoders\<close>

definition object :: "(string \<times> json) list \<Rightarrow> json" where
  "object kvs = Object (bm_of_list kvs)"

definition u32_json :: "u32 \<Rightarrow> json" where
  "u32_json w = Number (Int_Number (uint w))"

definition u64_json :: "u64 \<Rightarrow> json" where
  "u64_json w = Number (Int_Number (uint w))"

definition usize_json :: "usize \<Rightarrow> json" where
  "usize_json n = Number (Int_Number (int n))"

definition opt_json :: "('a \<Rightarrow> json) \<Rightarrow> 'a option \<Rightarrow> json" where
  "opt_json f x = (case x of None \<Rightarrow> Null | Some a \<Rightarrow> f a)"

definition list_json :: "('a \<Rightarrow> json) \<Rightarrow> 'a list \<Rightarrow> json" where
  "list_json f xs = Array (map f xs)"

definition map_json :: "('a \<Rightarrow> json) \<Rightarrow> (string, 'a) bmap \<Rightarrow> json" where
  "map_json f m = Object (map (\<lambda>(k, v). (k, f v)) m)"

definition interface_entry_json :: "interface_entry \<Rightarrow> json" where
  "interface_entry_json e = object
     [(''kind'', String (ie_kind e)), (''name'', String (ie_name e)), (''canonical'', ie_canonical e)]"

fun boundary_position_json :: "boundary_position \<Rightarrow> json" where
  "boundary_position_json Input = String ''input''"
| "boundary_position_json Output = String ''output''"

fun boundary_json :: "public_type_boundary \<Rightarrow> json" where
  "boundary_json (PublicTypeBoundary f p i l r) = object
     [(''function'', String f), (''position'', boundary_position_json p), (''index'', usize_json i),
      (''label'', opt_json String l), (''rootType'', String r)]"

fun type_reference_json :: "type_reference \<Rightarrow> json" where
  "type_reference_json (TypeReference ow mb tg) = object
     [(''ownerType'', String ow), (''member'', String mb), (''targetType'', String tg)]"

fun impact_step_json :: "impact_step \<Rightarrow> json" where
  "impact_step_json (ImpactStep ow mb tg) = object
     [(''ownerType'', String ow), (''member'', String mb), (''targetType'', String tg)]"

definition call_evidence_json :: "export_call_evidence \<Rightarrow> json" where
  "call_evidence_json e = object
     [(''hostImports'', list_json String (ev_host_imports e)),
      (''dynamicDispatchReachable'', Bool (ev_dynamic_dispatch_reachable e))]"

definition artifact_json :: "artifact \<Rightarrow> json" where
  "artifact_json a = object
     [(''formatVersion'', u32_json (art_format_version a)), (''sha256'', String (art_sha256 a)),
      (''sizeBytes'', usize_json (art_size_bytes a)),
      (''envProtocolVersion'', u32_json (art_env_protocol_version a)),
      (''envPreRelease'', u32_json (art_env_pre_release a)),
      (''metadata'', map_json String (art_metadata a)),
      (''hostImports'', list_json String (art_host_imports a)),
      (''functions'', map_json interface_entry_json (art_functions a)),
      (''events'', map_json interface_entry_json (art_events a)),
      (''userTypes'', map_json interface_entry_json (art_user_types a)),
      (''publicTypeBoundaries'', list_json boundary_json (art_public_type_boundaries a)),
      (''typeReferences'', list_json type_reference_json (art_type_references a)),
      (''exportCallEvidence'', map_json call_evidence_json (art_export_call_evidence a))]"

fun severity_json :: "severity \<Rightarrow> json" where
  "severity_json Info = String ''info''"
| "severity_json Warning = String ''warning''"
| "severity_json Error = String ''error''"

definition finding_json :: "finding \<Rightarrow> json" where
  "finding_json f = object
     [(''code'', String (f_code f)), (''severity'', severity_json (f_severity f)),
      (''title'', String (f_title f)), (''detail'', String (f_detail f)),
      (''remediation'', String (f_remediation f))]"

fun protocol_source_json :: "protocol_source \<Rightarrow> json" where
  "protocol_source_json Unpinned = String ''unpinned''"
| "protocol_source_json OfflineAssertion = String ''offline_assertion''"
| "protocol_source_json StellarCliNetworkInfo = String ''stellar_cli_network_info''"

definition context_json :: "validation_context \<Rightarrow> json" where
  "context_json c = object
     [(''targetProtocolVersion'', opt_json u32_json (ctx_target_protocol_version c)),
      (''protocolSource'', protocol_source_json (ctx_protocol_source c)),
      (''networkName'', opt_json String (ctx_network_name c)),
      (''networkId'', opt_json String (ctx_network_id c)),
      (''networkPassphrase'', opt_json String (ctx_network_passphrase c)),
      (''rpcVersion'', opt_json String (ctx_rpc_version c)),
      (''captiveCoreVersion'', opt_json String (ctx_captive_core_version c)),
      (''observedAtUnixSeconds'', opt_json u64_json (ctx_observed_at_unix_seconds c))]"

definition policy_json :: "policy \<Rightarrow> json" where
  "policy_json p = object
     [(''formatVersion'', u32_json (pol_format_version p)), (''name'', String (pol_name p)),
      (''requireUpgradeFunction'', Bool (pol_require_upgrade_function p)),
      (''forbidConstructor'', Bool (pol_forbid_constructor p)),
      (''requireSemverIncrease'', Bool (pol_require_semver_increase p)),
      (''requireStorageSchema'', Bool (pol_require_storage_schema p)),
      (''requireSchemaHistory'', Bool (pol_require_schema_history p)),
      (''denyRemovedFunctions'', Bool (pol_deny_removed_functions p)),
      (''denyChangedFunctions'', Bool (pol_deny_changed_functions p)),
      (''denyRemovedEvents'', Bool (pol_deny_removed_events p)),
      (''denyChangedEvents'', Bool (pol_deny_changed_events p)),
      (''denyChangedUserTypes'', Bool (pol_deny_changed_user_types p))]"

definition migration_json :: "migration \<Rightarrow> json" where
  "migration_json m = object
     [(''strategy'', String (mig_strategy m)), (''entrypoint'', opt_json String (mig_entrypoint m)),
      (''notes'', opt_json String (mig_notes m))]"

fun durability_json :: "durability \<Rightarrow> json" where
  "durability_json Instance = String ''instance''"
| "durability_json Persistent = String ''persistent''"
| "durability_json Temporary = String ''temporary''"

definition storage_entry_json :: "storage_entry \<Rightarrow> json" where
  "storage_entry_json e = object
     [(''key'', String (se_key e)), (''durability'', durability_json (se_durability e)),
      (''type'', String (se_value_type e)), (''migration'', opt_json migration_json (se_migration e))]"

definition storage_schema_json :: "storage_schema \<Rightarrow> json" where
  "storage_schema_json s = object
     [(''formatVersion'', u32_json (ss_format_version s)), (''complete'', Bool (ss_complete s)),
      (''schemaVersion'', u32_json (ss_schema_version s)),
      (''contractVersion'', String (ss_contract_version s)),
      (''entries'', list_json storage_entry_json (ss_entries s))]"

definition historical_field_json :: "historical_field \<Rightarrow> json" where
  "historical_field_json f = object
     [(''type'', hf_value_type f), (''firstSeen'', String (hf_first_seen f)),
      (''retiredIn'', opt_json String (hf_retired_in f))]"

definition type_history_json :: "type_history \<Rightarrow> json" where
  "type_history_json t = object
     [(''fields'', map_json historical_field_json (th_fields t)),
      (''reservedFields'', list_json String (th_reserved_fields t))]"

definition schema_history_json :: "schema_history \<Rightarrow> json" where
  "schema_history_json h = object
     [(''formatVersion'', u32_json (sh_format_version h)), (''complete'', Bool (sh_complete h)),
      (''types'', map_json type_history_json (sh_types h)),
      (''sourceSha256'', String (sh_source_sha256 h))]"

fun evidence_status_json :: "evidence_status \<Rightarrow> json" where
  "evidence_status_json Fact = String ''FACT''"
| "evidence_status_json Inference = String ''INFERENCE''"
| "evidence_status_json Unknown = String ''UNKNOWN''"

definition evidence_item_json :: "evidence_item \<Rightarrow> json" where
  "evidence_item_json e = object
     [(''status'', evidence_status_json (ei_status e)), (''claim'', String (ei_claim e)),
      (''basis'', String (ei_basis e)), (''limitation'', opt_json String (ei_limitation e))]"

definition evidence_coverage_json :: "evidence_coverage \<Rightarrow> json" where
  "evidence_coverage_json c = object
     [(''compiledContractSpec'', evidence_item_json (ec_compiled_contract_spec c)),
      (''artifactHostImports'', evidence_item_json (ec_artifact_host_imports c)),
      (''targetNetworkProtocol'', evidence_item_json (ec_target_network_protocol c)),
      (''declaredStorageSchema'', evidence_item_json (ec_declared_storage_schema c)),
      (''declaredSchemaHistory'', evidence_item_json (ec_declared_schema_history c)),
      (''ledgerStorageCoverage'', evidence_item_json (ec_ledger_storage_coverage c)),
      (''deployedCallerGraph'', evidence_item_json (ec_deployed_caller_graph c)),
      (''cap0086PerTypeReaderBinding'', evidence_item_json (ec_cap0086_per_type_reader_binding c)),
      (''migrationCompletion'', evidence_item_json (ec_migration_completion c))]"

fun public_impact_json :: "public_impact \<Rightarrow> json" where
  "public_impact_json (PublicImpact c b s x y) = object
     [(''changedType'', String c), (''boundary'', boundary_json b), (''steps'', list_json impact_step_json s),
      (''structuralReachability'', evidence_status_json x), (''runtimeCompatibility'', evidence_status_json y)]"

definition report_json :: "validation_report \<Rightarrow> json" where
  "report_json r = object
     [(''formatVersion'', u32_json (rep_format_version r)), (''toolVersion'', String (rep_tool_version r)),
      (''safe'', Bool (rep_safe r)), (''policy'', policy_json (rep_policy r)),
      (''context'', context_json (rep_context r)), (''source'', artifact_json (rep_source r)),
      (''target'', artifact_json (rep_target r)), (''findings'', list_json finding_json (rep_findings r)),
      (''publicImpacts'', list_json public_impact_json (rep_public_impacts r)),
      (''evidence'', evidence_coverage_json (rep_evidence r)),
      (''storageSchemaChecked'', Bool (rep_storage_schema_checked r)),
      (''schemaHistoryChecked'', Bool (rep_schema_history_checked r)),
      (''policySha256'', String (rep_policy_sha256 r)),
      (''sourceSchemaSha256'', opt_json String (rep_source_schema_sha256 r)),
      (''targetSchemaSha256'', opt_json String (rep_target_schema_sha256 r)),
      (''schemaHistorySha256'', opt_json String (rep_schema_history_sha256 r)),
      (''sourceSchema'', opt_json storage_schema_json (rep_source_schema r)),
      (''targetSchema'', opt_json storage_schema_json (rep_target_schema r)),
      (''schemaHistory'', opt_json schema_history_json (rep_schema_history r))]"

fun step_kind_json :: "plan_step_kind \<Rightarrow> json" where
  "step_kind_json VerifyCurrentExecutable = String ''verify_current_executable''"
| "step_kind_json UploadTargetWasm = String ''upload_target_wasm''"
| "step_kind_json SimulateUpgrade = String ''simulate_upgrade''"
| "step_kind_json ExecuteUpgrade = String ''execute_upgrade''"
| "step_kind_json ExecuteMigration = String ''execute_migration''"
| "step_kind_json VerifyExecutable = String ''verify_executable''"
| "step_kind_json VerifyInvariants = String ''verify_invariants''"

fun plan_status_json :: "plan_status \<Rightarrow> json" where
  "plan_status_json OfflineDraft = String ''offline_draft''"
| "plan_status_json ReviewReady = String ''review_ready''"

definition plan_step_json :: "plan_step \<Rightarrow> json" where
  "plan_step_json s = object
     [(''position'', u32_json (ps_position s)), (''kind'', step_kind_json (ps_kind s)),
      (''program'', String (ps_program s)), (''arguments'', list_json String (ps_arguments s)),
      (''command'', String (ps_command s)), (''expected'', String (ps_expected s))]"

definition migration_call_json :: "migration_call \<Rightarrow> json" where
  "migration_call_json m = object
     [(''entrypoint'', String (mc_entrypoint m)), (''arguments'', map_json String (mc_arguments m))]"

definition invariant_check_json :: "invariant_check \<Rightarrow> json" where
  "invariant_check_json c = object
     [(''program'', String (ic_program c)), (''arguments'', list_json String (ic_arguments c))]"

definition input_paths_json :: "plan_input_paths \<Rightarrow> json" where
  "input_paths_json p = object
     [(''sourceWasm'', String (pip_source_wasm p)), (''targetWasm'', String (pip_target_wasm p)),
      (''sourceSchema'', String (pip_source_schema p)), (''targetSchema'', String (pip_target_schema p)),
      (''schemaHistory'', String (pip_schema_history p)), (''policy'', opt_json String (pip_policy p))]"

definition plan_members :: "upgrade_plan \<Rightarrow> (string \<times> json) list" where
  "plan_members p =
     [(''formatVersion'', u32_json (up_format_version p)), (''planSha256'', String (up_plan_sha256 p)),
      (''status'', plan_status_json (up_status p)), (''network'', String (up_network p)),
      (''contractId'', String (up_contract_id p)), (''sourceIdentity'', String (up_source_identity p)),
      (''inputs'', input_paths_json (up_inputs p)),
      (''sourceWasmSha256'', String (up_source_wasm_sha256 p)),
      (''targetWasmSha256'', String (up_target_wasm_sha256 p)),
      (''rollbackWasmSha256'', String (up_rollback_wasm_sha256 p)),
      (''fromVersion'', opt_json String (up_from_version p)),
      (''toVersion'', opt_json String (up_to_version p)),
      (''migration'', opt_json migration_call_json (up_migration p)),
      (''invariantCheck'', invariant_check_json (up_invariant_check p)),
      (''validation'', report_json (up_validation p)), (''steps'', list_json plan_step_json (up_steps p))]"

definition plan_json :: "upgrade_plan \<Rightarrow> json" where
  "plan_json p = object (plan_members p)"

section \<open>The encoders are injective\<close>

named_theorems json_inject

lemma map_of_rev_distinct: "distinct (map fst xs) \<Longrightarrow> map_of (rev xs) = map_of xs"
  by (subst map_of_inject_set) (simp_all add: rev_map [symmetric])

lemma object_inject:
  assumes "map fst kvs = map fst kws" and "distinct (map fst kvs)"
  shows "object kvs = object kws \<longleftrightarrow> map snd kvs = map snd kws"
proof
  assume "object kvs = object kws"
  then have "bm_get (bm_of_list kvs) = bm_get (bm_of_list kws)" by (simp add: object_def)
  then have "map_of kvs = map_of kws"
    using assms by (simp add: bm_get_of_list map_of_rev_distinct)
  moreover have "map snd xs = map (the \<circ> map_of xs) (map fst xs)" if "distinct (map fst xs)"
    for xs :: "(string \<times> json) list"
    using that by (auto simp: map_of_eq_Some_iff)
  ultimately show "map snd kvs = map snd kws" using assms by metis
next
  assume "map snd kvs = map snd kws"
  then have "kvs = kws" using assms(1) by (metis zip_map_fst_snd)
  then show "object kvs = object kws" by simp
qed

lemma basic_inject [json_inject]:
  "u32_json a = u32_json b \<longleftrightarrow> a = b" "u64_json c = u64_json d \<longleftrightarrow> c = d" "usize_json m = usize_json n \<longleftrightarrow> m = n"
  by (simp_all add: u32_json_def u64_json_def usize_json_def word_uint_eq_iff)

lemma opt_inject:
  assumes "\<And>x y. f x = f y \<longleftrightarrow> x = y" and "\<And>x. f x \<noteq> Null"
  shows "opt_json f a = opt_json f b \<longleftrightarrow> a = b"
proof -
  have "Null \<noteq> f x" for x using assms(2) [of x] by simp
  with assms show ?thesis by (auto simp: opt_json_def split: option.split)
qed

lemma list_inject:
  assumes "\<And>x y. f x = f y \<longleftrightarrow> x = y"
  shows "list_json f xs = list_json f ys \<longleftrightarrow> xs = ys"
  using assms by (simp add: list_json_def inj_map_eq_map inj_def)

lemma map_inject:
  assumes "\<And>x y. f x = f y \<longleftrightarrow> x = y"
  shows "map_json f m = map_json f n \<longleftrightarrow> m = n"
proof -
  have "inj (\<lambda>(k, v). (k, f v))" using assms by (auto simp: inj_def)
  then show ?thesis unfolding map_json_def json.inject by (rule inj_map_eq_map)
qed

lemma not_Null: "String s \<noteq> Null" "object kvs \<noteq> Null" "u32_json w \<noteq> Null" "u64_json v \<noteq> Null"
  by (simp_all add: object_def u32_json_def u64_json_def)

lemma string_inject [json_inject]:
  "opt_json String x = opt_json String y \<longleftrightarrow> x = y"
  "opt_json u32_json v = opt_json u32_json w \<longleftrightarrow> v = w"
  "opt_json u64_json v' = opt_json u64_json w' \<longleftrightarrow> v' = w'"
  "list_json String xs = list_json String ys \<longleftrightarrow> xs = ys"
  "map_json String m = map_json String n \<longleftrightarrow> m = n"
  by (simp_all add: opt_inject list_inject map_inject json_inject not_Null)

lemma enum_inject [json_inject]:
  "boundary_position_json x0 = boundary_position_json y0 \<longleftrightarrow> x0 = y0"
  "severity_json x1 = severity_json y1 \<longleftrightarrow> x1 = y1"
  "protocol_source_json x2 = protocol_source_json y2 \<longleftrightarrow> x2 = y2"
  "durability_json x3 = durability_json y3 \<longleftrightarrow> x3 = y3"
  "evidence_status_json x4 = evidence_status_json y4 \<longleftrightarrow> x4 = y4"
  "step_kind_json x5 = step_kind_json y5 \<longleftrightarrow> x5 = y5"
  "plan_status_json x6 = plan_status_json y6 \<longleftrightarrow> x6 = y6"
proof -
  show "boundary_position_json x0 = boundary_position_json y0 \<longleftrightarrow> x0 = y0" by (cases x0; cases y0) simp_all
  show "severity_json x1 = severity_json y1 \<longleftrightarrow> x1 = y1" by (cases x1; cases y1) simp_all
  show "protocol_source_json x2 = protocol_source_json y2 \<longleftrightarrow> x2 = y2" by (cases x2; cases y2) simp_all
  show "durability_json x3 = durability_json y3 \<longleftrightarrow> x3 = y3" by (cases x3; cases y3) simp_all
  show "evidence_status_json x4 = evidence_status_json y4 \<longleftrightarrow> x4 = y4" by (cases x4; cases y4) simp_all
  show "step_kind_json x5 = step_kind_json y5 \<longleftrightarrow> x5 = y5" by (cases x5; cases y5) simp_all
  show "plan_status_json x6 = plan_status_json y6 \<longleftrightarrow> x6 = y6" by (cases x6; cases y6) simp_all
qed

lemma interface_entry_json_inject [json_inject]: "interface_entry_json x = interface_entry_json y \<longleftrightarrow> x = y"
  by (cases x; cases y) (simp add: interface_entry_json_def object_inject json_inject)

lemma boundary_json_inject [json_inject]: "boundary_json x = boundary_json y \<longleftrightarrow> x = y"
  by (cases x; cases y) (simp add: object_inject json_inject)

lemma type_reference_json_inject [json_inject]: "type_reference_json x = type_reference_json y \<longleftrightarrow> x = y"
  by (cases x; cases y) (simp add: object_inject json_inject)

lemma impact_step_json_inject [json_inject]: "impact_step_json x = impact_step_json y \<longleftrightarrow> x = y"
  by (cases x; cases y) (simp add: object_inject json_inject)

lemma call_evidence_json_inject [json_inject]: "call_evidence_json x = call_evidence_json y \<longleftrightarrow> x = y"
  by (cases x; cases y) (simp add: call_evidence_json_def object_inject json_inject)

lemma interface_entry_json_collections [json_inject]:
  "map_json interface_entry_json x0 = map_json interface_entry_json y0 \<longleftrightarrow> x0 = y0"
  "list_json boundary_json x1 = list_json boundary_json y1 \<longleftrightarrow> x1 = y1"
  "list_json type_reference_json x2 = list_json type_reference_json y2 \<longleftrightarrow> x2 = y2"
  "map_json call_evidence_json x3 = map_json call_evidence_json y3 \<longleftrightarrow> x3 = y3"
  "list_json impact_step_json x4 = list_json impact_step_json y4 \<longleftrightarrow> x4 = y4"
  by (simp_all add: opt_inject list_inject map_inject json_inject)

lemma artifact_json_inject [json_inject]: "artifact_json x = artifact_json y \<longleftrightarrow> x = y"
  by (cases x; cases y) (simp add: artifact_json_def object_inject json_inject)

lemma finding_json_inject [json_inject]: "finding_json x = finding_json y \<longleftrightarrow> x = y"
  by (cases x; cases y) (simp add: finding_json_def object_inject json_inject)

lemma context_json_inject [json_inject]: "context_json x = context_json y \<longleftrightarrow> x = y"
  by (cases x; cases y) (simp add: context_json_def object_inject json_inject)

lemma policy_json_inject [json_inject]: "policy_json x = policy_json y \<longleftrightarrow> x = y"
  by (cases x; cases y) (simp add: policy_json_def object_inject json_inject)

lemma migration_json_inject [json_inject]: "migration_json x = migration_json y \<longleftrightarrow> x = y"
  by (cases x; cases y) (simp add: migration_json_def object_inject json_inject)

lemma migration_opt [json_inject]: "opt_json migration_json x = opt_json migration_json y \<longleftrightarrow> x = y"
  by (rule opt_inject) (simp_all add: json_inject, simp add: migration_json_def not_Null)

lemma storage_entry_json_inject [json_inject]: "storage_entry_json x = storage_entry_json y \<longleftrightarrow> x = y"
  by (cases x; cases y) (simp add: storage_entry_json_def object_inject json_inject)

lemma storage_entry_json_collections [json_inject]:
  "list_json storage_entry_json x0 = list_json storage_entry_json y0 \<longleftrightarrow> x0 = y0"
  by (simp_all add: opt_inject list_inject map_inject json_inject)

lemma storage_schema_json_inject [json_inject]: "storage_schema_json x = storage_schema_json y \<longleftrightarrow> x = y"
  by (cases x; cases y) (simp add: storage_schema_json_def object_inject json_inject)

lemma historical_field_json_inject [json_inject]: "historical_field_json x = historical_field_json y \<longleftrightarrow> x = y"
  by (cases x; cases y) (simp add: historical_field_json_def object_inject json_inject)

lemma historical_field_json_collections [json_inject]:
  "map_json historical_field_json x0 = map_json historical_field_json y0 \<longleftrightarrow> x0 = y0"
  by (simp_all add: opt_inject list_inject map_inject json_inject)

lemma type_history_json_inject [json_inject]: "type_history_json x = type_history_json y \<longleftrightarrow> x = y"
  by (cases x; cases y) (simp add: type_history_json_def object_inject json_inject)

lemma type_history_json_collections [json_inject]:
  "map_json type_history_json x0 = map_json type_history_json y0 \<longleftrightarrow> x0 = y0"
  by (simp_all add: opt_inject list_inject map_inject json_inject)

lemma schema_history_json_inject [json_inject]: "schema_history_json x = schema_history_json y \<longleftrightarrow> x = y"
  by (cases x; cases y) (simp add: schema_history_json_def object_inject json_inject)

lemma evidence_item_json_inject [json_inject]: "evidence_item_json x = evidence_item_json y \<longleftrightarrow> x = y"
  by (cases x; cases y) (simp add: evidence_item_json_def object_inject json_inject)

lemma evidence_coverage_json_inject [json_inject]: "evidence_coverage_json x = evidence_coverage_json y \<longleftrightarrow> x = y"
  by (cases x; cases y) (simp add: evidence_coverage_json_def object_inject json_inject)

lemma public_impact_json_inject [json_inject]: "public_impact_json x = public_impact_json y \<longleftrightarrow> x = y"
  by (cases x; cases y) (simp add: object_inject json_inject)

lemma finding_json_collections [json_inject]:
  "list_json finding_json x0 = list_json finding_json y0 \<longleftrightarrow> x0 = y0"
  "list_json public_impact_json x1 = list_json public_impact_json y1 \<longleftrightarrow> x1 = y1"
  by (simp_all add: opt_inject list_inject map_inject json_inject)

lemma schema_opt [json_inject]:
  "opt_json storage_schema_json x = opt_json storage_schema_json y \<longleftrightarrow> x = y"
  "opt_json schema_history_json v = opt_json schema_history_json w \<longleftrightarrow> v = w"
  by (rule opt_inject, simp add: json_inject, simp add: storage_schema_json_def schema_history_json_def not_Null)+

lemma report_json_inject [json_inject]: "report_json x = report_json y \<longleftrightarrow> x = y"
  by (cases x; cases y) (simp add: report_json_def object_inject json_inject)

lemma plan_step_json_inject [json_inject]: "plan_step_json x = plan_step_json y \<longleftrightarrow> x = y"
  by (cases x; cases y) (simp add: plan_step_json_def object_inject json_inject)

lemma migration_call_json_inject [json_inject]: "migration_call_json x = migration_call_json y \<longleftrightarrow> x = y"
  by (cases x; cases y) (simp add: migration_call_json_def object_inject json_inject)

lemma invariant_check_json_inject [json_inject]: "invariant_check_json x = invariant_check_json y \<longleftrightarrow> x = y"
  by (cases x; cases y) (simp add: invariant_check_json_def object_inject json_inject)

lemma input_paths_json_inject [json_inject]: "input_paths_json x = input_paths_json y \<longleftrightarrow> x = y"
  by (cases x; cases y) (simp add: input_paths_json_def object_inject json_inject)

lemma plan_step_json_collections [json_inject]:
  "list_json plan_step_json x0 = list_json plan_step_json y0 \<longleftrightarrow> x0 = y0"
  by (simp_all add: opt_inject list_inject map_inject json_inject)

lemma migration_call_opt [json_inject]:
  "opt_json migration_call_json x = opt_json migration_call_json y \<longleftrightarrow> x = y"
  by (rule opt_inject) (simp_all add: json_inject, simp add: migration_call_json_def not_Null)

lemma bm_remove_of_list: "bm_remove k (bm_of_list kvs) = bm_of_list (filter (\<lambda>kv. fst kv \<noteq> k) kvs)"
proof (rule bm_ext)
  have "map_of (rev (filter (\<lambda>kv. fst kv \<noteq> k) kvs)) j = (if j = k then None else map_of (rev kvs) j)" for j
    by (induction kvs rule: rev_induct) auto
  then show "bm_get (bm_remove k (bm_of_list kvs)) = bm_get (bm_of_list (filter (\<lambda>kv. fst kv \<noteq> k) kvs))"
    by (simp add: fun_eq_iff bm_get_remove bm_get_of_list)
qed simp_all

text \<open>The value that is hashed: the plan's JSON value without its digest member.\<close>

definition plan_digest_value :: "upgrade_plan \<Rightarrow> json" where
  "plan_digest_value p = object (filter (\<lambda>kv. fst kv \<noteq> ''planSha256'') (plan_members p))"

lemma plan_digest_value_iff:
  "plan_digest_value p = plan_digest_value q \<longleftrightarrow> p\<lparr>up_plan_sha256 := []\<rparr> = q\<lparr>up_plan_sha256 := []\<rparr>"
  by (cases p; cases q) (simp add: plan_digest_value_def plan_members_def object_inject json_inject)

end
