(* ===== verification/Shell.thy ===== *)
theory Shell
  imports Plan_Data
begin

text \<open>
  The rendered commands of a plan (\<open>render_command\<close>, \<open>shell_quote\<close>) and the scan for Stellar
  private keys (\<open>contains_stellar_private_key\<close>) in
  \<open>crates/soroban-upgrades-core/src/lib.rs\<close>.

  \<open>sh_words\<close> is the reader of the specification: the word splitting and quote removal of a POSIX
  shell on the characters that need no expansion. It rejects every unquoted character outside the
  list that \<open>shell_quote\<close> leaves bare and every character that double quotes do not protect, so a
  word that it returns is the word a shell passes to the program. Assignment prefixes are outside
  it: a shell takes a first word of the form \<open>name=value\<close> as an assignment, and \<open>=\<close> is among the
  bare characters.
\<close>

section \<open>Rendering\<close>

definition SINGLE_QUOTE :: char where
  "SINGLE_QUOTE = CHR 0x27"

definition DOUBLE_QUOTE :: char where
  "DOUBLE_QUOTE = CHR 0x22"

definition bare_character :: "char \<Rightarrow> bool" where
  "bare_character c \<longleftrightarrow> is_ascii_alphanumeric c \<or> c \<in> set ''_+-./:=@''"

definition escape_quotes :: "string \<Rightarrow> string" where
  "escape_quotes s = concat (map (\<lambda>c.
     if c = SINGLE_QUOTE
     then [SINGLE_QUOTE, DOUBLE_QUOTE, SINGLE_QUOTE, DOUBLE_QUOTE, SINGLE_QUOTE] else [c]) s)"

definition shell_quote :: "string \<Rightarrow> string" where
  "shell_quote s =
     (if s \<noteq> [] \<and> list_all bare_character s then s
      else [SINGLE_QUOTE] @ escape_quotes s @ [SINGLE_QUOTE])"

definition render_command :: "string \<Rightarrow> string list \<Rightarrow> string" where
  "render_command program arguments = join '' '' (map shell_quote (program # arguments))"

section \<open>Reading a command line\<close>

datatype quoting = Plain | Single | Double

definition word_so_far :: "string option \<Rightarrow> string" where
  "word_so_far w = (case w of None \<Rightarrow> [] | Some s \<Rightarrow> s)"

fun sh_scan :: "quoting \<Rightarrow> string option \<Rightarrow> string \<Rightarrow> string list option" where
  "sh_scan Plain w [] = Some (case w of None \<Rightarrow> [] | Some s \<Rightarrow> [s])"
| "sh_scan Single w [] = None"
| "sh_scan Double w [] = None"
| "sh_scan Plain w (c # cs) =
     (if c = CHR '' '' then
        (case w of None \<Rightarrow> sh_scan Plain None cs
         | Some s \<Rightarrow> map_option (\<lambda>ws. s # ws) (sh_scan Plain None cs))
      else if c = SINGLE_QUOTE then sh_scan Single (Some (word_so_far w)) cs
      else if c = DOUBLE_QUOTE then sh_scan Double (Some (word_so_far w)) cs
      else if bare_character c then sh_scan Plain (Some (word_so_far w @ [c])) cs
      else None)"
| "sh_scan Single w (c # cs) =
     (if c = SINGLE_QUOTE then sh_scan Plain w cs
      else sh_scan Single (Some (word_so_far w @ [c])) cs)"
| "sh_scan Double w (c # cs) =
     (if c = DOUBLE_QUOTE then sh_scan Plain w cs
      else if c \<in> {CHR ''$'', CHR 0x60, CHR 0x5C, CHR ''!''} then None
      else sh_scan Double (Some (word_so_far w @ [c])) cs)"

definition sh_words :: "string \<Rightarrow> string list option" where
  "sh_words s = sh_scan Plain None s"

lemma bare_not_special:
  "bare_character c \<Longrightarrow> c \<noteq> CHR '' '' \<and> c \<noteq> SINGLE_QUOTE \<and> c \<noteq> DOUBLE_QUOTE"
  by (auto simp: bare_character_def is_ascii_alphanumeric_def code_unit_def SINGLE_QUOTE_def DOUBLE_QUOTE_def)

lemma scan_bare:
  "list_all bare_character s \<Longrightarrow> s \<noteq> [] \<or> w \<noteq> None \<Longrightarrow>
     sh_scan Plain w (s @ rest) = sh_scan Plain (Some (word_so_far w @ s)) rest"
proof (induction s arbitrary: w)
  case Nil
  then show ?case by (auto simp: word_so_far_def)
next
  case (Cons c s)
  then have "c \<noteq> CHR '' ''" "c \<noteq> SINGLE_QUOTE" "c \<noteq> DOUBLE_QUOTE" "bare_character c"
    using bare_not_special [of c] by auto
  with Cons show ?case by (simp add: word_so_far_def)
qed

lemma quotes_distinct: "SINGLE_QUOTE \<noteq> DOUBLE_QUOTE" "SINGLE_QUOTE \<noteq> CHR '' ''" "DOUBLE_QUOTE \<noteq> CHR '' ''"
  "SINGLE_QUOTE \<notin> {CHR ''$'', CHR 0x60, CHR 0x5C, CHR ''!''}" "DOUBLE_QUOTE \<noteq> SINGLE_QUOTE"
  by (simp_all add: SINGLE_QUOTE_def DOUBLE_QUOTE_def)

lemma scan_escaped:
  "sh_scan Single (Some w) (escape_quotes s @ SINGLE_QUOTE # rest) = sh_scan Plain (Some (w @ s)) rest"
proof (induction s arbitrary: w)
  case (Cons c s)
  show ?case
  proof (cases "c = SINGLE_QUOTE")
    case True
    then have "escape_quotes (c # s)
        = [SINGLE_QUOTE, DOUBLE_QUOTE, SINGLE_QUOTE, DOUBLE_QUOTE, SINGLE_QUOTE] @ escape_quotes s"
      by (simp add: escape_quotes_def)
    then show ?thesis
      using Cons.IH [of "w @ [SINGLE_QUOTE]"] quotes_distinct by (simp add: True word_so_far_def)
  next
    case False
    then have "escape_quotes (c # s) = c # escape_quotes s" by (simp add: escape_quotes_def)
    then show ?thesis using Cons.IH [of "w @ [c]"] False by (simp add: word_so_far_def)
  qed
qed (simp add: escape_quotes_def)

lemma scan_shell_quote: "sh_scan Plain None (shell_quote s @ rest) = sh_scan Plain (Some s) rest"
proof (cases "s \<noteq> [] \<and> list_all bare_character s")
  case True
  then have "shell_quote s = s" by (simp add: shell_quote_def)
  then show ?thesis using True scan_bare [of s None rest] by (simp add: word_so_far_def)
next
  case False
  then have "shell_quote s = [SINGLE_QUOTE] @ escape_quotes s @ [SINGLE_QUOTE]"
    by (auto simp: shell_quote_def)
  then show ?thesis using scan_escaped [of "[]" s rest] quotes_distinct by (simp add: word_so_far_def)
qed

lemma scan_words: "ws \<noteq> [] \<Longrightarrow> sh_scan Plain None (join '' '' (map shell_quote ws)) = Some ws"
proof (induction ws rule: induct_list012)
  case (2 w)
  then show ?case using scan_shell_quote [of w "[]"] by simp
next
  case (3 w w' ws)
  have "sh_scan Plain None (join '' '' (map shell_quote (w # w' # ws)))
      = sh_scan Plain (Some w) ('' '' @ join '' '' (map shell_quote (w' # ws)))"
    using scan_shell_quote [of w "'' '' @ join '' '' (map shell_quote (w' # ws))"] by simp
  with 3 show ?case by simp
qed simp

text \<open>
  C33: A rendered command is read back by a shell as exactly the program and the arguments it was
  rendered from, whatever characters they contain: splitting it into words under the quoting rules
  of a POSIX shell, which fails on any unquoted character outside the plain set and on any
  character that is special between double quotes, gives the words back.
\<close>

theorem render_command_roundtrip: "sh_words (render_command program arguments) = Some (program # arguments)"
  using scan_words [of "program # arguments"] by (simp only: sh_words_def render_command_def) blast

section \<open>Private keys\<close>

text \<open>
  The crates that planning calls beside validation: the strkey decoder, the JSON text of a plan,
  and the JSON printer of the hashed value.
\<close>

record 'v plan_lib =
  pl_core :: "'v core_lib"
  contract_from_string :: "string \<Rightarrow> bool"
  private_key_from_string :: "string \<Rightarrow> bool"
  plan_to_string :: "upgrade_plan \<Rightarrow> string + string"
  value_to_vec :: "json \<Rightarrow> string + bytes"

definition STELLAR_SECRET_SEED_LENGTH :: usize where
  "STELLAR_SECRET_SEED_LENGTH = 56"

text \<open>\<open>slice::windows\<close>.\<close>

definition windows :: "usize \<Rightarrow> string \<Rightarrow> string list" where
  "windows n s = map (\<lambda>i. take n (drop i s)) [0..<Suc (length s) - n]"

definition contains_stellar_private_key :: "'v plan_lib \<Rightarrow> string \<Rightarrow> bool" where
  "contains_stellar_private_key lib s =
     list_ex (private_key_from_string lib)
       (filter (\<lambda>candidate. candidate ! 0 = CHR ''S'' \<and> list_all is_ascii candidate)
         (windows STELLAR_SECRET_SEED_LENGTH s))"

lemma windows_iff:
  assumes "0 < n"
  shows "w \<in> set (windows n s) \<longleftrightarrow> length w = n \<and> (\<exists>pre post. s = pre @ w @ post)"
proof
  assume "w \<in> set (windows n s)"
  then obtain i where i: "i < Suc (length s) - n" and w: "w = take n (drop i s)"
    by (auto simp: windows_def)
  have "s = take i s @ w @ drop n (drop i s)" by (simp only: w append_take_drop_id)
  moreover have "length w = n" using i by (simp add: w)
  ultimately show "length w = n \<and> (\<exists>pre post. s = pre @ w @ post)" by blast
next
  assume "length w = n \<and> (\<exists>pre post. s = pre @ w @ post)"
  then obtain pre post where s: "s = pre @ w @ post" and n: "length w = n" by blast
  then have "w = take n (drop (length pre) s)" and "length pre < Suc (length s) - n" by auto
  then show "w \<in> set (windows n s)" by (auto simp: windows_def)
qed

lemma contains_private_key_iff:
  "contains_stellar_private_key lib s \<longleftrightarrow>
     (\<exists>pre key post. s = pre @ key @ post \<and> length key = 56 \<and> key ! 0 = CHR ''S'' \<and> list_all is_ascii key
        \<and> private_key_from_string lib key)"
  by (auto simp: contains_stellar_private_key_def list_ex_iff windows_iff STELLAR_SECRET_SEED_LENGTH_def)

text \<open>
  C34: The scan for private keys reports a text exactly when some 56-byte ASCII substring of it,
  at any position, starts with \<open>S\<close> and decodes as a private key: no offset is skipped and no text
  without such a substring is rejected.
\<close>

theorem private_key_scan_exact:
  "contains_stellar_private_key lib s =
     (\<exists>pre key post. s = pre @ key @ post \<and> length key = 56 \<and> key ! 0 = CHR ''S'' \<and> list_all is_ascii key
        \<and> private_key_from_string lib key)"
  by (rule contains_private_key_iff)

end
