(* ===== verification/Plan.thy ===== *)
theory Plan
  imports Shell
begin

text \<open>
  Creating and verifying an upgrade plan: \<open>create_plan_with_paths\<close>, \<open>create_plan\<close>,
  \<open>calculate_plan_sha256\<close>, \<open>verify_plan_digest\<close>, \<open>validate_plan_structure\<close> and the input
  validators in \<open>crates/soroban-upgrades-core/src/lib.rs\<close>.

  \<open>plan_admissible\<close> states when a plan may be created; \<open>create_plan_iff\<close> proves that it decides
  the function together with the two serializer calls. Verification recomputes the report and the
  plan, so an accepted plan is the canonical one for its inputs.
\<close>

section \<open>Input validation\<close>

definition validate_plan_string :: "'v plan_lib \<Rightarrow> string \<Rightarrow> string \<Rightarrow> usize \<Rightarrow> core_error + unit" where
  "validate_plan_string lib label s maximum_bytes =
     (if s = [] \<or> maximum_bytes < length s \<or> has_control s then
        Inl (PlanError (label @ '' must be non-empty, contain no control characters, and stay within ''
          @ show_nat maximum_bytes @ '' bytes''))
      else if contains_stellar_private_key lib s then
        Inl (PlanError (label @ '' must not contain a Stellar private key''))
      else Inr ())"

definition validate_plan_input_paths :: "'v plan_lib \<Rightarrow> plan_input_paths \<Rightarrow> core_error + unit" where
  "validate_plan_input_paths lib paths =
     and_then (try_fold (\<lambda>_ (label, path). validate_plan_string lib (label @ '' path'') path 4096) ()
       [(''source WASM'', pip_source_wasm paths), (''target WASM'', pip_target_wasm paths),
        (''source schema'', pip_source_schema paths), (''target schema'', pip_target_schema paths),
        (''schema history'', pip_schema_history paths)]) (\<lambda>_.
     case pip_policy paths of
       Some path \<Rightarrow> validate_plan_string lib ''policy path'' path 4096
     | None \<Rightarrow> Inr ())"

definition validate_invariant_argument :: "'v plan_lib \<Rightarrow> unit \<Rightarrow> string \<Rightarrow> core_error + unit" where
  "validate_invariant_argument lib u argument =
     and_then (ensure (\<not> (4096 < length argument \<or> has_control argument))
       (PlanError ''invariant arguments must not contain control characters or exceed 4096 bytes'')) (\<lambda>_.
     ensure (\<not> contains_stellar_private_key lib argument)
       (PlanError ''invariant arguments must not contain private keys''))"

definition validate_invariant_check :: "'v plan_lib \<Rightarrow> invariant_check \<Rightarrow> core_error + unit" where
  "validate_invariant_check lib check =
     and_then (ensure (\<not> (ic_program check = [] \<or> 256 < length (ic_program check)
         \<or> has_control_or_whitespace (ic_program check)))
       (PlanError ''invariant program must be a non-empty command name without whitespace'')) (\<lambda>_.
     and_then (ensure (\<not> contains_stellar_private_key lib (ic_program check))
       (PlanError ''invariant program must not contain a private key'')) (\<lambda>_.
     try_fold (validate_invariant_argument lib) () (ic_arguments check)))"

definition validate_source_identity :: "'v plan_lib \<Rightarrow> string \<Rightarrow> core_error + unit" where
  "validate_source_identity lib source_identity =
     and_then (ensure (\<not> (source_identity = [] \<or> 128 < length source_identity
         \<or> has_control_or_whitespace source_identity))
       (PlanError ''source identity must be a non-empty Stellar CLI alias or public account without whitespace'')) (\<lambda>_.
     ensure (\<not> contains_stellar_private_key lib source_identity)
       (PlanError ''source identity must not contain a private key. Use a Stellar CLI alias or public account''))"

definition function_inputs :: "artifact \<Rightarrow> string \<Rightarrow> json list option" where
  "function_inputs a entrypoint =
     option_bind (bm_get (art_functions a) entrypoint) (\<lambda>f.
     option_bind (json_pointer (ie_canonical f) [''function_v0'', ''inputs'']) as_array)"

definition input_name :: "string \<Rightarrow> json \<Rightarrow> core_error + string" where
  "input_name entrypoint input =
     ok_or (option_bind (json_get input ''name'') as_str)
       (PlanError (''cannot read an argument for `'' @ entrypoint @ ''`''))"

definition validate_call_arguments ::
  "'v plan_lib \<Rightarrow> artifact \<Rightarrow> string \<Rightarrow> (string, string) bmap \<Rightarrow> string \<Rightarrow> core_error + unit" where
  "validate_call_arguments lib a entrypoint arguments call_kind =
     and_then (ok_or (bm_get (art_functions a) entrypoint)
       (PlanError (call_kind @ '' entrypoint `'' @ entrypoint @ ''` is not exported by the target WASM''))) (\<lambda>_.
     and_then (ok_or (function_inputs a entrypoint)
       (PlanError (''cannot read arguments for `'' @ entrypoint @ ''`''))) (\<lambda>inputs.
     and_then (collect_results (map (input_name entrypoint) inputs)) (\<lambda>names.
     let expected = bs_of_list names; supplied = bs_of_list (bm_keys arguments) in
     if expected \<noteq> supplied then
       Inl (PlanError (call_kind @ '' entrypoint `'' @ entrypoint @ ''` requires arguments [''
         @ join '', '' expected @ ''], but the plan supplies ['' @ join '', '' supplied @ '']''))
     else ensure (\<not> list_ex (contains_stellar_private_key lib) (map snd arguments))
       (PlanError ''plan arguments must not contain private keys''))))"

definition BYTES_32 :: json where
  "BYTES_32 = Object [(''bytes_n'', Object [(''n'', Number (Int_Number 32))])]"

definition validate_standard_upgrade_entrypoint :: "'v plan_lib \<Rightarrow> artifact \<Rightarrow> core_error + unit" where
  "validate_standard_upgrade_entrypoint lib a =
     and_then (validate_call_arguments lib a ''upgrade''
       (bm_of_list [(''new_wasm_hash'', []), (''operator'', [])]) ''OpenZeppelin-compatible upgrade'') (\<lambda>_.
     and_then (ok_or (function_inputs a ''upgrade'') (PlanError ''cannot read arguments for `upgrade`'')) (\<lambda>inputs.
     let types = bm_of_list (concat (map (\<lambda>input.
           case field_of input of None \<Rightarrow> [] | Some item \<Rightarrow> [item]) inputs))
     in and_then (ensure (\<not> (bm_get types ''new_wasm_hash'' \<noteq> Some BYTES_32
           \<or> bm_get types ''operator'' \<noteq> Some (String ''address'')))
         (PlanError ''the `upgrade` entrypoint must use `new_wasm_hash: BytesN<32>` and `operator: Address`'')) (\<lambda>_.
     ensure (case bm_get (art_export_call_evidence a) ''upgrade'' of
           None \<Rightarrow> False
         | Some evidence \<Rightarrow> bs_member (ev_host_imports evidence) UPDATE_CURRENT_CONTRACT_WASM_IMPORT)
       (PlanError ''the `upgrade` entrypoint must reach Stellar `update_current_contract_wasm`''))))"

section \<open>Steps\<close>

definition new_step :: "u32 \<Rightarrow> plan_step_kind \<Rightarrow> string \<Rightarrow> string list \<Rightarrow> string \<Rightarrow> plan_step" where
  "new_step position kind program arguments expected =
     \<lparr>ps_position = position, ps_kind = kind, ps_program = program, ps_arguments = arguments,
      ps_command = render_command program arguments, ps_expected = expected\<rparr>"

definition upgrade_steps :: "string \<Rightarrow> string \<Rightarrow> string \<Rightarrow> string \<Rightarrow> string \<Rightarrow> string \<Rightarrow> plan_step list" where
  "upgrade_steps network contract_id source_identity target_wasm source_hash target_hash =
     [new_step 1 VerifyCurrentExecutable ''stellar''
        [''contract'', ''fetch'', ''--id'', contract_id, ''--network'', network, ''--out-file'', ''current.wasm'']
        (''Fetched WASM SHA-256 equals '' @ source_hash),
      new_step 2 UploadTargetWasm ''stellar''
        [''contract'', ''upload'', ''--wasm'', target_wasm, ''--optimize=false'', ''--source-account'',
         source_identity, ''--network'', network]
        (''WASM hash '' @ target_hash),
      new_step 3 SimulateUpgrade ''stellar''
        [''contract'', ''invoke'', ''--id'', contract_id, ''--source-account'', source_identity, ''--network'',
         network, ''--send'', ''no'', ''--'', ''upgrade'', ''--new_wasm_hash'', target_hash, ''--operator'',
         source_identity]
        ''Successful simulation with expected authorization and resource footprint'',
      new_step 4 ExecuteUpgrade ''stellar''
        [''contract'', ''invoke'', ''--id'', contract_id, ''--source-account'', source_identity, ''--network'',
         network, ''--'', ''upgrade'', ''--new_wasm_hash'', target_hash, ''--operator'', source_identity]
        ''Successful executable_update system event'']"

definition migration_step :: "string \<Rightarrow> string \<Rightarrow> string \<Rightarrow> migration_call \<Rightarrow> plan_step" where
  "migration_step network contract_id source_identity mig =
     new_step 5 ExecuteMigration ''stellar''
       ([''contract'', ''invoke'', ''--id'', contract_id, ''--source-account'', source_identity, ''--network'',
         network, ''--'', mc_entrypoint mig]
        @ concat (map (\<lambda>(name, argument). [''--'' @ name, argument]) (mc_arguments mig)))
       ''Migration succeeds once and records the new schema version''"

definition plan_steps ::
  "string \<Rightarrow> string \<Rightarrow> string \<Rightarrow> string \<Rightarrow> string \<Rightarrow> string \<Rightarrow> migration_call option \<Rightarrow> invariant_check
     \<Rightarrow> plan_step list" where
  "plan_steps network contract_id source_identity target_wasm source_hash target_hash mig check =
     (let steps = upgrade_steps network contract_id source_identity target_wasm source_hash target_hash
            @ (case mig of None \<Rightarrow> [] | Some m \<Rightarrow> [migration_step network contract_id source_identity m]);
          next_position = of_nat (length steps) + 1
      in steps @
       [new_step next_position VerifyExecutable ''stellar''
          [''contract'', ''fetch'', ''--id'', contract_id, ''--network'', network, ''--out-file'', ''deployed.wasm'']
          (''Fetched WASM SHA-256 equals '' @ target_hash),
        new_step (next_position + 1) VerifyInvariants (ic_program check) (ic_arguments check)
          ''The application-specific post-upgrade invariants pass''])"

section \<open>Creating a plan\<close>

definition declared_entrypoints :: "validation_report \<Rightarrow> string bset" where
  "declared_entrypoints report =
     bs_of_list (case rep_target_schema report of
         None \<Rightarrow> []
       | Some schema \<Rightarrow> concat (map (\<lambda>entry.
           case option_bind (se_migration entry) mig_entrypoint of None \<Rightarrow> [] | Some e \<Rightarrow> [e])
           (ss_entries schema)))"

definition selected_entrypoints :: "migration_call option \<Rightarrow> string bset" where
  "selected_entrypoints mig = (case mig of None \<Rightarrow> [] | Some call \<Rightarrow> [mc_entrypoint call])"

definition storage_migration_required :: "validation_report \<Rightarrow> bool" where
  "storage_migration_required report = list_ex (\<lambda>f. f_code f = ''STO002'') (rep_findings report)"

definition check_plan_network :: "validation_report \<Rightarrow> string \<Rightarrow> core_error + unit" where
  "check_plan_network report network =
     and_then (ensure (\<not> (ctx_target_protocol_version (rep_context report) = None
         \<or> ctx_protocol_source (rep_context report) = Unpinned))
       (PlanError ''target protocol and its evidence source are not pinned in the validation report'')) (\<lambda>_.
     case ctx_network_name (rep_context report) of
       Some evidence_network \<Rightarrow>
         if evidence_network = network then Inr ()
         else Inl (PlanError (''plan network `'' @ network @ ''` does not match protocol evidence for `''
           @ evidence_network @ ''`''))
     | None \<Rightarrow> Inl (PlanError ''protocol evidence is not bound to the plan network''))"

definition check_plan_migration :: "validation_report \<Rightarrow> migration_call option \<Rightarrow> core_error + unit" where
  "check_plan_migration report mig =
     and_then (ensure (\<not> (storage_migration_required report \<and> mig = None))
       (PlanError ''storage layout changed but no migration entrypoint was selected'')) (\<lambda>_.
     if storage_migration_required report then
       ensure (declared_entrypoints report = selected_entrypoints mig)
         (PlanError (''selected migration ['' @ join '', '' (selected_entrypoints mig)
           @ ''] does not match declared entrypoints ['' @ join '', '' (declared_entrypoints report) @ '']''))
     else Inr ())"

definition assemble_plan ::
  "validation_report \<Rightarrow> string \<Rightarrow> string \<Rightarrow> string \<Rightarrow> plan_input_paths \<Rightarrow> plan_operations \<Rightarrow> upgrade_plan" where
  "assemble_plan report network contract_id source_identity paths ops =
     \<lparr>up_format_version = 3, up_plan_sha256 = [],
      up_status = (if ctx_protocol_source (rep_context report) = StellarCliNetworkInfo then ReviewReady
        else OfflineDraft),
      up_network = network, up_contract_id = contract_id, up_source_identity = source_identity,
      up_inputs = paths,
      up_source_wasm_sha256 = art_sha256 (rep_source report),
      up_target_wasm_sha256 = art_sha256 (rep_target report),
      up_rollback_wasm_sha256 = art_sha256 (rep_source report),
      up_from_version = art_version (rep_source report), up_to_version = art_version (rep_target report),
      up_migration = po_migration ops, up_invariant_check = po_invariant_check ops,
      up_validation = report,
      up_steps = plan_steps network contract_id source_identity (pip_target_wasm paths)
        (art_sha256 (rep_source report)) (art_sha256 (rep_target report)) (po_migration ops)
        (po_invariant_check ops)\<rparr>"

definition calculate_plan_sha256 :: "'v plan_lib \<Rightarrow> upgrade_plan \<Rightarrow> core_error + string" where
  "calculate_plan_sha256 lib p =
     (case plan_json p of
        Object members \<Rightarrow>
          and_then (lift_error (\<lambda>e. JsonError (Decoder_Error e))
            (value_to_vec lib (Object (bm_remove ''planSha256'' members)))) (\<lambda>bs.
          Inr (hash_hex (pl_core lib) bs))
      | _ \<Rightarrow> Inl (PlanError ''serialized plan is not a JSON object''))"

definition create_plan_with_paths ::
  "'v plan_lib \<Rightarrow> validation_report \<Rightarrow> string \<Rightarrow> string \<Rightarrow> string \<Rightarrow> plan_input_paths \<Rightarrow> plan_operations
     \<Rightarrow> core_error + upgrade_plan" where
  "create_plan_with_paths lib report network contract_id source_identity paths ops =
     and_then (validate_plan_input_paths lib paths) (\<lambda>_.
     and_then (validate_plan_string lib ''network'' network 256) (\<lambda>_.
     and_then (ensure (contract_from_string lib contract_id) (InvalidContractId contract_id)) (\<lambda>_.
     and_then (ensure (\<not> (\<not> rep_safe report \<or> has_error (rep_findings report)))
       (PlanError ''validation report contains release-blocking findings'')) (\<lambda>_.
     and_then (check_plan_network report network) (\<lambda>_.
     and_then (ensure (rep_storage_schema_checked report)
       (PlanError ''storage schemas were not checked in the validation report'')) (\<lambda>_.
     and_then (ensure (\<not> (\<not> rep_schema_history_checked report \<or> rep_schema_history_sha256 report = None))
       (PlanError ''cumulative schema history was not checked in the validation report'')) (\<lambda>_.
     and_then (validate_source_identity lib source_identity) (\<lambda>_.
     and_then (check_plan_migration report (po_migration ops)) (\<lambda>_.
     and_then (validate_standard_upgrade_entrypoint lib (rep_source report)) (\<lambda>_.
     and_then (validate_standard_upgrade_entrypoint lib (rep_target report)) (\<lambda>_.
     and_then (case po_migration ops of
         None \<Rightarrow> Inr ()
       | Some call \<Rightarrow> validate_call_arguments lib (rep_target report) (mc_entrypoint call) (mc_arguments call)
           ''migration'') (\<lambda>_.
     and_then (validate_invariant_check lib (po_invariant_check ops)) (\<lambda>_.
     let p = assemble_plan report network contract_id source_identity paths ops in
     and_then (lift_error (\<lambda>e. JsonError (Decoder_Error e)) (plan_to_string lib p)) (\<lambda>encoded.
     and_then (ensure (\<not> contains_stellar_private_key lib encoded)
       (PlanError ''plan evidence must not contain a Stellar private key'')) (\<lambda>_.
     and_then (calculate_plan_sha256 lib p) (\<lambda>sha.
     Inr (p\<lparr>up_plan_sha256 := sha\<rparr>)))))))))))))))))"

definition create_plan ::
  "'v plan_lib \<Rightarrow> validation_report \<Rightarrow> string \<Rightarrow> string \<Rightarrow> string \<Rightarrow> string \<Rightarrow> string option
     \<Rightarrow> core_error + upgrade_plan" where
  "create_plan lib report network contract_id source_identity target_wasm_path migration_entrypoint =
     create_plan_with_paths lib report network contract_id source_identity
       \<lparr>pip_source_wasm = ''source.wasm'', pip_target_wasm = target_wasm_path,
        pip_source_schema = ''source.schema.json'', pip_target_schema = ''target.schema.json'',
        pip_schema_history = ''schema-history.json'', pip_policy = None\<rparr>
       \<lparr>po_migration = map_option (\<lambda>entrypoint. \<lparr>mc_entrypoint = entrypoint,
          mc_arguments = [(''operator'', source_identity)]\<rparr>) migration_entrypoint,
        po_invariant_check = \<lparr>ic_program = ''cargo'', ic_arguments = [''test'', ''--workspace'']\<rparr>\<rparr>"

section \<open>Verifying a plan\<close>

fun argument_after :: "string list \<Rightarrow> string \<Rightarrow> string option" where
  "argument_after [] flag = None"
| "argument_after (argument # arguments) flag =
     (if argument = flag then (case arguments of [] \<Rightarrow> None | next_argument # _ \<Rightarrow> Some next_argument)
      else argument_after arguments flag)"

definition steps_of_kind :: "plan_step_kind \<Rightarrow> upgrade_plan \<Rightarrow> plan_step list" where
  "steps_of_kind kind p = filter (\<lambda>step. ps_kind step = kind) (up_steps p)"

definition revalidate :: "'v plan_lib \<Rightarrow> validation_report \<Rightarrow> validation_report" where
  "revalidate lib r =
     validate_with_history (pl_core lib) (rep_source r) (rep_target r) (rep_source_schema r) (rep_target_schema r)
       (rep_policy r) (rep_context r) (rep_schema_history r)"

definition validate_plan_structure :: "'v plan_lib \<Rightarrow> upgrade_plan \<Rightarrow> core_error + unit" where
  "validate_plan_structure lib p =
     and_then (ensure (up_format_version p = 3)
       (PlanError (''unsupported plan format version '' @ show_u32 (up_format_version p)
         @ ''. This build supports version 3''))) (\<lambda>_.
     and_then (ensure (revalidate lib (up_validation p) = up_validation p)
       (PlanError ''embedded validation report does not match a fresh validation of its evidence'')) (\<lambda>_.
     and_then (ensure (length (steps_of_kind UploadTargetWasm p) = 1)
       (PlanError ''plan must contain exactly one target-WASM upload step'')) (\<lambda>_.
     and_then (ok_or (argument_after (ps_arguments (hd (steps_of_kind UploadTargetWasm p))) ''--wasm'')
       (PlanError ''upload step has no `--wasm` argument'')) (\<lambda>target_wasm_path.
     and_then (ensure (target_wasm_path = pip_target_wasm (up_inputs p))
       (PlanError ''upload step target does not match the plan input path'')) (\<lambda>_.
     and_then (ensure (\<not> 1 < length (steps_of_kind ExecuteMigration p))
       (PlanError ''plan contains more than one migration step'')) (\<lambda>_.
     and_then (ensure (length (steps_of_kind ExecuteMigration p) = (if up_migration p \<noteq> None then 1 else 0))
       (PlanError ''migration metadata and migration steps do not match'')) (\<lambda>_.
     and_then (create_plan_with_paths lib (up_validation p) (up_network p) (up_contract_id p)
       (up_source_identity p) (up_inputs p)
       \<lparr>po_migration = up_migration p, po_invariant_check = up_invariant_check p\<rparr>) (\<lambda>expected.
     ensure (p\<lparr>up_plan_sha256 := []\<rparr> = expected\<lparr>up_plan_sha256 := []\<rparr>)
       (PlanError ''plan fields or commands do not match the canonical validation-derived plan'')))))))))"

definition verify_plan_digest :: "'v plan_lib \<Rightarrow> upgrade_plan \<Rightarrow> core_error + bool" where
  "verify_plan_digest lib p =
     and_then (validate_plan_structure lib p) (\<lambda>_.
     and_then (calculate_plan_sha256 lib p) (\<lambda>sha. Inr (up_plan_sha256 p = sha)))"

section \<open>When a plan is created\<close>

definition text_ok :: "'v plan_lib \<Rightarrow> usize \<Rightarrow> string \<Rightarrow> bool" where
  "text_ok lib bound s \<longleftrightarrow>
     s \<noteq> [] \<and> length s \<le> bound \<and> \<not> has_control s \<and> \<not> contains_stellar_private_key lib s"

definition word_ok :: "'v plan_lib \<Rightarrow> usize \<Rightarrow> string \<Rightarrow> bool" where
  "word_ok lib bound s \<longleftrightarrow>
     s \<noteq> [] \<and> length s \<le> bound \<and> \<not> has_control_or_whitespace s \<and> \<not> contains_stellar_private_key lib s"

definition paths_ok :: "'v plan_lib \<Rightarrow> plan_input_paths \<Rightarrow> bool" where
  "paths_ok lib paths \<longleftrightarrow>
     text_ok lib 4096 (pip_source_wasm paths) \<and> text_ok lib 4096 (pip_target_wasm paths)
     \<and> text_ok lib 4096 (pip_source_schema paths) \<and> text_ok lib 4096 (pip_target_schema paths)
     \<and> text_ok lib 4096 (pip_schema_history paths)
     \<and> (\<forall>path. pip_policy paths = Some path \<longrightarrow> text_ok lib 4096 path)"

definition invariant_ok :: "'v plan_lib \<Rightarrow> invariant_check \<Rightarrow> bool" where
  "invariant_ok lib check \<longleftrightarrow> word_ok lib 256 (ic_program check)
     \<and> (\<forall>a\<in>set (ic_arguments check). length a \<le> 4096 \<and> \<not> has_control a \<and> \<not> contains_stellar_private_key lib a)"

definition call_ok :: "'v plan_lib \<Rightarrow> artifact \<Rightarrow> string \<Rightarrow> (string, string) bmap \<Rightarrow> bool" where
  "call_ok lib a entrypoint arguments \<longleftrightarrow>
     (\<exists>inputs names. function_inputs a entrypoint = Some inputs
        \<and> map (\<lambda>input. option_bind (json_get input ''name'') as_str) inputs = map Some names
        \<and> set names = set (bm_keys arguments)
        \<and> (\<forall>argument\<in>snd ` set arguments. \<not> contains_stellar_private_key lib argument))"

definition upgrade_call_ok :: "'v plan_lib \<Rightarrow> artifact \<Rightarrow> bool" where
  "upgrade_call_ok lib a \<longleftrightarrow> validate_standard_upgrade_entrypoint lib a = Inr ()"

definition migration_selected :: "validation_report \<Rightarrow> migration_call option \<Rightarrow> bool" where
  "migration_selected report mig \<longleftrightarrow>
     (storage_migration_required report \<longrightarrow>
        (\<exists>call. mig = Some call \<and> declared_entrypoints report = [mc_entrypoint call]))"

definition plan_admissible ::
  "'v plan_lib \<Rightarrow> validation_report \<Rightarrow> string \<Rightarrow> string \<Rightarrow> string \<Rightarrow> plan_input_paths \<Rightarrow> plan_operations \<Rightarrow> bool" where
  "plan_admissible lib report network contract_id source_identity paths ops \<longleftrightarrow>
     paths_ok lib paths \<and> text_ok lib 256 network \<and> contract_from_string lib contract_id
     \<and> rep_safe report \<and> \<not> has_error (rep_findings report)
     \<and> ctx_target_protocol_version (rep_context report) \<noteq> None
     \<and> ctx_protocol_source (rep_context report) \<noteq> Unpinned
     \<and> ctx_network_name (rep_context report) = Some network
     \<and> rep_storage_schema_checked report \<and> rep_schema_history_checked report
     \<and> rep_schema_history_sha256 report \<noteq> None
     \<and> word_ok lib 128 source_identity
     \<and> migration_selected report (po_migration ops)
     \<and> upgrade_call_ok lib (rep_source report) \<and> upgrade_call_ok lib (rep_target report)
     \<and> (\<forall>call. po_migration ops = Some call \<longrightarrow>
          call_ok lib (rep_target report) (mc_entrypoint call) (mc_arguments call))
     \<and> invariant_ok lib (po_invariant_check ops)"

lemma validate_plan_string_iff: "validate_plan_string lib label s bound = Inr u \<longleftrightarrow> text_ok lib bound s"
  by (simp add: validate_plan_string_def text_ok_def)

lemma validate_paths_iff: "validate_plan_input_paths lib paths = Inr u \<longleftrightarrow> paths_ok lib paths"
  by (simp add: validate_plan_input_paths_def and_then_Inr_iff validate_plan_string_iff paths_ok_def
      split: option.split)

lemma try_fold_unit: "try_fold (\<lambda>u x. f x) () xs = Inr v \<longleftrightarrow> (\<forall>x\<in>set xs. f x = Inr ())"
  by (induction xs) (simp_all add: and_then_Inr_iff)

lemma validate_invariant_iff: "validate_invariant_check lib check = Inr u \<longleftrightarrow> invariant_ok lib check"
proof -
  have arg: "validate_invariant_argument lib u a = Inr v \<longleftrightarrow>
      length a \<le> 4096 \<and> \<not> has_control a \<and> \<not> contains_stellar_private_key lib a" for u v a
    by (auto simp: validate_invariant_argument_def and_then_Inr_iff)
  have "try_fold (validate_invariant_argument lib) () as = Inr v \<longleftrightarrow>
      (\<forall>a\<in>set as. length a \<le> 4096 \<and> \<not> has_control a \<and> \<not> contains_stellar_private_key lib a)" for as v
    by (induction as) (simp_all add: and_then_Inr_iff arg)
  then show ?thesis
    by (auto simp: validate_invariant_check_def and_then_Inr_iff invariant_ok_def word_ok_def not_less)
qed

lemma validate_identity_iff: "validate_source_identity lib s = Inr u \<longleftrightarrow> word_ok lib 128 s"
  by (auto simp: validate_source_identity_def and_then_Inr_iff word_ok_def)

lemma input_names_iff:
  "collect_results (map (input_name entrypoint) inputs) = Inr names \<longleftrightarrow>
     map (\<lambda>input. option_bind (json_get input ''name'') as_str) inputs = map Some names"
  unfolding collect_results_Inr_iff
  by (induction inputs arbitrary: names) (auto simp: input_name_def Cons_eq_map_conv)

lemma bs_of_list_eq: "bs_of_list xs = bs_of_list ys \<longleftrightarrow> set xs = set ys"
  by (simp add: bs_eq_iff)

lemma validate_call_iff: "validate_call_arguments lib a entrypoint arguments kind = Inr u \<longleftrightarrow> call_ok lib a entrypoint arguments"
proof -
  have "function_inputs a entrypoint = Some inputs \<Longrightarrow> \<exists>f. bm_get (art_functions a) entrypoint = Some f" for inputs
    by (auto simp: function_inputs_def)
  then show ?thesis
    by (auto simp: validate_call_arguments_def and_then_Inr_iff call_ok_def input_names_iff Let_def bs_of_list_eq
        list_ex_iff)
qed

lemma check_plan_migration_iff:
  "check_plan_migration report mig = Inr u \<longleftrightarrow> migration_selected report mig"
  by (cases mig) (auto simp: check_plan_migration_def and_then_Inr_iff migration_selected_def selected_entrypoints_def)

lemma check_plan_network_iff:
  "check_plan_network report network = Inr u \<longleftrightarrow>
     ctx_target_protocol_version (rep_context report) \<noteq> None
     \<and> ctx_protocol_source (rep_context report) \<noteq> Unpinned
     \<and> ctx_network_name (rep_context report) = Some network"
  by (auto simp: check_plan_network_def and_then_Inr_iff split: option.split)

lemma create_plan_iff:
  "create_plan_with_paths lib report network contract_id source_identity paths ops = Inr p \<longleftrightarrow>
     plan_admissible lib report network contract_id source_identity paths ops
     \<and> (\<exists>encoded sha. plan_to_string lib (assemble_plan report network contract_id source_identity paths ops) = Inr encoded
          \<and> \<not> contains_stellar_private_key lib encoded
          \<and> calculate_plan_sha256 lib (assemble_plan report network contract_id source_identity paths ops) = Inr sha
          \<and> p = (assemble_plan report network contract_id source_identity paths ops)\<lparr>up_plan_sha256 := sha\<rparr>)"
proof -
  have mig: "(case po_migration ops of None \<Rightarrow> Inr ()
       | Some call \<Rightarrow> validate_call_arguments lib (rep_target report) (mc_entrypoint call) (mc_arguments call)
           ''migration'') = Inr u \<longleftrightarrow>
      (\<forall>call. po_migration ops = Some call \<longrightarrow> call_ok lib (rep_target report) (mc_entrypoint call) (mc_arguments call))" for u
    by (simp add: validate_call_iff split: option.split)
  show ?thesis
    unfolding create_plan_with_paths_def Let_def and_then_Inr_iff mig validate_paths_iff validate_plan_string_iff
      check_plan_network_iff check_plan_migration_iff validate_identity_iff validate_invariant_iff ensure_Inr_iff
      lift_error_Inr_iff plan_admissible_def upgrade_call_ok_def
    by auto
qed

lemma calculate_plan_sha256_eq:
  "calculate_plan_sha256 lib p =
     and_then (lift_error (\<lambda>e. JsonError (Decoder_Error e)) (value_to_vec lib (plan_digest_value p)))
       (\<lambda>bs. Inr (hash_hex (pl_core lib) bs))"
  by (simp add: calculate_plan_sha256_def plan_json_def object_def plan_digest_value_def bm_remove_of_list)

lemma calculate_ignores_digest: "calculate_plan_sha256 lib (p\<lparr>up_plan_sha256 := s\<rparr>) = calculate_plan_sha256 lib p"
proof -
  have "plan_digest_value (p\<lparr>up_plan_sha256 := s\<rparr>) = plan_digest_value p" by (simp add: plan_digest_value_iff)
  then show ?thesis by (simp only: calculate_plan_sha256_eq)
qed

end
