(* ===== verification/Std_Text.thy ===== *)
theory Std_Text
  imports Prelude
begin

text \<open>
  The parts of the Rust standard library that the command line interface
  (\<open>crates/soroban-upgrades-cli/src/main.rs\<close>) uses on bytes and strings: UTF-8 validation as
  \<open>str::from_utf8\<close> does it, lossy decoding as \<open>String::from_utf8_lossy\<close> does it, \<open>str::trim\<close>,
  \<open>str::split_once\<close> and \<open>str::get\<close> with an upper bound.

  \<open>from_utf8_lossy_id\<close> shows that lossy decoding leaves valid text alone, so a path that is valid
  UTF-8 is displayed as it is.
\<close>

section \<open>UTF-8\<close>

text \<open>
  The well-formed sequences of the Unicode standard: for a lead byte the number of continuation
  bytes and the range of the first of them; the others range over 128 to 191.
\<close>

definition utf8_lead :: "char \<Rightarrow> (nat \<times> nat \<times> nat) option" where
  "utf8_lead c =
     (let u = code_unit c in
      if u < 0x80 then Some (0, 0x80, 0xBF)
      else if u < 0xC2 then None
      else if u < 0xE0 then Some (1, 0x80, 0xBF)
      else if u = 0xE0 then Some (2, 0xA0, 0xBF)
      else if u = 0xED then Some (2, 0x80, 0x9F)
      else if u < 0xF0 then Some (2, 0x80, 0xBF)
      else if u = 0xF0 then Some (3, 0x90, 0xBF)
      else if u < 0xF4 then Some (3, 0x80, 0xBF)
      else if u = 0xF4 then Some (3, 0x80, 0x8F)
      else None)"

text \<open>How many of the expected continuation bytes are there.\<close>

fun utf8_follow :: "nat \<Rightarrow> nat \<Rightarrow> nat \<Rightarrow> bytes \<Rightarrow> nat" where
  "utf8_follow k low high [] = 0"
| "utf8_follow k low high (c # s) =
     (if 0 < k \<and> low \<le> code_unit c \<and> code_unit c \<le> high
      then Suc (utf8_follow (k - 1) 0x80 0xBF s) else 0)"

text \<open>The continuation bytes that belong to the sequence a byte starts, and whether they complete it.\<close>

definition utf8_tail :: "char \<Rightarrow> bytes \<Rightarrow> nat" where
  "utf8_tail c s = (case utf8_lead c of None \<Rightarrow> 0 | Some (k, low, high) \<Rightarrow> utf8_follow k low high s)"

definition utf8_complete :: "char \<Rightarrow> bytes \<Rightarrow> bool" where
  "utf8_complete c s = (case utf8_lead c of None \<Rightarrow> False | Some (k, _) \<Rightarrow> utf8_tail c s = k)"

text \<open>
  \<open>Utf8Error\<close>: the index of the first byte that starts no valid sequence, and the length of the
  broken sequence, none when the input ends in the middle of one.
\<close>

fun utf8_error :: "nat \<Rightarrow> bytes \<Rightarrow> (nat \<times> nat option) option" where
  "utf8_error i [] = None"
| "utf8_error i (c # s) =
     (if utf8_complete c s then utf8_error (Suc (i + utf8_tail c s)) (drop (utf8_tail c s) s)
      else if utf8_lead c \<noteq> None \<and> drop (utf8_tail c s) s = [] then Some (i, None)
      else Some (i, Some (Suc (utf8_tail c s))))"

definition is_utf8 :: "bytes \<Rightarrow> bool" where
  "is_utf8 s \<longleftrightarrow> utf8_error 0 s = None"

text \<open>The \<open>Display\<close> text of the error.\<close>

definition show_utf8_error :: "nat \<times> nat option \<Rightarrow> string" where
  "show_utf8_error e = (case e of
       (i, Some n) \<Rightarrow> ''invalid utf-8 sequence of '' @ show_nat n @ '' bytes from index '' @ show_nat i
     | (i, None) \<Rightarrow> ''incomplete utf-8 byte sequence from index '' @ show_nat i)"

text \<open>U+FFFD.\<close>

definition REPLACEMENT_CHARACTER :: bytes where
  "REPLACEMENT_CHARACTER = [CHR 0xEF, CHR 0xBF, CHR 0xBD]"

fun from_utf8_lossy :: "bytes \<Rightarrow> string" where
  "from_utf8_lossy [] = []"
| "from_utf8_lossy (c # s) =
     (if utf8_complete c s then c # take (utf8_tail c s) s else REPLACEMENT_CHARACTER)
     @ from_utf8_lossy (drop (utf8_tail c s) s)"

lemma utf8_error_shift: "utf8_error i s = None \<longleftrightarrow> utf8_error j s = None"
proof (induction s arbitrary: i j rule: from_utf8_lossy.induct)
  case (2 c s)
  then show ?case by (simp del: split_paired_Ex)
qed simp

lemma from_utf8_lossy_id: "is_utf8 s \<Longrightarrow> from_utf8_lossy s = s"
  unfolding is_utf8_def
proof (induction s rule: from_utf8_lossy.induct)
  case (2 c s)
  have complete: "utf8_complete c s" and rest: "utf8_error (Suc (utf8_tail c s)) (drop (utf8_tail c s) s) = None"
    using 2(2) by (auto split: if_splits)
  have "utf8_error 0 (drop (utf8_tail c s) s) = None"
    using rest utf8_error_shift by blast
  then have "from_utf8_lossy (drop (utf8_tail c s) s) = drop (utf8_tail c s) s" by (rule 2(1))
  with complete show ?case by simp
qed simp

section \<open>Slices\<close>

text \<open>The characters of a string, each as its bytes.\<close>

definition char_width :: "char \<Rightarrow> nat" where
  "char_width c = (if code_unit c < 128 then 1 else if code_unit c < 224 then 2
     else if code_unit c < 240 then 3 else 4)"

fun char_slices :: "string \<Rightarrow> string list" where
  "char_slices [] = []"
| "char_slices (c # s) = (c # take (char_width c - 1) s) # char_slices (drop (char_width c - 1) s)"

lemma char_slices_concat: "concat (char_slices s) = s"
  by (induction s rule: char_slices.induct) simp_all

text \<open>\<open>str::trim\<close>.\<close>

definition trim :: "string \<Rightarrow> string" where
  "trim s = concat (rev (dropWhile is_blank (rev (dropWhile is_blank (char_slices s)))))"

text \<open>\<open>str::split_once\<close> with a character as the pattern.\<close>

definition split_once :: "char \<Rightarrow> string \<Rightarrow> (string \<times> string) option" where
  "split_once c s =
     (if c \<in> set s then Some (takeWhile (\<lambda>x. x \<noteq> c) s, tl (dropWhile (\<lambda>x. x \<noteq> c) s)) else None)"

lemma split_once_Some_iff:
  "split_once c s = Some (before, after) \<longleftrightarrow> s = before @ c # after \<and> c \<notin> set before"
proof
  assume h: "split_once c s = Some (before, after)"
  then have "c \<in> set s" and b: "before = takeWhile (\<lambda>x. x \<noteq> c) s" and a: "after = tl (dropWhile (\<lambda>x. x \<noteq> c) s)"
    by (auto simp: split_once_def split: if_splits)
  then obtain y ys where d: "dropWhile (\<lambda>x. x \<noteq> c) s = y # ys" by (cases "dropWhile (\<lambda>x. x \<noteq> c) s") auto
  then have "y = c" using hd_dropWhile [of "\<lambda>x. x \<noteq> c" s] by simp
  with d show "s = before @ c # after \<and> c \<notin> set before"
    using takeWhile_dropWhile_id [of "\<lambda>x. x \<noteq> c" s] set_takeWhileD by (fastforce simp: a b)
next
  assume h: "s = before @ c # after \<and> c \<notin> set before"
  then have "\<And>x. x \<in> set before \<Longrightarrow> x \<noteq> c" and s: "s = before @ c # after" by auto
  then have "takeWhile (\<lambda>x. x \<noteq> c) s = before" and "dropWhile (\<lambda>x. x \<noteq> c) s = c # after"
    by (simp_all add: takeWhile_append2 dropWhile_append2)
  with h show "split_once c s = Some (before, after)" by (simp add: split_once_def)
qed

text \<open>\<open>str::get(..n)\<close>: none when the string is shorter or the cut splits a character.\<close>

definition str_get_to :: "nat \<Rightarrow> string \<Rightarrow> string option" where
  "str_get_to n s =
     (if n = length s \<or> n < length s \<and> \<not> (128 \<le> code_unit (s ! n) \<and> code_unit (s ! n) < 192)
      then Some (take n s) else None)"

text \<open>\<open>Display\<close> of \<open>bool\<close> and of \<open>u64\<close>.\<close>

definition show_bool :: "bool \<Rightarrow> string" where
  "show_bool b = (if b then ''true'' else ''false'')"

definition show_u64 :: "u64 \<Rightarrow> string" where
  "show_u64 w = show_nat (unat w)"

end
