(* ===== verification/Cli_Data.thy ===== *)
theory Cli_Data
  imports Plan Std_Text
begin

text \<open>
  The vocabulary of the command line interface (\<open>crates/soroban-upgrades-cli/src/main.rs\<close>): the
  parsed command, errors with their context, the state a run changes and the operating system it
  runs on.

  A run reads and writes files and prints lines; this is the state \<open>cli_state\<close>, passed through
  by \<open>io_then\<close>, which stops at the first error as the question mark does. Everything else outside the
  program is a field of the record \<open>cli_env\<close>: which file a path names, the faults of opening, reading,
  writing and syncing, what a run of the \<open>stellar\<close> program gives, the clock, and the third-party
  parsers and printers. Nothing is assumed of them in this theory.
\<close>

section \<open>Commands\<close>

datatype schema_kind =
    Artifact_Schema | Policy_Schema | Storage_Schema | History_Schema | Report_Schema | Plan_Schema

record validate_args =
  va_from :: string
  va_to :: string
  va_from_schema :: string
  va_to_schema :: string
  va_json :: bool
  va_compact :: bool
  va_policy :: "string option"
  va_network :: "string option"
  va_protocol_version :: "u32 option"
  va_schema_history :: string

record plan_args =
  pa_from :: string
  pa_to :: string
  pa_from_schema :: string
  pa_to_schema :: string
  pa_network :: string
  pa_contract_id :: string
  pa_source_identity :: string
  pa_migration_entrypoint :: "string option"
  pa_migration_args :: "string list"
  pa_invariant_program :: string
  pa_invariant_args :: "string list"
  pa_policy :: "string option"
  pa_protocol_version :: "u32 option"
  pa_schema_history :: string
  pa_out :: "string option"
  pa_force :: bool

datatype cli_command =
    Inspect string bool
  | Schema schema_kind
  | Validate validate_args
  | Plan plan_args
  | VerifyPlan string bool

text \<open>
  What the argument parser guarantees beyond the types: the group \<open>protocol_evidence\<close> of
  \<open>validate\<close> has exactly one member, \<open>--compact\<close> excludes \<open>--json\<close>, and \<open>--migration-arg\<close> and
  \<open>--force\<close> require the options they belong to.
\<close>

fun accepted_by_parser :: "cli_command \<Rightarrow> bool" where
  "accepted_by_parser (Validate a) \<longleftrightarrow>
     (va_network a = None \<longleftrightarrow> va_protocol_version a \<noteq> None) \<and> \<not> (va_json a \<and> va_compact a)"
| "accepted_by_parser (Plan a) \<longleftrightarrow>
     (pa_migration_args a \<noteq> [] \<longrightarrow> pa_migration_entrypoint a \<noteq> None) \<and> (pa_force a \<longrightarrow> pa_out a \<noteq> None)"
| "accepted_by_parser command \<longleftrightarrow> True"

section \<open>Errors\<close>

text \<open>
  \<open>anyhow::Error\<close>: an error of a library, of the core or of the program itself, wrapped in the
  contexts added on the way up.
\<close>

datatype cli_error =
    Io_Error string
  | Core_Error core_error
  | Serde_Error string
  | Utf8_Error "nat \<times> nat option"
  | Clock_Error
  | Message string
  | With_Context string cli_error

definition with_context :: "string \<Rightarrow> cli_error + 'a \<Rightarrow> cli_error + 'a" where
  "with_context text r = (case r of Inl e \<Rightarrow> Inl (With_Context text e) | Inr x \<Rightarrow> Inr x)"

lemma with_context_simps [simp]:
  "with_context text (Inr x) = Inr x"
  "with_context text (Inl e) = Inl (With_Context text e)"
  by (simp_all add: with_context_def)

lemma with_context_Inr_iff [simp]: "with_context text r = Inr x \<longleftrightarrow> r = Inr x"
  by (cases r) simp_all

definition wrap_error :: "('e \<Rightarrow> cli_error) \<Rightarrow> 'e + 'a \<Rightarrow> cli_error + 'a" where
  "wrap_error wrap r = (case r of Inl e \<Rightarrow> Inl (wrap e) | Inr x \<Rightarrow> Inr x)"

lemma wrap_error_simps [simp]:
  "wrap_error wrap (Inr x) = Inr x"
  "wrap_error wrap (Inl e) = Inl (wrap e)"
  by (simp_all add: wrap_error_def)

lemma wrap_error_Inr_iff [simp]: "wrap_error wrap r = Inr x \<longleftrightarrow> r = Inr x"
  by (cases r) simp_all

section \<open>The operating system and the libraries\<close>

record network_info =
  ni_id :: string
  ni_version :: string
  ni_captive_core_version :: "string option"
  ni_protocol_version :: u32
  ni_passphrase :: string

record process_output =
  po_success :: bool
  po_status :: string
  po_stdout :: bytes
  po_stderr :: bytes

text \<open>How a file is opened: to be read, created where there is none, or created or truncated.\<close>

datatype open_mode = Open_Read | Create_New | Create_Truncate

record 'v cli_env =
  env_plan_lib :: "'v plan_lib"
  env_wasm_lib :: wasm_lib
  env_spec_lib :: spec_lib
  policy_decoder :: "policy json_decoder"
  schema_decoder :: "storage_schema json_decoder"
  history_decoder :: "schema_history json_decoder"
  plan_decoder :: "upgrade_plan json_decoder"
  network_info_from_slice :: "bytes \<Rightarrow> string + network_info"
  artifact_pretty :: "artifact \<Rightarrow> string + string"
  report_pretty :: "validation_report \<Rightarrow> string + string"
  plan_pretty :: "upgrade_plan \<Rightarrow> string + bytes"
  schema_pretty :: "schema_kind \<Rightarrow> string + string"
  core_error_chain :: "core_error \<Rightarrow> string list"
  file_of :: "string \<Rightarrow> string"
  open_fault :: "string \<Rightarrow> open_mode \<Rightarrow> string option"
  not_found :: string
  already_exists :: string
  read_fault :: "string \<Rightarrow> (nat \<times> string) option"
  write_fault :: "string \<Rightarrow> bytes \<Rightarrow> (nat \<times> string) option"
  sync_fault :: "string \<Rightarrow> string option"
  spawn_stellar :: "string list \<Rightarrow> string + process_output"
  seconds_since_epoch :: "u64 option"

record cli_state =
  st_files :: "string \<Rightarrow> bytes option"
  st_stdout :: "string list"
  st_stderr :: "string list"

text \<open>\<open>Path::display\<close>.\<close>

definition display_path :: "string \<Rightarrow> string" where
  "display_path path = from_utf8_lossy path"

section \<open>Runs\<close>

type_synonym 'a io = "cli_state \<Rightarrow> (cli_error + 'a) \<times> cli_state"

definition io_return :: "'a \<Rightarrow> 'a io" where
  "io_return x s = (Inr x, s)"

definition io_then :: "'a io \<Rightarrow> ('a \<Rightarrow> 'b io) \<Rightarrow> 'b io" where
  "io_then m f s = (case m s of (Inl e, s') \<Rightarrow> (Inl e, s') | (Inr x, s') \<Rightarrow> f x s')"

text \<open>A computation that only reads files.\<close>

definition io_read :: "((string \<Rightarrow> bytes option) \<Rightarrow> cli_error + 'a) \<Rightarrow> 'a io" where
  "io_read f s = (f (st_files s), s)"

definition io_result :: "cli_error + 'a \<Rightarrow> 'a io" where
  "io_result r s = (r, s)"

text \<open>\<open>println!\<close>, once per element; a printed text may itself span several lines.\<close>

definition print_lines :: "string list \<Rightarrow> unit io" where
  "print_lines ls s = (Inr (), s\<lparr>st_stdout := st_stdout s @ ls\<rparr>)"

lemma io_then_Inr_iff:
  "io_then m f s = (Inr y, t) \<longleftrightarrow> (\<exists>x u. m s = (Inr x, u) \<and> f x u = (Inr y, t))"
  by (auto simp: io_then_def split: prod.split sum.split)

lemma io_simps [simp]:
  "io_return x s = (Inr x, s)"
  "io_read f s = (f (st_files s), s)"
  "io_result r s = (r, s)"
  "print_lines ls s = (Inr (), s\<lparr>st_stdout := st_stdout s @ ls\<rparr>)"
  by (simp_all add: io_return_def io_read_def io_result_def print_lines_def)

lemma io_then_Inr [simp]: "io_then (io_result (Inr x)) f = f x"
  by (rule ext) (simp add: io_then_def)

text \<open>When a run over a pure step succeeds.\<close>

lemma io_steps:
  "io_then (io_result r) f s = (Inr y, t) \<longleftrightarrow> (\<exists>x. r = Inr x \<and> f x s = (Inr y, t))"
  "io_then (io_read g) f' s = (Inr y, t) \<longleftrightarrow> (\<exists>x. g (st_files s) = Inr x \<and> f' x s = (Inr y, t))"
  "io_then (print_lines ls) f'' s = f'' () (s\<lparr>st_stdout := st_stdout s @ ls\<rparr>)"
  by (auto simp: io_then_def split: sum.split)

lemma io_assoc: "io_then (io_then m f) g = io_then m (\<lambda>x. io_then (f x) g)"
  by (rule ext) (simp add: io_then_def split: prod.split sum.split)

text \<open>Runs that leave the files as they are.\<close>

definition keeps_files :: "'a io \<Rightarrow> bool" where
  "keeps_files m \<longleftrightarrow> (\<forall>s. st_files (snd (m s)) = st_files s)"

lemma keeps_filesD: "keeps_files m \<Longrightarrow> m s = (r, t) \<Longrightarrow> st_files t = st_files s"
  unfolding keeps_files_def by (metis snd_conv)

lemma keeps_files_basic [simp, intro]:
  "keeps_files (io_return x)" "keeps_files (io_read g)" "keeps_files (io_result r)"
  "keeps_files (print_lines ls)"
  by (simp_all add: keeps_files_def)

lemma keeps_files_then [intro]:
  assumes "keeps_files m" and "\<And>x. keeps_files (f x)"
  shows "keeps_files (io_then m f)"
  using assms by (auto simp: keeps_files_def io_then_def split: prod.split sum.split) (metis snd_conv)+

section \<open>Files\<close>

text \<open>\<open>File::open\<close>, then \<open>read_to_end\<close> on the first bytes up to a bound; a fault met after the bound has no effect.\<close>

definition read_prefix :: "'v cli_env \<Rightarrow> (string \<Rightarrow> bytes option) \<Rightarrow> string \<Rightarrow> nat \<Rightarrow> cli_error + bytes" where
  "read_prefix env files path bound =
     (case open_fault env path Open_Read of
        Some e \<Rightarrow> Inl (Io_Error e)
      | None \<Rightarrow>
          (case files (file_of env path) of
             None \<Rightarrow> Inl (Io_Error (not_found env))
           | Some bs \<Rightarrow>
               (case read_fault env path of
                  Some (n, e) \<Rightarrow> if n < bound \<and> n \<le> length bs then Inl (Io_Error e) else Inr (take bound bs)
                | None \<Rightarrow> Inr (take bound bs))))"

definition read_bounded ::
  "'v cli_env \<Rightarrow> (string \<Rightarrow> bytes option) \<Rightarrow> string \<Rightarrow> usize \<Rightarrow> string \<Rightarrow> cli_error + bytes" where
  "read_bounded env files path limit kind =
     and_then (with_context (''reading '' @ display_path path) (read_prefix env files path (limit + 1))) (\<lambda>bs.
     if limit < length bs then
       Inl (Message (kind @ '' '' @ display_path path @ '' exceeds the '' @ show_nat limit @ '' byte input limit''))
     else Inr bs)"

text \<open>
  \<open>OpenOptions::open\<close> for writing. A new file is empty, and so is a truncated one.
\<close>

definition open_for_writing :: "'v cli_env \<Rightarrow> string \<Rightarrow> bool \<Rightarrow> unit io" where
  "open_for_writing env path force s =
     (case open_fault env path (if force then Create_Truncate else Create_New) of
        Some e \<Rightarrow> (Inl (Io_Error e), s)
      | None \<Rightarrow>
          if \<not> force \<and> st_files s (file_of env path) \<noteq> None then (Inl (Io_Error (already_exists env)), s)
          else (Inr (), s\<lparr>st_files := (st_files s)(file_of env path \<mapsto> [])\<rparr>))"

text \<open>\<open>write_all\<close>: on a fault the bytes before it are in the file.\<close>

definition write_all :: "'v cli_env \<Rightarrow> string \<Rightarrow> bytes \<Rightarrow> unit io" where
  "write_all env path bs s =
     (case write_fault env path bs of
        Some (n, e) \<Rightarrow> (Inl (Io_Error e), s\<lparr>st_files := (st_files s)(file_of env path \<mapsto> take n bs)\<rparr>)
      | None \<Rightarrow> (Inr (), s\<lparr>st_files := (st_files s)(file_of env path \<mapsto> bs)\<rparr>))"

definition sync_all :: "'v cli_env \<Rightarrow> string \<Rightarrow> unit io" where
  "sync_all env path s =
     (case sync_fault env path of Some e \<Rightarrow> (Inl (Io_Error e), s) | None \<Rightarrow> (Inr (), s))"

definition io_context :: "string \<Rightarrow> 'a io \<Rightarrow> 'a io" where
  "io_context text m s = (case m s of (r, s') \<Rightarrow> (with_context text r, s'))"

definition write_output :: "'v cli_env \<Rightarrow> string \<Rightarrow> bytes \<Rightarrow> bool \<Rightarrow> unit io" where
  "write_output env path bs force =
     io_then (io_context
       (if force then ''opening '' @ display_path path @ '' for replacement''
        else ''creating '' @ display_path path @ ''. Use --force to replace an existing file'')
       (open_for_writing env path force)) (\<lambda>_.
     io_then (io_context (''writing '' @ display_path path) (write_all env path bs)) (\<lambda>_.
     io_context (''syncing '' @ display_path path) (sync_all env path)))"

definition path_text :: "string \<Rightarrow> cli_error + string" where
  "path_text path =
     (if is_utf8 path then Inr path
      else Inl (Message (''path is not valid UTF-8: '' @ display_path path)))"

lemma path_text_iff [simp]: "path_text path = Inr p \<longleftrightarrow> is_utf8 path \<and> p = path"
  by (auto simp: path_text_def)

end
