(* ===== verification/Cli_Print.thy ===== *)
theory Cli_Print
  imports Cli_Data
begin

text \<open>
  The texts the command line interface prints (\<open>print_artifact\<close>, \<open>print_report\<close>,
  \<open>print_compact_report\<close> and their helpers in \<open>crates/soroban-upgrades-cli/src/main.rs\<close>), each as
  the list of lines it hands to \<open>println!\<close>.

  The section at the end shows that every finding and every evidence item of a report is printed,
  and what the verdict line of the compact report says.
\<close>

section \<open>Labels\<close>

fun plan_status_label :: "plan_status \<Rightarrow> string" where
  "plan_status_label OfflineDraft = ''offline draft''"
| "plan_status_label ReviewReady = ''ready for signer review''"

fun evidence_status_label :: "evidence_status \<Rightarrow> string" where
  "evidence_status_label Fact = ''FACT''"
| "evidence_status_label Inference = ''INFERENCE''"
| "evidence_status_label Unknown = ''UNKNOWN''"

fun severity_label :: "severity \<Rightarrow> string" where
  "severity_label Info = ''INFO''"
| "severity_label Warning = ''WARN''"
| "severity_label Error = ''ERROR''"

fun protocol_label :: "protocol_source \<Rightarrow> string" where
  "protocol_label Unpinned = ''unpinned''"
| "protocol_label OfflineAssertion = ''offline assertion''"
| "protocol_label StellarCliNetworkInfo = ''live Stellar CLI network info''"

fun compact_evidence_label :: "protocol_source \<Rightarrow> string" where
  "compact_evidence_label Unpinned = ''no network evidence''"
| "compact_evidence_label OfflineAssertion = ''offline assertion''"
| "compact_evidence_label StellarCliNetworkInfo = ''live network evidence''"

definition protocol_text :: "validation_context \<Rightarrow> string" where
  "protocol_text ctx =
     (case ctx_target_protocol_version ctx of None \<Rightarrow> ''unpinned'' | Some version \<Rightarrow> show_u32 version)"

definition version_or_missing :: "artifact \<Rightarrow> string" where
  "version_or_missing a = (case art_version a of None \<Rightarrow> ''missing'' | Some v \<Rightarrow> v)"

definition short_hash :: "string \<Rightarrow> string" where
  "short_hash h = (case str_get_to 12 h of None \<Rightarrow> h | Some prefix \<Rightarrow> prefix)"

section \<open>Artifacts\<close>

definition call_evidence_line :: "string \<times> export_call_evidence \<Rightarrow> string" where
  "call_evidence_line e = (case e of (entrypoint, evidence) \<Rightarrow>
     ''  '' @ entrypoint @ '': ''
     @ (if ev_host_imports evidence = [] then ''none'' else join '', '' (ev_host_imports evidence))
     @ ''. Dynamic dispatch reachable: '' @ show_bool (ev_dynamic_dispatch_reachable evidence))"

definition print_artifact :: "string \<Rightarrow> artifact \<Rightarrow> string list" where
  "print_artifact path a =
     [''Artifact: '' @ display_path path,
      ''SHA-256: '' @ art_sha256 a,
      ''Size: '' @ show_nat (art_size_bytes a) @ '' bytes'',
      ''Host interface: protocol '' @ show_u32 (art_env_protocol_version a) @ '' prerelease ''
        @ show_u32 (art_env_pre_release a),
      ''Version: '' @ version_or_missing a,
      ''Upgrade entrypoint: '' @ show_bool (has_function a ''upgrade''),
      ''Constructor: '' @ show_bool (has_function a ''__constructor''),
      ''Functions: '' @ join '', '' (bm_keys (art_functions a)),
      ''Events: '' @ join '', '' (bm_keys (art_events a)),
      ''User types: '' @ join '', '' (bm_keys (art_user_types a)),
      ''Entrypoint host-import reachability:'']
     @ map call_evidence_line (art_export_call_evidence a)"

section \<open>Reports\<close>

definition evidence_items :: "validation_report \<Rightarrow> (string \<times> evidence_item) list" where
  "evidence_items report =
     (let e = rep_evidence report in
      [(''compiled Contract Spec'', ec_compiled_contract_spec e),
       (''artifact host imports'', ec_artifact_host_imports e),
       (''target network protocol'', ec_target_network_protocol e),
       (''declared storage schema'', ec_declared_storage_schema e),
       (''declared schema history'', ec_declared_schema_history e),
       (''ledger storage coverage'', ec_ledger_storage_coverage e),
       (''deployed caller graph'', ec_deployed_caller_graph e),
       (''CAP-0086 per-type reader binding'', ec_cap0086_per_type_reader_binding e),
       (''migration completion'', ec_migration_completion e)])"

definition print_evidence_item :: "string \<Rightarrow> evidence_item \<Rightarrow> string list" where
  "print_evidence_item name item =
     [''  ['' @ evidence_status_label (ei_status item) @ ''] '' @ name @ '': '' @ ei_claim item,
      ''    Basis: '' @ ei_basis item]
     @ (case ei_limitation item of None \<Rightarrow> [] | Some limitation \<Rightarrow> [''    Limit: '' @ limitation])"

definition format_public_impact :: "public_impact \<Rightarrow> string" where
  "format_public_impact impact =
     (let b = pi_boundary impact;
          position = (case b_position b of Input \<Rightarrow> ''input'' | Output \<Rightarrow> ''output'');
          label = (case b_label b of None \<Rightarrow> [] | Some l \<Rightarrow> '' `'' @ l @ ''`'')
      in b_function b @ ''() '' @ position @ ''['' @ show_nat (b_index b) @ '']'' @ label @ '' -> '' @ b_root_type b
         @ concat (map (\<lambda>step. ''.'' @ is_member step @ '' -> '' @ is_target_type step) (pi_steps impact))
         @ '' (changed '' @ pi_changed_type impact @ '')'')"

definition impact_lines :: "public_impact \<Rightarrow> string list" where
  "impact_lines impact =
     [''  '' @ format_public_impact impact,
      ''    structural reachability: '' @ evidence_status_label (pi_structural_reachability impact)
        @ ''. Runtime compatibility: '' @ evidence_status_label (pi_runtime_compatibility impact)]"

definition finding_lines :: "finding \<Rightarrow> string list" where
  "finding_lines f =
     [''['' @ severity_label (f_severity f) @ ''] '' @ f_code f @ '': '' @ f_title f,
      ''  '' @ f_detail f,
      ''  Fix: '' @ f_remediation f]"

definition print_report :: "validation_report \<Rightarrow> string list" where
  "print_report report =
     (let ctx = rep_context report in
      [''Report format: '' @ show_u32 (rep_format_version report),
       ''Validator version: '' @ rep_tool_version report,
       ''Upgrade safe: '' @ show_bool (rep_safe report),
       ''Version: '' @ version_or_missing (rep_source report) @ '' -> '' @ version_or_missing (rep_target report),
       ''Source SHA-256: '' @ art_sha256 (rep_source report),
       ''Target SHA-256: '' @ art_sha256 (rep_target report),
       ''Storage schema checked: '' @ show_bool (rep_storage_schema_checked report),
       ''Schema history checked: '' @ show_bool (rep_schema_history_checked report),
       ''Target protocol: '' @ protocol_text ctx,
       ''Protocol evidence: '' @ protocol_label (ctx_protocol_source ctx)]
      @ (case ctx_network_name ctx of None \<Rightarrow> [] | Some network \<Rightarrow> [''Target network: '' @ network])
      @ (case ctx_network_id ctx of None \<Rightarrow> [] | Some network_id \<Rightarrow> [''Network ID: '' @ network_id])
      @ (case ctx_observed_at_unix_seconds ctx of None \<Rightarrow> []
         | Some observed_at \<Rightarrow> [''Network observed at (Unix): '' @ show_u64 observed_at])
      @ [''CAP-0086 sparse read/write: '' @ show_bool (uses_cap_0086_sparse_read (rep_target report)) @ ''/''
           @ show_bool (uses_cap_0086_sparse_write (rep_target report)),
         ''Evidence coverage (FACT / INFERENCE / UNKNOWN):'']
      @ concat (map (\<lambda>(name, item). print_evidence_item name item) (evidence_items report))
      @ (if rep_public_impacts report \<noteq> [] then
           ''Retained public impact paths:'' # concat (map impact_lines (rep_public_impacts report)) else [])
      @ concat (map finding_lines (rep_findings report)))"

section \<open>Compact reports\<close>

definition codes_of :: "severity \<Rightarrow> validation_report \<Rightarrow> string list" where
  "codes_of sev report = map f_code (filter (\<lambda>f. f_severity f = sev) (rep_findings report))"

definition verdict_line :: "validation_report \<Rightarrow> string" where
  "verdict_line report =
     (if rep_safe report then ''PASS'' else ''BLOCKED'') @ '' '' @ version_or_missing (rep_source report)
     @ '' -> '' @ version_or_missing (rep_target report) @ '' | protocol '' @ protocol_text (rep_context report)
     @ '' ('' @ compact_evidence_label (ctx_protocol_source (rep_context report)) @ '') | ''
     @ show_nat (length (codes_of Error report)) @ '' error(s), ''
     @ show_nat (length (codes_of Warning report)) @ '' warning(s)''"

definition codes_line :: "string \<Rightarrow> severity \<Rightarrow> validation_report \<Rightarrow> string list" where
  "codes_line label sev report =
     (if codes_of sev report \<noteq> [] then [label @ join '', '' (bs_of_list (codes_of sev report))] else [])"

definition print_compact_report :: "validation_report \<Rightarrow> string list" where
  "print_compact_report report =
     [verdict_line report]
     @ codes_line ''  errors: '' Error report
     @ codes_line ''  warnings: '' Warning report
     @ [''  artifact: '' @ short_hash (art_sha256 (rep_source report)) @ '' -> ''
          @ short_hash (art_sha256 (rep_target report)),
        ''  CAP-0086 sparse read/write: '' @ show_bool (uses_cap_0086_sparse_read (rep_target report)) @ ''/''
          @ show_bool (uses_cap_0086_sparse_write (rep_target report))]
     @ map (\<lambda>impact. ''  public impact: '' @ format_public_impact impact) (take 3 (rep_public_impacts report))
     @ (if 3 < length (rep_public_impacts report) then
          [''  public impact: '' @ show_nat (length (rep_public_impacts report) - 3)
             @ '' additional path(s) in the full JSON report''] else [])"

section \<open>What a report prints\<close>

lemma finding_printed: "f \<in> set (rep_findings report) \<Longrightarrow> set (finding_lines f) \<subseteq> set (print_report report)"
  by (auto simp: print_report_def Let_def)

lemma evidence_printed:
  "(name, item) \<in> set (evidence_items report) \<Longrightarrow> set (print_evidence_item name item) \<subseteq> set (print_report report)"
  by (auto simp: print_report_def Let_def)

lemma severity_label_inject: "severity_label a = severity_label b \<longleftrightarrow> a = b"
  by (cases a; cases b) simp_all

end
