(* ===== verification/Cli.thy ===== *)
theory Cli
  imports Cli_Print
begin

text \<open>
  The command line interface: loading the inputs, resolving the network evidence, checking a plan
  against the local files and the network, and the commands (\<open>run\<close> and \<open>main\<close> in
  \<open>crates/soroban-upgrades-cli/src/main.rs\<close>).

  Everything that only reads is a function of the files; \<open>run\<close> is a run over the state, composed
  with \<open>io_then\<close> in the order of the source.
\<close>

definition MAX_JSON_INPUT_SIZE_BYTES :: usize where
  "MAX_JSON_INPUT_SIZE_BYTES = 8 * 1024 * 1024"

type_synonym files = "string \<Rightarrow> bytes option"

section \<open>Loading\<close>

definition artifact_from_wasm :: "'v cli_env \<Rightarrow> bytes \<Rightarrow> core_error + artifact" where
  "artifact_from_wasm env bs =
     from_wasm (env_wasm_lib env) (env_spec_lib env) (hash_hex (pl_core (env_plan_lib env))) bs"

definition load_artifact :: "'v cli_env \<Rightarrow> files \<Rightarrow> string \<Rightarrow> cli_error + artifact" where
  "load_artifact env files path =
     and_then (read_bounded env files path MAX_ARTIFACT_SIZE_BYTES ''WASM artifact'') (\<lambda>bs.
     with_context (''inspecting '' @ display_path path) (wrap_error Core_Error (artifact_from_wasm env bs)))"

definition load_json ::
  "'v cli_env \<Rightarrow> files \<Rightarrow> string \<Rightarrow> (bytes \<Rightarrow> core_error + 'a) \<Rightarrow> string \<Rightarrow> cli_error + 'a" where
  "load_json env files kind from_json path =
     and_then (read_bounded env files path MAX_JSON_INPUT_SIZE_BYTES kind) (\<lambda>bs.
     with_context (''parsing '' @ display_path path) (wrap_error Core_Error (from_json bs)))"

definition load_schema :: "'v cli_env \<Rightarrow> files \<Rightarrow> string \<Rightarrow> cli_error + storage_schema" where
  "load_schema env files path =
     load_json env files ''JSON storage schema'' (storage_schema_from_json (schema_decoder env)) path"

text \<open>\<open>map\<close> followed by \<open>transpose\<close>.\<close>

definition load_optional :: "('a \<Rightarrow> cli_error + 'b) \<Rightarrow> 'a option \<Rightarrow> cli_error + 'b option" where
  "load_optional f x =
     (case x of None \<Rightarrow> Inr None | Some a \<Rightarrow> and_then (f a) (\<lambda>b. Inr (Some b)))"

definition load_policy :: "'v cli_env \<Rightarrow> files \<Rightarrow> string option \<Rightarrow> cli_error + policy" where
  "load_policy env files path =
     and_then (load_optional (load_json env files ''JSON policy'' (policy_from_json (policy_decoder env))) path)
       (\<lambda>p. Inr (case p of None \<Rightarrow> default_policy | Some q \<Rightarrow> q))"

definition load_schema_history :: "'v cli_env \<Rightarrow> files \<Rightarrow> string option \<Rightarrow> cli_error + schema_history option" where
  "load_schema_history env files path =
     load_optional (load_json env files ''JSON schema history'' (schema_history_from_json (history_decoder env) (hash_hex (pl_core (env_plan_lib env))))) path"

text \<open>\<open>UpgradePlan::from_json\<close>.\<close>

definition upgrade_plan_from_json :: "upgrade_plan json_decoder \<Rightarrow> bytes \<Rightarrow> core_error + upgrade_plan" where
  "upgrade_plan_from_json d bs = lift_error JsonError (parse_json_strict d bs)"

definition load_report ::
  "'v cli_env \<Rightarrow> files \<Rightarrow> string \<Rightarrow> string \<Rightarrow> string option \<Rightarrow> string option \<Rightarrow> string option
     \<Rightarrow> validation_context \<Rightarrow> string option \<Rightarrow> cli_error + validation_report" where
  "load_report env files source_path target_path from_schema to_schema policy_path ctx history_path =
     and_then (load_artifact env files source_path) (\<lambda>source.
     and_then (load_artifact env files target_path) (\<lambda>target.
     and_then (load_optional (load_schema env files) from_schema) (\<lambda>old_schema.
     and_then (load_optional (load_schema env files) to_schema) (\<lambda>new_schema.
     and_then (load_policy env files policy_path) (\<lambda>p.
     and_then (load_schema_history env files history_path) (\<lambda>history.
     Inr (validate_with_history (pl_core (env_plan_lib env)) source target old_schema new_schema p ctx history)))))))"

definition valid_argument_name :: "string \<Rightarrow> bool" where
  "valid_argument_name name \<longleftrightarrow>
     name \<noteq> [] \<and> list_all (\<lambda>c. is_ascii_alphanumeric c \<or> c = CHR ''_'') name"

definition add_named_argument ::
  "(string, string) bmap \<Rightarrow> string \<Rightarrow> cli_error + (string, string) bmap" where
  "add_named_argument arguments text =
     and_then (ok_or (split_once (CHR ''='') text)
       (Message (''migration argument `'' @ text @ ''` must use NAME=VALUE form''))) (\<lambda>(name, argument).
     and_then (ensure (valid_argument_name name)
       (Message (''migration argument name `'' @ name @ ''` is invalid''))) (\<lambda>_.
     and_then (ensure (\<not> bm_contains arguments name)
       (Message (''migration argument `'' @ name @ ''` was supplied more than once''))) (\<lambda>_.
     Inr (bm_insert name argument arguments))))"

definition parse_named_arguments :: "string list \<Rightarrow> cli_error + (string, string) bmap" where
  "parse_named_arguments texts = try_fold add_named_argument [] texts"

section \<open>The network\<close>

text \<open>What the program reports of a failed process.\<close>

definition failure_detail :: "process_output \<Rightarrow> string" where
  "failure_detail output =
     (let detail = trim (from_utf8_lossy (po_stderr output)) in
      if detail = [] then ''stellar exited with '' @ po_status output else detail)"

definition context_from_network_info ::
  "'v cli_env \<Rightarrow> string \<Rightarrow> bytes \<Rightarrow> u64 \<Rightarrow> cli_error + validation_context" where
  "context_from_network_info env network json observed_at =
     and_then (with_context (''parsing Stellar CLI network info for `'' @ network @ ''`'')
       (wrap_error Serde_Error (network_info_from_slice env json))) (\<lambda>info.
     Inr \<lparr>ctx_target_protocol_version = Some (ni_protocol_version info),
       ctx_protocol_source = StellarCliNetworkInfo, ctx_network_name = Some network,
       ctx_network_id = Some (ni_id info), ctx_network_passphrase = Some (ni_passphrase info),
       ctx_rpc_version = Some (ni_version info), ctx_captive_core_version = ni_captive_core_version info,
       ctx_observed_at_unix_seconds = Some observed_at\<rparr>)"

definition resolve_live_network :: "'v cli_env \<Rightarrow> string \<Rightarrow> cli_error + validation_context" where
  "resolve_live_network env network =
     and_then (with_context
       ''running `stellar network info`. Install Stellar CLI or use --protocol-version for an explicit offline assertion''
       (wrap_error Io_Error
         (spawn_stellar env [''network'', ''info'', ''--network'', network, ''--output'', ''json'']))) (\<lambda>output.
     and_then (ensure (po_success output)
       (Message (''live network query for `'' @ network @ ''` failed: '' @ failure_detail output
         @ ''. Configure that Stellar CLI network or use --protocol-version for an explicit offline assertion''))) (\<lambda>_.
     and_then (with_context ''system clock is before the Unix epoch''
       (ok_or (seconds_since_epoch env) Clock_Error)) (\<lambda>observed_at.
     context_from_network_info env network (po_stdout output) observed_at)))"

definition resolve_validation_context ::
  "'v cli_env \<Rightarrow> string option \<Rightarrow> u32 option \<Rightarrow> cli_error + validation_context" where
  "resolve_validation_context env network protocol_version =
     (case (network, protocol_version) of
        (Some name, None) \<Rightarrow> resolve_live_network env name
      | (name, Some version) \<Rightarrow>
          Inr (default_context\<lparr>ctx_target_protocol_version := Some version,
            ctx_protocol_source := OfflineAssertion, ctx_network_name := name\<rparr>)
      | (None, None) \<Rightarrow> Inr default_context)"

definition fetch_contract_artifact :: "'v cli_env \<Rightarrow> string \<Rightarrow> string \<Rightarrow> cli_error + artifact" where
  "fetch_contract_artifact env network contract_id =
     and_then (with_context ''running `stellar contract fetch`. Install Stellar CLI or use an offline plan''
       (wrap_error Io_Error
         (spawn_stellar env [''contract'', ''fetch'', ''--id'', contract_id, ''--network'', network]))) (\<lambda>output.
     and_then (ensure (po_success output)
       (Message (''failed to fetch contract '' @ contract_id @ '' from `'' @ network @ ''`: ''
         @ failure_detail output))) (\<lambda>_.
     with_context (''inspecting contract '' @ contract_id @ '' fetched from `'' @ network @ ''`'')
       (wrap_error Core_Error (artifact_from_wasm env (po_stdout output)))))"

definition make_sure_current_contract_matches ::
  "'v cli_env \<Rightarrow> string \<Rightarrow> string \<Rightarrow> string \<Rightarrow> cli_error + unit" where
  "make_sure_current_contract_matches env network contract_id expected_sha256 =
     and_then (fetch_contract_artifact env network contract_id) (\<lambda>a.
     ensure (art_sha256 a = expected_sha256)
       (Message (''contract '' @ contract_id @ '' on `'' @ network @ ''` runs '' @ art_sha256 a
         @ '', but the source artifact is '' @ expected_sha256)))"

section \<open>Checking a plan against the world\<close>

definition check_plan_artifact ::
  "'v cli_env \<Rightarrow> files \<Rightarrow> unit \<Rightarrow> string \<times> string \<times> string \<times> artifact \<Rightarrow> cli_error + unit" where
  "check_plan_artifact env files u expected =
     (case expected of (label, path, expected_hash, expected_artifact) \<Rightarrow>
     and_then (load_artifact env files path) (\<lambda>a.
     and_then (ensure (art_sha256 a = expected_hash)
       (Message (label @ '' artifact '' @ display_path path @ '' hashes to '' @ art_sha256 a
         @ '', but the plan requires '' @ expected_hash))) (\<lambda>_.
     ensure (a = expected_artifact)
       (Message (label @ '' artifact '' @ display_path path
         @ '' does not match the parsed artifact evidence in the plan'')))))"

definition make_sure_plan_artifacts_match :: "'v cli_env \<Rightarrow> files \<Rightarrow> upgrade_plan \<Rightarrow> cli_error + unit" where
  "make_sure_plan_artifacts_match env files p =
     try_fold (check_plan_artifact env files) ()
       [(''source'', pip_source_wasm (up_inputs p), up_source_wasm_sha256 p, rep_source (up_validation p)),
        (''target'', pip_target_wasm (up_inputs p), up_target_wasm_sha256 p, rep_target (up_validation p))]"

definition make_sure_plan_declarations_match :: "'v cli_env \<Rightarrow> files \<Rightarrow> upgrade_plan \<Rightarrow> cli_error + unit" where
  "make_sure_plan_declarations_match env files p =
     and_then (load_schema env files (pip_source_schema (up_inputs p))) (\<lambda>source_schema.
     and_then (load_schema env files (pip_target_schema (up_inputs p))) (\<lambda>target_schema.
     and_then (load_schema_history env files (Some (pip_schema_history (up_inputs p)))) (\<lambda>loaded.
     and_then (ok_or loaded (Message ''plan schema history path is missing'')) (\<lambda>history.
     and_then (load_policy env files (pip_policy (up_inputs p))) (\<lambda>p_policy.
     and_then (ensure (rep_source_schema (up_validation p) = Some source_schema)
       (Message ''source schema file does not match the evidence in the plan'')) (\<lambda>_.
     and_then (ensure (rep_target_schema (up_validation p) = Some target_schema)
       (Message ''target schema file does not match the evidence in the plan'')) (\<lambda>_.
     and_then (ensure (rep_schema_history (up_validation p) = Some history)
       (Message ''schema history file does not match the evidence in the plan'')) (\<lambda>_.
     ensure (rep_policy (up_validation p) = p_policy)
       (Message ''policy file does not match the evidence in the plan'')))))))))"

definition make_sure_plan_network_matches :: "'v cli_env \<Rightarrow> upgrade_plan \<Rightarrow> cli_error + unit" where
  "make_sure_plan_network_matches env p =
     and_then (resolve_live_network env (up_network p)) (\<lambda>current.
     let planned = rep_context (up_validation p) in
     ensure (\<not> (ctx_network_id current \<noteq> ctx_network_id planned
         \<or> ctx_network_passphrase current \<noteq> ctx_network_passphrase planned
         \<or> ctx_target_protocol_version current \<noteq> ctx_target_protocol_version planned))
       (Message ''live network identity or protocol changed after plan creation. Create and review a new plan''))"

section \<open>Commands\<close>

definition run_inspect :: "'v cli_env \<Rightarrow> string \<Rightarrow> bool \<Rightarrow> nat io" where
  "run_inspect env wasm json =
     io_then (io_read (\<lambda>files. load_artifact env files wasm)) (\<lambda>a.
     io_then (io_result (if json then
         and_then (wrap_error Serde_Error (artifact_pretty env a)) (\<lambda>text. Inr [text])
       else Inr (print_artifact wasm a))) (\<lambda>ls.
     io_then (print_lines ls) (\<lambda>_. io_return 0)))"

definition run_schema :: "'v cli_env \<Rightarrow> schema_kind \<Rightarrow> nat io" where
  "run_schema env kind =
     io_then (io_result (wrap_error Serde_Error (schema_pretty env kind))) (\<lambda>text.
     io_then (print_lines [text]) (\<lambda>_. io_return 0))"

definition report_lines :: "'v cli_env \<Rightarrow> validate_args \<Rightarrow> validation_report \<Rightarrow> cli_error + string list" where
  "report_lines env a report =
     (if va_json a then and_then (wrap_error Serde_Error (report_pretty env report)) (\<lambda>text. Inr [text])
      else if va_compact a then Inr (print_compact_report report)
      else Inr (print_report report))"

definition run_validate :: "'v cli_env \<Rightarrow> validate_args \<Rightarrow> nat io" where
  "run_validate env a =
     io_then (io_result (resolve_validation_context env (va_network a) (va_protocol_version a))) (\<lambda>ctx.
     io_then (io_read (\<lambda>files. load_report env files (va_from a) (va_to a) (Some (va_from_schema a))
       (Some (va_to_schema a)) (va_policy a) ctx (Some (va_schema_history a)))) (\<lambda>report.
     io_then (io_result (report_lines env a report)) (\<lambda>ls.
     io_then (print_lines ls) (\<lambda>_.
     io_return (if rep_safe report then 0 else 2)))))"

definition plan_inputs :: "plan_args \<Rightarrow> cli_error + plan_input_paths" where
  "plan_inputs a =
     and_then (path_text (pa_from a)) (\<lambda>source_wasm.
     and_then (path_text (pa_to a)) (\<lambda>target_wasm.
     and_then (path_text (pa_from_schema a)) (\<lambda>source_schema.
     and_then (path_text (pa_to_schema a)) (\<lambda>target_schema.
     and_then (path_text (pa_schema_history a)) (\<lambda>history.
     and_then (load_optional path_text (pa_policy a)) (\<lambda>policy_path.
     Inr \<lparr>pip_source_wasm = source_wasm, pip_target_wasm = target_wasm, pip_source_schema = source_schema,
       pip_target_schema = target_schema, pip_schema_history = history, pip_policy = policy_path\<rparr>))))))"

definition plan_migration :: "plan_args \<Rightarrow> cli_error + migration_call option" where
  "plan_migration a =
     (case pa_migration_entrypoint a of
        None \<Rightarrow> Inr None
      | Some entrypoint \<Rightarrow>
          and_then (parse_named_arguments (pa_migration_args a)) (\<lambda>arguments.
          Inr (Some \<lparr>mc_entrypoint = entrypoint, mc_arguments = arguments\<rparr>)))"

definition emit_plan :: "'v cli_env \<Rightarrow> plan_args \<Rightarrow> upgrade_plan \<Rightarrow> nat io" where
  "emit_plan env a p =
     io_then (io_result (wrap_error Serde_Error (plan_pretty env p))) (\<lambda>json.
     let bs = json @ [CHR 0x0A] in
     io_then (case pa_out a of
         Some out \<Rightarrow>
           io_then (write_output env out bs (pa_force a)) (\<lambda>_.
           print_lines [''Plan written: '' @ display_path out, ''Plan SHA-256: '' @ up_plan_sha256 p,
             ''Plan status: '' @ plan_status_label (up_status p)])
       | None \<Rightarrow>
           io_then (io_result (case utf8_error 0 bs of Some e \<Rightarrow> Inl (Utf8_Error e) | None \<Rightarrow> Inr bs)) (\<lambda>text.
           print_lines [text])) (\<lambda>_.
     io_return 0))"

definition run_plan :: "'v cli_env \<Rightarrow> plan_args \<Rightarrow> nat io" where
  "run_plan env a =
     io_then (io_result (resolve_validation_context env (Some (pa_network a)) (pa_protocol_version a))) (\<lambda>ctx.
     io_then (io_read (\<lambda>files. load_report env files (pa_from a) (pa_to a) (Some (pa_from_schema a))
       (Some (pa_to_schema a)) (pa_policy a) ctx (Some (pa_schema_history a)))) (\<lambda>report.
     if \<not> rep_safe report then io_then (print_lines (print_report report)) (\<lambda>_. io_return 2)
     else
     io_then (io_result (if pa_protocol_version a = None then
         make_sure_current_contract_matches env (pa_network a) (pa_contract_id a) (art_sha256 (rep_source report))
       else Inr ())) (\<lambda>_.
     io_then (io_result (plan_inputs a)) (\<lambda>paths.
     io_then (io_result (plan_migration a)) (\<lambda>mig.
     io_then (io_result (wrap_error Core_Error
       (create_plan_with_paths (env_plan_lib env) report (pa_network a) (pa_contract_id a)
         (pa_source_identity a) paths
         \<lparr>po_migration = mig,
          po_invariant_check = \<lparr>ic_program = pa_invariant_program a, ic_arguments = pa_invariant_args a\<rparr>\<rparr>)))
       (emit_plan env a))))))"

definition run_verify_plan :: "'v cli_env \<Rightarrow> string \<Rightarrow> bool \<Rightarrow> nat io" where
  "run_verify_plan env path offline =
     io_then (io_read (\<lambda>files. load_json env files ''JSON plan'' (upgrade_plan_from_json (plan_decoder env)) path)) (\<lambda>p.
     io_then (io_result (and_then (wrap_error Core_Error (verify_plan_digest (env_plan_lib env) p))
       (\<lambda>ok. ensure ok (Message ''upgrade plan digest mismatch'')))) (\<lambda>_.
     io_then (io_read (\<lambda>files. make_sure_plan_artifacts_match env files p)) (\<lambda>_.
     io_then (io_read (\<lambda>files. make_sure_plan_declarations_match env files p)) (\<lambda>_.
     io_then (if offline then
         print_lines [''Plan structure, digest, and local artifacts verified.'',
           ''Network evidence not checked: offline mode.'']
       else
         io_then (io_result (ensure (up_status p = ReviewReady)
           (Message ''plan is an offline draft. Create a new plan with live network evidence''))) (\<lambda>_.
         io_then (io_result (make_sure_plan_network_matches env p)) (\<lambda>_.
         io_then (io_result (make_sure_current_contract_matches env (up_network p) (up_contract_id p)
           (up_source_wasm_sha256 p))) (\<lambda>_.
         print_lines [''Plan, local artifacts, network, and current executable verified.''])))) (\<lambda>_.
     io_then (print_lines [''Plan SHA-256: '' @ up_plan_sha256 p]) (\<lambda>_.
     io_return 0))))))"

fun run :: "'v cli_env \<Rightarrow> cli_command \<Rightarrow> nat io" where
  "run env (Inspect wasm json) = run_inspect env wasm json"
| "run env (Schema kind) = run_schema env kind"
| "run env (Validate a) = run_validate env a"
| "run env (Plan a) = run_plan env a"
| "run env (VerifyPlan path offline) = run_verify_plan env path offline"

text \<open>The alternate format of an \<open>anyhow\<close> error joins the contexts and the causes.\<close>

fun error_chain :: "'v cli_env \<Rightarrow> cli_error \<Rightarrow> string list" where
  "error_chain env (Io_Error e) = [e]"
| "error_chain env (Core_Error e) = core_error_chain env e"
| "error_chain env (Serde_Error e) = [e]"
| "error_chain env (Utf8_Error e) = [show_utf8_error e]"
| "error_chain env Clock_Error = [''second time provided was later than self'']"
| "error_chain env (Message e) = [e]"
| "error_chain env (With_Context text e) = text # error_chain env e"

text \<open>\<open>main\<close>: the exit code and the state it leaves.\<close>

definition main :: "'v cli_env \<Rightarrow> cli_command \<Rightarrow> cli_state \<Rightarrow> nat \<times> cli_state" where
  "main env command s =
     (case run env command s of
        (Inr code, s') \<Rightarrow> (code, s')
      | (Inl e, s') \<Rightarrow> (1, s'\<lparr>st_stderr := st_stderr s' @ [''Error: '' @ join '': '' (error_chain env e)]\<rparr>))"

end
