(* ===== verification/Release_Safety.thy ===== *)
theory Release_Safety
  imports Validate
begin

text \<open>
  What a safe report guarantees about two compiled releases. The theorems combine the readers
  (\<open>Artifact::from_wasm\<close>), the call graph and the validation, and end with the guarantees over
  several releases that the field history and the policy give.
\<close>

section \<open>Sample inputs\<close>

definition sample_core :: "nat core_lib" where
  "sample_core = \<lparr>semver_parse = (\<lambda>s. if s = ''1.0.0'' then Some 1 else if s = ''2.0.0'' then Some 2 else None),
     semver_less = (<), semver_show = show_nat, json_to_string = (\<lambda>_. None), hash_hex = id,
     policy_to_vec = (\<lambda>_. None), schema_to_vec = (\<lambda>_. None)\<rparr>"

definition sample_context :: validation_context where
  "sample_context = default_context\<lparr>ctx_target_protocol_version := Some 28,
     ctx_protocol_source := OfflineAssertion\<rparr>"

definition sample_history :: schema_history where
  "sample_history = \<lparr>sh_format_version = 1, sh_complete = True, sh_types = [], sh_source_sha256 = []\<rparr>"

definition sample_entry_v1 :: storage_entry where
  "sample_entry_v1 = \<lparr>se_key = ''COUNTER'', se_durability = Instance, se_value_type = ''u32'', se_migration = None\<rparr>"

definition sample_entry_v2 :: storage_entry where
  "sample_entry_v2 = \<lparr>se_key = ''COUNTER'', se_durability = Persistent, se_value_type = ''u64'',
     se_migration = Some \<lparr>mig_strategy = ''eager'', mig_entrypoint = Some ''upgrade'', mig_notes = None\<rparr>\<rparr>"

definition sample_schema :: "string \<Rightarrow> u32 \<Rightarrow> storage_entry \<Rightarrow> storage_schema" where
  "sample_schema contract_version version entry =
     \<lparr>ss_format_version = 1, ss_complete = True, ss_schema_version = version,
      ss_contract_version = contract_version, ss_entries = [entry]\<rparr>"

text \<open>A release whose every export reaches the host function that replaces the code.\<close>

definition release_wasm :: "string \<Rightarrow> wasm_lib" where
  "release_wasm v = \<lparr>validate_all = (\<lambda>_. Inr ()), parse_all = (\<lambda>bs.
     [Inr (CustomSection ''contractspecv0'' []), Inr (CustomSection ''contractenvmetav0'' []),
      Inr (CustomSection ''contractmetav0'' v),
      Inr (ImportSection [Inr \<lparr>wi_module = ''l'', wi_name = ''6'', wi_is_func = True\<rparr>]),
      Inr (ExportSection [Inr \<lparr>we_name = ''upgrade'', we_is_func = True, we_index = 1\<rparr>]),
      Inr (CodeSectionEntry (Inr [Inr (Call 2)])), Inr (CodeSectionEntry (Inr [Inr (Call 0)]))])\<rparr>"

definition release_spec :: "string \<Rightarrow> spec_entry list" where
  "release_spec doc =
     [\<lparr>se_shape = FunctionV0 ''upgrade'' [(''to'', TBytesN 32)] [],
       se_to_value = Inr (Object [(''function_v0'', Object [(''doc'', String doc), (''name'', String ''upgrade'')])])\<rparr>]"

definition release_lib :: "string \<Rightarrow> spec_lib" where
  "release_lib doc = \<lparr>utf8_lossy = id, spec_from_wasm = (\<lambda>_. Inr (release_spec doc)),
     meta_entries = (\<lambda>v. [Inr (''binver'', v)]),
     env_meta_entries = (\<lambda>_. [Inr \<lparr>iv_protocol = 23, iv_pre_release = 0\<rparr>])\<rparr>"

definition release :: "string \<Rightarrow> artifact" where
  "release v = sample_artifact\<lparr>art_metadata := [(''binver'', v)], art_host_imports := [''l.6''],
     art_size_bytes := 0,
     art_functions := [(''upgrade'', sample_entry ''function'' ''function_v0'' ''upgrade'')],
     art_user_types := [], art_public_type_boundaries := [], art_type_references := [],
     art_export_call_evidence := [(''upgrade'', \<lparr>ev_host_imports = [''l.6''], ev_dynamic_dispatch_reachable = False\<rparr>)]\<rparr>"

lemma release_from_wasm:
  "from_wasm (release_wasm ''1.0.0'') (release_lib ''old'') (\<lambda>_. ''00'') [] = Inr (release ''1.0.0'')"
  "from_wasm (release_wasm ''2.0.0'') (release_lib ''new'') (\<lambda>_. ''00'') [] = Inr (release ''2.0.0'')"
  by code_simp+

abbreviation sample_report :: validation_report where
  "sample_report \<equiv> validate_with_history sample_core (release ''1.0.0'') (release ''2.0.0'')
     (Some (sample_schema ''1.0.0'' 1 sample_entry_v1)) (Some (sample_schema ''2.0.0'' 2 sample_entry_v2))
     default_policy sample_context (Some sample_history)"

lemma sample_report_safe: "rep_safe sample_report"
  by code_simp

section \<open>The conditions behind a safe report\<close>

lemma safe_approvable:
  "rep_safe (validate_with_history lib source t ss ts p ctx h) \<Longrightarrow> approvable lib source t ss ts p ctx h"
  using run.error_iff [of lib source t ss ts p ctx h] by (simp add: rep_safe_findings)

lemma not_drops: "\<not> drops old new \<Longrightarrow> bm_get old name = Some e \<Longrightarrow> \<exists>e'. bm_get new name = Some e'"
  using bm_get_in [of old name e] by (fastforce simp: drops_def)

lemma not_changes:
  "\<not> changes old new \<Longrightarrow> bm_get old name = Some e \<Longrightarrow> bm_get new name = Some e' \<Longrightarrow> ie_canonical e = ie_canonical e'"
  using bm_get_in [of old name e] by (fastforce simp: changes_def)

definition denies_all_breaks :: "policy \<Rightarrow> bool" where
  "denies_all_breaks p \<longleftrightarrow> pol_deny_removed_functions p \<and> pol_deny_changed_functions p
     \<and> pol_deny_removed_events p \<and> pol_deny_changed_events p \<and> pol_deny_changed_user_types p"

fun art_slot :: "artifact \<Rightarrow> slot \<Rightarrow> interface_entry option" where
  "art_slot a (Function_Slot n) = bm_get (art_functions a) n"
| "art_slot a (Event_Slot n) = bm_get (art_events a) n"
| "art_slot a (Type_Slot n) = bm_get (art_user_types a) n"

lemma interface_kept:
  assumes "\<not> interface_breaks source t p" and "denies_all_breaks p" and "art_slot source s = Some e"
  shows "\<exists>e'. art_slot t s = Some e' \<and> ie_canonical e = ie_canonical e'"
proof -
  from assms(1,2) have kept: "\<not> drops (art_functions source) (art_functions t)" "\<not> changes (art_functions source) (art_functions t)"
    "\<not> drops (art_events source) (art_events t)" "\<not> changes (art_events source) (art_events t)"
    "\<not> drops (art_user_types source) (art_user_types t)" "\<not> changes (art_user_types source) (art_user_types t)"
    by (auto simp: interface_breaks_def denies_all_breaks_def)
  show ?thesis
    using assms(3) kept by (cases s) (metis art_slot.simps not_drops not_changes)+
qed

lemma art_slot_spec:
  assumes "from_wasm lib sl sha256_hex bs = Inr a" and "spec_from_wasm sl bs = Inr spec"
  shows "art_slot a s = Some x \<longleftrightarrow> (\<exists>e\<in>set spec. slot_of sl (se_shape e) = s \<and> x = entry_of sl e)"
  using from_wasm_facts [OF assms] by (cases s) simp_all

lemma spec_values:
  assumes "from_wasm lib sl sha256_hex bs = Inr a" and "spec_from_wasm sl bs = Inr spec" and "e \<in> set spec"
  shows "\<exists>v. se_to_value e = Inr v"
proof -
  obtain st where "try_fold (add_spec_entry sl) empty_scan spec = Inr st"
    using assms(1,2) by (auto simp: from_wasm_Inr)
  then have "\<exists>st. try_fold (add_spec_entry sl) empty_scan spec = Inr st" by blast
  then have "spec_well_formed sl spec" by (simp add: scan_spec_iff scan_ok_empty)
  with assms(3) show ?thesis by (simp add: spec_well_formed_def)
qed

text \<open>
  C2: Under a policy that denies removals and changes, a safe report between two releases read from
  their modules guarantees that every function, event and user-defined type of the old
  specification has an entry of the same name in the new one whose serialized definition is the
  same up to documentation.
\<close>

theorem safe_report_keeps_interface:
  assumes "from_wasm w sl sha256_hex old = Inr source" and "spec_from_wasm sl old = Inr old_spec"
    and "from_wasm w' sl' sha256_hex' new = Inr t" and "spec_from_wasm sl' new = Inr new_spec"
    and "rep_safe (validate_with_history lib source t ss ts p ctx h)" and "denies_all_breaks p"
    and "e \<in> set old_spec"
  shows "\<exists>e'\<in>set new_spec. slot_of sl' (se_shape e') = slot_of sl (se_shape e)
    \<and> (\<exists>v v'. se_to_value e = Inr v \<and> se_to_value e' = Inr v' \<and> same_but_doc v v')"
proof -
  have "art_slot source (slot_of sl (se_shape e)) = Some (entry_of sl e)"
    using assms(7) art_slot_spec [OF assms(1,2)] by blast
  moreover have "\<not> interface_breaks source t p"
    using safe_approvable [OF assms(5)] by (simp add: approvable_def)
  ultimately obtain x where x: "art_slot t (slot_of sl (se_shape e)) = Some x"
    and same: "ie_canonical (entry_of sl e) = ie_canonical x"
    using interface_kept [OF _ assms(6)] by blast
  then obtain e' where e': "e' \<in> set new_spec" "slot_of sl' (se_shape e') = slot_of sl (se_shape e)"
    and xe: "x = entry_of sl' e'"
    using art_slot_spec [OF assms(3,4)] by auto
  obtain v v' where v: "se_to_value e = Inr v" and v': "se_to_value e' = Inr v'"
    using spec_values [OF assms(1,2,7)] spec_values [OF assms(3,4) e'(1)] by blast
  from same have "same_but_doc v v'"
    by (intro strip_eq_same_but_doc) (simp add: xe entry_of_def v v')
  with e' v v' show ?thesis by blast
qed

theorem safe_report_keeps_interface_witness:
  "\<exists>e'\<in>set (release_spec ''new''). slot_of (release_lib ''new'') (se_shape e')
       = slot_of (release_lib ''old'') (se_shape (hd (release_spec ''old'')))
     \<and> (\<exists>v v'. se_to_value (hd (release_spec ''old'')) = Inr v \<and> se_to_value e' = Inr v' \<and> same_but_doc v v')"
proof (rule safe_report_keeps_interface [OF release_from_wasm(1) _ release_from_wasm(2) _ sample_report_safe])
  show "spec_from_wasm (release_lib ''old'') [] = Inr (release_spec ''old'')"
    and "spec_from_wasm (release_lib ''new'') [] = Inr (release_spec ''new'')"
    by (simp_all add: release_lib_def)
  show "denies_all_breaks default_policy" by (simp add: denies_all_breaks_def default_policy_def)
  show "hd (release_spec ''old'') \<in> set (release_spec ''old'')" by (simp add: release_spec_def)
qed

text \<open>
  C3: When the policy requires an upgrade function, a safe report guarantees that the new module
  stays upgradable: it exports \<open>upgrade\<close>, and a chain of direct calls inside the module leads from
  that function to the imported host function \<open>l.6\<close> that replaces the contract's code.
\<close>

theorem safe_report_keeps_upgrade_path:
  assumes "from_wasm w sl sha256_hex bs = Inr t"
    and "rep_safe (validate_with_history lib source t ss ts p ctx h)" and "pol_require_upgrade_function p"
  shows "has_function t ''upgrade''
    \<and> (\<exists>m n f g. try_fold scan_payload empty_module_calls (parse_all w bs) = Inr m
        \<and> unat n = length (mc_function_imports m) \<and> bm_get (mc_function_exports m) ''upgrade'' = Some f
        \<and> call_reachable n (mc_function_bodies m) f g \<and> g < n \<and> mc_function_imports m ! unat g = ''l.6'')"
proof -
  have "can_upgrade t" using safe_approvable [OF assms(2)] assms(3) by (simp add: approvable_def)
  then obtain evidence where fn: "has_function t ''upgrade''"
    and ev: "bm_get (art_export_call_evidence t) ''upgrade'' = Some evidence" "''l.6'' \<in> set (ev_host_imports evidence)"
    by (auto simp: can_upgrade_def)
  have inspected: "inspect_export_call_evidence w bs = Inr (art_export_call_evidence t)"
    using assms(1) unfolding from_wasm_Inr by (elim conjE exE) simp
  obtain m n where m: "try_fold scan_payload empty_module_calls (parse_all w bs) = Inr m"
    and n: "unat n = length (mc_function_imports m)"
    and get: "\<And>name evidence. bm_get (art_export_call_evidence t) name = Some evidence \<longleftrightarrow>
      (\<exists>f. bm_get (mc_function_exports m) name = Some f
         \<and> collect_export_call_evidence n (mc_function_imports m) (mc_function_bodies m) [f] [] no_evidence
             = Inr evidence)"
    using inspect_exports_get [OF inspected] by metis
  from ev(1) get obtain f where f: "bm_get (mc_function_exports m) ''upgrade'' = Some f"
    and collected: "collect_export_call_evidence n (mc_function_imports m) (mc_function_bodies m) [f] [] no_evidence
      = Inr evidence" by blast
  have "set (ev_host_imports evidence)
      = {mc_function_imports m ! unat g |g. call_reachable n (mc_function_bodies m) f g \<and> g < n}"
    using collect_evidence_exact [where n = n and imps = "mc_function_imports m"
        and bodies = "mc_function_bodies m" and f = f]
    unfolding collected by simp
  with ev(2) obtain g where "call_reachable n (mc_function_bodies m) f g" "g < n" "mc_function_imports m ! unat g = ''l.6''"
    by auto
  with fn m n f show ?thesis by blast
qed

theorem safe_report_keeps_upgrade_path_witness:
  "has_function (release ''2.0.0'') ''upgrade''"
  using safe_report_keeps_upgrade_path [OF release_from_wasm(2) sample_report_safe] by (simp add: default_policy_def)

text \<open>
  C6: When both storage manifests are given (each with fewer than \<open>2 ^ 32\<close> entries), a safe report
  guarantees that every declared storage key survives: the target declares the same key either
  with the same durability and value type, or with a migration whose named entrypoint the target
  exports and with a higher schema version.
\<close>

theorem safe_report_keeps_storage:
  assumes "rep_safe (validate_with_history lib source t (Some old) (Some new) p ctx h)"
    and "length (ss_entries old) < 2 ^ 32" and "length (ss_entries new) < 2 ^ 32" and "e \<in> set (ss_entries old)"
  shows "\<exists>e'\<in>set (ss_entries new). se_key e' = se_key e
    \<and> (\<not> layout_differs e e'
       \<or> (\<exists>mig entrypoint. se_migration e' = Some mig \<and> mig_entrypoint mig = Some entrypoint
            \<and> has_function t entrypoint \<and> ss_schema_version old < ss_schema_version new))"
proof -
  have "manifests_ok lib source t old new" and compat: "storage_compatible old new"
    using safe_approvable [OF assms(1)] by (simp_all add: approvable_def storage_ok_def)
  then have "manifest_ok lib source old"
    and migs: "\<forall>entry\<in>set (ss_entries new). \<forall>mig. se_migration entry = Some mig \<longrightarrow> migration_ok t mig"
    by (simp_all add: manifests_ok_def)
  then have "distinct (map se_key (ss_entries old))"
    using key_counts_distinct [OF assms(2)] by (simp add: manifest_ok_def)
  then have "bm_get (entry_map old) (se_key e) = Some e"
    using assms(4) by (simp add: entry_map_def bm_get_of_list map_of_eq_Some_iff distinct_map rev_map [symmetric] o_def)
  then have "entry_kept old new (se_key e, e)"
    using compat bm_get_in by (fastforce simp: storage_compatible_def)
  then obtain e' where e': "bm_get (entry_map new) (se_key e) = Some e'"
    and kept: "\<not> layout_differs e e' \<or> se_migration e' \<noteq> None \<and> ss_schema_version old < ss_schema_version new"
    by (auto simp: entry_kept_def)
  from e' have mem: "e' \<in> set (ss_entries new)" and key: "se_key e' = se_key e"
    by (auto simp: entry_map_def bm_get_of_list dest!: map_of_SomeD)
  with kept migs show ?thesis by (fastforce simp: migration_ok_def)
qed

theorem safe_report_keeps_storage_witness:
  "\<exists>e'\<in>set (ss_entries (sample_schema ''2.0.0'' 2 sample_entry_v2)). se_key e' = se_key sample_entry_v1
    \<and> (\<not> layout_differs sample_entry_v1 e'
       \<or> (\<exists>mig entrypoint. se_migration e' = Some mig \<and> mig_entrypoint mig = Some entrypoint
            \<and> has_function (release ''2.0.0'') entrypoint
            \<and> ss_schema_version (sample_schema ''1.0.0'' 1 sample_entry_v1)
                < ss_schema_version (sample_schema ''2.0.0'' 2 sample_entry_v2)))"
  by (rule safe_report_keeps_storage [OF sample_report_safe]) (simp_all add: sample_schema_def)

section \<open>Several releases\<close>

text \<open>A history that keeps what an earlier one says: recorded types and reserved names.\<close>

definition history_extends :: "schema_history \<Rightarrow> schema_history \<Rightarrow> bool" where
  "history_extends old new \<longleftrightarrow>
     (\<forall>ty fd. reserved_field old ty fd \<longrightarrow> reserved_field new ty fd)
     \<and> (\<forall>ty fd r. recorded_field old ty fd = Some r \<longrightarrow>
          (\<exists>r'. recorded_field new ty fd = Some r' \<and> hf_value_type r' = hf_value_type r))"

text \<open>
  The cumulative history prevents the reuse of a field name across releases: if one upgrade is
  reported safe under a history and a later one under a history that extends it, then a struct
  field that the first upgrade removes does not exist in the release the second one produces, and
  a field of the first source that exists there still has the type it had.
\<close>

theorem field_names_are_never_reused:
  assumes "rep_safe (validate_with_history lib a b ss ts p ctx (Some h))"
    and "rep_safe (validate_with_history lib' c d ss' ts' p' ctx' (Some h'))"
    and "history_extends h h'" and "struct_field a ty fd v"
  shows "((\<nexists>w. struct_field b ty fd w) \<longrightarrow> (\<nexists>w. struct_field d ty fd w))
    \<and> (\<forall>w. struct_field d ty fd w \<longrightarrow> w = v)"
proof -
  have ab: "history_ok lib a b h" and cd: "history_ok lib' c d h'"
    using safe_approvable [OF assms(1)] safe_approvable [OF assms(2)]
    by (simp_all add: approvable_def history_accepted_def)
  have target: "target_field_ok c d h' ty fd w" if "struct_field d ty fd w" for w
    using cd that by (simp add: history_ok_def)
  obtain r where r: "recorded_field h ty fd = Some r" "hf_value_type r = v"
    using ab assms(4) unfolding history_ok_def by blast
  then obtain r' where "recorded_field h' ty fd = Some r'" "hf_value_type r' = v"
    using assms(3) unfolding history_extends_def by blast
  then have "w = v" if "struct_field d ty fd w" for w
    using target [OF that] by (auto simp: target_field_ok_def)
  moreover have False if "\<nexists>w. struct_field b ty fd w" and "struct_field d ty fd w" for w
  proof -
    have "reserved_field h ty fd" using ab assms(4) that(1) unfolding history_ok_def by blast
    then have "reserved_field h' ty fd" using assms(3) by (simp add: history_extends_def)
    with target [OF that(2)] show False by (simp add: target_field_ok_def)
  qed
  ultimately show ?thesis by blast
qed

text \<open>Three releases of a struct: the second drops a field, the third does not bring it back.\<close>

definition field_json :: "string \<Rightarrow> json" where
  "field_json name = Object [(''name'', String name), (''type_'', String ''u32'')]"

definition struct_release :: "string \<Rightarrow> string list \<Rightarrow> artifact" where
  "struct_release v names = (release v)\<lparr>art_user_types :=
     [(''S'', \<lparr>ie_kind = ''struct'', ie_name = ''S'',
        ie_canonical = Object [(''udt_struct_v0'', Object [(''fields'', Array (map field_json names))])]\<rparr>)]\<rparr>"

definition struct_history :: schema_history where
  "struct_history = \<lparr>sh_format_version = 1, sh_complete = True,
     sh_types = [(''S'', \<lparr>th_fields =
         [(''x'', \<lparr>hf_value_type = String ''u32'', hf_first_seen = ''1.0.0'', hf_retired_in = None\<rparr>),
          (''y'', \<lparr>hf_value_type = String ''u32'', hf_first_seen = ''1.0.0'', hf_retired_in = Some ''2.0.0''\<rparr>)],
       th_reserved_fields = [''y'']\<rparr>)],
     sh_source_sha256 = []\<rparr>"

definition lenient_policy :: policy where
  "lenient_policy = default_policy\<lparr>pol_deny_changed_user_types := False, pol_require_semver_increase := False\<rparr>"

abbreviation struct_report :: "artifact \<Rightarrow> artifact \<Rightarrow> validation_report" where
  "struct_report a b \<equiv> validate_with_history sample_core a b
     (Some (sample_schema ''1.0.0'' 1 sample_entry_v1)) (Some (sample_schema ''2.0.0'' 2 sample_entry_v2))
     lenient_policy sample_context (Some struct_history)"

lemma struct_reports_safe:
  "rep_safe (struct_report (struct_release ''1.0.0'' [''x'', ''y'']) (struct_release ''2.0.0'' [''x'']))"
  "rep_safe (struct_report ((struct_release ''1.0.0'' [''x''])) (struct_release ''2.0.0'' [''x'']))"
  by code_simp+

lemma struct_release_fields:
  "artifact_struct_fields (struct_release v [''x'', ''y'']) = [(''S'', [(''x'', String ''u32''), (''y'', String ''u32'')])]"
  "artifact_struct_fields (struct_release v [''x'']) = [(''S'', [(''x'', String ''u32'')])]"
  by (simp_all add: artifact_struct_fields_def struct_release_def struct_fields_def field_json_def bm_get_def
      field_of_def option_bind_def bm_of_list_def)

theorem field_names_are_never_reused_witness:
  "\<nexists>w. struct_field (struct_release ''2.0.0'' [''x'']) ''S'' ''y'' w"
proof -
  have "history_extends struct_history struct_history" by (auto simp: history_extends_def)
  moreover have "struct_field (struct_release ''1.0.0'' [''x'', ''y'']) ''S'' ''y'' (String ''u32'')"
    by (simp add: struct_field_def struct_release_fields bm_get_def)
  moreover have "\<nexists>w. struct_field (struct_release ''2.0.0'' [''x'']) ''S'' ''y'' w"
    by (simp add: struct_field_def struct_release_fields bm_get_def)
  ultimately show ?thesis
    using field_names_are_never_reused [OF struct_reports_safe] by blast
qed

section \<open>Policies\<close>

text \<open>\<open>p\<close> demands everything that \<open>q\<close> demands.\<close>

definition stricter :: "policy \<Rightarrow> policy \<Rightarrow> bool" where
  "stricter p q \<longleftrightarrow> pol_format_version p = pol_format_version q
     \<and> (pol_require_upgrade_function q \<longrightarrow> pol_require_upgrade_function p)
     \<and> (pol_forbid_constructor q \<longrightarrow> pol_forbid_constructor p)
     \<and> (pol_require_semver_increase q \<longrightarrow> pol_require_semver_increase p)
     \<and> (pol_require_storage_schema q \<longrightarrow> pol_require_storage_schema p)
     \<and> (pol_require_schema_history q \<longrightarrow> pol_require_schema_history p)
     \<and> (pol_deny_removed_functions q \<longrightarrow> pol_deny_removed_functions p)
     \<and> (pol_deny_changed_functions q \<longrightarrow> pol_deny_changed_functions p)
     \<and> (pol_deny_removed_events q \<longrightarrow> pol_deny_removed_events p)
     \<and> (pol_deny_changed_events q \<longrightarrow> pol_deny_changed_events p)
     \<and> (pol_deny_changed_user_types q \<longrightarrow> pol_deny_changed_user_types p)"

text \<open>
  Strictness is monotone: an upgrade that is safe under a policy is safe under every policy of
  the same format that demands no more.
\<close>

theorem weaker_policy_accepts:
  assumes "rep_safe (validate_with_history lib source t ss ts p ctx h)" and "stricter p q"
  shows "rep_safe (validate_with_history lib source t ss ts q ctx h)"
proof -
  have p: "approvable lib source t ss ts p ctx h" by (rule safe_approvable [OF assms(1)])
  have "\<not> interface_breaks source t q"
    using p assms(2) unfolding approvable_def interface_breaks_def stricter_def by blast
  moreover have "storage_ok lib source t q ss ts" and "history_accepted lib source t q h"
    using p assms(2) unfolding approvable_def storage_ok_def history_accepted_def stricter_def
    by (auto split: option.splits)
  ultimately have "approvable lib source t ss ts q ctx h"
    using p assms(2) unfolding approvable_def stricter_def by auto
  then show ?thesis using run.error_iff [of lib source t ss ts q ctx h] by (simp add: rep_safe_findings)
qed

theorem weaker_policy_accepts_witness:
  "rep_safe (validate_with_history sample_core (release ''1.0.0'') (release ''2.0.0'')
     (Some (sample_schema ''1.0.0'' 1 sample_entry_v1)) (Some (sample_schema ''2.0.0'' 2 sample_entry_v2))
     lenient_policy sample_context (Some sample_history))"
  by (rule weaker_policy_accepts [OF sample_report_safe]) (simp add: stricter_def lenient_policy_def default_policy_def)

end
