(* ===== verification/Plan_Safety.thy ===== *)
theory Plan_Safety
  imports Plan Release_Safety
begin

text \<open>
  What a plan guarantees: a plan that is created verifies, a plan that verifies is the canonical
  plan of an approvable upgrade, its steps come in the documented order with the hashes of the
  reviewed modules, its digest covers every field, and a storage layout change forces a migration
  step.
\<close>

section \<open>Sample plan\<close>

definition upgrade_inputs :: json where
  "upgrade_inputs = Array
     [Object [(''name'', String ''new_wasm_hash''), (''type_'', BYTES_32)],
      Object [(''name'', String ''operator''), (''type_'', String ''address'')]]"

definition plan_release :: "string \<Rightarrow> artifact" where
  "plan_release v = (release v)\<lparr>art_functions :=
     [(''upgrade'', \<lparr>ie_kind = ''function'', ie_name = ''upgrade'',
        ie_canonical = Object [(''function_v0'', Object [(''inputs'', upgrade_inputs)])]\<rparr>)]\<rparr>"

definition live_context :: validation_context where
  "live_context = \<lparr>ctx_target_protocol_version = Some 28, ctx_protocol_source = StellarCliNetworkInfo,
     ctx_network_name = Some ''testnet'', ctx_network_id = Some ''id'', ctx_network_passphrase = Some ''phrase'',
     ctx_rpc_version = Some ''1'', ctx_captive_core_version = None, ctx_observed_at_unix_seconds = Some 1\<rparr>"

definition sample_plan_lib :: "nat plan_lib" where
  "sample_plan_lib = \<lparr>pl_core = sample_core, contract_from_string = (\<lambda>s. s = ''C''),
     private_key_from_string = (\<lambda>_. False), plan_to_string = (\<lambda>_. Inr []), value_to_vec = (\<lambda>_. Inr ''digest'')\<rparr>"

abbreviation plan_report :: validation_report where
  "plan_report \<equiv> validate_with_history sample_core (plan_release ''1.0.0'') (plan_release ''2.0.0'')
     (Some (sample_schema ''1.0.0'' 1 sample_entry_v1)) (Some (sample_schema ''2.0.0'' 2 sample_entry_v2))
     default_policy live_context (Some sample_history)"

definition sample_paths :: plan_input_paths where
  "sample_paths = \<lparr>pip_source_wasm = ''a'', pip_target_wasm = ''b'', pip_source_schema = ''c'',
     pip_target_schema = ''d'', pip_schema_history = ''e'', pip_policy = None\<rparr>"

definition sample_operations :: plan_operations where
  "sample_operations = \<lparr>
     po_migration = Some \<lparr>mc_entrypoint = ''upgrade'',
       mc_arguments = [(''new_wasm_hash'', ''00''), (''operator'', ''alice'')]\<rparr>,
     po_invariant_check = \<lparr>ic_program = ''cargo'', ic_arguments = [''test'']\<rparr>\<rparr>"

definition sample_plan :: upgrade_plan where
  "sample_plan = (assemble_plan plan_report ''testnet'' ''C'' ''alice'' sample_paths sample_operations)
     \<lparr>up_plan_sha256 := ''digest''\<rparr>"

lemma sample_plan_created:
  "create_plan_with_paths sample_plan_lib plan_report ''testnet'' ''C'' ''alice'' sample_paths sample_operations
     = Inr sample_plan"
  by code_simp

section \<open>Creation and verification\<close>

lemma report_inputs [simp]:
  "rep_source (validate_with_history lib source t ss ts p ctx h) = source"
  "rep_target (validate_with_history lib source t ss ts p ctx h) = t"
  "rep_source_schema (validate_with_history lib source t ss ts p ctx h) = ss"
  "rep_target_schema (validate_with_history lib source t ss ts p ctx h) = ts"
  "rep_policy (validate_with_history lib source t ss ts p ctx h) = p"
  "rep_context (validate_with_history lib source t ss ts p ctx h) = ctx"
  "rep_schema_history (validate_with_history lib source t ss ts p ctx h) = h"
  by (simp_all add: validate_with_history_def Let_def)

lemma revalidate_fresh:
  "revalidate lib (validate_with_history (pl_core lib) source t ss ts p ctx h)
     = validate_with_history (pl_core lib) source t ss ts p ctx h"
  by (simp add: revalidate_def)

lemma assemble_fields:
  fixes report network contract_id source_identity paths ops
  defines "plan \<equiv> assemble_plan report network contract_id source_identity paths ops"
  shows "up_format_version plan = 3" "up_network plan = network" "up_contract_id plan = contract_id"
    "up_source_identity plan = source_identity" "up_inputs plan = paths" "up_migration plan = po_migration ops"
    "up_invariant_check plan = po_invariant_check ops" "up_validation plan = report" "up_plan_sha256 plan = []"
    "up_steps plan = plan_steps network contract_id source_identity (pip_target_wasm paths)
        (art_sha256 (rep_source report)) (art_sha256 (rep_target report)) (po_migration ops) (po_invariant_check ops)"
  by (simp_all add: plan_def assemble_plan_def)

lemma assembled_steps:
  fixes report network contract_id source_identity paths ops sha
  defines "plan \<equiv> (assemble_plan report network contract_id source_identity paths ops)\<lparr>up_plan_sha256 := sha\<rparr>"
  shows "steps_of_kind UploadTargetWasm plan = [new_step 2 UploadTargetWasm ''stellar''
        [''contract'', ''upload'', ''--wasm'', pip_target_wasm paths, ''--optimize=false'', ''--source-account'',
         source_identity, ''--network'', network]
        (''WASM hash '' @ art_sha256 (rep_target report))]"
    and "length (steps_of_kind ExecuteMigration plan) = (if po_migration ops \<noteq> None then 1 else 0)"
  by (simp_all add: plan_def steps_of_kind_def assemble_fields plan_steps_def upgrade_steps_def migration_step_def
      new_step_def Let_def split: option.split)

lemma operations_eta: "\<lparr>po_migration = po_migration ops, po_invariant_check = po_invariant_check ops\<rparr> = ops"
  by simp

lemma created_structure:
  assumes "create_plan_with_paths lib report network contract_id source_identity paths ops = Inr plan"
    and "revalidate lib report = report"
  shows "validate_plan_structure lib plan = Inr ()"
proof -
  obtain sha where plan: "plan = (assemble_plan report network contract_id source_identity paths ops)\<lparr>up_plan_sha256 := sha\<rparr>"
    using assms(1) unfolding create_plan_iff by blast
  note parts = assemble_fields
  note steps = assembled_steps [where report = report and network = network and contract_id = contract_id
      and source_identity = source_identity and paths = paths and ops = ops and sha = sha, folded plan]
  have again: "create_plan_with_paths lib (up_validation plan) (up_network plan) (up_contract_id plan)
       (up_source_identity plan) (up_inputs plan)
       \<lparr>po_migration = up_migration plan, po_invariant_check = up_invariant_check plan\<rparr> = Inr plan"
    using assms(1) by (simp add: plan parts operations_eta)
  have upload: "argument_after (ps_arguments (hd (steps_of_kind UploadTargetWasm plan))) ''--wasm''
      = Some (pip_target_wasm (up_inputs plan))"
    unfolding steps(1) by (simp add: new_step_def plan parts)
  have "up_format_version plan = 3" "revalidate lib (up_validation plan) = up_validation plan"
    "length (steps_of_kind UploadTargetWasm plan) = 1" "\<not> 1 < length (steps_of_kind ExecuteMigration plan)"
    "length (steps_of_kind ExecuteMigration plan) = (if up_migration plan \<noteq> None then 1 else 0)"
    using assms(2) unfolding steps by (simp_all add: plan parts)
  with again upload show ?thesis
    by (simp only: validate_plan_structure_def ensure_def if_True and_then_simps ok_or_simps simp_thms)
qed

lemma created_verifies:
  assumes "create_plan_with_paths lib report network contract_id source_identity paths ops = Inr plan"
    and "report = validate_with_history (pl_core lib) source t ss ts p ctx h"
  shows "verify_plan_digest lib plan = Inr True"
proof -
  have "validate_plan_structure lib plan = Inr ()"
    by (rule created_structure [OF assms(1)]) (simp add: assms(2) revalidate_fresh)
  moreover have "calculate_plan_sha256 lib plan = Inr (up_plan_sha256 plan)"
    using assms(1) by (auto simp: create_plan_iff calculate_ignores_digest)
  ultimately show ?thesis by (simp add: verify_plan_digest_def)
qed

text \<open>
  C9: Creating and verifying a plan fit together: a plan created from a fresh validation report
  passes verification, and its digest matches.
\<close>

theorem created_plan_verifies:
  assumes "create_plan_with_paths lib report network contract_id source_identity paths ops = Inr plan"
    and "report = validate_with_history (pl_core lib) source t ss ts p ctx h"
  shows "verify_plan_digest lib plan = Inr True"
  by (rule created_verifies [OF assms])

theorem created_plan_verifies_witness: "verify_plan_digest sample_plan_lib sample_plan = Inr True"
  by (rule created_plan_verifies [OF sample_plan_created refl [THEN trans]]) (simp add: sample_plan_lib_def)

lemma verified_plan:
  assumes "verify_plan_digest lib plan = Inr True"
  shows "revalidate lib (up_validation plan) = up_validation plan"
    and "\<exists>ops. po_migration ops = up_migration plan \<and> po_invariant_check ops = up_invariant_check plan
      \<and> create_plan_with_paths lib (up_validation plan) (up_network plan) (up_contract_id plan)
          (up_source_identity plan) (up_inputs plan) ops = Inr plan"
proof -
  let ?ops = "\<lparr>po_migration = up_migration plan, po_invariant_check = up_invariant_check plan\<rparr>"
  have checked: "validate_plan_structure lib plan = Inr ()"
    and sha: "calculate_plan_sha256 lib plan = Inr (up_plan_sha256 plan)"
    using assms by (auto simp: verify_plan_digest_def and_then_Inr_iff)
  then show "revalidate lib (up_validation plan) = up_validation plan"
    by (simp add: validate_plan_structure_def and_then_Inr_iff)
  from checked obtain expected where created: "create_plan_with_paths lib (up_validation plan) (up_network plan)
      (up_contract_id plan) (up_source_identity plan) (up_inputs plan) ?ops = Inr expected"
    and same: "plan\<lparr>up_plan_sha256 := []\<rparr> = expected\<lparr>up_plan_sha256 := []\<rparr>"
    by (auto simp: validate_plan_structure_def and_then_Inr_iff)
  from same have "plan_digest_value plan = plan_digest_value expected" by (simp only: plan_digest_value_iff)
  then have "calculate_plan_sha256 lib expected = Inr (up_plan_sha256 plan)"
    using sha by (simp only: calculate_plan_sha256_eq)
  moreover have "calculate_plan_sha256 lib expected = Inr (up_plan_sha256 expected)"
    using created by (auto simp: create_plan_iff calculate_ignores_digest)
  ultimately have "plan = expected" using same by (cases plan; cases expected) simp
  with created have "create_plan_with_paths lib (up_validation plan) (up_network plan) (up_contract_id plan)
          (up_source_identity plan) (up_inputs plan) ?ops = Inr plan" by simp
  then show "\<exists>ops. po_migration ops = up_migration plan \<and> po_invariant_check ops = up_invariant_check plan
      \<and> create_plan_with_paths lib (up_validation plan) (up_network plan) (up_contract_id plan)
          (up_source_identity plan) (up_inputs plan) ops = Inr plan"
    by (intro exI [of _ ?ops]) simp
qed

text \<open>
  C8: A plan that verifies is trustworthy whoever wrote it: its embedded report is what validating
  its artifacts, manifests, policy, context and history gives, that upgrade is approvable, and
  the plan is exactly what creating a plan from those inputs returns, steps, commands, hashes and
  digest included.
\<close>

theorem verified_plan_is_canonical:
  assumes "verify_plan_digest lib plan = Inr True"
  shows "(let r = up_validation plan in
      r = validate_with_history (pl_core lib) (rep_source r) (rep_target r) (rep_source_schema r)
            (rep_target_schema r) (rep_policy r) (rep_context r) (rep_schema_history r)
      \<and> approvable (pl_core lib) (rep_source r) (rep_target r) (rep_source_schema r) (rep_target_schema r)
            (rep_policy r) (rep_context r) (rep_schema_history r))
    \<and> (\<exists>ops. po_migration ops = up_migration plan \<and> po_invariant_check ops = up_invariant_check plan
        \<and> create_plan_with_paths lib (up_validation plan) (up_network plan) (up_contract_id plan)
            (up_source_identity plan) (up_inputs plan) ops = Inr plan)"
proof -
  note facts = verified_plan [OF assms]
  then have "rep_safe (up_validation plan)" by (auto simp: create_plan_iff plan_admissible_def)
  then have "rep_safe (revalidate lib (up_validation plan))" by (simp only: facts(1))
  then have "approvable (pl_core lib) (rep_source (up_validation plan)) (rep_target (up_validation plan))
      (rep_source_schema (up_validation plan)) (rep_target_schema (up_validation plan))
      (rep_policy (up_validation plan)) (rep_context (up_validation plan)) (rep_schema_history (up_validation plan))"
    unfolding revalidate_def by (rule safe_approvable)
  with facts show ?thesis by (simp add: revalidate_def Let_def)
qed

lemma sample_plan_verifies: "verify_plan_digest sample_plan_lib sample_plan = Inr True"
  by code_simp

theorem verified_plan_is_canonical_witness:
  "approvable sample_core (plan_release ''1.0.0'') (plan_release ''2.0.0'')
     (Some (sample_schema ''1.0.0'' 1 sample_entry_v1)) (Some (sample_schema ''2.0.0'' 2 sample_entry_v2))
     default_policy live_context (Some sample_history)"
  using verified_plan_is_canonical [OF sample_plan_verifies, THEN conjunct1]
  by (simp add: Let_def sample_plan_def assemble_fields sample_plan_lib_def)

section \<open>Steps, digest and migration\<close>

lemma created_parts:
  assumes "create_plan_with_paths lib report network contract_id source_identity paths ops = Inr plan"
  obtains sha where "plan = (assemble_plan report network contract_id source_identity paths ops)\<lparr>up_plan_sha256 := sha\<rparr>"
    and "plan_admissible lib report network contract_id source_identity paths ops"
  using assms unfolding create_plan_iff by blast

lemma new_step_fields:
  "ps_kind (new_step position kind program arguments expected) = kind"
  "ps_position (new_step position kind program arguments expected) = position"
  "ps_arguments (new_step position kind program arguments expected) = arguments"
  "sh_words (ps_command (new_step position kind program arguments expected))
     = Some (ps_program (new_step position kind program arguments expected) # arguments)"
proof -
  have "sh_words (render_command program arguments) = Some (program # arguments)"
    unfolding sh_words_def render_command_def by (rule scan_words) simp
  then show "sh_words (ps_command (new_step position kind program arguments expected))
     = Some (ps_program (new_step position kind program arguments expected) # arguments)"
    by (simp add: new_step_def)
qed (simp_all add: new_step_def)

text \<open>The arguments of the steps, named so that they are not unfolded.\<close>

lemma plan_steps_shape:
  obtains p1 a1 e1 p2 a2 e2 p3 a3 e3 p4 a4 e4 m p6 a6 e6 p7 a7 e7 where
    "plan_steps n c i w sh th mig check =
       [new_step 1 VerifyCurrentExecutable p1 a1 e1, new_step 2 UploadTargetWasm p2 a2 e2,
        new_step 3 SimulateUpgrade p3 a3 e3, new_step 4 ExecuteUpgrade p4 a4 e4] @ m
       @ [new_step (5 + of_nat (length m)) VerifyExecutable p6 a6 e6,
          new_step (6 + of_nat (length m)) VerifyInvariants p7 a7 e7]"
    and "m = [] \<and> mig = None \<or> (\<exists>p5 a5 e5. m = [new_step 5 ExecuteMigration p5 a5 e5] \<and> mig \<noteq> None)"
    and "a3 = [''contract'', ''invoke'', ''--id'', c, ''--source-account'', i, ''--network'', n, ''--send'', ''no'',
      ''--'', ''upgrade'', ''--new_wasm_hash'', th, ''--operator'', i]"
    and "a4 = [''contract'', ''invoke'', ''--id'', c, ''--source-account'', i, ''--network'', n, ''--'', ''upgrade'',
      ''--new_wasm_hash'', th, ''--operator'', i]"
proof -
  let ?m = "case mig of None \<Rightarrow> [] | Some m \<Rightarrow> [migration_step n c i m]"
  have "?m = [] \<and> mig = None \<or> (\<exists>p5 a5 e5. ?m = [new_step 5 ExecuteMigration p5 a5 e5] \<and> mig \<noteq> None)"
    by (cases mig) (auto simp only: option.case migration_step_def)
  moreover have "of_nat (length (upgrade_steps n c i w sh th @ ?m)) + 1 = (5 + of_nat (length ?m) :: u32)"
    "of_nat (length (upgrade_steps n c i w sh th @ ?m)) + 1 + 1 = (6 + of_nat (length ?m) :: u32)"
    by (simp_all add: upgrade_steps_def)
  ultimately show thesis
    using that [OF _ _ refl refl, where m = ?m]
    unfolding plan_steps_def Let_def upgrade_steps_def append_assoc by metis
qed

lemma upt_values: "[1..<7] = [1, 2, 3, 4, 5, 6::nat]" "[1..<8] = [1, 2, 3, 4, 5, 6, 7::nat]"
  by (simp_all add: upt_rec)

lemma plan_steps_kinds:
  "map ps_kind (plan_steps n c i w sh th mig check) =
     [VerifyCurrentExecutable, UploadTargetWasm, SimulateUpgrade, ExecuteUpgrade]
     @ (if mig = None then [] else [ExecuteMigration]) @ [VerifyExecutable, VerifyInvariants]
   \<and> map (\<lambda>s. unat (ps_position s)) (plan_steps n c i w sh th mig check)
     = [1..<Suc (length (plan_steps n c i w sh th mig check))]
   \<and> list_all (\<lambda>s. sh_words (ps_command s) = Some (ps_program s # ps_arguments s))
     (plan_steps n c i w sh th mig check)"
  by (rule plan_steps_shape [of n c i w sh th mig check]) (auto simp: new_step_fields upt_values)

lemma plan_step_calls:
  "ps_arguments (plan_steps n c i w sh th mig check ! 2) = [''contract'', ''invoke'', ''--id'', c,
     ''--source-account'', i, ''--network'', n, ''--send'', ''no'', ''--'', ''upgrade'', ''--new_wasm_hash'', th,
     ''--operator'', i]"
  "ps_arguments (plan_steps n c i w sh th mig check ! 3) = [''contract'', ''invoke'', ''--id'', c,
     ''--source-account'', i, ''--network'', n, ''--'', ''upgrade'', ''--new_wasm_hash'', th, ''--operator'', i]"
  by (rule plan_steps_shape [of n c i w sh th mig check], simp add: new_step_fields)+

text \<open>
  C10: The steps of a created plan come in one fixed order: fetch and check the current code, upload,
  simulate, execute, migrate exactly when a migration is selected, fetch again, check the
  invariants. Positions count from one without gaps, the simulated and the executed call both name
  the hash of the reviewed target, the rollback hash is that of the reviewed source, and each
  rendered command reads back as the step's program and arguments.
\<close>

theorem created_plan_steps:
  assumes "create_plan_with_paths lib report network contract_id source_identity paths ops = Inr plan"
  shows "map ps_kind (up_steps plan) =
      [VerifyCurrentExecutable, UploadTargetWasm, SimulateUpgrade, ExecuteUpgrade]
      @ (if po_migration ops = None then [] else [ExecuteMigration]) @ [VerifyExecutable, VerifyInvariants]
    \<and> map (\<lambda>s. unat (ps_position s)) (up_steps plan) = [1..<Suc (length (up_steps plan))]
    \<and> list_all (\<lambda>s. sh_words (ps_command s) = Some (ps_program s # ps_arguments s)) (up_steps plan)
    \<and> drop 8 (ps_arguments (up_steps plan ! 2)) = [''--send'', ''no'', ''--'', ''upgrade'', ''--new_wasm_hash'',
        art_sha256 (rep_target report), ''--operator'', source_identity]
    \<and> drop 8 (ps_arguments (up_steps plan ! 3)) = [''--'', ''upgrade'', ''--new_wasm_hash'',
        art_sha256 (rep_target report), ''--operator'', source_identity]
    \<and> up_rollback_wasm_sha256 plan = art_sha256 (rep_source report)"
proof -
  obtain sha where plan: "plan = (assemble_plan report network contract_id source_identity paths ops)\<lparr>up_plan_sha256 := sha\<rparr>"
    by (rule created_parts [OF assms])
  have steps: "up_steps plan = plan_steps network contract_id source_identity (pip_target_wasm paths)
        (art_sha256 (rep_source report)) (art_sha256 (rep_target report)) (po_migration ops) (po_invariant_check ops)"
    by (simp add: plan assemble_fields)
  have "up_rollback_wasm_sha256 plan = art_sha256 (rep_source report)" by (simp add: plan assemble_plan_def)
  moreover have "drop 8 (ps_arguments (up_steps plan ! 2)) = [''--send'', ''no'', ''--'', ''upgrade'', ''--new_wasm_hash'',
        art_sha256 (rep_target report), ''--operator'', source_identity]"
    "drop 8 (ps_arguments (up_steps plan ! 3)) = [''--'', ''upgrade'', ''--new_wasm_hash'',
        art_sha256 (rep_target report), ''--operator'', source_identity]"
    unfolding steps plan_step_calls by simp_all
  ultimately show ?thesis using plan_steps_kinds unfolding steps by blast
qed

theorem created_plan_steps_witness:
  "length (up_steps sample_plan) = 7 \<and> up_rollback_wasm_sha256 sample_plan = art_sha256 (rep_source plan_report)"
proof -
  note facts = created_plan_steps [OF sample_plan_created]
  have "length (up_steps sample_plan) = length (map ps_kind (up_steps sample_plan))" by (rule length_map [symmetric])
  also have "\<dots> = 7" unfolding conjunct1 [OF facts] by (simp add: sample_operations_def)
  finally show ?thesis using facts by blast
qed

text \<open>
  C40: The digest covers the whole plan and nothing else: it is the hash of the printed JSON value of the
  plan without its digest member, two plans have the same such value exactly when they agree in every
  field other than the digest, and a digest already in the plan does not enter.
\<close>

theorem plan_digest_covers_plan:
  "calculate_plan_sha256 lib p =
     and_then (lift_error (\<lambda>e. JsonError (Decoder_Error e)) (value_to_vec lib (plan_digest_value p)))
       (\<lambda>bs. Inr (hash_hex (pl_core lib) bs))
   \<and> (plan_digest_value p = plan_digest_value q \<longleftrightarrow> p\<lparr>up_plan_sha256 := []\<rparr> = q\<lparr>up_plan_sha256 := []\<rparr>)
   \<and> calculate_plan_sha256 lib (p\<lparr>up_plan_sha256 := sha\<rparr>) = calculate_plan_sha256 lib p"
  using calculate_plan_sha256_eq plan_digest_value_iff calculate_ignores_digest by blast

lemma layout_change_finding:
  assumes "(key, old) \<in> set (entry_map source)" and "bm_get (entry_map t) key = Some new"
    and "layout_differs old new" and "se_migration new = Some mig"
  shows "STO002_migration_declared key old new mig \<in> set (compare_storage_schemas source t [])"
proof -
  have "STO002_migration_declared key old new mig \<in> set (entry_findings (entry_map t) (key, old))"
    using assms by (simp add: entry_findings_def compare_storage_entry_def)
  with assms(1) show ?thesis
    by (auto simp: compare_storage_schemas_def compare_storage_fold push_if_def)
qed

lemma finding_reported:
  assumes "f \<in> set (check_storage lib source t p ss ts [])"
  shows "f \<in> set (rep_findings (validate_with_history lib source t ss ts p ctx h))"
proof -
  have "f \<in> set (check_storage lib source t p ss ts fs)" for fs
    using assms stc.keeps [of lib source t p ss ts fs] by simp
  then show ?thesis by (simp add: validate_with_history_def run_checks_def Let_def push_if_def)
qed

lemma storage_finding:
  assumes "f \<in> set (compare_storage_schemas old new [])"
  shows "f \<in> set (check_storage lib source t p (Some old) (Some new) [])"
  using assms sto.keeps [of old new "validate_schema_manifests lib source t old new []"]
  by (simp add: check_storage_def)

lemma safe_keeps_entry:
  assumes "rep_safe (validate_with_history lib source t (Some old) (Some new) p ctx h)"
    and "(key, e) \<in> set (entry_map old)" and "bm_get (entry_map new) key = Some e'"
  shows "layout_differs e e' \<Longrightarrow> \<exists>mig. se_migration e' = Some mig"
proof -
  have "storage_ok lib source t p (Some old) (Some new)"
    using safe_approvable [OF assms(1)] unfolding approvable_def by blast
  then have "entry_kept old new (key, e)"
    using assms(2) unfolding storage_ok_def storage_compatible_def by auto
  then show "layout_differs e e' \<Longrightarrow> \<exists>mig. se_migration e' = Some mig"
    using assms(3) by (auto simp: entry_kept_def)
qed

lemma migration_finding_requires:
  "STO002_migration_declared key e e' mig \<in> set (rep_findings report) \<Longrightarrow> storage_migration_required report"
  unfolding storage_migration_required_def list_ex_iff by (erule bexI [rotated]) (simp add: finding_simps)

text \<open>
  C11: A changed storage layout forces the declared migration into the plan: when the durability or the
  type of a declared key differs between the manifests, a plan created from the validation of that
  upgrade contains a migration step that calls the only entrypoint the target manifest declares,
  and the target exports it.
\<close>

theorem layout_change_forces_migration:
  assumes "report = validate_with_history lib source t (Some old) (Some new) p ctx h"
    and "create_plan_with_paths plib report network contract_id source_identity paths ops = Inr plan"
    and "(key, e) \<in> set (entry_map old)" and "bm_get (entry_map new) key = Some e'" and "layout_differs e e'"
  shows "\<exists>call. up_migration plan = Some call \<and> declared_entrypoints report = [mc_entrypoint call]
    \<and> has_function t (mc_entrypoint call)
    \<and> migration_step network contract_id source_identity call \<in> set (up_steps plan)"
proof -
  obtain sha where plan: "plan = (assemble_plan report network contract_id source_identity paths ops)\<lparr>up_plan_sha256 := sha\<rparr>"
    and adm: "plan_admissible plib report network contract_id source_identity paths ops"
    by (rule created_parts [OF assms(2)])
  have safe: "rep_safe report" and sel: "migration_selected report (po_migration ops)"
    and calls: "\<forall>call. po_migration ops = Some call \<longrightarrow>
      call_ok plib (rep_target report) (mc_entrypoint call) (mc_arguments call)"
    using adm unfolding plan_admissible_def by blast+
  have "\<exists>mig. se_migration e' = Some mig"
    using safe_keeps_entry [OF safe [unfolded assms(1)] assms(3,4)] assms(5) by blast
  then obtain mig where "se_migration e' = Some mig" ..
  then have "STO002_migration_declared key e e' mig \<in> set (rep_findings report)"
    unfolding assms(1) using assms(3-5) by (intro finding_reported storage_finding layout_change_finding)
  then have "storage_migration_required report"
    by (rule migration_finding_requires)
  then obtain call where call: "po_migration ops = Some call" "declared_entrypoints report = [mc_entrypoint call]"
    using sel unfolding migration_selected_def by (auto split: option.splits)
  have "has_function (rep_target report) (mc_entrypoint call)"
    using calls call(1) by (auto simp: call_ok_def function_inputs_def has_function_def bm_contains_def)
  then have "has_function t (mc_entrypoint call)" by (simp only: assms(1) report_inputs)
  moreover have "up_migration plan = Some call" using call(1) by (simp add: plan assemble_fields)
  moreover have "migration_step network contract_id source_identity call \<in> set (up_steps plan)"
    using call(1) by (simp add: plan assemble_fields plan_steps_def Let_def)
  ultimately show ?thesis using call(2) by blast
qed

lemma sample_layout_change:
  "(''COUNTER'', sample_entry_v1) \<in> set (entry_map (sample_schema ''1.0.0'' 1 sample_entry_v1))"
  "bm_get (entry_map (sample_schema ''2.0.0'' 2 sample_entry_v2)) ''COUNTER'' = Some sample_entry_v2"
  "layout_differs sample_entry_v1 sample_entry_v2"
  by code_simp+

theorem layout_change_forces_migration_witness:
  "\<exists>call. up_migration sample_plan = Some call \<and> declared_entrypoints plan_report = [mc_entrypoint call]
    \<and> has_function (plan_release ''2.0.0'') (mc_entrypoint call)
    \<and> migration_step ''testnet'' ''C'' ''alice'' call \<in> set (up_steps sample_plan)"
  by (rule layout_change_forces_migration [OF refl sample_plan_created sample_layout_change])

text \<open>
  A plan is marked ready for review only on live evidence: the status of a plan created from a
  fresh report is \<open>ReviewReady\<close> exactly when the protocol was read from the network, in which
  case the evidence is complete and names the plan's own network; every other plan is an offline
  draft.
\<close>

theorem review_ready_needs_live_evidence:
  assumes "create_plan_with_paths plib (validate_with_history lib source t ss ts p ctx h) network contract_id
      source_identity paths ops = Inr plan"
  shows "(up_status plan = ReviewReady \<longleftrightarrow> ctx_protocol_source ctx = StellarCliNetworkInfo)
    \<and> (up_status plan = ReviewReady \<longrightarrow> live_evidence_complete ctx) \<and> ctx_network_name ctx = Some network
    \<and> (up_status plan \<noteq> ReviewReady \<longrightarrow> ctx_protocol_source ctx = OfflineAssertion)"
proof -
  obtain sha where plan: "plan = (assemble_plan (validate_with_history lib source t ss ts p ctx h) network contract_id
      source_identity paths ops)\<lparr>up_plan_sha256 := sha\<rparr>"
    and adm: "plan_admissible plib (validate_with_history lib source t ss ts p ctx h) network contract_id
      source_identity paths ops"
    by (rule created_parts [OF assms])
  have "\<not> protocol_context_blocks ctx"
    using adm safe_approvable [of lib source t ss ts p ctx h] by (simp add: plan_admissible_def approvable_def)
  with adm show ?thesis
    by (cases "ctx_protocol_source ctx") (simp_all add: plan assemble_plan_def plan_admissible_def protocol_context_blocks_def)
qed

theorem review_ready_needs_live_evidence_witness:
  "up_status sample_plan = ReviewReady"
  using review_ready_needs_live_evidence [OF sample_plan_created] by (simp add: live_context_def)

end
