(* ===== verification/Decoders.thy ===== *)
theory Decoders
  imports Plan_Data "HOL-Library.Monad_Syntax"
begin

text \<open>
  The derived \<open>Deserialize\<close> instances of \<open>crates/soroban-upgrades-core/src/lib.rs\<close> on JSON values, as the
  \<open>serde\<close> attributes in front of the types determine them. A struct is read from an object, whose members
  are looked up by name and which \<open>deny_unknown_fields\<close> restricts to the names of the fields, or from an
  array of its fields in order; a missing \<open>Option\<close> of an object is \<open>None\<close>, and \<open>default\<close> supplies a missing
  field. An enum without payload is read from its name, or from an object that maps the name to \<open>null\<close>.
  Only success and the decoded value are modelled, not the text of the error.

  The locale \<open>json_codec\<close> states what an encoder of \<open>Plan_Data\<close> and its decoder have in common: a value
  that fits the Rust type (\<open>BTreeMap\<close> and \<open>BTreeSet\<close> are sorted, a \<open>usize\<close> has 64 bits) is read back, and
  whatever is read fits.
\<close>

section \<open>Members of a struct\<close>

type_synonym 'a decoder = "json \<Rightarrow> 'a option"

text \<open>The members by name, and whether they come from an object.\<close>

type_synonym members = "bool \<times> (string \<rightharpoonup> json)"

fun struct_members :: "string list \<Rightarrow> members decoder" where
  "struct_members names (Object kvs) =
     (if list_all (\<lambda>kv. fst kv \<in> set names) kvs then Some (True, bm_get kvs) else None)"
| "struct_members names (Array xs) =
     (if length xs \<le> length names then Some (False, map_of (zip names xs)) else None)"
| "struct_members names v = None"

definition required :: "string \<Rightarrow> 'a decoder \<Rightarrow> members \<Rightarrow> 'a option" where
  "required f d ms = Option.bind (snd ms f) d"

definition decode_option :: "'a decoder \<Rightarrow> 'a option decoder" where
  "decode_option d v = (if v = Null then Some None else map_option Some (d v))"

definition optional :: "string \<Rightarrow> 'a decoder \<Rightarrow> members \<Rightarrow> 'a option option" where
  "optional f d ms =
     (case snd ms f of None \<Rightarrow> if fst ms then Some None else None | Some v \<Rightarrow> decode_option d v)"

definition defaulted :: "string \<Rightarrow> 'a decoder \<Rightarrow> 'a \<Rightarrow> members \<Rightarrow> 'a option" where
  "defaulted f d x ms = (case snd ms f of None \<Rightarrow> Some x | Some v \<Rightarrow> d v)"

lemma struct_object:
  assumes "map fst kvs = names" and "distinct names"
  shows "struct_members names (object kvs) = Some (True, map_of kvs)"
proof -
  have get: "bm_get (bm_of_list kvs) = map_of kvs"
    using assms by (simp add: bm_get_of_list map_of_rev_distinct)
  have "k \<in> set names" if "(k, v) \<in> set (bm_of_list kvs)" for k v
  proof -
    have "bm_get (bm_of_list kvs) k = Some v" using that bm_get_iff [of "bm_of_list kvs"] by simp
    then have "(k, v) \<in> set kvs" unfolding get by (rule map_of_SomeD)
    then show ?thesis using assms(1) by force
  qed
  then show ?thesis by (auto simp: object_def get list_all_iff)
qed

section \<open>Basic types and collections\<close>

definition decode_string :: "string decoder" where
  "decode_string v = (case v of String s \<Rightarrow> Some s | _ \<Rightarrow> None)"

definition decode_bool :: "bool decoder" where
  "decode_bool v = (case v of Bool b \<Rightarrow> Some b | _ \<Rightarrow> None)"

definition decode_value :: "json decoder" where
  "decode_value v = Some v"

definition decode_int :: "int \<Rightarrow> (int \<Rightarrow> 'a) \<Rightarrow> 'a decoder" where
  "decode_int limit f v =
     (case v of Number (Int_Number i) \<Rightarrow> if 0 \<le> i \<and> i < limit then Some (f i) else None | _ \<Rightarrow> None)"

definition decode_u32 :: "u32 decoder" where
  "decode_u32 = decode_int (2 ^ 32) of_int"

definition decode_u64 :: "u64 decoder" where
  "decode_u64 = decode_int (2 ^ 64) of_int"

definition decode_usize :: "usize decoder" where
  "decode_usize = decode_int (2 ^ 64) nat"

definition decode_list :: "'a decoder \<Rightarrow> 'a list decoder" where
  "decode_list d v = (case v of Array xs \<Rightarrow> those (map d xs) | _ \<Rightarrow> None)"

definition decode_set :: "string bset decoder" where
  "decode_set v = map_option bs_of_list (decode_list decode_string v)"

definition decode_map :: "'a decoder \<Rightarrow> (string, 'a) bmap decoder" where
  "decode_map d v =
     (case v of
        Object kvs \<Rightarrow> map_option bm_of_list (those (map (\<lambda>(k, x). map_option (Pair k) (d x)) kvs))
      | _ \<Rightarrow> None)"

text \<open>The name of a variant without payload.\<close>

fun variant_name :: "string decoder" where
  "variant_name (String s) = Some s"
| "variant_name (Object [(s, Null)]) = Some s"
| "variant_name v = None"

section \<open>The contract of an encoder and its decoder\<close>

locale json_codec =
  fixes enc :: "'a \<Rightarrow> json" and dec :: "json \<Rightarrow> 'a option" and fits :: "'a \<Rightarrow> bool"
  assumes decode_encode: "fits x \<Longrightarrow> dec (enc x) = Some x"
    and decoded_fits: "dec v = Some x \<Longrightarrow> fits x"
begin

lemma decode_encode_id: "dec v = Some x \<Longrightarrow> dec (enc x) = Some x"
  by (intro decode_encode decoded_fits)

lemma those_round: "list_all fits xs \<Longrightarrow> those (map (\<lambda>x. dec (enc x)) xs) = Some xs"
  by (induction xs) (simp_all add: decode_encode)

lemma those_fits: "those (map dec vs) = Some xs \<Longrightarrow> list_all fits xs"
  by (induction vs arbitrary: xs) (auto split: option.splits dest: decoded_fits)

lemma list_round: "list_all fits xs \<Longrightarrow> decode_list dec (list_json enc xs) = Some xs"
  by (simp add: decode_list_def list_json_def those_round o_def)

lemma list_fits: "decode_list dec v = Some xs \<Longrightarrow> list_all fits xs"
  by (auto simp: decode_list_def those_fits split: json.splits)

lemma map_round:
  assumes "bm_ok m" and "list_all (fits \<circ> snd) m"
  shows "decode_map dec (map_json enc m) = Some m"
proof -
  have "those (map ((\<lambda>(k, x). map_option (Pair k) (dec x)) \<circ> (\<lambda>(k, v). (k, enc v))) m) = Some m"
    using assms(2) by (induction m) (auto simp: decode_encode)
  moreover have "bm_of_list m = m"
  proof (rule bm_ext)
    show "bm_get (bm_of_list m) = bm_get m"
      using bm_ok_distinct [OF assms(1)]
      by (simp add: fun_eq_iff bm_get_of_list map_of_rev_distinct) (simp add: bm_get_def)
  qed (simp_all add: assms(1))
  ultimately show ?thesis by (simp add: decode_map_def map_json_def)
qed

lemma map_fits: 
  assumes "decode_map dec v = Some m"
  shows "bm_ok m \<and> list_all (fits \<circ> snd) m"
proof -
  obtain kvs ys where ys: "those (map (\<lambda>(k, x). map_option (Pair k) (dec x)) kvs) = Some ys" and m: "m = bm_of_list ys"
    using assms by (auto simp: decode_map_def split: json.splits)
  from ys have "list_all (fits \<circ> snd) ys"
    by (induction kvs arbitrary: ys) (auto split: option.splits dest: decoded_fits)
  moreover have "set m \<subseteq> set ys"
  proof
    fix kv assume "kv \<in> set m"
    then have "bm_get m (fst kv) = Some (snd kv)" using bm_get_iff [of m "fst kv" "snd kv"] by (simp add: m)
    then show "kv \<in> set ys" using map_of_SomeD [of "rev ys" "fst kv" "snd kv"] by (simp add: m bm_get_of_list)
  qed
  ultimately show ?thesis by (auto simp: m list_all_iff)
qed

lemma defaulted_fits: "defaulted f dec d ms = Some x \<Longrightarrow> fits d \<Longrightarrow> fits x"
  by (auto simp: defaulted_def decoded_fits split: option.splits)

end

text \<open>A value whose encoding is never \<open>null\<close> can be optional.\<close>

locale nonnull_codec = json_codec +
  assumes not_null: "enc x \<noteq> Null"
begin

lemma opt_round: "pred_option fits x \<Longrightarrow> decode_option dec (opt_json enc x) = Some x"
  by (cases x) (simp_all add: decode_option_def opt_json_def not_null decode_encode)

lemma opt_fits: "decode_option dec v = Some x \<Longrightarrow> pred_option fits x"
  by (auto simp: decode_option_def decoded_fits split: if_splits)

lemma optional_fits: "optional f dec ms = Some x \<Longrightarrow> pred_option fits x"
  by (auto simp: optional_def opt_fits split: option.splits if_splits)

end

section \<open>The decoders\<close>

definition decode_interface_entry :: "interface_entry decoder" where
  "decode_interface_entry v = do {
     ms \<leftarrow> struct_members [''kind'', ''name'', ''canonical''] v;
     knd \<leftarrow> required ''kind'' decode_string ms;
     nm \<leftarrow> required ''name'' decode_string ms;
     canon \<leftarrow> required ''canonical'' decode_value ms;
     Some \<lparr>ie_kind = knd, ie_name = nm, ie_canonical = canon\<rparr> }"

definition decode_boundary_position :: "boundary_position decoder" where
  "decode_boundary_position v = do {
     name \<leftarrow> variant_name v;
     map_of [(''input'', Input), (''output'', Output)] name }"

definition decode_boundary :: "public_type_boundary decoder" where
  "decode_boundary v = do {
     ms \<leftarrow> struct_members [''function'', ''position'', ''index'', ''label'', ''rootType''] v;
     fn \<leftarrow> required ''function'' decode_string ms;
     pos \<leftarrow> required ''position'' decode_boundary_position ms;
     idx \<leftarrow> required ''index'' decode_usize ms;
     lbl \<leftarrow> optional ''label'' decode_string ms;
     root \<leftarrow> required ''rootType'' decode_string ms;
     Some (PublicTypeBoundary fn pos idx lbl root) }"

definition boundary_fits :: "public_type_boundary \<Rightarrow> bool" where
  "boundary_fits b \<longleftrightarrow> (case b of PublicTypeBoundary f p i l r \<Rightarrow> i < 2 ^ 64)"

definition decode_type_reference :: "type_reference decoder" where
  "decode_type_reference v = do {
     ms \<leftarrow> struct_members [''ownerType'', ''member'', ''targetType''] v;
     ow \<leftarrow> required ''ownerType'' decode_string ms;
     mb \<leftarrow> required ''member'' decode_string ms;
     tg \<leftarrow> required ''targetType'' decode_string ms;
     Some (TypeReference ow mb tg) }"

definition decode_impact_step :: "impact_step decoder" where
  "decode_impact_step v = do {
     ms \<leftarrow> struct_members [''ownerType'', ''member'', ''targetType''] v;
     ow \<leftarrow> required ''ownerType'' decode_string ms;
     mb \<leftarrow> required ''member'' decode_string ms;
     tg \<leftarrow> required ''targetType'' decode_string ms;
     Some (ImpactStep ow mb tg) }"

definition decode_call_evidence :: "export_call_evidence decoder" where
  "decode_call_evidence v = do {
     ms \<leftarrow> struct_members [''hostImports'', ''dynamicDispatchReachable''] v;
     host_imports \<leftarrow> required ''hostImports'' decode_set ms;
     dynamic_dispatch_reachable \<leftarrow> required ''dynamicDispatchReachable'' decode_bool ms;
     Some \<lparr>ev_host_imports = host_imports, ev_dynamic_dispatch_reachable = dynamic_dispatch_reachable\<rparr> }"

definition call_evidence_fits :: "export_call_evidence \<Rightarrow> bool" where
  "call_evidence_fits e \<longleftrightarrow> bs_ok (ev_host_imports e)"

definition decode_artifact :: "artifact decoder" where
  "decode_artifact v = do {
     ms \<leftarrow> struct_members [''formatVersion'', ''sha256'', ''sizeBytes'', ''envProtocolVersion'',
       ''envPreRelease'', ''metadata'', ''hostImports'', ''functions'', ''events'',
       ''userTypes'', ''publicTypeBoundaries'', ''typeReferences'',
       ''exportCallEvidence''] v;
     format_version \<leftarrow> required ''formatVersion'' decode_u32 ms;
     sha \<leftarrow> required ''sha256'' decode_string ms;
     size_bytes \<leftarrow> required ''sizeBytes'' decode_usize ms;
     env_protocol_version \<leftarrow> required ''envProtocolVersion'' decode_u32 ms;
     env_pre_release \<leftarrow> required ''envPreRelease'' decode_u32 ms;
     meta \<leftarrow> required ''metadata'' (decode_map decode_string) ms;
     host_imports \<leftarrow> required ''hostImports'' decode_set ms;
     fns \<leftarrow> required ''functions'' (decode_map decode_interface_entry) ms;
     evs \<leftarrow> required ''events'' (decode_map decode_interface_entry) ms;
     user_types \<leftarrow> required ''userTypes'' (decode_map decode_interface_entry) ms;
     public_type_boundaries \<leftarrow> required ''publicTypeBoundaries'' (decode_list decode_boundary) ms;
     type_references \<leftarrow> required ''typeReferences'' (decode_list decode_type_reference) ms;
     export_call_evidence \<leftarrow> required ''exportCallEvidence'' (decode_map decode_call_evidence) ms;
     Some \<lparr>art_format_version = format_version, art_sha256 = sha, art_size_bytes = size_bytes,
           art_env_protocol_version = env_protocol_version, art_env_pre_release = env_pre_release,
           art_metadata = meta, art_host_imports = host_imports, art_functions = fns, art_events = evs,
           art_user_types = user_types, art_public_type_boundaries = public_type_boundaries,
           art_type_references = type_references, art_export_call_evidence = export_call_evidence\<rparr> }"

definition artifact_fits :: "artifact \<Rightarrow> bool" where
  "artifact_fits a \<longleftrightarrow> art_size_bytes a < 2 ^ 64 \<and> bm_ok (art_metadata a) \<and> bs_ok (art_host_imports a)
     \<and> bm_ok (art_functions a) \<and> bm_ok (art_events a) \<and> bm_ok (art_user_types a) \<and> list_all boundary_fits (art_public_type_boundaries a)
     \<and> bm_ok (art_export_call_evidence a) \<and> list_all (call_evidence_fits \<circ> snd) (art_export_call_evidence a)"

definition decode_severity :: "severity decoder" where
  "decode_severity v = do {
     name \<leftarrow> variant_name v;
     map_of [(''info'', Info), (''warning'', Warning), (''error'', Error)] name }"

definition decode_finding :: "finding decoder" where
  "decode_finding v = do {
     ms \<leftarrow> struct_members [''code'', ''severity'', ''title'', ''detail'', ''remediation''] v;
     cd \<leftarrow> required ''code'' decode_string ms;
     sev \<leftarrow> required ''severity'' decode_severity ms;
     ttl \<leftarrow> required ''title'' decode_string ms;
     dtl \<leftarrow> required ''detail'' decode_string ms;
     rem \<leftarrow> required ''remediation'' decode_string ms;
     Some \<lparr>f_code = cd, f_severity = sev, f_title = ttl, f_detail = dtl, f_remediation = rem\<rparr> }"

definition decode_protocol_source :: "protocol_source decoder" where
  "decode_protocol_source v = do {
     name \<leftarrow> variant_name v;
     map_of [(''unpinned'', Unpinned), (''offline_assertion'', OfflineAssertion),
       (''stellar_cli_network_info'', StellarCliNetworkInfo)] name }"

definition decode_context :: "validation_context decoder" where
  "decode_context v = do {
     ms \<leftarrow> struct_members [''targetProtocolVersion'', ''protocolSource'', ''networkName'', ''networkId'',
       ''networkPassphrase'', ''rpcVersion'', ''captiveCoreVersion'',
       ''observedAtUnixSeconds''] v;
     target_protocol_version \<leftarrow> optional ''targetProtocolVersion'' decode_u32 ms;
     protocol_source \<leftarrow> required ''protocolSource'' decode_protocol_source ms;
     network_name \<leftarrow> optional ''networkName'' decode_string ms;
     network_id \<leftarrow> optional ''networkId'' decode_string ms;
     network_passphrase \<leftarrow> optional ''networkPassphrase'' decode_string ms;
     rpc_version \<leftarrow> optional ''rpcVersion'' decode_string ms;
     captive_core_version \<leftarrow> optional ''captiveCoreVersion'' decode_string ms;
     observed_at_unix_seconds \<leftarrow> optional ''observedAtUnixSeconds'' decode_u64 ms;
     Some \<lparr>ctx_target_protocol_version = target_protocol_version, ctx_protocol_source = protocol_source,
           ctx_network_name = network_name, ctx_network_id = network_id,
           ctx_network_passphrase = network_passphrase, ctx_rpc_version = rpc_version,
           ctx_captive_core_version = captive_core_version,
           ctx_observed_at_unix_seconds = observed_at_unix_seconds\<rparr> }"

definition decode_policy :: "policy decoder" where
  "decode_policy v = do {
     ms \<leftarrow> struct_members [''formatVersion'', ''name'', ''requireUpgradeFunction'', ''forbidConstructor'',
       ''requireSemverIncrease'', ''requireStorageSchema'', ''requireSchemaHistory'',
       ''denyRemovedFunctions'', ''denyChangedFunctions'', ''denyRemovedEvents'',
       ''denyChangedEvents'', ''denyChangedUserTypes''] v;
     format_version \<leftarrow> defaulted ''formatVersion'' decode_u32 (pol_format_version default_policy) ms;
     nm \<leftarrow> defaulted ''name'' decode_string (pol_name default_policy) ms;
     require_upgrade_function \<leftarrow> defaulted ''requireUpgradeFunction'' decode_bool (pol_require_upgrade_function default_policy) ms;
     forbid_constructor \<leftarrow> defaulted ''forbidConstructor'' decode_bool (pol_forbid_constructor default_policy) ms;
     require_semver_increase \<leftarrow> defaulted ''requireSemverIncrease'' decode_bool (pol_require_semver_increase default_policy) ms;
     require_storage_schema \<leftarrow> defaulted ''requireStorageSchema'' decode_bool (pol_require_storage_schema default_policy) ms;
     require_schema_history \<leftarrow> defaulted ''requireSchemaHistory'' decode_bool (pol_require_schema_history default_policy) ms;
     deny_removed_functions \<leftarrow> defaulted ''denyRemovedFunctions'' decode_bool (pol_deny_removed_functions default_policy) ms;
     deny_changed_functions \<leftarrow> defaulted ''denyChangedFunctions'' decode_bool (pol_deny_changed_functions default_policy) ms;
     deny_removed_events \<leftarrow> defaulted ''denyRemovedEvents'' decode_bool (pol_deny_removed_events default_policy) ms;
     deny_changed_events \<leftarrow> defaulted ''denyChangedEvents'' decode_bool (pol_deny_changed_events default_policy) ms;
     deny_changed_user_types \<leftarrow> defaulted ''denyChangedUserTypes'' decode_bool (pol_deny_changed_user_types default_policy) ms;
     Some \<lparr>pol_format_version = format_version, pol_name = nm,
           pol_require_upgrade_function = require_upgrade_function,
           pol_forbid_constructor = forbid_constructor, pol_require_semver_increase = require_semver_increase,
           pol_require_storage_schema = require_storage_schema,
           pol_require_schema_history = require_schema_history,
           pol_deny_removed_functions = deny_removed_functions,
           pol_deny_changed_functions = deny_changed_functions, pol_deny_removed_events = deny_removed_events,
           pol_deny_changed_events = deny_changed_events, pol_deny_changed_user_types = deny_changed_user_types\<rparr> }"

definition decode_migration :: "migration decoder" where
  "decode_migration v = do {
     ms \<leftarrow> struct_members [''strategy'', ''entrypoint'', ''notes''] v;
     strat \<leftarrow> required ''strategy'' decode_string ms;
     entry \<leftarrow> optional ''entrypoint'' decode_string ms;
     nts \<leftarrow> optional ''notes'' decode_string ms;
     Some \<lparr>mig_strategy = strat, mig_entrypoint = entry, mig_notes = nts\<rparr> }"

definition decode_durability :: "durability decoder" where
  "decode_durability v = do {
     name \<leftarrow> variant_name v;
     map_of [(''instance'', Instance), (''persistent'', Persistent), (''temporary'', Temporary)] name }"

definition decode_storage_entry :: "storage_entry decoder" where
  "decode_storage_entry v = do {
     ms \<leftarrow> struct_members [''key'', ''durability'', ''type'', ''migration''] v;
     ky \<leftarrow> required ''key'' decode_string ms;
     dur \<leftarrow> required ''durability'' decode_durability ms;
     ty \<leftarrow> required ''type'' decode_string ms;
     mig \<leftarrow> defaulted ''migration'' (decode_option decode_migration) None ms;
     Some \<lparr>se_key = ky, se_durability = dur, se_value_type = ty, se_migration = mig\<rparr> }"

definition decode_storage_schema :: "storage_schema decoder" where
  "decode_storage_schema v = do {
     ms \<leftarrow> struct_members [''formatVersion'', ''complete'', ''schemaVersion'', ''contractVersion'',
       ''entries''] v;
     format_version \<leftarrow> required ''formatVersion'' decode_u32 ms;
     compl \<leftarrow> required ''complete'' decode_bool ms;
     schema_version \<leftarrow> required ''schemaVersion'' decode_u32 ms;
     contract_version \<leftarrow> required ''contractVersion'' decode_string ms;
     ents \<leftarrow> required ''entries'' (decode_list decode_storage_entry) ms;
     Some \<lparr>ss_format_version = format_version, ss_complete = compl, ss_schema_version = schema_version,
           ss_contract_version = contract_version, ss_entries = ents\<rparr> }"

definition decode_historical_field :: "historical_field decoder" where
  "decode_historical_field v = do {
     ms \<leftarrow> struct_members [''type'', ''firstSeen'', ''retiredIn''] v;
     ty \<leftarrow> required ''type'' decode_value ms;
     first_seen \<leftarrow> required ''firstSeen'' decode_string ms;
     retired_in \<leftarrow> defaulted ''retiredIn'' (decode_option decode_string) None ms;
     Some \<lparr>hf_value_type = ty, hf_first_seen = first_seen, hf_retired_in = retired_in\<rparr> }"

definition decode_type_history :: "type_history decoder" where
  "decode_type_history v = do {
     ms \<leftarrow> struct_members [''fields'', ''reservedFields''] v;
     flds \<leftarrow> defaulted ''fields'' (decode_map decode_historical_field) [] ms;
     reserved_fields \<leftarrow> defaulted ''reservedFields'' decode_set [] ms;
     Some \<lparr>th_fields = flds, th_reserved_fields = reserved_fields\<rparr> }"

definition type_history_fits :: "type_history \<Rightarrow> bool" where
  "type_history_fits t \<longleftrightarrow> bm_ok (th_fields t) \<and> bs_ok (th_reserved_fields t)"

definition decode_schema_history :: "schema_history decoder" where
  "decode_schema_history v = do {
     ms \<leftarrow> struct_members [''formatVersion'', ''complete'', ''types'', ''sourceSha256''] v;
     format_version \<leftarrow> required ''formatVersion'' decode_u32 ms;
     compl \<leftarrow> required ''complete'' decode_bool ms;
     tys \<leftarrow> required ''types'' (decode_map decode_type_history) ms;
     source_sha256 \<leftarrow> defaulted ''sourceSha256'' decode_string '''' ms;
     Some \<lparr>sh_format_version = format_version, sh_complete = compl, sh_types = tys,
           sh_source_sha256 = source_sha256\<rparr> }"

definition schema_history_fits :: "schema_history \<Rightarrow> bool" where
  "schema_history_fits h \<longleftrightarrow> bm_ok (sh_types h) \<and> list_all (type_history_fits \<circ> snd) (sh_types h)"

definition decode_evidence_status :: "evidence_status decoder" where
  "decode_evidence_status v = do {
     name \<leftarrow> variant_name v;
     map_of [(''FACT'', Fact), (''INFERENCE'', Inference), (''UNKNOWN'', Unknown)] name }"

definition decode_evidence_item :: "evidence_item decoder" where
  "decode_evidence_item v = do {
     ms \<leftarrow> struct_members [''status'', ''claim'', ''basis'', ''limitation''] v;
     stat \<leftarrow> required ''status'' decode_evidence_status ms;
     clm \<leftarrow> required ''claim'' decode_string ms;
     bss \<leftarrow> required ''basis'' decode_string ms;
     lim \<leftarrow> optional ''limitation'' decode_string ms;
     Some \<lparr>ei_status = stat, ei_claim = clm, ei_basis = bss, ei_limitation = lim\<rparr> }"

definition decode_evidence_coverage :: "evidence_coverage decoder" where
  "decode_evidence_coverage v = do {
     ms \<leftarrow> struct_members [''compiledContractSpec'', ''artifactHostImports'', ''targetNetworkProtocol'',
       ''declaredStorageSchema'', ''declaredSchemaHistory'', ''ledgerStorageCoverage'',
       ''deployedCallerGraph'', ''cap0086PerTypeReaderBinding'', ''migrationCompletion''] v;
     compiled_contract_spec \<leftarrow> required ''compiledContractSpec'' decode_evidence_item ms;
     artifact_host_imports \<leftarrow> required ''artifactHostImports'' decode_evidence_item ms;
     target_network_protocol \<leftarrow> required ''targetNetworkProtocol'' decode_evidence_item ms;
     declared_storage_schema \<leftarrow> required ''declaredStorageSchema'' decode_evidence_item ms;
     declared_schema_history \<leftarrow> required ''declaredSchemaHistory'' decode_evidence_item ms;
     ledger_storage_coverage \<leftarrow> required ''ledgerStorageCoverage'' decode_evidence_item ms;
     deployed_caller_graph \<leftarrow> required ''deployedCallerGraph'' decode_evidence_item ms;
     cap0086_per_type_reader_binding \<leftarrow> required ''cap0086PerTypeReaderBinding'' decode_evidence_item ms;
     migration_completion \<leftarrow> required ''migrationCompletion'' decode_evidence_item ms;
     Some \<lparr>ec_compiled_contract_spec = compiled_contract_spec,
           ec_artifact_host_imports = artifact_host_imports,
           ec_target_network_protocol = target_network_protocol,
           ec_declared_storage_schema = declared_storage_schema,
           ec_declared_schema_history = declared_schema_history,
           ec_ledger_storage_coverage = ledger_storage_coverage,
           ec_deployed_caller_graph = deployed_caller_graph,
           ec_cap0086_per_type_reader_binding = cap0086_per_type_reader_binding,
           ec_migration_completion = migration_completion\<rparr> }"

definition decode_public_impact :: "public_impact decoder" where
  "decode_public_impact v = do {
     ms \<leftarrow> struct_members [''changedType'', ''boundary'', ''steps'', ''structuralReachability'',
       ''runtimeCompatibility''] v;
     cty \<leftarrow> required ''changedType'' decode_string ms;
     bd \<leftarrow> required ''boundary'' decode_boundary ms;
     ss \<leftarrow> required ''steps'' (decode_list decode_impact_step) ms;
     x \<leftarrow> required ''structuralReachability'' decode_evidence_status ms;
     y \<leftarrow> required ''runtimeCompatibility'' decode_evidence_status ms;
     Some (PublicImpact cty bd ss x y) }"

definition public_impact_fits :: "public_impact \<Rightarrow> bool" where
  "public_impact_fits i \<longleftrightarrow> (case i of PublicImpact c b s x y \<Rightarrow> boundary_fits b)"

definition decode_report :: "validation_report decoder" where
  "decode_report v = do {
     ms \<leftarrow> struct_members [''formatVersion'', ''toolVersion'', ''safe'', ''policy'', ''context'',
       ''source'', ''target'', ''findings'', ''publicImpacts'', ''evidence'',
       ''storageSchemaChecked'', ''schemaHistoryChecked'', ''policySha256'',
       ''sourceSchemaSha256'', ''targetSchemaSha256'', ''schemaHistorySha256'',
       ''sourceSchema'', ''targetSchema'', ''schemaHistory''] v;
     format_version \<leftarrow> required ''formatVersion'' decode_u32 ms;
     tool_version \<leftarrow> required ''toolVersion'' decode_string ms;
     saf \<leftarrow> required ''safe'' decode_bool ms;
     pol \<leftarrow> required ''policy'' decode_policy ms;
     ctxt \<leftarrow> required ''context'' decode_context ms;
     src \<leftarrow> required ''source'' decode_artifact ms;
     tgt \<leftarrow> required ''target'' decode_artifact ms;
     fnds \<leftarrow> required ''findings'' (decode_list decode_finding) ms;
     public_impacts \<leftarrow> required ''publicImpacts'' (decode_list decode_public_impact) ms;
     evid \<leftarrow> required ''evidence'' decode_evidence_coverage ms;
     storage_schema_checked \<leftarrow> required ''storageSchemaChecked'' decode_bool ms;
     schema_history_checked \<leftarrow> required ''schemaHistoryChecked'' decode_bool ms;
     policy_sha256 \<leftarrow> required ''policySha256'' decode_string ms;
     source_schema_sha256 \<leftarrow> optional ''sourceSchemaSha256'' decode_string ms;
     target_schema_sha256 \<leftarrow> optional ''targetSchemaSha256'' decode_string ms;
     schema_history_sha256 \<leftarrow> optional ''schemaHistorySha256'' decode_string ms;
     source_schema \<leftarrow> optional ''sourceSchema'' decode_storage_schema ms;
     target_schema \<leftarrow> optional ''targetSchema'' decode_storage_schema ms;
     schema_history \<leftarrow> optional ''schemaHistory'' decode_schema_history ms;
     Some \<lparr>rep_format_version = format_version, rep_tool_version = tool_version, rep_safe = saf,
           rep_policy = pol, rep_context = ctxt, rep_source = src, rep_target = tgt, rep_findings = fnds,
           rep_public_impacts = public_impacts, rep_evidence = evid,
           rep_storage_schema_checked = storage_schema_checked,
           rep_schema_history_checked = schema_history_checked, rep_policy_sha256 = policy_sha256,
           rep_source_schema_sha256 = source_schema_sha256, rep_target_schema_sha256 = target_schema_sha256,
           rep_schema_history_sha256 = schema_history_sha256, rep_source_schema = source_schema,
           rep_target_schema = target_schema, rep_schema_history = schema_history\<rparr> }"

definition report_fits :: "validation_report \<Rightarrow> bool" where
  "report_fits r \<longleftrightarrow> artifact_fits (rep_source r) \<and> artifact_fits (rep_target r) \<and> list_all public_impact_fits (rep_public_impacts r)
     \<and> pred_option schema_history_fits (rep_schema_history r)"

definition decode_step_kind :: "plan_step_kind decoder" where
  "decode_step_kind v = do {
     name \<leftarrow> variant_name v;
     map_of [(''verify_current_executable'', VerifyCurrentExecutable), (''upload_target_wasm'', UploadTargetWasm),
       (''simulate_upgrade'', SimulateUpgrade), (''execute_upgrade'', ExecuteUpgrade),
       (''execute_migration'', ExecuteMigration), (''verify_executable'', VerifyExecutable),
       (''verify_invariants'', VerifyInvariants)] name }"

definition decode_plan_status :: "plan_status decoder" where
  "decode_plan_status v = do {
     name \<leftarrow> variant_name v;
     map_of [(''offline_draft'', OfflineDraft), (''review_ready'', ReviewReady)] name }"

definition decode_plan_step :: "plan_step decoder" where
  "decode_plan_step v = do {
     ms \<leftarrow> struct_members [''position'', ''kind'', ''program'', ''arguments'', ''command'', ''expected''] v;
     pos \<leftarrow> required ''position'' decode_u32 ms;
     knd \<leftarrow> required ''kind'' decode_step_kind ms;
     prog \<leftarrow> required ''program'' decode_string ms;
     argv \<leftarrow> required ''arguments'' (decode_list decode_string) ms;
     cmd \<leftarrow> required ''command'' decode_string ms;
     expt \<leftarrow> required ''expected'' decode_string ms;
     Some \<lparr>ps_position = pos, ps_kind = knd, ps_program = prog, ps_arguments = argv, ps_command = cmd,
           ps_expected = expt\<rparr> }"

definition decode_migration_call :: "migration_call decoder" where
  "decode_migration_call v = do {
     ms \<leftarrow> struct_members [''entrypoint'', ''arguments''] v;
     entry \<leftarrow> required ''entrypoint'' decode_string ms;
     argv \<leftarrow> required ''arguments'' (decode_map decode_string) ms;
     Some \<lparr>mc_entrypoint = entry, mc_arguments = argv\<rparr> }"

definition migration_call_fits :: "migration_call \<Rightarrow> bool" where
  "migration_call_fits m \<longleftrightarrow> bm_ok (mc_arguments m)"

definition decode_invariant_check :: "invariant_check decoder" where
  "decode_invariant_check v = do {
     ms \<leftarrow> struct_members [''program'', ''arguments''] v;
     prog \<leftarrow> required ''program'' decode_string ms;
     argv \<leftarrow> required ''arguments'' (decode_list decode_string) ms;
     Some \<lparr>ic_program = prog, ic_arguments = argv\<rparr> }"

definition decode_input_paths :: "plan_input_paths decoder" where
  "decode_input_paths v = do {
     ms \<leftarrow> struct_members [''sourceWasm'', ''targetWasm'', ''sourceSchema'', ''targetSchema'',
       ''schemaHistory'', ''policy''] v;
     source_wasm \<leftarrow> required ''sourceWasm'' decode_string ms;
     target_wasm \<leftarrow> required ''targetWasm'' decode_string ms;
     source_schema \<leftarrow> required ''sourceSchema'' decode_string ms;
     target_schema \<leftarrow> required ''targetSchema'' decode_string ms;
     schema_history \<leftarrow> required ''schemaHistory'' decode_string ms;
     pol \<leftarrow> optional ''policy'' decode_string ms;
     Some \<lparr>pip_source_wasm = source_wasm, pip_target_wasm = target_wasm, pip_source_schema = source_schema,
           pip_target_schema = target_schema, pip_schema_history = schema_history, pip_policy = pol\<rparr> }"

definition decode_plan :: "upgrade_plan decoder" where
  "decode_plan v = do {
     ms \<leftarrow> struct_members [''formatVersion'', ''planSha256'', ''status'', ''network'', ''contractId'',
       ''sourceIdentity'', ''inputs'', ''sourceWasmSha256'', ''targetWasmSha256'',
       ''rollbackWasmSha256'', ''fromVersion'', ''toVersion'', ''migration'',
       ''invariantCheck'', ''validation'', ''steps''] v;
     format_version \<leftarrow> required ''formatVersion'' decode_u32 ms;
     plan_sha256 \<leftarrow> required ''planSha256'' decode_string ms;
     stat \<leftarrow> required ''status'' decode_plan_status ms;
     net \<leftarrow> required ''network'' decode_string ms;
     contract_id \<leftarrow> required ''contractId'' decode_string ms;
     source_identity \<leftarrow> required ''sourceIdentity'' decode_string ms;
     inps \<leftarrow> required ''inputs'' decode_input_paths ms;
     source_wasm_sha256 \<leftarrow> required ''sourceWasmSha256'' decode_string ms;
     target_wasm_sha256 \<leftarrow> required ''targetWasmSha256'' decode_string ms;
     rollback_wasm_sha256 \<leftarrow> required ''rollbackWasmSha256'' decode_string ms;
     from_version \<leftarrow> optional ''fromVersion'' decode_string ms;
     to_version \<leftarrow> optional ''toVersion'' decode_string ms;
     mig \<leftarrow> optional ''migration'' decode_migration_call ms;
     invariant_check \<leftarrow> required ''invariantCheck'' decode_invariant_check ms;
     report \<leftarrow> required ''validation'' decode_report ms;
     stps \<leftarrow> required ''steps'' (decode_list decode_plan_step) ms;
     Some \<lparr>up_format_version = format_version, up_plan_sha256 = plan_sha256, up_status = stat,
           up_network = net, up_contract_id = contract_id, up_source_identity = source_identity,
           up_inputs = inps, up_source_wasm_sha256 = source_wasm_sha256,
           up_target_wasm_sha256 = target_wasm_sha256, up_rollback_wasm_sha256 = rollback_wasm_sha256,
           up_from_version = from_version, up_to_version = to_version, up_migration = mig,
           up_invariant_check = invariant_check, up_validation = report, up_steps = stps\<rparr> }"

definition plan_fits :: "upgrade_plan \<Rightarrow> bool" where
  "plan_fits p \<longleftrightarrow> pred_option migration_call_fits (up_migration p) \<and> report_fits (up_validation p)"

section \<open>Every decoder reads what its encoder writes\<close>

named_theorems json_decode
named_theorems json_fits

interpretation string_codec: nonnull_codec String decode_string "\<lambda>_. True"
  by unfold_locales (auto simp: decode_string_def)

interpretation bool_codec: nonnull_codec Bool decode_bool "\<lambda>_. True"
  by unfold_locales (auto simp: decode_bool_def)

interpretation value_codec: json_codec "\<lambda>v. v" decode_value "\<lambda>_. True"
  by unfold_locales (auto simp: decode_value_def)

interpretation u32_codec: nonnull_codec u32_json decode_u32 "\<lambda>_. True"
proof
  fix w :: u32
  show "decode_u32 (u32_json w) = Some w"
    using uint_lt2p [of w] by (simp add: decode_u32_def decode_int_def u32_json_def)
qed (simp_all add: u32_json_def)

interpretation u64_codec: nonnull_codec u64_json decode_u64 "\<lambda>_. True"
proof
  fix w :: u64
  show "decode_u64 (u64_json w) = Some w"
    using uint_lt2p [of w] by (simp add: decode_u64_def decode_int_def u64_json_def)
qed (simp_all add: u64_json_def)

interpretation usize_codec: nonnull_codec usize_json decode_usize "\<lambda>n. n < 2 ^ 64"
proof
  show "decode_usize (usize_json n) = Some n" if "n < 2 ^ 64" for n
    using that by (simp add: decode_usize_def decode_int_def usize_json_def)
  show "n < 2 ^ 64" if "decode_usize v = Some n" for v n
    using that by (auto simp: decode_usize_def decode_int_def nat_less_iff split: json.splits json_number.splits if_splits)
qed (simp add: usize_json_def)

lemma pred_option_True [simp]: "pred_option (\<lambda>_. True) x"
  by (simp add: option.pred_True)

lemma pred_option_code [code]: "pred_option f x \<longleftrightarrow> (case x of None \<Rightarrow> True | Some y \<Rightarrow> f y)"
  by (cases x) simp_all

lemma list_all_fits_True [simp]: "list_all (\<lambda>_. True) xs" "list_all ((\<lambda>_. True) \<circ> snd) m"
  by (simp_all add: list_all_iff)

interpretation set_codec: nonnull_codec "list_json String" decode_set bs_ok
proof
  show "decode_set (list_json String xs) = Some xs" if "bs_ok xs" for xs
  proof -
    have "bs_of_list xs = xs" by (simp add: bs_eq_iff that)
    then show ?thesis by (simp add: decode_set_def string_codec.list_round)
  qed
qed (auto simp: decode_set_def list_json_def)

lemmas member_decode [json_decode] =
  struct_object required_def optional_def defaulted_def decode_value_def

lemmas basic_decode [json_decode] =
  string_codec.decode_encode string_codec.list_round string_codec.map_round string_codec.opt_round
  bool_codec.decode_encode u32_codec.decode_encode u32_codec.opt_round u64_codec.decode_encode u64_codec.opt_round
  usize_codec.decode_encode set_codec.decode_encode

lemmas basic_decoded [json_fits] =
  string_codec.map_fits usize_codec.decoded_fits set_codec.decoded_fits

interpretation interface_entry_codec: nonnull_codec interface_entry_json decode_interface_entry "\<lambda>_. True"
proof
  show "decode_interface_entry (interface_entry_json x) = Some x" for x
    by (cases x) (simp add: decode_interface_entry_def interface_entry_json_def json_decode)
  show "interface_entry_json x \<noteq> Null" for x by (cases x) (simp add: interface_entry_json_def object_def)
qed simp

lemmas interface_entry_decode [json_decode] =
  interface_entry_codec.decode_encode interface_entry_codec.list_round interface_entry_codec.map_round interface_entry_codec.opt_round

lemmas interface_entry_decoded [json_fits] = interface_entry_codec.map_fits

interpretation boundary_position_codec: nonnull_codec boundary_position_json decode_boundary_position "\<lambda>_. True"
proof
  fix x show "decode_boundary_position (boundary_position_json x) = Some x" and "boundary_position_json x \<noteq> Null"
    by (cases x; simp add: decode_boundary_position_def)+
qed simp

lemmas boundary_position_decode [json_decode] =
  boundary_position_codec.decode_encode boundary_position_codec.list_round boundary_position_codec.map_round boundary_position_codec.opt_round

interpretation boundary_codec: nonnull_codec boundary_json decode_boundary boundary_fits
proof
  show "decode_boundary (boundary_json x) = Some x" if "boundary_fits x" for x
    using that by (cases x) (simp add: decode_boundary_def boundary_fits_def json_decode)
  show "boundary_json x \<noteq> Null" for x by (cases x) (simp add: object_def)
  show "boundary_fits x" if "decode_boundary v = Some x" for v x
    using that by (auto simp: decode_boundary_def boundary_fits_def required_def bind_eq_Some_conv
        dest!: json_fits)
qed

lemmas boundary_decode [json_decode] =
  boundary_codec.decode_encode boundary_codec.list_round boundary_codec.map_round boundary_codec.opt_round

lemmas boundary_decoded [json_fits] =
  boundary_codec.decoded_fits boundary_codec.list_fits boundary_codec.map_fits boundary_codec.optional_fits

interpretation type_reference_codec: nonnull_codec type_reference_json decode_type_reference "\<lambda>_. True"
proof
  show "decode_type_reference (type_reference_json x) = Some x" for x
    by (cases x) (simp add: decode_type_reference_def json_decode)
  show "type_reference_json x \<noteq> Null" for x by (cases x) (simp add: object_def)
qed simp

lemmas type_reference_decode [json_decode] =
  type_reference_codec.decode_encode type_reference_codec.list_round type_reference_codec.map_round type_reference_codec.opt_round

interpretation impact_step_codec: nonnull_codec impact_step_json decode_impact_step "\<lambda>_. True"
proof
  show "decode_impact_step (impact_step_json x) = Some x" for x
    by (cases x) (simp add: decode_impact_step_def json_decode)
  show "impact_step_json x \<noteq> Null" for x by (cases x) (simp add: object_def)
qed simp

lemmas impact_step_decode [json_decode] =
  impact_step_codec.decode_encode impact_step_codec.list_round impact_step_codec.map_round impact_step_codec.opt_round

interpretation call_evidence_codec: nonnull_codec call_evidence_json decode_call_evidence call_evidence_fits
proof
  show "decode_call_evidence (call_evidence_json x) = Some x" if "call_evidence_fits x" for x
    using that by (cases x) (simp add: decode_call_evidence_def call_evidence_json_def call_evidence_fits_def json_decode)
  show "call_evidence_json x \<noteq> Null" for x by (cases x) (simp add: call_evidence_json_def object_def)
  show "call_evidence_fits x" if "decode_call_evidence v = Some x" for v x
    using that by (auto simp: decode_call_evidence_def call_evidence_fits_def required_def bind_eq_Some_conv
        dest!: json_fits)
qed

lemmas call_evidence_decode [json_decode] =
  call_evidence_codec.decode_encode call_evidence_codec.list_round call_evidence_codec.map_round call_evidence_codec.opt_round

lemmas call_evidence_decoded [json_fits] =
  call_evidence_codec.decoded_fits call_evidence_codec.list_fits call_evidence_codec.map_fits call_evidence_codec.optional_fits

interpretation artifact_codec: nonnull_codec artifact_json decode_artifact artifact_fits
proof
  show "decode_artifact (artifact_json x) = Some x" if "artifact_fits x" for x
    using that by (cases x) (simp add: decode_artifact_def artifact_json_def artifact_fits_def json_decode)
  show "artifact_json x \<noteq> Null" for x by (cases x) (simp add: artifact_json_def object_def)
  show "artifact_fits x" if "decode_artifact v = Some x" for v x
    using that by (auto simp: decode_artifact_def artifact_fits_def required_def bind_eq_Some_conv
        dest!: json_fits)
qed

lemmas artifact_decode [json_decode] =
  artifact_codec.decode_encode artifact_codec.list_round artifact_codec.map_round artifact_codec.opt_round

lemmas artifact_decoded [json_fits] =
  artifact_codec.decoded_fits artifact_codec.list_fits artifact_codec.map_fits artifact_codec.optional_fits

interpretation severity_codec: nonnull_codec severity_json decode_severity "\<lambda>_. True"
proof
  fix x show "decode_severity (severity_json x) = Some x" and "severity_json x \<noteq> Null"
    by (cases x; simp add: decode_severity_def)+
qed simp

lemmas severity_decode [json_decode] =
  severity_codec.decode_encode severity_codec.list_round severity_codec.map_round severity_codec.opt_round

interpretation finding_codec: nonnull_codec finding_json decode_finding "\<lambda>_. True"
proof
  show "decode_finding (finding_json x) = Some x" for x
    by (cases x) (simp add: decode_finding_def finding_json_def json_decode)
  show "finding_json x \<noteq> Null" for x by (cases x) (simp add: finding_json_def object_def)
qed simp

lemmas finding_decode [json_decode] =
  finding_codec.decode_encode finding_codec.list_round finding_codec.map_round finding_codec.opt_round

interpretation protocol_source_codec: nonnull_codec protocol_source_json decode_protocol_source "\<lambda>_. True"
proof
  fix x show "decode_protocol_source (protocol_source_json x) = Some x" and "protocol_source_json x \<noteq> Null"
    by (cases x; simp add: decode_protocol_source_def)+
qed simp

lemmas protocol_source_decode [json_decode] =
  protocol_source_codec.decode_encode protocol_source_codec.list_round protocol_source_codec.map_round protocol_source_codec.opt_round

interpretation context_codec: nonnull_codec context_json decode_context "\<lambda>_. True"
proof
  show "decode_context (context_json x) = Some x" for x
    by (cases x) (simp add: decode_context_def context_json_def json_decode)
  show "context_json x \<noteq> Null" for x by (cases x) (simp add: context_json_def object_def)
qed simp

lemmas context_decode [json_decode] =
  context_codec.decode_encode context_codec.list_round context_codec.map_round context_codec.opt_round

interpretation policy_codec: nonnull_codec policy_json decode_policy "\<lambda>_. True"
proof
  show "decode_policy (policy_json x) = Some x" for x
    by (cases x) (simp add: decode_policy_def policy_json_def json_decode)
  show "policy_json x \<noteq> Null" for x by (cases x) (simp add: policy_json_def object_def)
qed simp

lemmas policy_decode [json_decode] =
  policy_codec.decode_encode policy_codec.list_round policy_codec.map_round policy_codec.opt_round

interpretation migration_codec: nonnull_codec migration_json decode_migration "\<lambda>_. True"
proof
  show "decode_migration (migration_json x) = Some x" for x
    by (cases x) (simp add: decode_migration_def migration_json_def json_decode)
  show "migration_json x \<noteq> Null" for x by (cases x) (simp add: migration_json_def object_def)
qed simp

lemmas migration_decode [json_decode] =
  migration_codec.decode_encode migration_codec.list_round migration_codec.map_round migration_codec.opt_round

interpretation durability_codec: nonnull_codec durability_json decode_durability "\<lambda>_. True"
proof
  fix x show "decode_durability (durability_json x) = Some x" and "durability_json x \<noteq> Null"
    by (cases x; simp add: decode_durability_def)+
qed simp

lemmas durability_decode [json_decode] =
  durability_codec.decode_encode durability_codec.list_round durability_codec.map_round durability_codec.opt_round

interpretation storage_entry_codec: nonnull_codec storage_entry_json decode_storage_entry "\<lambda>_. True"
proof
  show "decode_storage_entry (storage_entry_json x) = Some x" for x
    by (cases x) (simp add: decode_storage_entry_def storage_entry_json_def json_decode)
  show "storage_entry_json x \<noteq> Null" for x by (cases x) (simp add: storage_entry_json_def object_def)
qed simp

lemmas storage_entry_decode [json_decode] =
  storage_entry_codec.decode_encode storage_entry_codec.list_round storage_entry_codec.map_round storage_entry_codec.opt_round

interpretation storage_schema_codec: nonnull_codec storage_schema_json decode_storage_schema "\<lambda>_. True"
proof
  show "decode_storage_schema (storage_schema_json x) = Some x" for x
    by (cases x) (simp add: decode_storage_schema_def storage_schema_json_def json_decode)
  show "storage_schema_json x \<noteq> Null" for x by (cases x) (simp add: storage_schema_json_def object_def)
qed simp

lemmas storage_schema_decode [json_decode] =
  storage_schema_codec.decode_encode storage_schema_codec.list_round storage_schema_codec.map_round storage_schema_codec.opt_round

interpretation historical_field_codec: nonnull_codec historical_field_json decode_historical_field "\<lambda>_. True"
proof
  show "decode_historical_field (historical_field_json x) = Some x" for x
    by (cases x) (simp add: decode_historical_field_def historical_field_json_def json_decode)
  show "historical_field_json x \<noteq> Null" for x by (cases x) (simp add: historical_field_json_def object_def)
qed simp

lemmas historical_field_decode [json_decode] =
  historical_field_codec.decode_encode historical_field_codec.list_round historical_field_codec.map_round historical_field_codec.opt_round

lemmas historical_field_decoded [json_fits] = historical_field_codec.map_fits

interpretation type_history_codec: nonnull_codec type_history_json decode_type_history type_history_fits
proof
  show "decode_type_history (type_history_json x) = Some x" if "type_history_fits x" for x
    using that by (cases x) (simp add: decode_type_history_def type_history_json_def type_history_fits_def json_decode)
  show "type_history_json x \<noteq> Null" for x by (cases x) (simp add: type_history_json_def object_def)
  show "type_history_fits x" if "decode_type_history v = Some x" for v x
    using that by (auto simp: decode_type_history_def type_history_fits_def required_def defaulted_def bind_eq_Some_conv
        dest!: json_fits split: option.splits)
qed

lemmas type_history_decode [json_decode] =
  type_history_codec.decode_encode type_history_codec.list_round type_history_codec.map_round type_history_codec.opt_round

lemmas type_history_decoded [json_fits] =
  type_history_codec.decoded_fits type_history_codec.list_fits type_history_codec.map_fits type_history_codec.optional_fits

interpretation schema_history_codec: nonnull_codec schema_history_json decode_schema_history schema_history_fits
proof
  show "decode_schema_history (schema_history_json x) = Some x" if "schema_history_fits x" for x
    using that by (cases x) (simp add: decode_schema_history_def schema_history_json_def schema_history_fits_def json_decode)
  show "schema_history_json x \<noteq> Null" for x by (cases x) (simp add: schema_history_json_def object_def)
  show "schema_history_fits x" if "decode_schema_history v = Some x" for v x
    using that by (auto simp: decode_schema_history_def schema_history_fits_def required_def bind_eq_Some_conv
        dest!: json_fits)
qed

lemmas schema_history_decode [json_decode] =
  schema_history_codec.decode_encode schema_history_codec.list_round schema_history_codec.map_round schema_history_codec.opt_round

lemmas schema_history_decoded [json_fits] =
  schema_history_codec.decoded_fits schema_history_codec.list_fits schema_history_codec.map_fits schema_history_codec.optional_fits

interpretation evidence_status_codec: nonnull_codec evidence_status_json decode_evidence_status "\<lambda>_. True"
proof
  fix x show "decode_evidence_status (evidence_status_json x) = Some x" and "evidence_status_json x \<noteq> Null"
    by (cases x; simp add: decode_evidence_status_def)+
qed simp

lemmas evidence_status_decode [json_decode] =
  evidence_status_codec.decode_encode evidence_status_codec.list_round evidence_status_codec.map_round evidence_status_codec.opt_round

interpretation evidence_item_codec: nonnull_codec evidence_item_json decode_evidence_item "\<lambda>_. True"
proof
  show "decode_evidence_item (evidence_item_json x) = Some x" for x
    by (cases x) (simp add: decode_evidence_item_def evidence_item_json_def json_decode)
  show "evidence_item_json x \<noteq> Null" for x by (cases x) (simp add: evidence_item_json_def object_def)
qed simp

lemmas evidence_item_decode [json_decode] =
  evidence_item_codec.decode_encode evidence_item_codec.list_round evidence_item_codec.map_round evidence_item_codec.opt_round

interpretation evidence_coverage_codec: nonnull_codec evidence_coverage_json decode_evidence_coverage "\<lambda>_. True"
proof
  show "decode_evidence_coverage (evidence_coverage_json x) = Some x" for x
    by (cases x) (simp add: decode_evidence_coverage_def evidence_coverage_json_def json_decode)
  show "evidence_coverage_json x \<noteq> Null" for x by (cases x) (simp add: evidence_coverage_json_def object_def)
qed simp

lemmas evidence_coverage_decode [json_decode] =
  evidence_coverage_codec.decode_encode evidence_coverage_codec.list_round evidence_coverage_codec.map_round evidence_coverage_codec.opt_round

interpretation public_impact_codec: nonnull_codec public_impact_json decode_public_impact public_impact_fits
proof
  show "decode_public_impact (public_impact_json x) = Some x" if "public_impact_fits x" for x
    using that by (cases x) (simp add: decode_public_impact_def public_impact_fits_def json_decode)
  show "public_impact_json x \<noteq> Null" for x by (cases x) (simp add: object_def)
  show "public_impact_fits x" if "decode_public_impact v = Some x" for v x
    using that by (auto simp: decode_public_impact_def public_impact_fits_def required_def bind_eq_Some_conv
        dest!: json_fits)
qed

lemmas public_impact_decode [json_decode] =
  public_impact_codec.decode_encode public_impact_codec.list_round public_impact_codec.map_round public_impact_codec.opt_round

lemmas public_impact_decoded [json_fits] =
  public_impact_codec.decoded_fits public_impact_codec.list_fits public_impact_codec.map_fits public_impact_codec.optional_fits

interpretation report_codec: nonnull_codec report_json decode_report report_fits
proof
  show "decode_report (report_json x) = Some x" if "report_fits x" for x
    using that by (cases x) (simp add: decode_report_def report_json_def report_fits_def json_decode)
  show "report_json x \<noteq> Null" for x by (cases x) (simp add: report_json_def object_def)
  show "report_fits x" if "decode_report v = Some x" for v x
    using that by (auto simp: decode_report_def report_fits_def required_def bind_eq_Some_conv
        dest!: json_fits)
qed

lemmas report_decode [json_decode] =
  report_codec.decode_encode report_codec.list_round report_codec.map_round report_codec.opt_round

lemmas report_decoded [json_fits] =
  report_codec.decoded_fits report_codec.list_fits report_codec.map_fits report_codec.optional_fits

interpretation step_kind_codec: nonnull_codec step_kind_json decode_step_kind "\<lambda>_. True"
proof
  fix x show "decode_step_kind (step_kind_json x) = Some x" and "step_kind_json x \<noteq> Null"
    by (cases x; simp add: decode_step_kind_def)+
qed simp

lemmas step_kind_decode [json_decode] =
  step_kind_codec.decode_encode step_kind_codec.list_round step_kind_codec.map_round step_kind_codec.opt_round

interpretation plan_status_codec: nonnull_codec plan_status_json decode_plan_status "\<lambda>_. True"
proof
  fix x show "decode_plan_status (plan_status_json x) = Some x" and "plan_status_json x \<noteq> Null"
    by (cases x; simp add: decode_plan_status_def)+
qed simp

lemmas plan_status_decode [json_decode] =
  plan_status_codec.decode_encode plan_status_codec.list_round plan_status_codec.map_round plan_status_codec.opt_round

interpretation plan_step_codec: nonnull_codec plan_step_json decode_plan_step "\<lambda>_. True"
proof
  show "decode_plan_step (plan_step_json x) = Some x" for x
    by (cases x) (simp add: decode_plan_step_def plan_step_json_def json_decode)
  show "plan_step_json x \<noteq> Null" for x by (cases x) (simp add: plan_step_json_def object_def)
qed simp

lemmas plan_step_decode [json_decode] =
  plan_step_codec.decode_encode plan_step_codec.list_round plan_step_codec.map_round plan_step_codec.opt_round

interpretation migration_call_codec: nonnull_codec migration_call_json decode_migration_call migration_call_fits
proof
  show "decode_migration_call (migration_call_json x) = Some x" if "migration_call_fits x" for x
    using that by (cases x) (simp add: decode_migration_call_def migration_call_json_def migration_call_fits_def json_decode)
  show "migration_call_json x \<noteq> Null" for x by (cases x) (simp add: migration_call_json_def object_def)
  show "migration_call_fits x" if "decode_migration_call v = Some x" for v x
    using that by (auto simp: decode_migration_call_def migration_call_fits_def required_def bind_eq_Some_conv
        dest!: json_fits)
qed

lemmas migration_call_decode [json_decode] =
  migration_call_codec.decode_encode migration_call_codec.list_round migration_call_codec.map_round migration_call_codec.opt_round

lemmas migration_call_decoded [json_fits] =
  migration_call_codec.decoded_fits migration_call_codec.list_fits migration_call_codec.map_fits migration_call_codec.optional_fits

interpretation invariant_check_codec: nonnull_codec invariant_check_json decode_invariant_check "\<lambda>_. True"
proof
  show "decode_invariant_check (invariant_check_json x) = Some x" for x
    by (cases x) (simp add: decode_invariant_check_def invariant_check_json_def json_decode)
  show "invariant_check_json x \<noteq> Null" for x by (cases x) (simp add: invariant_check_json_def object_def)
qed simp

lemmas invariant_check_decode [json_decode] =
  invariant_check_codec.decode_encode invariant_check_codec.list_round invariant_check_codec.map_round invariant_check_codec.opt_round

interpretation input_paths_codec: nonnull_codec input_paths_json decode_input_paths "\<lambda>_. True"
proof
  show "decode_input_paths (input_paths_json x) = Some x" for x
    by (cases x) (simp add: decode_input_paths_def input_paths_json_def json_decode)
  show "input_paths_json x \<noteq> Null" for x by (cases x) (simp add: input_paths_json_def object_def)
qed simp

lemmas input_paths_decode [json_decode] =
  input_paths_codec.decode_encode input_paths_codec.list_round input_paths_codec.map_round input_paths_codec.opt_round

interpretation plan_codec: nonnull_codec plan_json decode_plan plan_fits
proof
  show "decode_plan (plan_json x) = Some x" if "plan_fits x" for x
    using that by (cases x) (simp add: decode_plan_def plan_json_def plan_members_def plan_fits_def json_decode)
  show "plan_json x \<noteq> Null" for x by (cases x) (simp add: plan_json_def plan_members_def object_def)
  show "plan_fits x" if "decode_plan v = Some x" for v x
    using that by (auto simp: decode_plan_def plan_fits_def required_def bind_eq_Some_conv
        dest!: json_fits)
qed

lemmas plan_decode [json_decode] =
  plan_codec.decode_encode plan_codec.list_round plan_codec.map_round plan_codec.opt_round

lemmas plan_decoded [json_fits] =
  plan_codec.decoded_fits plan_codec.list_fits plan_codec.map_fits plan_codec.optional_fits

text \<open>A policy read from an empty array is the default one, and a plan with one more member is not read.\<close>

lemma policy_from_nothing: "decode_policy (Array []) = Some default_policy" "decode_policy (Object []) = Some default_policy"
  by (simp_all add: decode_policy_def defaulted_def bm_get_def default_policy_def)

section \<open>From text to values\<close>

text \<open>
  What \<open>serde_json\<close> does with a text before a type is involved: the visitor calls and the end of the
  document, which \<open>UniqueJson\<close> sees, and the value or the syntax error; and the message of a value that
  does not decode.
\<close>

record json_text =
  tx_doc :: "bytes \<Rightarrow> json_doc"
  tx_end :: "bytes \<Rightarrow> string + unit"
  tx_value :: "bytes \<Rightarrow> string + json"
  tx_data_error :: "bytes \<Rightarrow> string"

definition typed_decoder :: "json_text \<Rightarrow> 'a decoder \<Rightarrow> 'a json_decoder" where
  "typed_decoder t d = \<lparr>doc_of = tx_doc t, doc_end = tx_end t,
     from_slice = (\<lambda>bs. and_then (tx_value t bs) (\<lambda>v.
       case d v of None \<Rightarrow> Inl (tx_data_error t bs) | Some x \<Rightarrow> Inr x))\<rparr>"

text \<open>A text that holds exactly one value, in which no object repeats a key.\<close>

definition holds_value :: "json_text \<Rightarrow> bytes \<Rightarrow> json \<Rightarrow> bool" where
  "holds_value t bs v \<longleftrightarrow> keys_distinct (tx_doc t bs) \<and> tx_end t bs = Inr () \<and> tx_value t bs = Inr v"

lemma typed_strict_iff:
  "parse_json_strict (typed_decoder t d) bs = Inr x \<longleftrightarrow> (\<exists>v. holds_value t bs v \<and> d v = Some x)"
  by (auto simp: parse_json_strict_iff typed_decoder_def holds_value_def and_then_Inr_iff split: option.splits)

lemma unknown_member_rejected:
  "k \<notin> set names \<Longrightarrow> k \<in> fst ` set kvs \<Longrightarrow> struct_members names (Object kvs) = None"
  by (auto simp: list_all_iff)

end
