(* ===== verification/Cli_Safety.thy ===== *)
theory Cli_Safety
  imports Cli Plan_Safety Decoders
begin

text \<open>
  What the commands of the command line interface guarantee: \<open>validate\<close> exits with zero exactly for
  an approvable upgrade, \<open>plan\<close> writes a file only for an approvable upgrade, whose deployed code is
  the reviewed one unless the protocol was asserted, \<open>verify-plan\<close> succeeds exactly when the plan is
  canonical and, unless it runs offline, the world still agrees with it, and a plan file just written verifies.
\<close>

section \<open>Runs and exit codes\<close>

lemma main_exit:
  "fst (main env command s) = code \<longleftrightarrow>
     (\<exists>t. run env command s = (Inr code, t)) \<or> code = 1 \<and> (\<exists>e t. run env command s = (Inl e, t))"
  by (auto simp: main_def split: prod.split sum.split)

lemma main_exit_code:
  "code \<noteq> 1 \<Longrightarrow> fst (main env command s) = code \<longleftrightarrow> (\<exists>t. run env command s = (Inr code, t))"
  by (simp add: main_exit)

lemma main_files: "st_files (snd (main env command s)) = st_files (snd (run env command s))"
  by (simp add: main_def split: prod.split sum.split)

lemma main_ok: "main env command s = (code, t) \<Longrightarrow> code \<noteq> 1 \<Longrightarrow> run env command s = (Inr code, t)"
  by (auto simp: main_def split: prod.splits sum.splits)

section \<open>Reading\<close>

definition readable :: "'v cli_env \<Rightarrow> files \<Rightarrow> string \<Rightarrow> bytes \<Rightarrow> bool" where
  "readable env files path bs \<longleftrightarrow>
     open_fault env path Open_Read = None \<and> files (file_of env path) = Some bs
     \<and> (case read_fault env path of None \<Rightarrow> True | Some (n, e) \<Rightarrow> length bs < n)"

lemma read_prefix_iff:
  "read_prefix env files path (limit + 1) = Inr prefix \<and> length prefix \<le> limit \<longleftrightarrow>
     readable env files path prefix \<and> length prefix \<le> limit"
  by (auto simp: read_prefix_def readable_def split: option.splits if_splits)

lemma read_bounded_iff:
  "read_bounded env files path limit kind = Inr bs \<longleftrightarrow> readable env files path bs \<and> length bs \<le> limit"
  using read_prefix_iff [of env files path limit bs]
  by (cases "read_prefix env files path (limit + 1)") (auto simp: read_bounded_def)

text \<open>The files and faults that a read of at most \<open>limit + 1\<close> bytes of one file can notice.\<close>

definition within_bound :: "'v cli_env \<Rightarrow> nat \<Rightarrow> 'v cli_env" where
  "within_bound env limit = env\<lparr>read_fault := (\<lambda>p. case read_fault env p of
     None \<Rightarrow> None | Some (n, e) \<Rightarrow> if n \<le> limit then Some (n, e) else None)\<rparr>"

definition cut_file :: "'v cli_env \<Rightarrow> files \<Rightarrow> string \<Rightarrow> nat \<Rightarrow> files" where
  "cut_file env files path n = files(file_of env path := map_option (take n) (files (file_of env path)))"

text \<open>
  C37: Input files are read within their bound. A file is accepted exactly when it opens, is read to its
  end without a fault and is no longer than the limit, and the bytes returned are the whole file. It is
  refused as too long exactly when it opens, is longer than the limit and has no fault within the first
  \<open>limit\<close> bytes. And no more than \<open>limit + 1\<close> bytes are read: the result is the same, error or not,
  when the file is cut there and every fault after \<open>limit\<close> bytes is removed.
\<close>

theorem read_bounded_exact:
  "(read_bounded env files path limit kind = Inr bs \<longleftrightarrow> readable env files path bs \<and> length bs \<le> limit)
   \<and> (read_bounded env files path limit kind =
        Inl (Message (kind @ '' '' @ display_path path @ '' exceeds the '' @ show_nat limit @ '' byte input limit''))
      \<longleftrightarrow> open_fault env path Open_Read = None \<and> (\<exists>whole. files (file_of env path) = Some whole \<and> limit < length whole)
        \<and> (\<nexists>n e. read_fault env path = Some (n, e) \<and> n \<le> limit))
   \<and> read_bounded env files path limit kind =
        read_bounded (within_bound env limit) (cut_file env files path (limit + 1)) path limit kind"
proof (intro conjI)
  show "read_bounded env files path limit kind = Inr bs \<longleftrightarrow> readable env files path bs \<and> length bs \<le> limit"
    by (rule read_bounded_iff)
next
  show "read_bounded env files path limit kind =
        Inl (Message (kind @ '' '' @ display_path path @ '' exceeds the '' @ show_nat limit @ '' byte input limit''))
      \<longleftrightarrow> open_fault env path Open_Read = None \<and> (\<exists>whole. files (file_of env path) = Some whole \<and> limit < length whole)
        \<and> (\<nexists>n e. read_fault env path = Some (n, e) \<and> n \<le> limit)"
    by (auto simp: read_bounded_def read_prefix_def min_def split: option.split if_splits)
next
  show "read_bounded env files path limit kind =
      read_bounded (within_bound env limit) (cut_file env files path (limit + 1)) path limit kind"
    by (auto simp: read_bounded_def read_prefix_def within_bound_def cut_file_def split: option.split if_splits)
qed

section \<open>Arguments\<close>

text \<open>The specification of the migration arguments: each text is a valid name, the first equals sign, and a value.\<close>

definition named_arguments :: "string list \<Rightarrow> (string \<times> string) list \<Rightarrow> bool" where
  "named_arguments texts pairs \<longleftrightarrow>
     list_all2 (\<lambda>text (name, argument). text = name @ CHR ''='' # argument \<and> valid_argument_name name) texts pairs
     \<and> distinct (map fst pairs)"

lemma valid_name_no_equals: "valid_argument_name name \<Longrightarrow> CHR ''='' \<notin> set name"
  by (auto simp: valid_argument_name_def list_all_iff is_ascii_alphanumeric_def code_unit_def)

lemma add_named_argument_iff:
  "add_named_argument m text = Inr m' \<longleftrightarrow>
     (\<exists>name argument. text = name @ CHR ''='' # argument \<and> valid_argument_name name
        \<and> \<not> bm_contains m name \<and> m' = bm_insert name argument m)"
  by (auto simp: add_named_argument_def and_then_Inr_iff split_once_Some_iff dest: valid_name_no_equals)

lemma bm_contains_insert: "bm_contains (bm_insert k v m) k' \<longleftrightarrow> k' = k \<or> bm_contains m k'"
  by (simp add: bm_contains_keys bm_keys_def fst_bm_insert)

lemma add_arguments_iff:
  "try_fold add_named_argument m0 texts = Inr m \<longleftrightarrow>
     (\<exists>pairs. named_arguments texts pairs \<and> (\<forall>k\<in>set (map fst pairs). \<not> bm_contains m0 k)
        \<and> m = fold (\<lambda>(k, v). bm_insert k v) pairs m0)" (is "_ \<longleftrightarrow> (\<exists>pairs. ?P m0 texts m pairs)")
proof (induction texts arbitrary: m0)
  case Nil
  show ?case by (auto simp: named_arguments_def)
next
  case (Cons t texts)
  have "try_fold add_named_argument m0 (t # texts) = Inr m \<longleftrightarrow>
      (\<exists>name argument pairs. t = name @ CHR ''='' # argument \<and> valid_argument_name name
        \<and> \<not> bm_contains m0 name \<and> ?P (bm_insert name argument m0) texts m pairs)"
    by (auto simp: and_then_Inr_iff add_named_argument_iff Cons.IH)
  also have "\<dots> \<longleftrightarrow> (\<exists>name argument pairs. ?P m0 (t # texts) m ((name, argument) # pairs))"
    by (intro ex_cong1) (auto simp: named_arguments_def bm_contains_insert)
  also have "\<dots> \<longleftrightarrow> (\<exists>pairs. ?P m0 (t # texts) m pairs)"
  proof
    assume "\<exists>pairs. ?P m0 (t # texts) m pairs"
    then obtain pairs where pairs: "?P m0 (t # texts) m pairs" ..
    then obtain name argument rest where "pairs = (name, argument) # rest"
      by (cases pairs) (auto simp: named_arguments_def)
    with pairs show "\<exists>name argument pairs. ?P m0 (t # texts) m ((name, argument) # pairs)" by blast
  qed blast
  finally show ?case .
qed

text \<open>
  Migration arguments are read exactly: the list is accepted when every text is a nonempty name of
  ASCII letters, digits and underscores, an equals sign and a value (which may contain further
  equals signs), and no name occurs twice; the result maps each name to its value and nothing else.
\<close>

theorem parse_named_arguments_exact:
  "parse_named_arguments texts = Inr m \<longleftrightarrow>
     (\<exists>pairs. named_arguments texts pairs \<and> m = bm_of_list pairs \<and> bm_get m = map_of pairs)"
proof -
  have "distinct (map fst pairs) \<Longrightarrow> map_of (rev pairs) = map_of pairs" for pairs :: "(string \<times> string) list"
    by (simp add: map_of_inject_set rev_map [symmetric])
  then have "named_arguments texts pairs \<Longrightarrow> bm_get (bm_of_list pairs) = map_of pairs" for pairs
    by (simp add: named_arguments_def bm_get_of_list)
  then show ?thesis
    by (auto simp: parse_named_arguments_def add_arguments_iff bm_contains_def bm_of_list_def)
qed

section \<open>Validating\<close>

definition validate_loads ::
  "'v cli_env \<Rightarrow> files \<Rightarrow> validate_args \<Rightarrow> validation_context \<Rightarrow> artifact \<Rightarrow> artifact \<Rightarrow> storage_schema
     \<Rightarrow> storage_schema \<Rightarrow> policy \<Rightarrow> schema_history \<Rightarrow> bool" where
  "validate_loads env files a ctx source target old new p h \<longleftrightarrow>
     resolve_validation_context env (va_network a) (va_protocol_version a) = Inr ctx
     \<and> load_artifact env files (va_from a) = Inr source \<and> load_artifact env files (va_to a) = Inr target
     \<and> load_schema env files (va_from_schema a) = Inr old \<and> load_schema env files (va_to_schema a) = Inr new
     \<and> load_policy env files (va_policy a) = Inr p
     \<and> load_schema_history env files (Some (va_schema_history a)) = Inr (Some h)"

lemma load_optional_Some: "load_optional f (Some x) = Inr y \<longleftrightarrow> (\<exists>z. f x = Inr z \<and> y = Some z)"
  by (auto simp: load_optional_def and_then_Inr_iff)

lemma load_history_Some: "load_schema_history env files (Some path) = Inr h \<Longrightarrow> \<exists>h'. h = Some h'"
  by (auto simp: load_schema_history_def load_optional_Some)

lemma load_report_iff:
  "load_report env files source_path target_path (Some from_schema) (Some to_schema) policy_path ctx (Some history_path)
     = Inr report \<longleftrightarrow>
   (\<exists>source target old new p h.
      load_artifact env files source_path = Inr source \<and> load_artifact env files target_path = Inr target
      \<and> load_schema env files from_schema = Inr old \<and> load_schema env files to_schema = Inr new
      \<and> load_policy env files policy_path = Inr p
      \<and> load_schema_history env files (Some history_path) = Inr (Some h)
      \<and> report = validate_with_history (pl_core (env_plan_lib env)) source target (Some old) (Some new) p ctx (Some h))"
  unfolding load_report_def
  by (simp add: and_then_Inr_iff load_optional_Some) (blast dest: load_history_Some)

lemma run_validate_iff:
  "run env (Validate a) s = (Inr code, t) \<longleftrightarrow>
     (\<exists>ctx. resolve_validation_context env (va_network a) (va_protocol_version a) = Inr ctx
      \<and> (\<exists>report. load_report env (st_files s) (va_from a) (va_to a) (Some (va_from_schema a))
            (Some (va_to_schema a)) (va_policy a) ctx (Some (va_schema_history a)) = Inr report
        \<and> (\<exists>ls. report_lines env a report = Inr ls
          \<and> code = (if rep_safe report then 0 else 2) \<and> t = s\<lparr>st_stdout := st_stdout s @ ls\<rparr>)))"
  unfolding run.simps run_validate_def io_steps io_simps by blast

lemma keeps_run_validate: "keeps_files (run_validate env a)"
  unfolding run_validate_def by (intro keeps_files_then keeps_files_basic)

definition printable :: "'v cli_env \<Rightarrow> validate_args \<Rightarrow> validation_report \<Rightarrow> bool" where
  "printable env a report \<longleftrightarrow> (if va_json a then \<exists>text. report_pretty env report = Inr text else True)"

lemma report_lines_iff: "(\<exists>ls. report_lines env a report = Inr ls) \<longleftrightarrow> printable env a report"
  by (auto simp: report_lines_def printable_def and_then_Inr_iff)

text \<open>An exit code other than that of an error, in terms of the loaded inputs.\<close>

definition validate_verdict :: "'v cli_env \<Rightarrow> files \<Rightarrow> validate_args \<Rightarrow> bool \<Rightarrow> bool" where
  "validate_verdict env files a verdict \<longleftrightarrow>
     (\<exists>ctx source target old new p h. validate_loads env files a ctx source target old new p h
        \<and> approvable (pl_core (env_plan_lib env)) source target (Some old) (Some new) p ctx (Some h) = verdict
        \<and> printable env a (validate_with_history (pl_core (env_plan_lib env)) source target
            (Some old) (Some new) p ctx (Some h)))"

lemma safe_iff: "rep_safe (validate_with_history lib source t ss ts p ctx h) = approvable lib source t ss ts p ctx h"
  using run.error_iff [of lib source t ss ts p ctx h] by (simp add: rep_safe_findings)

lemma validate_code_iff:
  "(\<exists>t. run env (Validate a) s = (Inr (if verdict then 0 else 2), t)) \<longleftrightarrow> validate_verdict env (st_files s) a verdict"
proof -
  have code: "(if verdict then 0 else 2) = (if b then 0 else (2::nat)) \<longleftrightarrow> b = verdict" for b by auto
  show ?thesis
    unfolding run_validate_iff validate_verdict_def validate_loads_def load_report_iff code
      report_lines_iff [symmetric] safe_iff [symmetric] by fast
qed

text \<open>
  C19: The exit code of \<open>validate\<close> is the verdict: it is zero exactly when the network evidence
  resolves, every input loads, the upgrade is approvable and the report can be printed, and two
  exactly when the same holds of an upgrade that is not approvable; no file is changed either way.
\<close>

theorem validate_exit_code:
  "(fst (main env (Validate a) s) = 0 \<longleftrightarrow> validate_verdict env (st_files s) a True)
   \<and> (fst (main env (Validate a) s) = 2 \<longleftrightarrow> validate_verdict env (st_files s) a False)
   \<and> st_files (snd (main env (Validate a) s)) = st_files s"
proof -
  have "st_files (snd (main env (Validate a) s)) = st_files s"
    using keeps_run_validate [of env a] by (simp add: main_files keeps_files_def)
  then show ?thesis
    using validate_code_iff [of env a s True] validate_code_iff [of env a s False]
    by (simp add: main_exit_code)
qed

text \<open>
  C38: The context that \<open>validate\<close> and \<open>plan\<close> take from their arguments is exact in every case. With a
  protocol version it is an offline assertion of that version, under the network name if one was given.
  With a network alone it is live evidence: one successful query of that network, its protocol, identity,
  passphrase and versions, stamped with the time of the clock; a failed query, an unreadable answer or a
  clock before the epoch is an error and gives no context. With neither it is the unpinned default, which
  \<open>plan\<close>, that always names a network, never asks for. The evidence coverage states the protocol as a fact
  exactly for a live context.
\<close>

theorem evidence_is_of_the_kind_asked_for:
  "(resolve_validation_context env network version = Inr ctx \<longleftrightarrow>
     (case (network, version) of
        (_, Some v) \<Rightarrow>
          ctx = \<lparr>ctx_target_protocol_version = Some v, ctx_protocol_source = OfflineAssertion,
            ctx_network_name = network, ctx_network_id = None, ctx_network_passphrase = None,
            ctx_rpc_version = None, ctx_captive_core_version = None, ctx_observed_at_unix_seconds = None\<rparr>
      | (Some name, None) \<Rightarrow>
          (\<exists>output info now.
             spawn_stellar env [''network'', ''info'', ''--network'', name, ''--output'', ''json''] = Inr output
             \<and> po_success output \<and> seconds_since_epoch env = Some now
             \<and> network_info_from_slice env (po_stdout output) = Inr info
             \<and> ctx = \<lparr>ctx_target_protocol_version = Some (ni_protocol_version info),
                 ctx_protocol_source = StellarCliNetworkInfo, ctx_network_name = Some name,
                 ctx_network_id = Some (ni_id info), ctx_network_passphrase = Some (ni_passphrase info),
                 ctx_rpc_version = Some (ni_version info), ctx_captive_core_version = ni_captive_core_version info,
                 ctx_observed_at_unix_seconds = Some now\<rparr>)
      | (None, None) \<Rightarrow>
          ctx = \<lparr>ctx_target_protocol_version = None, ctx_protocol_source = Unpinned,
            ctx_network_name = None, ctx_network_id = None, ctx_network_passphrase = None,
            ctx_rpc_version = None, ctx_captive_core_version = None, ctx_observed_at_unix_seconds = None\<rparr>))
   \<and> (resolve_validation_context env network version = Inr ctx \<longrightarrow>
        (ei_status (network_evidence ctx) = Fact \<longleftrightarrow> network \<noteq> None \<and> version = None))"
  by (cases network; cases version)
    (auto simp: resolve_validation_context_def resolve_live_network_def context_from_network_info_def
      and_then_Inr_iff default_context_def network_evidence_def network_fact_def network_assumed_def
      network_unknown_def evidence_item_def)

section \<open>Verifying a plan\<close>

definition inputs_agree :: "'v cli_env \<Rightarrow> files \<Rightarrow> upgrade_plan \<Rightarrow> bool" where
  "inputs_agree env files p \<longleftrightarrow>
     (let paths = up_inputs p; report = up_validation p in
      load_artifact env files (pip_source_wasm paths) = Inr (rep_source report)
      \<and> art_sha256 (rep_source report) = up_source_wasm_sha256 p
      \<and> load_artifact env files (pip_target_wasm paths) = Inr (rep_target report)
      \<and> art_sha256 (rep_target report) = up_target_wasm_sha256 p
      \<and> map_sum id Some (load_schema env files (pip_source_schema paths)) = Inr (rep_source_schema report)
      \<and> map_sum id Some (load_schema env files (pip_target_schema paths)) = Inr (rep_target_schema report)
      \<and> load_schema_history env files (Some (pip_schema_history paths)) = Inr (rep_schema_history report)
      \<and> load_policy env files (pip_policy paths) = Inr (rep_policy report))"

definition deployed_agrees :: "'v cli_env \<Rightarrow> string \<Rightarrow> string \<Rightarrow> string \<Rightarrow> bool" where
  "deployed_agrees env network contract_id sha256 \<longleftrightarrow>
     (\<exists>a. fetch_contract_artifact env network contract_id = Inr a \<and> art_sha256 a = sha256)"

definition network_agrees :: "'v cli_env \<Rightarrow> upgrade_plan \<Rightarrow> bool" where
  "network_agrees env p \<longleftrightarrow>
     (\<exists>current. resolve_live_network env (up_network p) = Inr current
        \<and> ctx_network_id current = ctx_network_id (rep_context (up_validation p))
        \<and> ctx_network_passphrase current = ctx_network_passphrase (rep_context (up_validation p))
        \<and> ctx_target_protocol_version current = ctx_target_protocol_version (rep_context (up_validation p)))"

lemma check_plan_artifact_iff:
  "check_plan_artifact env files u (label, path, sha, expected) = Inr v \<longleftrightarrow>
     load_artifact env files path = Inr expected \<and> art_sha256 expected = sha"
  by (auto simp: check_plan_artifact_def and_then_Inr_iff)

lemma artifacts_match_iff:
  "make_sure_plan_artifacts_match env files p = Inr u \<longleftrightarrow>
     load_artifact env files (pip_source_wasm (up_inputs p)) = Inr (rep_source (up_validation p))
     \<and> art_sha256 (rep_source (up_validation p)) = up_source_wasm_sha256 p
     \<and> load_artifact env files (pip_target_wasm (up_inputs p)) = Inr (rep_target (up_validation p))
     \<and> art_sha256 (rep_target (up_validation p)) = up_target_wasm_sha256 p"
  by (simp add: make_sure_plan_artifacts_match_def and_then_Inr_iff check_plan_artifact_iff)

lemma map_sum_Inr_iff: "map_sum f g r = Inr y \<longleftrightarrow> (\<exists>x. r = Inr x \<and> g x = y)"
  by (cases r) simp_all

lemma declarations_match_iff:
  "make_sure_plan_declarations_match env files p = Inr u \<longleftrightarrow>
     map_sum id Some (load_schema env files (pip_source_schema (up_inputs p))) = Inr (rep_source_schema (up_validation p))
     \<and> map_sum id Some (load_schema env files (pip_target_schema (up_inputs p))) = Inr (rep_target_schema (up_validation p))
     \<and> load_schema_history env files (Some (pip_schema_history (up_inputs p))) = Inr (rep_schema_history (up_validation p))
     \<and> load_policy env files (pip_policy (up_inputs p)) = Inr (rep_policy (up_validation p))"
  unfolding make_sure_plan_declarations_match_def map_sum_Inr_iff
  by (auto simp: and_then_Inr_iff dest: load_history_Some)

lemma inputs_agree_iff:
  "inputs_agree env files p \<longleftrightarrow>
     make_sure_plan_artifacts_match env files p = Inr () \<and> make_sure_plan_declarations_match env files p = Inr ()"
  by (simp add: inputs_agree_def Let_def artifacts_match_iff declarations_match_iff conj_assoc)

lemma current_contract_iff:
  "make_sure_current_contract_matches env network contract_id sha = Inr u \<longleftrightarrow>
     deployed_agrees env network contract_id sha"
  by (simp add: make_sure_current_contract_matches_def deployed_agrees_def and_then_Inr_iff)

lemma network_matches_iff: "make_sure_plan_network_matches env p = Inr u \<longleftrightarrow> network_agrees env p"
  by (auto simp: make_sure_plan_network_matches_def network_agrees_def and_then_Inr_iff Let_def)

definition plan_file :: "'v cli_env \<Rightarrow> files \<Rightarrow> string \<Rightarrow> cli_error + upgrade_plan" where
  "plan_file env files path = load_json env files ''JSON plan'' (upgrade_plan_from_json (plan_decoder env)) path"

lemma keeps_run_verify_plan: "keeps_files (run_verify_plan env path offline)"
  unfolding run_verify_plan_def
  by (cases offline) (simp_all only: if_True if_False, (intro keeps_files_then keeps_files_basic)+)

lemma verified_iff:
  "and_then (wrap_error Core_Error (verify_plan_digest lib p)) (\<lambda>ok. ensure ok m) = Inr u \<longleftrightarrow>
     verify_plan_digest lib p = Inr True"
  by (auto simp: and_then_Inr_iff)

lemma verify_plan_code_iff:
  "(\<exists>t. run env (VerifyPlan path offline) s = (Inr 0, t)) \<longleftrightarrow>
     (\<exists>p. plan_file env (st_files s) path = Inr p
        \<and> verify_plan_digest (env_plan_lib env) p = Inr True \<and> inputs_agree env (st_files s) p
        \<and> (offline \<or> up_status p = ReviewReady \<and> network_agrees env p
            \<and> deployed_agrees env (up_network p) (up_contract_id p) (up_source_wasm_sha256 p)))"
  unfolding run.simps run_verify_plan_def plan_file_def inputs_agree_iff network_matches_iff [of _ _ "()", symmetric]
    current_contract_iff [of _ _ _ _ "()", symmetric]
  by (cases offline) (simp_all add: io_assoc io_steps verified_iff)

text \<open>
  C16: \<open>verify-plan\<close> succeeds exactly when the plan file decodes, the plan is the canonical plan of
  its own validation with a matching digest, every file it names still holds the reviewed contents,
  and, unless the offline mode is chosen, the plan is ready for review, the live network is the
  recorded one and the contract still runs the reviewed source module. It never changes a file.
\<close>

theorem verify_plan_exit_code:
  "(fst (main env (VerifyPlan path offline) s) = 0 \<longleftrightarrow>
     (\<exists>p. plan_file env (st_files s) path = Inr p
        \<and> verify_plan_digest (env_plan_lib env) p = Inr True \<and> inputs_agree env (st_files s) p
        \<and> (offline \<or> up_status p = ReviewReady \<and> network_agrees env p
            \<and> deployed_agrees env (up_network p) (up_contract_id p) (up_source_wasm_sha256 p))))
   \<and> st_files (snd (main env (VerifyPlan path offline) s)) = st_files s"
proof -
  have "st_files (snd (main env (VerifyPlan path offline) s)) = st_files s"
    using keeps_run_verify_plan [of env path offline] by (simp add: main_files keeps_files_def)
  then show ?thesis by (simp add: main_exit_code verify_plan_code_iff del: run.simps)
qed

section \<open>Planning\<close>

text \<open>Runs that end with other files than they started with.\<close>

definition changes_to :: "'a io \<Rightarrow> cli_state \<Rightarrow> cli_state \<Rightarrow> bool" where
  "changes_to m s t \<longleftrightarrow> snd (m s) = t \<and> st_files t \<noteq> st_files s"

lemma changes_steps:
  "changes_to (io_then (io_result r) f) s t \<longleftrightarrow> (\<exists>x. r = Inr x \<and> changes_to (f x) s t)"
  "changes_to (io_then (io_read g) f') s t \<longleftrightarrow> (\<exists>x. g (st_files s) = Inr x \<and> changes_to (f' x) s t)"
  by (auto simp: changes_to_def io_then_def split: sum.split)

lemma keeps_no_change: "keeps_files m \<Longrightarrow> \<not> changes_to m s t"
  by (auto simp: changes_to_def keeps_files_def)

lemma changes_keeps:
  assumes "changes_to (io_then m f) s t" and "\<And>x. keeps_files (f x)"
  shows "\<exists>u. changes_to m s u \<and> st_files t = st_files u"
proof -
  obtain r u where m: "m s = (r, u)" by (cases "m s")
  have "st_files t = st_files u"
  proof (cases r)
    case (Inl e)
    with assms(1) show ?thesis by (simp add: changes_to_def io_then_def m)
  next
    case (Inr x)
    have "st_files (snd (f x u)) = st_files u" using assms(2) by (simp add: keeps_files_def)
    with assms(1) show ?thesis by (simp add: changes_to_def io_then_def m Inr)
  qed
  with assms(1) show ?thesis by (auto simp: changes_to_def m)
qed

lemma whole_prefix: "\<exists>n. (files :: files)(k \<mapsto> bs) = files(k \<mapsto> take n bs)"
  by (rule exI [of _ "length bs"]) simp

lemma write_output_changes:
  assumes "changes_to (write_output env path bs force) s t"
  shows "(force \<or> st_files s (file_of env path) = None)
    \<and> (\<exists>n. st_files t = (st_files s)(file_of env path \<mapsto> take n bs))"
  using assms
  by (auto simp: changes_to_def write_output_def io_then_def io_context_def open_for_writing_def write_all_def
      sync_all_def whole_prefix split: option.splits if_splits)

lemma write_output_ok:
  "write_output env path bs force s = (Inr u, t) \<Longrightarrow> st_files t = (st_files s)(file_of env path \<mapsto> bs)"
  by (auto simp: write_output_def io_then_def io_context_def open_for_writing_def write_all_def
      sync_all_def split: option.splits if_splits)

lemma emit_plan_changes:
  assumes "changes_to (emit_plan env a p) s t"
  shows "\<exists>out json n. pa_out a = Some out \<and> plan_pretty env p = Inr json
    \<and> (pa_force a \<or> st_files s (file_of env out) = None)
    \<and> st_files t = (st_files s)(file_of env out \<mapsto> take n (json @ [CHR 0x0A]))"
proof (cases "pa_out a")
  case None
  then have "keeps_files (emit_plan env a p)"
    unfolding emit_plan_def Let_def by (simp, intro keeps_files_then keeps_files_basic)
  with assms show ?thesis using keeps_no_change by blast
next
  case (Some out)
  obtain json where json: "plan_pretty env p = Inr json"
    and t: "changes_to (io_then (write_output env out (json @ [CHR 0x0A]) (pa_force a))
      (\<lambda>_. io_then (print_lines [''Plan written: '' @ display_path out, ''Plan SHA-256: '' @ up_plan_sha256 p,
        ''Plan status: '' @ plan_status_label (up_status p)]) (\<lambda>_. io_return (0::nat)))) s t"
    using assms by (auto simp: emit_plan_def changes_steps Some io_assoc Let_def)
  show ?thesis
    using changes_keeps [OF t] write_output_changes by (fastforce simp: Some json)
qed

text \<open>
  What a plan that reaches the output stands on: the report of the loaded inputs is safe, the code
  the contract runs is the reviewed source unless the protocol was asserted, and the plan is what
  planning returns.
\<close>

definition plan_paths :: "plan_args \<Rightarrow> plan_input_paths" where
  "plan_paths a = \<lparr>pip_source_wasm = pa_from a, pip_target_wasm = pa_to a, pip_source_schema = pa_from_schema a,
     pip_target_schema = pa_to_schema a, pip_schema_history = pa_schema_history a, pip_policy = pa_policy a\<rparr>"

definition plan_reviewed :: "'v cli_env \<Rightarrow> files \<Rightarrow> plan_args \<Rightarrow> upgrade_plan \<Rightarrow> bool" where
  "plan_reviewed env files a p \<longleftrightarrow>
     (\<exists>ctx report mig. resolve_validation_context env (Some (pa_network a)) (pa_protocol_version a) = Inr ctx
      \<and> load_report env files (pa_from a) (pa_to a) (Some (pa_from_schema a)) (Some (pa_to_schema a))
          (pa_policy a) ctx (Some (pa_schema_history a)) = Inr report
      \<and> rep_safe report
      \<and> (if pa_protocol_version a = None
         then deployed_agrees env (pa_network a) (pa_contract_id a) (art_sha256 (rep_source report)) else True)
      \<and> plan_migration a = Inr mig
      \<and> create_plan_with_paths (env_plan_lib env) report (pa_network a) (pa_contract_id a) (pa_source_identity a)
          (plan_paths a)
          \<lparr>po_migration = mig,
           po_invariant_check = \<lparr>ic_program = pa_invariant_program a, ic_arguments = pa_invariant_args a\<rparr>\<rparr>
        = Inr p)"

lemma plan_inputs_iff: "plan_inputs a = Inr paths \<Longrightarrow> paths = plan_paths a"
  by (auto simp: plan_inputs_def plan_paths_def and_then_Inr_iff load_optional_def split: option.splits)

text \<open>A run that either keeps the files and does not succeed, or ends in one of the given results.\<close>

definition quiet_or :: "((cli_error + nat) \<times> cli_state \<Rightarrow> bool) \<Rightarrow> nat io \<Rightarrow> cli_state \<Rightarrow> bool" where
  "quiet_or P m s \<longleftrightarrow> st_files (snd (m s)) = st_files s \<and> fst (m s) \<noteq> Inr 0 \<or> P (m s)"

lemma quiet_result:
  "(\<And>x. r = Inr x \<Longrightarrow> quiet_or P (f x) s) \<Longrightarrow> quiet_or P (io_then (io_result r) f) s"
  by (cases r) (simp_all add: quiet_or_def io_then_def)

lemma quiet_read:
  "(\<And>x. g (st_files s) = Inr x \<Longrightarrow> quiet_or P (f x) s) \<Longrightarrow> quiet_or P (io_then (io_read g) f) s"
  by (cases "g (st_files s)") (simp_all add: quiet_or_def io_then_def)

lemma run_plan_reaches:
  "quiet_or (\<lambda>result. \<exists>p. plan_reviewed env (st_files s) a p \<and> result = emit_plan env a p s) (run_plan env a) s"
  unfolding run_plan_def
proof (intro quiet_result quiet_read, goal_cases)
  case (1 ctx report)
  show ?case
  proof (cases "rep_safe report")
    case False
    then show ?thesis by (simp add: quiet_or_def io_then_def)
  next
    case True
    then have branch: "(if \<not> rep_safe report then m else m') = m'" for m m' :: "nat io" by simp
    show ?thesis
      unfolding branch
    proof (intro quiet_result, goal_cases)
      case (1 u paths mig p)
      have "if pa_protocol_version a = None
          then deployed_agrees env (pa_network a) (pa_contract_id a) (art_sha256 (rep_source report)) else True"
        using 1(1) by (cases "pa_protocol_version a") (simp_all add: current_contract_iff)
      moreover have "paths = plan_paths a" using 1(2) by (rule plan_inputs_iff)
      ultimately have "plan_reviewed env (st_files s) a p"
        using \<open>resolve_validation_context _ _ _ = _\<close> \<open>load_report _ _ _ _ _ _ _ _ _ = _\<close> True 1(3,4)
        unfolding plan_reviewed_def wrap_error_Inr_iff by blast
      then show ?case by (auto simp: quiet_or_def)
    qed
  qed
qed

lemma reviewed_verifies:
  assumes "plan_reviewed env files a p"
  shows "verify_plan_digest (env_plan_lib env) p = Inr True"
  using assms created_verifies unfolding plan_reviewed_def load_report_iff by blast

lemma only_plan_changes:
  assumes "changes_to (run env command) s t"
  shows "\<exists>a. command = Plan a \<and> changes_to (run_plan env a) s t"
proof (cases command)
  case (Inspect wasm json)
  have "keeps_files (run_inspect env wasm json)"
    unfolding run_inspect_def by (intro keeps_files_then keeps_files_basic)
  with assms Inspect show ?thesis using keeps_no_change by fastforce
next
  case (Schema kind)
  have "keeps_files (run_schema env kind)"
    unfolding run_schema_def by (intro keeps_files_then keeps_files_basic)
  with assms Schema show ?thesis using keeps_no_change by fastforce
next
  case (Validate a)
  with assms show ?thesis using keeps_no_change [OF keeps_run_validate] by fastforce
next
  case (Plan a)
  with assms show ?thesis by simp
next
  case (VerifyPlan path offline)
  with assms show ?thesis using keeps_no_change [OF keeps_run_verify_plan] by fastforce
qed

section \<open>From planning to verifying\<close>

lemma read_bounded_cong:
  assumes "files (file_of env path) = files' (file_of env path)"
  shows "read_bounded env files path limit kind = read_bounded env files' path limit kind"
  unfolding read_bounded_def read_prefix_def assms ..

lemma load_cong:
  assumes "files (file_of env path) = files' (file_of env path)"
  shows "load_artifact env files path = load_artifact env files' path"
    and "load_json env files kind from_json path = load_json env files' kind from_json path"
    and "load_schema env files path = load_schema env files' path"
    and "load_schema_history env files (Some path) = load_schema_history env files' (Some path)"
    and "load_policy env files (Some path) = load_policy env files' (Some path)"
  by (simp_all add: load_artifact_def load_json_def load_schema_def load_schema_history_def load_policy_def
      load_optional_def read_bounded_cong [of files env path files', OF assms])

definition plan_input_files :: "plan_args \<Rightarrow> string list" where
  "plan_input_files a =
     [pa_from a, pa_to a, pa_from_schema a, pa_to_schema a, pa_schema_history a]
     @ (case pa_policy a of None \<Rightarrow> [] | Some path \<Rightarrow> [path])"

lemma run_plan_ok:
  assumes "run_plan env a s = (Inr 0, t)" and "pa_out a = Some out"
  shows "\<exists>p json. plan_reviewed env (st_files s) a p \<and> plan_pretty env p = Inr json
    \<and> st_files t = (st_files s)(file_of env out \<mapsto> json @ [CHR 0x0A])"
proof -
  obtain p where p: "plan_reviewed env (st_files s) a p" and emitted: "emit_plan env a p s = (Inr 0, t)"
    using run_plan_reaches [of env s a] assms(1) by (auto simp: quiet_or_def)
  obtain json u where "plan_pretty env p = Inr json"
    and "write_output env out (json @ [CHR 0x0A]) (pa_force a) s = (Inr (), u)" and "st_files t = st_files u"
    using emitted assms(2) by (auto simp: emit_plan_def io_assoc io_steps io_then_Inr_iff Let_def)
  with p show ?thesis using write_output_ok by metis
qed

lemma assemble_hashes:
  "up_source_wasm_sha256 (assemble_plan report network contract_id signer paths ops) = art_sha256 (rep_source report)"
  "up_target_wasm_sha256 (assemble_plan report network contract_id signer paths ops) = art_sha256 (rep_target report)"
  "up_status (assemble_plan report network contract_id signer paths ops) =
     (if ctx_protocol_source (rep_context report) = StellarCliNetworkInfo then ReviewReady else OfflineDraft)"
  by (simp_all add: assemble_plan_def)

lemma live_context_source:
  "resolve_live_network env network = Inr ctx \<Longrightarrow> ctx_protocol_source ctx = StellarCliNetworkInfo"
  by (auto simp: resolve_live_network_def context_from_network_info_def and_then_Inr_iff)

lemma reviewed_agrees:
  assumes "plan_reviewed env files a p" and "pa_protocol_version a = None"
    and "\<And>path. path \<in> set (plan_input_files a) \<Longrightarrow> files' (file_of env path) = files (file_of env path)"
  shows "inputs_agree env files' p" and "up_status p = ReviewReady" and "network_agrees env p"
    and "deployed_agrees env (up_network p) (up_contract_id p) (up_source_wasm_sha256 p)"
proof -
  obtain ctx source t old new pol h mig where live: "resolve_live_network env (pa_network a) = Inr ctx"
    and loaded: "load_artifact env files (pa_from a) = Inr source" "load_artifact env files (pa_to a) = Inr t"
      "load_schema env files (pa_from_schema a) = Inr old" "load_schema env files (pa_to_schema a) = Inr new"
      "load_policy env files (pa_policy a) = Inr pol"
      "load_schema_history env files (Some (pa_schema_history a)) = Inr (Some h)"
    and deployed: "deployed_agrees env (pa_network a) (pa_contract_id a) (art_sha256 source)"
    and created: "create_plan_with_paths (env_plan_lib env)
      (validate_with_history (pl_core (env_plan_lib env)) source t (Some old) (Some new) pol ctx (Some h))
      (pa_network a) (pa_contract_id a) (pa_source_identity a) (plan_paths a) mig = Inr p"
    using assms(1,2) by (auto simp: plan_reviewed_def load_report_iff resolve_validation_context_def)
  obtain sha where p: "p = (assemble_plan
      (validate_with_history (pl_core (env_plan_lib env)) source t (Some old) (Some new) pol ctx (Some h))
      (pa_network a) (pa_contract_id a) (pa_source_identity a) (plan_paths a) mig)\<lparr>up_plan_sha256 := sha\<rparr>"
    by (rule created_parts [OF created])
  have same: "files' (file_of env path) = files (file_of env path)" if "path \<in> set (plan_input_files a)" for path
    using assms(3) that by blast
  have policy: "load_policy env files' (pa_policy a) = load_policy env files (pa_policy a)"
  proof (cases "pa_policy a")
    case None
    then show ?thesis by (simp add: load_policy_def load_optional_def)
  next
    case (Some path)
    then show ?thesis using load_cong(5) [of files' env path files] same by (simp add: plan_input_files_def)
  qed
  have "load_artifact env files' (pa_from a) = Inr source" "load_artifact env files' (pa_to a) = Inr t"
      "load_schema env files' (pa_from_schema a) = Inr old" "load_schema env files' (pa_to_schema a) = Inr new"
      "load_schema_history env files' (Some (pa_schema_history a)) = Inr (Some h)"
    using loaded load_cong(1,3,4) [of files' env _ files] same by (simp_all add: plan_input_files_def)
  then show "inputs_agree env files' p"
    using policy loaded(5) by (simp add: inputs_agree_def Let_def p assemble_fields assemble_hashes plan_paths_def)
  show "up_status p = ReviewReady"
    using live_context_source [OF live] by (simp add: p assemble_fields assemble_hashes)
  show "network_agrees env p"
    using live by (simp add: network_agrees_def p assemble_fields assemble_hashes)
  show "deployed_agrees env (up_network p) (up_contract_id p) (up_source_wasm_sha256 p)"
    using deployed by (simp add: p assemble_fields assemble_hashes)
qed

lemma reviewed_draft:
  assumes "plan_reviewed env files a p" and "pa_protocol_version a = Some version"
  shows "up_status p = OfflineDraft"
proof -
  let ?ctx = "default_context\<lparr>ctx_target_protocol_version := Some version,
    ctx_protocol_source := OfflineAssertion, ctx_network_name := Some (pa_network a)\<rparr>"
  obtain source t old new pol h ops where created: "create_plan_with_paths (env_plan_lib env)
      (validate_with_history (pl_core (env_plan_lib env)) source t (Some old) (Some new) pol ?ctx (Some h))
      (pa_network a) (pa_contract_id a) (pa_source_identity a) (plan_paths a) ops = Inr p"
    using assms by (auto simp: plan_reviewed_def load_report_iff resolve_validation_context_def)
  show ?thesis by (rule created_parts [OF created]) (simp add: assemble_hashes assemble_fields)
qed

text \<open>
  C15: The only file the program ever changes is the requested output of \<open>plan\<close>, and only for a
  reviewed upgrade: whenever a run ends with other files than it started with, the command is
  \<open>plan\<close> with an output path, the upgrade of the loaded inputs is safe and the plan verifies. Without
  \<open>--protocol-version\<close> the plan is ready for review and the contract ran the source module it names; with
  it the deployed code is not fetched and the plan is an offline draft. An existing file was replaced only
  under \<open>--force\<close>, and the file holds the printed plan, or a prefix of it when the system failed while
  writing.
\<close>

theorem written_plan_is_reviewed:
  assumes "st_files (snd (main env command s)) \<noteq> st_files s"
  shows "\<exists>a out p json n. command = Plan a \<and> pa_out a = Some out
    \<and> plan_reviewed env (st_files s) a p \<and> verify_plan_digest (env_plan_lib env) p = Inr True
    \<and> (if pa_protocol_version a = None
       then up_status p = ReviewReady
         \<and> deployed_agrees env (up_network p) (up_contract_id p) (up_source_wasm_sha256 p)
       else up_status p = OfflineDraft)
    \<and> (pa_force a \<or> st_files s (file_of env out) = None)
    \<and> plan_pretty env p = Inr json
    \<and> st_files (snd (main env command s)) = (st_files s)(file_of env out \<mapsto> take n (json @ [CHR 0x0A]))"
proof -
  have "changes_to (run env command) s (snd (run env command s))"
    using assms by (simp add: changes_to_def main_files)
  then obtain a where a: "command = Plan a" and "changes_to (run_plan env a) s (snd (run env command s))"
    using only_plan_changes by blast
  moreover from this obtain p where p: "plan_reviewed env (st_files s) a p"
    and "run_plan env a s = emit_plan env a p s"
    using run_plan_reaches [of env s a] by (auto simp: quiet_or_def changes_to_def)
  ultimately have "changes_to (emit_plan env a p) s (snd (run env command s))"
    by (simp add: changes_to_def)
  then obtain out json n where "pa_out a = Some out" and "plan_pretty env p = Inr json"
    and "pa_force a \<or> st_files s (file_of env out) = None"
    and "st_files (snd (run env command s)) = (st_files s)(file_of env out \<mapsto> take n (json @ [CHR 0x0A]))"
    using emit_plan_changes by blast
  moreover have "if pa_protocol_version a = None
      then up_status p = ReviewReady
        \<and> deployed_agrees env (up_network p) (up_contract_id p) (up_source_wasm_sha256 p)
      else up_status p = OfflineDraft"
    using reviewed_agrees(2,4) [OF p] reviewed_draft [OF p] by auto
  ultimately show ?thesis using a p reviewed_verifies [OF p] unfolding main_files by blast
qed

text \<open>
  A plan just written verifies: when \<open>plan\<close> succeeds with live evidence and an output file, running
  \<open>verify-plan\<close> on that file in the world it left succeeds, provided the JSON decoder reads the reviewed plan
  back, the file opens and is within the input bound, and the output did not replace one of the inputs.
\<close>

lemma plan_then_verify_reviewed:
  assumes "main env (Plan a) s = (0, t)" and "pa_out a = Some out" and "pa_protocol_version a = None"
    and "\<And>p json. plan_reviewed env (st_files s) a p \<Longrightarrow> plan_pretty env p = Inr json \<Longrightarrow>
      upgrade_plan_from_json (plan_decoder env) (json @ [CHR 0x0A]) = Inr p"
    and "open_fault env out Open_Read = None" and "read_fault env out = None"
    and "\<And>bs. st_files t (file_of env out) = Some bs \<Longrightarrow> length bs \<le> MAX_JSON_INPUT_SIZE_BYTES"
    and "file_of env out \<notin> file_of env ` set (plan_input_files a)"
  shows "fst (main env (VerifyPlan out False) t) = 0"
proof -
  have "run_plan env a s = (Inr 0, t)" using main_ok [OF assms(1)] by simp
  then obtain p json where p: "plan_reviewed env (st_files s) a p" and json: "plan_pretty env p = Inr json"
    and files: "st_files t = (st_files s)(file_of env out \<mapsto> json @ [CHR 0x0A])"
    using run_plan_ok assms(2) by blast
  have "read_bounded env (st_files t) out MAX_JSON_INPUT_SIZE_BYTES ''JSON plan'' = Inr (json @ [CHR 0x0A])"
    using assms(5-7) by (simp add: read_bounded_iff readable_def files)
  then have "plan_file env (st_files t) out = Inr p"
    using assms(4) [OF p json] by (simp add: plan_file_def load_json_def)
  moreover have "st_files t (file_of env path) = st_files s (file_of env path)" if "path \<in> set (plan_input_files a)" for path
    using image_eqI [OF refl that, of "file_of env"] assms(8) by (auto simp: files)
  then have "inputs_agree env (st_files t) p" "up_status p = ReviewReady" "network_agrees env p"
    "deployed_agrees env (up_network p) (up_contract_id p) (up_source_wasm_sha256 p)"
    using reviewed_agrees [OF p assms(3)] by blast+
  ultimately have "\<exists>u. run env (VerifyPlan out False) t = (Inr 0, u)"
    unfolding verify_plan_code_iff using reviewed_verifies [OF p] by blast
  then show ?thesis by (simp add: main_exit_code del: run.simps)
qed

text \<open>The same for a decoder that reads back every plan the printer accepts.\<close>

theorem plan_then_verify:
  assumes "main env (Plan a) s = (0, t)" and "pa_out a = Some out" and "pa_protocol_version a = None"
    and "\<And>p json. plan_pretty env p = Inr json \<Longrightarrow>
      upgrade_plan_from_json (plan_decoder env) (json @ [CHR 0x0A]) = Inr p"
    and "open_fault env out Open_Read = None" and "read_fault env out = None"
    and "\<And>bs. st_files t (file_of env out) = Some bs \<Longrightarrow> length bs \<le> MAX_JSON_INPUT_SIZE_BYTES"
    and "file_of env out \<notin> file_of env ` set (plan_input_files a)"
  shows "fst (main env (VerifyPlan out False) t) = 0"
  by (rule plan_then_verify_reviewed [OF assms(1-3) _ assms(5-8)]) (rule assms(4))

section \<open>A sample world\<close>

text \<open>
  Two releases, their manifests and a field history as files, a network at protocol 28 on which the
  contract runs the first release, and a printer that maps the only plan in question to a text.
\<close>

definition world_wasm :: wasm_lib where
  "world_wasm = \<lparr>validate_all = (\<lambda>_. Inr ()), parse_all = (\<lambda>bs.
     [Inr (CustomSection ''contractspecv0'' []), Inr (CustomSection ''contractenvmetav0'' []),
      Inr (CustomSection ''contractmetav0'' bs),
      Inr (ImportSection [Inr \<lparr>wi_module = ''l'', wi_name = ''6'', wi_is_func = True\<rparr>]),
      Inr (ExportSection [Inr \<lparr>we_name = ''upgrade'', we_is_func = True, we_index = 1\<rparr>]),
      Inr (CodeSectionEntry (Inr [Inr (Call 0)]))])\<rparr>"

definition world_spec :: spec_lib where
  "world_spec = \<lparr>utf8_lossy = id,
     spec_from_wasm = (\<lambda>_. Inr [\<lparr>se_shape = FunctionV0 ''upgrade'' [(''new_wasm_hash'', TBytesN 32), (''operator'', TAddress)] [],
       se_to_value = Inr (Object [(''function_v0'', Object [(''inputs'', upgrade_inputs)])])\<rparr>]),
     meta_entries = (\<lambda>bs. [Inr (''binver'', bs)]),
     env_meta_entries = (\<lambda>_. [Inr \<lparr>iv_protocol = 23, iv_pre_release = 0\<rparr>])\<rparr>"

definition constant_decoder :: "(bytes \<Rightarrow> string + 'a) \<Rightarrow> 'a json_decoder" where
  "constant_decoder f = \<lparr>doc_of = (\<lambda>_. Doc_Unit), doc_end = (\<lambda>_. Inr ()), from_slice = f\<rparr>"

definition world_info :: network_info where
  "world_info = \<lparr>ni_id = ''id'', ni_version = ''1'', ni_captive_core_version = None, ni_protocol_version = 28,
     ni_passphrase = ''phrase''\<rparr>"

definition world_args :: plan_args where
  "world_args = \<lparr>pa_from = ''1.0.0'', pa_to = ''2.0.0'', pa_from_schema = ''old'', pa_to_schema = ''new'',
     pa_network = ''testnet'', pa_contract_id = ''C'', pa_source_identity = ''alice'',
     pa_migration_entrypoint = Some ''upgrade'', pa_migration_args = [''operator=alice'', ''new_wasm_hash=00''],
     pa_invariant_program = ''cargo'', pa_invariant_args = [''test''], pa_policy = None, pa_protocol_version = None,
     pa_schema_history = ''history'', pa_out = Some ''plan.json'', pa_force = False\<rparr>"

definition world_release :: "string \<Rightarrow> artifact" where
  "world_release v = (plan_release v)\<lparr>art_sha256 := v, art_size_bytes := length v\<rparr>"

definition world_context :: validation_context where
  "world_context = live_context\<lparr>ctx_observed_at_unix_seconds := Some 7\<rparr>"

definition world_report :: validation_report where
  "world_report = validate_with_history sample_core (world_release ''1.0.0'') (world_release ''2.0.0'')
     (Some (sample_schema ''1.0.0'' 1 sample_entry_v1)) (Some (sample_schema ''2.0.0'' 2 sample_entry_v2))
     default_policy world_context (Some (sample_history\<lparr>sh_source_sha256 := ''h''\<rparr>))"

definition world_plan :: upgrade_plan where
  "world_plan = (assemble_plan world_report ''testnet'' ''C'' ''alice'' (plan_paths world_args) sample_operations)
     \<lparr>up_plan_sha256 := ''digest''\<rparr>"

text \<open>The two JSON texts of this world: the field history \<open>h\<close>, and the printed plan with its newline.\<close>

definition world_text :: json_text where
  "world_text = \<lparr>tx_doc = (\<lambda>_. Doc_Unit), tx_end = (\<lambda>_. Inr ()),
     tx_value = (\<lambda>bs. if bs = ''h'' then Inr (schema_history_json sample_history)
       else if bs = ''plan'' @ [CHR 0x0A] then Inr (plan_json world_plan) else Inl ''syntax''),
     tx_data_error = (\<lambda>_. ''data'')\<rparr>"

definition world :: "nat cli_env" where
  "world = \<lparr>env_plan_lib = sample_plan_lib, env_wasm_lib = world_wasm, env_spec_lib = world_spec,
     policy_decoder = constant_decoder (\<lambda>_. Inl ''policy''),
     schema_decoder = constant_decoder (\<lambda>bs. Inr (if bs = ''1'' then sample_schema ''1.0.0'' 1 sample_entry_v1
       else sample_schema ''2.0.0'' 2 sample_entry_v2)),
     history_decoder = typed_decoder world_text decode_schema_history,
     plan_decoder = typed_decoder world_text decode_plan,
     network_info_from_slice = (\<lambda>_. Inr world_info),
     artifact_pretty = (\<lambda>_. Inr ''artifact''), report_pretty = (\<lambda>_. Inr ''report''),
     plan_pretty = (\<lambda>p. if p = world_plan then Inr ''plan'' else Inl ''plan''),
     schema_pretty = (\<lambda>_. Inr ''schema''), core_error_chain = (\<lambda>_. [''core'']),
     file_of = id, open_fault = (\<lambda>_ _. None), not_found = ''not found'', already_exists = ''exists'',
     read_fault = (\<lambda>_. None), write_fault = (\<lambda>_ _. None), sync_fault = (\<lambda>_. None),
     spawn_stellar = (\<lambda>arguments. Inr \<lparr>po_success = True, po_status = ''0'',
       po_stdout = (if hd arguments = ''contract'' then ''1.0.0'' else ''info''), po_stderr = []\<rparr>),
     seconds_since_epoch = Some 7\<rparr>"

definition world_state :: cli_state where
  "world_state = \<lparr>st_files = map_of [(''1.0.0'', ''1.0.0''), (''2.0.0'', ''2.0.0''), (''old'', ''1''), (''new'', ''2''),
     (''history'', ''h'')], st_stdout = [], st_stderr = []\<rparr>"

lemma world_reads:
  "open_fault world path mode = None" "read_fault world path = None" "file_of world path = path"
  by (simp_all add: world_def)

lemma world_history:
  "parse_json_strict (typed_decoder world_text decode_schema_history) ''h'' = Inr sample_history"
proof -
  have "holds_value world_text ''h'' (schema_history_json sample_history)"
    by (simp add: holds_value_def world_text_def)
  moreover have "schema_history_fits sample_history" by (simp add: schema_history_fits_def sample_history_def)
  ultimately show ?thesis unfolding typed_strict_iff using schema_history_codec.decode_encode by blast
qed

lemma world_fields:
  "env_plan_lib world = sample_plan_lib" "pl_core sample_plan_lib = sample_core" "hash_hex sample_core = id"
  "storage_schema_from_json (schema_decoder world) ''1'' = Inr (sample_schema ''1.0.0'' 1 sample_entry_v1)"
  "storage_schema_from_json (schema_decoder world) ''2'' = Inr (sample_schema ''2.0.0'' 2 sample_entry_v2)"
  "network_info_from_slice world bs = Inr world_info" "seconds_since_epoch world = Some 7"
  "spawn_stellar world arguments = Inr \<lparr>po_success = True, po_status = ''0'',
     po_stdout = (if hd arguments = ''contract'' then ''1.0.0'' else ''info''), po_stderr = []\<rparr>"
  "plan_pretty world world_plan = Inr ''plan''" "write_fault world path bs = None" "sync_fault world path = None"
  by (simp_all add: world_def sample_plan_lib_def sample_core_def constant_decoder_def storage_schema_from_json_def
      parse_json_strict_def decoded_def)

lemma world_history_loads:
  "schema_history_from_json (history_decoder world) id ''h'' = Inr (sample_history\<lparr>sh_source_sha256 := ''h''\<rparr>)"
proof -
  have "history_decoder world = typed_decoder world_text decode_schema_history" by (simp add: world_def)
  then show ?thesis by (simp add: schema_history_from_json_def world_history)
qed

lemma world_files:
  "st_files world_state ''1.0.0'' = Some ''1.0.0''" "st_files world_state ''2.0.0'' = Some ''2.0.0''"
  "st_files world_state ''old'' = Some ''1''" "st_files world_state ''new'' = Some ''2''"
  "st_files world_state ''history'' = Some ''h''" "st_files world_state ''plan.json'' = None"
  by (simp_all add: world_state_def)

lemma world_artifacts:
  "artifact_from_wasm world ''1.0.0'' = Inr (world_release ''1.0.0'')"
  "artifact_from_wasm world ''2.0.0'' = Inr (world_release ''2.0.0'')"
  by code_simp+

lemma world_read:
  "st_files world_state path = Some bs \<Longrightarrow> length bs \<le> limit \<Longrightarrow>
     read_bounded world (st_files world_state) path limit kind = Inr bs"
  by (simp add: read_bounded_iff readable_def world_reads)

lemma world_loads:
  "load_artifact world (st_files world_state) ''1.0.0'' = Inr (world_release ''1.0.0'')"
  "load_artifact world (st_files world_state) ''2.0.0'' = Inr (world_release ''2.0.0'')"
  "load_schema world (st_files world_state) ''old'' = Inr (sample_schema ''1.0.0'' 1 sample_entry_v1)"
  "load_schema world (st_files world_state) ''new'' = Inr (sample_schema ''2.0.0'' 2 sample_entry_v2)"
  "load_policy world (st_files world_state) None = Inr default_policy"
  "load_schema_history world (st_files world_state) (Some ''history'')
     = Inr (Some (sample_history\<lparr>sh_source_sha256 := ''h''\<rparr>))"
  by (simp_all add: load_artifact_def load_schema_def load_policy_def load_schema_history_def load_json_def
      load_optional_def world_read [OF world_files(1)] world_read [OF world_files(2)] world_read [OF world_files(3)]
      world_read [OF world_files(4)] world_read [OF world_files(5)] world_artifacts world_fields
      world_history_loads MAX_ARTIFACT_SIZE_BYTES_def MAX_JSON_INPUT_SIZE_BYTES_def)

lemma world_network: "resolve_live_network world ''testnet'' = Inr world_context"
  by (simp add: resolve_live_network_def context_from_network_info_def world_fields world_info_def
      world_context_def live_context_def ensure_def)

text \<open>A live and an asserted context, as the arguments of a network and of a version ask for.\<close>

theorem evidence_is_of_the_kind_asked_for_witness:
  "ei_status (network_evidence world_context) = Fact
   \<and> ei_status (network_evidence (default_context\<lparr>ctx_target_protocol_version := Some 28,
       ctx_protocol_source := OfflineAssertion, ctx_network_name := None\<rparr>)) \<noteq> Fact"
  using evidence_is_of_the_kind_asked_for [of world "Some ''testnet''" None world_context]
    evidence_is_of_the_kind_asked_for [of world None "Some 28" "default_context\<lparr>ctx_target_protocol_version := Some 28,
       ctx_protocol_source := OfflineAssertion, ctx_network_name := None\<rparr>"]
  by (simp add: resolve_validation_context_def world_network default_context_def)

lemma world_deployed: "make_sure_current_contract_matches world ''testnet'' ''C'' ''1.0.0'' = Inr ()"
  by (simp add: make_sure_current_contract_matches_def fetch_contract_artifact_def world_fields world_artifacts
      ensure_def world_release_def)

lemma world_loads_report:
  "load_report world (st_files world_state) ''1.0.0'' ''2.0.0'' (Some ''old'') (Some ''new'') None world_context
     (Some ''history'') = Inr world_report"
  unfolding load_report_iff world_report_def world_fields(1,2) using world_loads by blast

lemma world_inputs:
  "plan_inputs world_args = Inr (plan_paths world_args)"
  "plan_migration world_args = Inr (po_migration sample_operations)"
  by code_simp+

lemma world_created:
  "create_plan_with_paths sample_plan_lib world_report ''testnet'' ''C'' ''alice'' (plan_paths world_args)
     sample_operations = Inr world_plan"
  by code_simp

lemma world_report_safe: "rep_safe world_report" "art_sha256 (rep_source world_report) = ''1.0.0''"
  by code_simp+

lemma world_args_fields:
  "pa_from world_args = ''1.0.0''" "pa_to world_args = ''2.0.0''" "pa_from_schema world_args = ''old''"
  "pa_to_schema world_args = ''new''" "pa_network world_args = ''testnet''" "pa_contract_id world_args = ''C''"
  "pa_source_identity world_args = ''alice''" "pa_policy world_args = None" "pa_protocol_version world_args = None"
  "pa_schema_history world_args = ''history''" "pa_out world_args = Some ''plan.json''" "pa_force world_args = False"
  "\<lparr>po_migration = po_migration sample_operations, po_invariant_check =
      \<lparr>ic_program = pa_invariant_program world_args, ic_arguments = pa_invariant_args world_args\<rparr>\<rparr> = sample_operations"
  by (simp_all add: world_args_def sample_operations_def)

lemma world_run:
  "run world (Plan world_args) world_state = emit_plan world world_args world_plan world_state"
  by (simp add: run_plan_def io_then_def resolve_validation_context_def world_network world_loads_report
      world_report_safe world_deployed world_inputs world_fields(1) world_args_fields world_created)

lemma world_plan_run:
  "fst (main world (Plan world_args) world_state) = 0"
  "st_files (snd (main world (Plan world_args) world_state)) ''plan.json'' = Some (''plan'' @ [CHR 0x0A])"
  unfolding main_def world_run
  by (simp_all add: emit_plan_def io_then_def world_fields world_args_def Let_def write_output_def io_context_def
      open_for_writing_def write_all_def sync_all_def world_reads world_files)

lemma world_plan_fits: "plan_fits world_plan"
  by code_simp

lemma world_decodes:
  assumes "plan_pretty world p = Inr json"
  shows "upgrade_plan_from_json (plan_decoder world) (json @ [CHR 0x0A]) = Inr p"
proof -
  have p: "p = world_plan" "json = ''plan''" using assms by (simp_all add: world_def split: if_splits)
  have "holds_value world_text (''plan'' @ [CHR 0x0A]) (plan_json world_plan)"
    by (simp add: holds_value_def world_text_def)
  then have "parse_json_strict (typed_decoder world_text decode_plan) (''plan'' @ [CHR 0x0A]) = Inr world_plan"
    unfolding typed_strict_iff using plan_codec.decode_encode [OF world_plan_fits] by blast
  moreover have "plan_decoder world = typed_decoder world_text decode_plan" by (simp add: world_def)
  ultimately show ?thesis by (simp add: upgrade_plan_from_json_def p)
qed

lemma world_output:
  "st_files (snd (main world (Plan world_args) world_state)) (file_of world ''plan.json'') = Some bs
     \<Longrightarrow> length bs \<le> MAX_JSON_INPUT_SIZE_BYTES"
  by (simp only: world_reads world_plan_run(2) option.inject) (auto simp: MAX_JSON_INPUT_SIZE_BYTES_def)

theorem plan_then_verify_witness:
  "fst (main world (VerifyPlan ''plan.json'' False) (snd (main world (Plan world_args) world_state))) = 0"
proof (rule plan_then_verify [OF _ _ _ world_decodes world_reads(1,2) world_output])
  show "main world (Plan world_args) world_state = (0, snd (main world (Plan world_args) world_state))"
    using world_plan_run(1) by (metis prod.collapse)
  show "pa_out world_args = Some ''plan.json''" "pa_protocol_version world_args = None"
    by (simp_all add: world_args_def)
  show "file_of world ''plan.json'' \<notin> file_of world ` set (plan_input_files world_args)"
    by (simp add: world_reads plan_input_files_def world_args_def)
qed

theorem written_plan_is_reviewed_witness:
  "\<exists>p. plan_reviewed world (st_files world_state) world_args p"
proof -
  have "st_files (snd (main world (Plan world_args) world_state)) \<noteq> st_files world_state"
    using world_plan_run(2) world_files(6) by force
  from written_plan_is_reviewed [OF this] show ?thesis by blast
qed

end
