(* ===== verification/Plan_Roundtrip.thy ===== *)
theory Plan_Roundtrip
  imports Cli_Safety
begin

text \<open>
  The plan file, from the command that writes it to the command that reads it. The values from which a plan
  is made fit their Rust types, so that the derived decoder reads the printed plan back and the run of
  \<open>verify-plan\<close> after \<open>plan\<close> needs no assumption about the decoder of plans, only about JSON texts.
\<close>

section \<open>What is read fits its type\<close>

text \<open>The XDR vectors of a specification have at most \<open>2 ^ 32 - 1\<close> elements.\<close>

definition spec_sized :: "spec_lib \<Rightarrow> bool" where
  "spec_sized sl \<longleftrightarrow> (\<forall>bs spec e. spec_from_wasm sl bs = Inr spec \<and> e \<in> set spec \<longrightarrow>
     (case se_shape e of FunctionV0 name ins outs \<Rightarrow> length ins < 2 ^ 32 \<and> length outs < 2 ^ 32 | _ \<Rightarrow> True))"

lemma boundaries_fit:
  assumes "b \<in> boundaries_of sl shape"
    and "case shape of FunctionV0 name ins outs \<Rightarrow> length ins < 2 ^ 32 \<and> length outs < 2 ^ 32 | _ \<Rightarrow> True"
  shows "boundary_fits b"
proof (cases shape)
  case (FunctionV0 name ins outs)
  then have short: "length ins < 2 ^ 32" "length outs < 2 ^ 32" using assms(2) by simp_all
  have "boundary_fits (PublicTypeBoundary f pos i l r) \<longleftrightarrow> i < 2 ^ 64" for f pos i l r
    by (simp add: boundary_fits_def)
  with assms(1) short show ?thesis
    unfolding FunctionV0 boundaries_of.simps by (elim UnE CollectE exE conjE) simp_all
qed (use assms(1) in simp_all)

lemma evidence_fits:
  assumes "inspect_export_call_evidence lib bs = Inr evidence"
  shows "bm_ok evidence \<and> list_all (call_evidence_fits \<circ> snd) evidence"
proof -
  obtain m n where "try_fold scan_payload empty_module_calls (parse_all lib bs) = Inr m"
    and "unat n = length (mc_function_imports m)" and ok: "bm_ok evidence"
    and get: "\<And>name e. bm_get evidence name = Some e \<longleftrightarrow>
      (\<exists>f. bm_get (mc_function_exports m) name = Some f
         \<and> collect_export_call_evidence n (mc_function_imports m) (mc_function_bodies m) [f] [] no_evidence = Inr e)"
    by (rule inspect_exports_get [OF assms], rule that)
  have "call_evidence_fits e" if "(name, e) \<in> set evidence" for name e
  proof -
    have "bm_get evidence name = Some e" using that bm_get_iff [OF ok] by blast
    then obtain f where "collect_export_call_evidence n (mc_function_imports m) (mc_function_bodies m) [f] [] no_evidence = Inr e"
      using get by blast
    then show ?thesis
      using bs_ok_collect [where evidence = no_evidence] by (simp add: call_evidence_fits_def no_evidence_def)
  qed
  with ok show ?thesis by (auto simp: list_all_iff)
qed

lemma from_wasm_fits:
  assumes "from_wasm lib sl sha256_hex bs = Inr a" and "spec_sized sl"
  shows "artifact_fits a"
proof -
  obtain spec where spec: "spec_from_wasm sl bs = Inr spec"
    using assms(1) unfolding from_wasm_Inr by auto
  have facts: "artifact_ok a" "art_size_bytes a = length bs"
      "set (art_public_type_boundaries a) = (\<Union>e\<in>set spec. boundaries_of sl (se_shape e))"
    using from_wasm_facts [OF assms(1) spec] by blast+
  have "inspect_export_call_evidence lib bs = Inr (art_export_call_evidence a)"
    using assms(1) unfolding from_wasm_Inr by (elim conjE exE) simp
  moreover have "list_all boundary_fits (art_public_type_boundaries a)"
    using assms(2) spec unfolding list_all_iff facts(3) spec_sized_def by (blast intro: boundaries_fit)
  ultimately show ?thesis
    using facts(1) evidence_fits
    by (auto simp: artifact_fits_def artifact_ok_def entries_ok_def MAX_ARTIFACT_SIZE_BYTES_def)
qed

lemma load_artifact_fits:
  "load_artifact env files path = Inr a \<Longrightarrow> spec_sized (env_spec_lib env) \<Longrightarrow> artifact_fits a"
  by (auto simp: load_artifact_def and_then_Inr_iff artifact_from_wasm_def intro: from_wasm_fits)

lemma load_history_fits:
  assumes "load_schema_history env files (Some path) = Inr (Some h)"
    and "history_decoder env = typed_decoder text decode_schema_history"
  shows "schema_history_fits h"
proof -
  obtain bs g v where "decode_schema_history v = Some g" and "h = g\<lparr>sh_source_sha256 := hash_hex (pl_core (env_plan_lib env)) bs\<rparr>"
    using assms(1) unfolding load_schema_history_def load_optional_Some load_json_def schema_history_from_json_def assms(2)
    by (simp only: and_then_Inr_iff with_context_Inr_iff wrap_error_Inr_iff lift_error_Inr_iff typed_strict_iff) blast
  then show ?thesis
    using schema_history_codec.decoded_fits by (fastforce simp: schema_history_fits_def)
qed

lemma impacts_fit:
  assumes "artifact_fits source"
  shows "list_all public_impact_fits (fst (trace_public_impacts source t))"
proof -
  have "public_impact_fits i" if mem: "i \<in> set (fst (trace_public_impacts source t))" for i
  proof -
    obtain b ty steps where "b \<in> set (retained_boundaries source t)" and i: "i = PublicImpact ty b steps Fact Unknown"
      using mem trace_facts(2) [OF surjective_pairing, of i source t] by blast
    then have "b \<in> set (art_public_type_boundaries source)" by (auto simp: retained_boundaries_def)
    then have "boundary_fits b" using assms by (simp add: artifact_fits_def list_all_iff)
    then show ?thesis by (simp add: public_impact_fits_def i)
  qed
  then show ?thesis by (simp add: list_all_iff)
qed

lemma report_fits_validate:
  assumes "artifact_fits source" and "artifact_fits t" and "pred_option schema_history_fits h"
  shows "report_fits (validate_with_history lib source t ss ts p ctx h)"
  using assms impacts_fit [OF assms(1)] by (simp add: report_fits_def validate_with_history_def Let_def)

lemma parsed_arguments_ok: "parse_named_arguments texts = Inr m \<Longrightarrow> bm_ok m"
  unfolding parse_named_arguments_def
  by (erule try_fold_invariant) (auto simp: add_named_argument_iff)

lemma plan_migration_fits: "plan_migration a = Inr mig \<Longrightarrow> pred_option migration_call_fits mig"
  by (auto simp: plan_migration_def and_then_Inr_iff migration_call_fits_def parsed_arguments_ok split: option.splits)

lemma reviewed_plan_fits:
  assumes "plan_reviewed env files a p" and "spec_sized (env_spec_lib env)"
    and "history_decoder env = typed_decoder text decode_schema_history"
  shows "plan_fits p"
proof -
  obtain ctx report mig where
    loaded: "load_report env files (pa_from a) (pa_to a) (Some (pa_from_schema a)) (Some (pa_to_schema a))
      (pa_policy a) ctx (Some (pa_schema_history a)) = Inr report"
    and mig: "plan_migration a = Inr mig"
    and created: "create_plan_with_paths (env_plan_lib env) report (pa_network a) (pa_contract_id a) (pa_source_identity a)
      (plan_paths a) \<lparr>po_migration = mig,
        po_invariant_check = \<lparr>ic_program = pa_invariant_program a, ic_arguments = pa_invariant_args a\<rparr>\<rparr> = Inr p"
    using assms(1) unfolding plan_reviewed_def by blast
  obtain source t old new pol h where
    source: "load_artifact env files (pa_from a) = Inr source" and t: "load_artifact env files (pa_to a) = Inr t"
    and h: "load_schema_history env files (Some (pa_schema_history a)) = Inr (Some h)"
    and report: "report = validate_with_history (pl_core (env_plan_lib env)) source t (Some old) (Some new) pol ctx (Some h)"
    using loaded unfolding load_report_iff by blast
  have "report_fits report"
    using load_artifact_fits [OF source assms(2)] load_artifact_fits [OF t assms(2)] load_history_fits [OF h assms(3)]
    by (simp add: report report_fits_validate)
  moreover obtain sha where "p = (assemble_plan report (pa_network a) (pa_contract_id a) (pa_source_identity a)
      (plan_paths a) \<lparr>po_migration = mig,
        po_invariant_check = \<lparr>ic_program = pa_invariant_program a, ic_arguments = pa_invariant_args a\<rparr>\<rparr>)
      \<lparr>up_plan_sha256 := sha\<rparr>"
    by (rule created_parts [OF created])
  ultimately show ?thesis
    using plan_migration_fits [OF mig] by (simp add: plan_fits_def assemble_fields)
qed

section \<open>The plan file\<close>

text \<open>
  C18: Plans survive their printed form: the decoder of \<open>UpgradePlan\<close> reads the JSON value of every plan that
  fits its Rust types back to the same plan, every plan it reads from any JSON value fits those types
  (ordered maps and sets, sizes of 64 bits, down to the embedded artifacts, histories and findings), and
  encoding a plan that was read and reading it again changes nothing.
\<close>

theorem plan_json_roundtrip:
  "(plan_fits p \<longrightarrow> decode_plan (plan_json p) = Some p)
   \<and> (decode_plan v = Some q \<longrightarrow> plan_fits q \<and> decode_plan (plan_json q) = Some q)"
  using plan_codec.decode_encode plan_codec.decoded_fits plan_codec.decode_encode_id by blast

theorem plan_json_roundtrip_witness:
  "decode_plan (plan_json world_plan) = Some world_plan \<and> plan_fits world_plan"
  using plan_json_roundtrip [of world_plan "plan_json world_plan" world_plan] world_plan_fits by blast


text \<open>
  What is assumed of the JSON printer and reader: the text that is printed for this plan, with its newline, holds
  the value of the plan, each member once.
\<close>

definition prints_plan :: "'v cli_env \<Rightarrow> json_text \<Rightarrow> upgrade_plan \<Rightarrow> bool" where
  "prints_plan env text p \<longleftrightarrow>
     (\<forall>json. plan_pretty env p = Inr json \<longrightarrow> holds_value text (json @ [CHR 0x0A]) (plan_json p))"

text \<open>
  C17: A plan just written verifies: when \<open>plan\<close> succeeds with live evidence and an output file, running
  \<open>verify-plan\<close> on that file in the world it left succeeds. The decoders of plans and histories are the derived
  ones; of the JSON text layer it is assumed only that the text of the plan that was written holds the value
  of that plan, which excludes a plan nested deeper than the parser reads. The output must open, stay within
  the input bound and not replace one of the inputs, and the vectors of the specification have the length that
  XDR allows.
\<close>

theorem written_plan_verifies:
  assumes "main env (Plan a) s = (0, t)" and "pa_out a = Some out" and "pa_protocol_version a = None"
    and "plan_decoder env = typed_decoder text decode_plan"
    and "history_decoder env = typed_decoder text decode_schema_history"
    and "\<And>p. plan_reviewed env (st_files s) a p \<Longrightarrow> prints_plan env text p" and "spec_sized (env_spec_lib env)"
    and "open_fault env out Open_Read = None" and "read_fault env out = None"
    and "\<And>bs. st_files t (file_of env out) = Some bs \<Longrightarrow> length bs \<le> MAX_JSON_INPUT_SIZE_BYTES"
    and "file_of env out \<notin> file_of env ` set (plan_input_files a)"
  shows "fst (main env (VerifyPlan out False) t) = 0"
proof (rule plan_then_verify_reviewed [OF assms(1-3) _ assms(8-11)])
  fix p json assume p: "plan_reviewed env (st_files s) a p" and json: "plan_pretty env p = Inr json"
  have fits: "plan_fits p" by (rule reviewed_plan_fits [OF p assms(7,5)])
  then have "holds_value text (json @ [CHR 0x0A]) (plan_json p)"
    using assms(6) [OF p] json by (simp add: prints_plan_def)
  then have "parse_json_strict (plan_decoder env) (json @ [CHR 0x0A]) = Inr p"
    unfolding assms(4) typed_strict_iff using plan_codec.decode_encode [OF fits] by blast
  then show "upgrade_plan_from_json (plan_decoder env) (json @ [CHR 0x0A]) = Inr p"
    by (simp add: upgrade_plan_from_json_def)
qed

theorem written_plan_verifies_witness:
  "fst (main world (VerifyPlan ''plan.json'' False) (snd (main world (Plan world_args) world_state))) = 0"
proof (rule written_plan_verifies [OF _ _ _ _ _ _ _ world_reads(1,2) world_output])
  show "main world (Plan world_args) world_state = (0, snd (main world (Plan world_args) world_state))"
    using world_plan_run(1) by (metis prod.collapse)
  show "pa_out world_args = Some ''plan.json''" "pa_protocol_version world_args = None"
    by (simp_all add: world_args_def)
  show "plan_decoder world = typed_decoder world_text decode_plan"
    "history_decoder world = typed_decoder world_text decode_schema_history"
    by (simp_all add: world_def)
  show "prints_plan world world_text p" for p
    by (auto simp: prints_plan_def holds_value_def world_text_def world_def split: if_splits)
  show "spec_sized (env_spec_lib world)"
    by (simp add: spec_sized_def world_def world_spec_def)
  show "file_of world ''plan.json'' \<notin> file_of world ` set (plan_input_files world_args)"
    by (simp add: world_reads plan_input_files_def world_args_def)
qed

end
