(* ===== verification/Core_Fixtures.thy ===== *)
theory Core_Fixtures
  imports Plan
begin

text \<open>
  The fixtures of the unit tests of the core (module \<open>tests\<close> of
  \<open>crates/soroban-upgrades-core/src/lib.rs\<close>): an artifact that is a version and a list of exported
  functions, a storage manifest of one entry, and the report of a safe pair of releases. The tests
  themselves are in \<open>Core_Tests\<close>, \<open>Plan_Tests\<close>, \<open>Cli_Tests\<close> and \<open>Runner_Tests\<close>; each is a Boolean, true when no assertion fails.
\<close>

definition TEST_CONTRACT_ID :: string where
  "TEST_CONTRACT_ID = ''CAAAAAAAAAAAAAAAAAAAAAAAAAAAAAAAAAAAAAAAAAAAAAAAAAAABSC4''"

text \<open>\<open>repeat\<close> of a string.\<close>

definition repeat_str :: "nat \<Rightarrow> string \<Rightarrow> string" where
  "repeat_str n s = concat (replicate n s)"

definition address_input :: "string \<Rightarrow> json" where
  "address_input name = object [(''name'', String name), (''type_'', String ''address'')]"

definition function_fixture :: "string \<Rightarrow> json list \<Rightarrow> json" where
  "function_fixture name inputs = object [(''function_v0'', object
     [(''name'', String name), (''inputs'', Array inputs), (''outputs'', Array [])])]"

definition canonical_fixture :: "string \<Rightarrow> json" where
  "canonical_fixture name =
     (if name = ''upgrade'' then function_fixture name
        [object [(''name'', String ''new_wasm_hash''),
           (''type_'', object [(''bytes_n'', object [(''n'', Number (Int_Number 32))])])],
         address_input ''operator'']
      else if name = ''migrate'' then function_fixture name [address_input ''operator'']
      else Object [])"

definition artifact_fixture :: "string \<Rightarrow> string list \<Rightarrow> artifact" where
  "artifact_fixture version names =
     \<lparr>art_format_version = 1, art_sha256 = repeat_str 32 ''00'', art_size_bytes = 1,
      art_env_protocol_version = 27, art_env_pre_release = 0,
      art_metadata = bm_of_list [(''binver'', version)], art_host_imports = [],
      art_functions = bm_of_list (map (\<lambda>name. (name,
        \<lparr>ie_kind = ''function'', ie_name = name, ie_canonical = canonical_fixture name\<rparr>)) names),
      art_events = [], art_user_types = [], art_public_type_boundaries = [], art_type_references = [],
      art_export_call_evidence = bm_of_list (map (\<lambda>name. (name,
        \<lparr>ev_host_imports = (if name = ''upgrade'' then [UPDATE_CURRENT_CONTRACT_WASM_IMPORT] else []),
         ev_dynamic_dispatch_reachable = False\<rparr>)) names)\<rparr>"

definition schema_fixture :: "u32 \<Rightarrow> string \<Rightarrow> migration option \<Rightarrow> storage_schema" where
  "schema_fixture version value_type mig =
     \<lparr>ss_format_version = 1, ss_complete = True, ss_schema_version = version,
      ss_contract_version = show_u32 version @ ''.0.0'',
      ss_entries = [\<lparr>se_key = ''Config'', se_durability = Instance, se_value_type = value_type,
        se_migration = mig\<rparr>]\<rparr>"

definition asserted_context :: validation_context where
  "asserted_context = default_context\<lparr>ctx_target_protocol_version := Some 27,
     ctx_protocol_source := OfflineAssertion, ctx_network_name := Some ''testnet''\<rparr>"

definition safe_report :: "'v core_lib \<Rightarrow> validation_report" where
  "safe_report lib = validate_with_history lib
     (artifact_fixture ''1.0.0'' [''upgrade'']) (artifact_fixture ''2.0.0'' [''upgrade'', ''migrate''])
     (Some (schema_fixture 1 ''u32'' None)) (Some (schema_fixture 2 ''u32'' None)) default_policy asserted_context
     (Some \<lparr>sh_format_version = 1, sh_complete = True, sh_types = [], sh_source_sha256 = repeat_str 32 ''11''\<rparr>)"

definition struct_entry :: "string \<Rightarrow> (string \<times> json) list \<Rightarrow> interface_entry" where
  "struct_entry name members =
     \<lparr>ie_kind = ''struct'', ie_name = name, ie_canonical = object [(''udt_struct_v0'', object
       [(''name'', String name), (''lib'', String ''''),
        (''fields'', Array (map (\<lambda>(field_name, field_type).
           object [(''name'', String field_name), (''type_'', field_type)]) members))])]\<rparr>"

section \<open>Assertions\<close>

text \<open>\<open>contains\<close> of a string.\<close>

fun str_contains :: "string \<Rightarrow> string \<Rightarrow> bool" where
  "str_contains needle [] \<longleftrightarrow> needle = []"
| "str_contains needle (c # s) \<longleftrightarrow> take (length needle) (c # s) = needle \<or> str_contains needle s"

definition has_code :: "string \<Rightarrow> finding list \<Rightarrow> bool" where
  "has_code code findings = list_ex (\<lambda>f. f_code f = code) findings"

definition insert_type :: "string \<Rightarrow> interface_entry \<Rightarrow> artifact \<Rightarrow> artifact" where
  "insert_type name entry a = a\<lparr>art_user_types := bm_insert name entry (art_user_types a)\<rparr>"

definition insert_event :: "string \<Rightarrow> interface_entry \<Rightarrow> artifact \<Rightarrow> artifact" where
  "insert_event name entry a = a\<lparr>art_events := bm_insert name entry (art_events a)\<rparr>"

definition insert_import :: "string \<Rightarrow> artifact \<Rightarrow> artifact" where
  "insert_import name a = a\<lparr>art_host_imports := bs_insert name (art_host_imports a)\<rparr>"

lemma take_needle: "take (length needle) s = needle \<longleftrightarrow> (\<exists>post. s = needle @ post)"
  by (metis append_eq_conv_conj append_take_drop_id)

lemma str_contains_iff: "str_contains needle s \<longleftrightarrow> (\<exists>pre post. s = pre @ needle @ post)"
proof (induction s)
  case (Cons c s)
  have "(\<exists>pre post. c # s = pre @ needle @ post)
      \<longleftrightarrow> (\<exists>post. c # s = needle @ post) \<or> (\<exists>pre post. s = pre @ needle @ post)"
    by (metis append_Cons append_Nil list.exhaust list.sel(3))
  with Cons show ?case by (simp only: str_contains.simps take_needle)
qed auto

lemma str_containsI: "str_contains needle (pre @ needle @ post)"
  by (auto simp: str_contains_iff)

section \<open>The crates\<close>

text \<open>
  An instance of the crates on which the tests run: the versions that the tests name, in their order,
  the texts that the tests build from a private key, and printers that print what the tests look for.
\<close>

definition test_versions :: "(string \<times> nat) list" where
  "test_versions = [(''0.5.0'', 5), (''1.0.0'', 100), (''2.0.0'', 200), (''2.0.1'', 201), (''3.0.0'', 300)]"

definition test_core :: "nat core_lib" where
  "test_core = \<lparr>semver_parse = map_of test_versions, semver_less = (<), semver_show = show_nat,
     json_to_string = (\<lambda>_. Some []), hash_hex = id, policy_to_vec = (\<lambda>_. Some ''policy''),
     schema_to_vec = (\<lambda>_. Some ''schema'')\<rparr>"

end
