(* ===== verification/Examples_Judged.thy ===== *)
theory Examples_Judged
  imports Core_Fixtures Plan_Safety
begin

text \<open>
  The verdict of the validator on the releases that come with it. The manifests and histories are the
  files of \<open>examples/schemas\<close>; the compiled modules are known by what their sources say: the version in
  the metadata and the structs of the contract specification. Nothing else of the modules is assumed, so
  that the blocked releases are blocked whatever else is in them.
\<close>

section \<open>The manifests\<close>

definition plain_entry :: "string \<Rightarrow> durability \<Rightarrow> string \<Rightarrow> storage_entry" where
  "plain_entry key d value_type =
     \<lparr>se_key = key, se_durability = d, se_value_type = value_type, se_migration = None\<rparr>"

definition manifest :: "u32 \<Rightarrow> string \<Rightarrow> storage_entry list \<Rightarrow> storage_schema" where
  "manifest version contract_version entries =
     \<lparr>ss_format_version = 1, ss_complete = True, ss_schema_version = version,
      ss_contract_version = contract_version, ss_entries = entries\<rparr>"

definition counter_v1_schema :: storage_schema where
  "counter_v1_schema = manifest 1 ''1.0.0''
     [plain_entry ''Admin'' Instance ''Address'', plain_entry ''Config'' Instance ''ConfigV1'',
      plain_entry ''SchemaVersion'' Instance ''u32'']"

definition counter_v2_schema :: storage_schema where
  "counter_v2_schema = manifest 2 ''2.0.0''
     [plain_entry ''Admin'' Instance ''Address'',
      (plain_entry ''Config'' Instance ''ConfigV2'')\<lparr>se_migration := Some
        \<lparr>mig_strategy = ''lazy_with_idempotent_eager_entrypoint'', mig_entrypoint = Some ''migrate'',
         mig_notes = Some ''Retain ConfigV1 in target WASM; convert once and set schema version 2.''\<rparr>\<rparr>,
      plain_entry ''SchemaVersion'' Instance ''u32'']"

definition counter_unsafe_schema :: storage_schema where
  "counter_unsafe_schema = manifest 1 ''1.0.0''
     [plain_entry ''Admin'' Instance ''Address'', plain_entry ''Config'' Instance ''u64'']"

definition cap86_v1_schema :: storage_schema where
  "cap86_v1_schema = manifest 1 ''1.0.0'' [plain_entry ''Account'' Persistent ''Account'']"

definition cap86_v2_schema :: storage_schema where
  "cap86_v2_schema = manifest 2 ''2.0.0'' [plain_entry ''Account'' Persistent ''Account'']"

definition cap86_unsafe_schema :: storage_schema where
  "cap86_unsafe_schema = manifest 3 ''3.0.0'' [plain_entry ''Account'' Persistent ''Account'']"

section \<open>The histories\<close>

definition first_seen_in :: "string \<Rightarrow> json \<Rightarrow> historical_field" where
  "first_seen_in version value_type =
     \<lparr>hf_value_type = value_type, hf_first_seen = version, hf_retired_in = None\<rparr>"

definition option_of :: "string \<Rightarrow> json" where
  "option_of t = object [(''option'', object [(''value_type'', String t)])]"

definition counter_history :: "string \<Rightarrow> schema_history" where
  "counter_history sha256 = \<lparr>sh_format_version = 1, sh_complete = True,
     sh_types =
       [(''ConfigV1'', \<lparr>th_fields = [(''count'', first_seen_in ''1.0.0'' (String ''u32''))], th_reserved_fields = []\<rparr>),
        (''ConfigV2'', \<lparr>th_fields = [(''count'', first_seen_in ''2.0.0'' (String ''u32'')),
            (''paused'', first_seen_in ''2.0.0'' (String ''bool''))], th_reserved_fields = []\<rparr>)],
     sh_source_sha256 = sha256\<rparr>"

definition cap86_history :: "string \<Rightarrow> schema_history" where
  "cap86_history sha256 = \<lparr>sh_format_version = 1, sh_complete = True,
     sh_types =
       [(''Account'', \<lparr>th_fields = [(''balance'', first_seen_in ''1.0.0'' (String ''i128'')),
           (''owner'', first_seen_in ''1.0.0'' (String ''address'')),
           (''status'', first_seen_in ''2.0.0'' (option_of ''u32''))], th_reserved_fields = []\<rparr>)],
     sh_source_sha256 = sha256\<rparr>"

section \<open>The releases\<close>

text \<open>The structs that the sources declare public, as a specification lists them.\<close>

type_synonym structs = "(string, (string, json) bmap) bmap"

definition counter_v1_structs :: structs where
  "counter_v1_structs = [(''ConfigV1'', [(''count'', String ''u32'')])]"

definition counter_v2_structs :: structs where
  "counter_v2_structs = [(''ConfigV1'', [(''count'', String ''u32'')]),
     (''ConfigV2'', [(''count'', String ''u32''), (''paused'', String ''bool'')])]"

definition account_v1_structs :: structs where
  "account_v1_structs = [(''Account'', [(''balance'', String ''i128''), (''owner'', String ''address'')])]"

definition account_v2_structs :: structs where
  "account_v2_structs = [(''Account'', [(''balance'', String ''i128''), (''owner'', String ''address''),
     (''status'', option_of ''u32'')])]"

definition account_unsafe_structs :: structs where
  "account_unsafe_structs = [(''Account'', [(''amount'', String ''u64''), (''owner'', String ''address''),
     (''status'', String ''u32'')])]"

text \<open>The artifact of a module with a version and structs; an entry with struct fields is a struct.\<close>

definition release_of :: "string \<Rightarrow> structs \<Rightarrow> artifact \<Rightarrow> bool" where
  "release_of version structs a \<longleftrightarrow>
     art_version a = Some version \<and> artifact_struct_fields a = structs \<and> bm_ok (art_user_types a)
     \<and> list_all (\<lambda>(name, entry). struct_fields entry = None \<or> ie_kind entry = ''struct'') (art_user_types a)"

lemma release_struct:
  assumes "release_of version structs a" and "bm_get structs name = Some members"
  shows "\<exists>entry. bm_get (art_user_types a) name = Some entry \<and> ie_kind entry = ''struct''
    \<and> struct_fields entry = Some members"
proof -
  have "bm_get (artifact_struct_fields a) name = Some members" and ok: "bm_ok (art_user_types a)"
    using assms by (simp_all add: release_of_def)
  then obtain entry where entry: "(name, entry) \<in> set (art_user_types a)" "struct_fields entry = Some members"
    by (auto simp: artifact_struct_fields_def bm_get_of_list dest!: map_of_SomeD split: option.splits)
  moreover from entry assms(1) have "ie_kind entry = ''struct''"
    by (auto simp: release_of_def list_all_iff)
  ultimately show ?thesis using bm_get_iff [OF ok] by blast
qed

section \<open>Findings of a report\<close>

lemma report_findings_set:
  "set (rep_findings (validate_with_history lib source t ss ts p ctx h)) = set (run_checks lib source t ss ts p ctx h [])"
  by (simp add: validate_with_history_def Let_def)

lemma set_push_if: "set fs \<subseteq> set (push_if c f fs)"
  by (auto simp: push_if_def)

lemma interface_finding_reported:
  assumes "f \<in> set (compare_interfaces source t p ctx [])"
  shows "f \<in> set (rep_findings (validate_with_history lib source t ss ts p ctx h))"
  unfolding report_findings_set run_checks_def
  by (rule subsetD [OF set_push_if], rule stc.never_removes, rule hic.never_removes, subst ifc.keeps) (simp add: assms)

lemma history_finding_reported:
  assumes "f \<in> set (validate_schema_history lib source t record [])"
  shows "f \<in> set (rep_findings (validate_with_history lib source t ss ts p ctx (Some record)))"
  unfolding report_findings_set run_checks_def
  by (rule subsetD [OF set_push_if], rule stc.never_removes, subst hic.keeps) (simp add: check_history_def assms)

lemma has_codeI: "f \<in> set fs \<Longrightarrow> f_code f = code \<Longrightarrow> has_code code fs"
  by (auto simp: has_code_def list_ex_iff)

lemma has_code_mono: "has_code code fs \<Longrightarrow> (\<And>f. f \<in> set fs \<Longrightarrow> f \<in> set gs) \<Longrightarrow> has_code code gs"
  by (auto simp: has_code_def list_ex_iff)

section \<open>The blocked releases\<close>

lemma not_safe: "\<not> approvable lib source t ss ts p ctx h \<Longrightarrow> \<not> rep_safe (validate_with_history lib source t ss ts p ctx h)"
  using safe_approvable by blast

lemma in_fold: "(\<And>x. appends (step x)) \<Longrightarrow> x \<in> set xs \<Longrightarrow> f \<in> set (step x []) \<Longrightarrow> f \<in> set (fold step xs fs)"
proof (induction xs arbitrary: fs)
  case (Cons y xs)
  have "fold step xs gs = gs @ fold step xs []" for gs
    using appendsD [OF appends_fold, of step xs gs] Cons.prems(1) by blast
  moreover have "step x fs = fs @ step x []" by (rule appendsD [OF Cons.prems(1)])
  ultimately show ?case
    using Cons by (metis Un_iff fold_simps(2) set_ConsD set_append)
qed simp

lemma changed_type_reported:
  assumes "bm_get (art_user_types source) name = Some old" and "bm_get (art_user_types t) name = Some new"
    and "ie_canonical old \<noteq> ie_canonical new" and "pol_deny_changed_user_types p"
  shows "changed_type_finding t ctx name old new \<in> set (rep_findings (validate_with_history lib source t ss ts p ctx h))"
proof (rule interface_finding_reported)
  have "changed_type_finding t ctx name old new \<in> set (compare_user_type t p ctx (name, old) [])"
    using assms(2-4) by (simp add: compare_user_type_def push_if_def)
  then show "changed_type_finding t ctx name old new \<in> set (compare_interfaces source t p ctx [])"
    unfolding compare_interfaces_def by (rule in_fold [OF appends_compare(3) bm_get_in [OF assms(1)]])
qed

lemma changed_type_blocks:
  assumes "bm_get (art_user_types source) name = Some old" and "bm_get (art_user_types t) name = Some new"
    and "ie_canonical old \<noteq> ie_canonical new" and "pol_deny_changed_user_types p"
  shows "\<not> approvable lib source t ss ts p ctx h"
proof -
  have "changes (art_user_types source) (art_user_types t)"
    using not_changes [OF _ assms(1,2)] assms(3) by blast
  then show ?thesis using assms(4) by (simp add: approvable_def interface_breaks_def)
qed

lemma counter_unsafe_storage:
  "list_all (\<lambda>code. has_code code (compare_storage_schemas counter_v1_schema counter_unsafe_schema []))
     [''STO001'', ''STO003'', ''STO005'']"
  "has_error (compare_storage_schemas counter_v1_schema counter_unsafe_schema [])"
  by code_simp+

lemma account_listed:
  "bm_get account_v1_structs ''Account'' \<noteq> None" "bm_get account_v2_structs ''Account'' \<noteq> None"
  "bm_get account_unsafe_structs ''Account'' \<noteq> None"
  by code_simp+

lemma account_entry:
  assumes "release_of version structs a" and "bm_get structs ''Account'' \<noteq> None"
  shows "\<exists>entry. bm_get (art_user_types a) ''Account'' = Some entry \<and> ie_kind entry = ''struct''
    \<and> struct_fields entry = bm_get structs ''Account''"
  using release_struct [OF assms(1)] assms(2) by force

lemma account_v1_to_v2:
  assumes "struct_fields old = bm_get account_v1_structs ''Account''" and "struct_fields new = bm_get account_v2_structs ''Account''"
    and "ie_kind old = ''struct''" and "ie_kind new = ''struct''"
  shows "optional_struct_fields_added old new = Some [''status'']" and "ie_canonical old \<noteq> ie_canonical new"
proof -
  show "optional_struct_fields_added old new = Some [''status'']"
    unfolding optional_struct_fields_added_def assms by code_simp
  have "bm_get account_v1_structs ''Account'' \<noteq> bm_get account_v2_structs ''Account''" by code_simp
  then show "ie_canonical old \<noteq> ie_canonical new"
    using assms(1,2) by (auto simp: struct_fields_def)
qed

lemma account_v2_to_unsafe:
  assumes "struct_fields old = bm_get account_v2_structs ''Account''" and "struct_fields new = bm_get account_unsafe_structs ''Account''"
    and "ie_kind old = ''struct''" and "ie_kind new = ''struct''"
  shows "optional_struct_fields_added old new = None" and "ie_canonical old \<noteq> ie_canonical new"
proof -
  show "optional_struct_fields_added old new = None"
    unfolding optional_struct_fields_added_def assms by code_simp
  have "bm_get account_v2_structs ''Account'' \<noteq> bm_get account_unsafe_structs ''Account''" by code_simp
  then show "ie_canonical old \<noteq> ie_canonical new"
    using assms(1,2) by (auto simp: struct_fields_def)
qed

lemma unsafe_account_not_in_history:
  assumes "release_of version account_unsafe_structs t"
  shows "\<not> history_ok lib source t (cap86_history sha256)"
proof
  assume ok: "history_ok lib source t (cap86_history sha256)"
  have "struct_field t ''Account'' ''amount'' (String ''u64'')"
    using assms by (simp add: release_of_def struct_field_def account_unsafe_structs_def bm_get_def)
  with ok have "target_field_ok source t (cap86_history sha256) ''Account'' ''amount'' (String ''u64'')"
    unfolding history_ok_def by blast
  then have "recorded_field (cap86_history sha256) ''Account'' ''amount'' \<noteq> None"
    by (auto simp: target_field_ok_def)
  then show False by (simp add: recorded_field_def cap86_history_def bm_get_def)
qed

lemma counter_unsafe_blocked:
  "\<not> rep_safe (validate_with_history lib s t (Some counter_v1_schema) (Some counter_unsafe_schema) p ctx h)"
  "list_all (\<lambda>code. has_code code (rep_findings
     (validate_with_history lib s t (Some counter_v1_schema) (Some counter_unsafe_schema) p ctx h)))
     [''STO001'', ''STO003'', ''STO005'']"
proof -
  have "\<not> storage_compatible counter_v1_schema counter_unsafe_schema"
    using counter_unsafe_storage(2) sto.error_iff by blast
  then show "\<not> rep_safe (validate_with_history lib s t (Some counter_v1_schema) (Some counter_unsafe_schema) p ctx h)"
    by (intro not_safe) (simp add: approvable_def storage_ok_def)
  show "list_all (\<lambda>code. has_code code (rep_findings
     (validate_with_history lib s t (Some counter_v1_schema) (Some counter_unsafe_schema) p ctx h)))
     [''STO001'', ''STO003'', ''STO005'']"
    using counter_unsafe_storage(1) by (auto intro: has_code_mono finding_reported [OF storage_finding])
qed

lemma account_v2_blocked:
  assumes "release_of version1 account_v1_structs s" and "release_of version2 account_v2_structs t"
    and "pol_deny_changed_user_types p"
  shows "\<not> rep_safe (validate_with_history lib s t ss ts p ctx h)"
    and "has_code (if 28 \<le> unwrap_or_zero (ctx_target_protocol_version ctx) \<and> uses_cap_0086_sparse_read t
      then ''CAP005'' else ''CAP006'') (rep_findings (validate_with_history lib s t ss ts p ctx h))"
proof -
  obtain old where old: "bm_get (art_user_types s) ''Account'' = Some old" "ie_kind old = ''struct''"
      "struct_fields old = bm_get account_v1_structs ''Account''"
    using account_entry [OF assms(1)] account_listed(1) by blast
  obtain new where new: "bm_get (art_user_types t) ''Account'' = Some new" "ie_kind new = ''struct''"
      "struct_fields new = bm_get account_v2_structs ''Account''"
    using account_entry [OF assms(2)] account_listed(2) by blast
  note diff = account_v1_to_v2 [OF old(3) new(3) old(2) new(2)]
  show "\<not> rep_safe (validate_with_history lib s t ss ts p ctx h)"
    by (rule not_safe [OF changed_type_blocks [OF old(1) new(1) diff(2) assms(3)]])
  show "has_code (if 28 \<le> unwrap_or_zero (ctx_target_protocol_version ctx) \<and> uses_cap_0086_sparse_read t
      then ''CAP005'' else ''CAP006'') (rep_findings (validate_with_history lib s t ss ts p ctx h))"
    by (rule has_codeI [OF changed_type_reported [OF old(1) new(1) diff(2) assms(3)]])
      (simp add: changed_type_finding_def diff(1) finding_simps CAP_0086_PROTOCOL_def)
qed

lemma account_unsafe_blocked:
  assumes "release_of version2 account_v2_structs s" and "release_of version3 account_unsafe_structs t"
  shows "\<not> rep_safe (validate_with_history lib s t ss ts p ctx (Some (cap86_history sha256)))"
    and "pol_deny_changed_user_types p \<Longrightarrow>
      has_code ''ABI004'' (rep_findings (validate_with_history lib s t ss ts p ctx h))"
proof -
  show "\<not> rep_safe (validate_with_history lib s t ss ts p ctx (Some (cap86_history sha256)))"
    by (rule not_safe) (simp add: approvable_def history_accepted_def unsafe_account_not_in_history [OF assms(2)])
  obtain old where old: "bm_get (art_user_types s) ''Account'' = Some old" "ie_kind old = ''struct''"
      "struct_fields old = bm_get account_v2_structs ''Account''"
    using account_entry [OF assms(1)] account_listed(2) by blast
  obtain new where new: "bm_get (art_user_types t) ''Account'' = Some new" "ie_kind new = ''struct''"
      "struct_fields new = bm_get account_unsafe_structs ''Account''"
    using account_entry [OF assms(2)] account_listed(3) by blast
  note diff = account_v2_to_unsafe [OF old(3) new(3) old(2) new(2)]
  show "has_code ''ABI004'' (rep_findings (validate_with_history lib s t ss ts p ctx h))" if "pol_deny_changed_user_types p"
    by (rule has_codeI [OF changed_type_reported [OF old(1) new(1) diff(2) that]])
      (simp add: changed_type_finding_def diff(1) finding_simps)
qed

text \<open>
  C12: The validator blocks the three broken upgrades of the repository on the evidence that comes with them.
  The unsafe counter is blocked by its manifest alone, for every pair of modules and every policy, with the
  findings for a removed key, a retyped key without migration and a version that does not grow. The optional
  field of the second account is blocked under every policy that denies changed types, on every protocol,
  with the finding that says whether sparse decoding was missing or only unproven for the type. The unsafe
  account is blocked by the history under every policy, sparse decoding or not.
\<close>

theorem broken_examples_are_blocked:
  assumes "release_of ''1.0.0'' account_v1_structs account1" and "release_of ''2.0.0'' account_v2_structs account2"
    and "release_of ''3.0.0'' account_unsafe_structs account3" and "pol_deny_changed_user_types p"
  shows "(let report = validate_with_history lib counter1 counter3 (Some counter_v1_schema) (Some counter_unsafe_schema) q ctx h
      in \<not> rep_safe report \<and> list_all (\<lambda>code. has_code code (rep_findings report)) [''STO001'', ''STO003'', ''STO005''])
    \<and> (let report = validate_with_history lib account1 account2 (Some cap86_v1_schema) (Some cap86_v2_schema) p ctx
          (Some (cap86_history sha256))
      in \<not> rep_safe report
        \<and> has_code (if 28 \<le> unwrap_or_zero (ctx_target_protocol_version ctx) \<and> uses_cap_0086_sparse_read account2
            then ''CAP005'' else ''CAP006'') (rep_findings report))
    \<and> (let report = validate_with_history lib account2 account3 (Some cap86_v2_schema) (Some cap86_unsafe_schema) p ctx
          (Some (cap86_history sha256))
      in \<not> rep_safe report \<and> has_code ''ABI004'' (rep_findings report)
        \<and> \<not> rep_safe (validate_with_history lib account2 account3 (Some cap86_v2_schema) (Some cap86_unsafe_schema) q ctx
            (Some (cap86_history sha256))))"
  unfolding Let_def
  by (intro conjI counter_unsafe_blocked account_v2_blocked [OF assms(1,2,4)] account_unsafe_blocked [OF assms(2,3)]
      account_unsafe_blocked(2) [OF assms(2,3,4)])

text \<open>Artifacts with these structs.\<close>

definition sample_release :: "string \<Rightarrow> string list \<Rightarrow> structs \<Rightarrow> artifact" where
  "sample_release version names structs = fold (\<lambda>(name, members). insert_type name (struct_entry name members)) structs
     (artifact_fixture version names)"

lemma sample_accounts:
  "release_of ''1.0.0'' account_v1_structs (sample_release ''1.0.0'' [''upgrade''] account_v1_structs)"
  "release_of ''2.0.0'' account_v2_structs (sample_release ''2.0.0'' [''upgrade''] account_v2_structs)"
  "release_of ''3.0.0'' account_unsafe_structs (sample_release ''3.0.0'' [''upgrade''] account_unsafe_structs)"
  "pol_deny_changed_user_types default_policy"
  by code_simp+

theorem broken_examples_are_blocked_witness:
  "\<not> rep_safe (validate_with_history test_core (sample_release ''2.0.0'' [''upgrade''] account_v2_structs)
     (sample_release ''3.0.0'' [''upgrade''] account_unsafe_structs) (Some cap86_v2_schema) (Some cap86_unsafe_schema) default_policy
     asserted_context (Some (cap86_history [])))"
  using broken_examples_are_blocked [OF sample_accounts] unfolding Let_def by blast

section \<open>The accepted release\<close>

text \<open>
  What remains to be checked of the second counter once its manifests and its history are given: the network
  evidence, the code that performs an upgrade, the kept interface, and the exported migration.
\<close>

definition counter_evidence :: "artifact \<Rightarrow> artifact \<Rightarrow> validation_context \<Rightarrow> bool" where
  "counter_evidence source t ctx \<longleftrightarrow>
     \<not> protocol_context_blocks ctx \<and> \<not> environment_blocks t ctx \<and> \<not> cap_0086_blocks t ctx
     \<and> can_upgrade source \<and> can_upgrade t \<and> \<not> interface_breaks source t default_policy
     \<and> has_function t ''migrate'' \<and> \<not> snd (trace_public_impacts source t)"

lemma counter_history_accepted:
  assumes "release_of ''1.0.0'' counter_v1_structs source" and "release_of ''2.0.0'' counter_v2_structs t"
    and "semver_parse lib ''1.0.0'' \<noteq> None" and "semver_parse lib ''2.0.0'' \<noteq> None"
  shows "history_ok lib source t (counter_history sha256)"
proof -
  have source: "struct_field source ty fd v \<longleftrightarrow> ty = ''ConfigV1'' \<and> fd = ''count'' \<and> v = String ''u32''" for ty fd v
    using assms(1) by (auto simp: release_of_def struct_field_def counter_v1_structs_def bm_get_def)
  have target: "struct_field t ty fd v \<longleftrightarrow> (ty = ''ConfigV1'' \<or> ty = ''ConfigV2'') \<and> fd = ''count'' \<and> v = String ''u32''
      \<or> ty = ''ConfigV2'' \<and> fd = ''paused'' \<and> v = String ''bool''" for ty fd v
    using assms(2) by (auto simp: release_of_def struct_field_def counter_v2_structs_def bm_get_def)
  have types: "is_struct t ty \<longleftrightarrow> ty = ''ConfigV1'' \<or> ty = ''ConfigV2''" for ty
    using assms(2) by (auto simp: release_of_def is_struct_def counter_v2_structs_def bm_get_def)
  have version: "version_or_unknown t = ''2.0.0''" using assms(2) by (simp add: release_of_def version_or_unknown_def)
  show ?thesis
    unfolding history_ok_def source target types
    using assms(3,4)
    by (auto simp: counter_history_def type_history_ok_def record_ok_def first_seen_in_def recorded_field_def
        target_field_ok_def reserved_field_def bm_get_def version source)
qed

lemma counter_storage_compatible: "storage_compatible counter_v1_schema counter_v2_schema"
proof -
  have "\<not> has_error (compare_storage_schemas counter_v1_schema counter_v2_schema [])" by code_simp
  then show ?thesis using sto.error_iff by blast
qed

lemma counter_keys_counted:
  "\<forall>(key, count)\<in>set (key_counts (ss_entries counter_v1_schema)). count \<le> 1"
  "\<forall>(key, count)\<in>set (key_counts (ss_entries counter_v2_schema)). count \<le> 1"
  by code_simp+

lemma counter_strategy: "migration_ok t \<lparr>mig_strategy = ''lazy_with_idempotent_eager_entrypoint'',
    mig_entrypoint = Some ''migrate'', mig_notes = notes\<rparr> \<longleftrightarrow> has_function t ''migrate''"
proof -
  have "\<not> (is_blank ''lazy_with_idempotent_eager_entrypoint'' \<or> 128 < length ''lazy_with_idempotent_eager_entrypoint''
      \<or> has_control ''lazy_with_idempotent_eager_entrypoint'')" by code_simp
  then show ?thesis by (simp add: migration_ok_def)
qed

lemma counter_manifests:
  assumes "art_version source = Some ''1.0.0''" and "art_version t = Some ''2.0.0''"
    and "semver_parse lib ''1.0.0'' \<noteq> None" and "semver_parse lib ''2.0.0'' \<noteq> None"
  shows "storage_ok lib source t p (Some counter_v1_schema) (Some counter_v2_schema) \<longleftrightarrow> has_function t ''migrate''"
proof -
  have "manifest_ok lib source counter_v1_schema" and "manifest_ok lib t counter_v2_schema"
    using assms counter_keys_counted
    by (simp_all add: manifest_ok_def counter_v1_schema_def counter_v2_schema_def manifest_def)
  then show ?thesis
    using counter_storage_compatible
    by (simp add: storage_ok_def manifests_ok_def)
      (simp add: counter_v2_schema_def manifest_def plain_entry_def counter_strategy)
qed

lemma counter_migration_finding:
  "list_ex (\<lambda>f. f_code f = ''STO002'') (compare_storage_schemas counter_v1_schema counter_v2_schema [])"
  by code_simp

lemma counter_entrypoints:
  "declared_entrypoints (validate_with_history lib source t ss (Some counter_v2_schema) p ctx h) = [''migrate'']"
  by (simp add: declared_entrypoints_def counter_v2_schema_def manifest_def plain_entry_def option_bind_def bs_of_list_def)

lemma counter_plan_migrates:
  assumes "create_plan_with_paths plib (validate_with_history lib source t (Some counter_v1_schema) (Some counter_v2_schema) p ctx h)
      network contract_id source_identity paths ops = Inr plan"
  shows "map_option mc_entrypoint (up_migration plan) = Some ''migrate''"
proof -
  let ?report = "validate_with_history lib source t (Some counter_v1_schema) (Some counter_v2_schema) p ctx h"
  obtain sha where plan: "plan = (assemble_plan ?report network contract_id source_identity paths ops)\<lparr>up_plan_sha256 := sha\<rparr>"
    and adm: "plan_admissible plib ?report network contract_id source_identity paths ops"
    by (rule created_parts [OF assms])
  have "storage_migration_required ?report"
    using counter_migration_finding finding_reported [OF storage_finding]
    unfolding storage_migration_required_def list_ex_iff by blast
  moreover have "migration_selected ?report (po_migration ops)" using adm unfolding plan_admissible_def by blast
  ultimately obtain call where "po_migration ops = Some call" and "[mc_entrypoint call] = [''migrate'']"
    unfolding migration_selected_def counter_entrypoints by metis
  then show ?thesis by (simp add: plan assemble_fields)
qed

lemma counter_verdict:
  assumes "release_of ''1.0.0'' counter_v1_structs source" and "release_of ''2.0.0'' counter_v2_structs t"
    and "semver_parse lib ''1.0.0'' = Some v1" and "semver_parse lib ''2.0.0'' = Some v2" and "semver_less lib v1 v2"
  shows "rep_safe (validate_with_history lib source t (Some counter_v1_schema) (Some counter_v2_schema) default_policy ctx
      (Some (counter_history sha256))) \<longleftrightarrow> counter_evidence source t ctx"
proof -
  have versions: "art_version source = Some ''1.0.0''" "art_version t = Some ''2.0.0''"
    using assms(1,2) by (simp_all add: release_of_def)
  have history: "history_ok lib source t (counter_history sha256)"
    using assms(3,4) by (intro counter_history_accepted [OF assms(1,2)]) simp_all
  have storage: "storage_ok lib source t default_policy (Some counter_v1_schema) (Some counter_v2_schema) \<longleftrightarrow> has_function t ''migrate''"
    using assms(3,4) by (intro counter_manifests [OF versions]) simp_all
  have increases: "version_increases lib source t" using versions assms(3-5) by (simp add: version_increases_def)
  have policy: "pol_format_version default_policy = 1" "pol_require_upgrade_function default_policy"
    "\<not> pol_forbid_constructor default_policy" by (simp_all add: default_policy_def)
  have "approvable lib source t (Some counter_v1_schema) (Some counter_v2_schema) default_policy ctx
      (Some (counter_history sha256)) \<longleftrightarrow> counter_evidence source t ctx"
    unfolding approvable_def counter_evidence_def history_accepted_def option.case
    using history storage increases policy by blast
  then show ?thesis
    by (simp add: rep_safe_findings run.error_iff)
qed

text \<open>
  C13: The validator accepts the reference upgrade of the repository: for modules with the versions and structs
  of the first and second counter, the manifests, the history and the default policy that come with them, a
  report is safe exactly when the remaining evidence is there: a consistent protocol, the code that performs
  an upgrade in both modules, a kept interface and the exported migration. Every plan created from such a
  report runs \<open>migrate\<close>.
\<close>

theorem counter_release_is_accepted:
  assumes "release_of ''1.0.0'' counter_v1_structs source" and "release_of ''2.0.0'' counter_v2_structs t"
    and "semver_parse lib ''1.0.0'' = Some v1" and "semver_parse lib ''2.0.0'' = Some v2" and "semver_less lib v1 v2"
  shows "(rep_safe (validate_with_history lib source t (Some counter_v1_schema) (Some counter_v2_schema) default_policy ctx
        (Some (counter_history sha256))) \<longleftrightarrow> counter_evidence source t ctx)
    \<and> (create_plan_with_paths plib (validate_with_history lib source t (Some counter_v1_schema) (Some counter_v2_schema)
          default_policy ctx (Some (counter_history sha256))) network contract_id source_identity paths ops = Inr plan
        \<longrightarrow> map_option mc_entrypoint (up_migration plan) = Some ''migrate'')"
  using counter_verdict [OF assms] counter_plan_migrates by blast

abbreviation sample_counter_v1 :: artifact where
  "sample_counter_v1 \<equiv> sample_release ''1.0.0'' [''upgrade''] counter_v1_structs"

abbreviation sample_counter_v2 :: artifact where
  "sample_counter_v2 \<equiv> sample_release ''2.0.0'' [''upgrade'', ''migrate''] counter_v2_structs"

lemma sample_counters:
  "release_of ''1.0.0'' counter_v1_structs sample_counter_v1"
  "release_of ''2.0.0'' counter_v2_structs sample_counter_v2"
  "semver_parse test_core ''1.0.0'' = Some 100" "semver_parse test_core ''2.0.0'' = Some 200"
  "semver_less test_core 100 200"
  by code_simp+

lemma sample_counters_safe:
  "rep_safe (validate_with_history test_core sample_counter_v1 sample_counter_v2 (Some counter_v1_schema)
     (Some counter_v2_schema) default_policy asserted_context (Some (counter_history [])))"
  by code_simp

theorem counter_release_is_accepted_witness:
  "counter_evidence sample_counter_v1 sample_counter_v2 asserted_context"
  using counter_release_is_accepted [OF sample_counters] sample_counters_safe by blast

end
