(* ===== verification/Cli_Examples.thy ===== *)
theory Cli_Examples
  imports Cli_Safety Examples_Judged
begin

text \<open>
  The command line interface on the releases that come with it. The verdicts of \<open>Examples_Judged\<close> are carried
  to the exit codes of \<open>validate\<close> and \<open>plan\<close>, for every environment in which the inputs load.
\<close>

section \<open>Exit codes of loaded inputs\<close>

abbreviation loaded_report ::
  "'v cli_env \<Rightarrow> validation_context \<Rightarrow> artifact \<Rightarrow> artifact \<Rightarrow> storage_schema \<Rightarrow> storage_schema \<Rightarrow> policy
     \<Rightarrow> schema_history \<Rightarrow> validation_report" where
  "loaded_report env ctx source target old new p h \<equiv>
     validate_with_history (pl_core (env_plan_lib env)) source target (Some old) (Some new) p ctx (Some h)"

lemma loads_report:
  assumes "validate_loads env files a ctx source target old new p h"
  shows "load_report env files (va_from a) (va_to a) (Some (va_from_schema a)) (Some (va_to_schema a)) (va_policy a)
    ctx' (Some (va_schema_history a)) = Inr (loaded_report env ctx' source target old new p h)"
  using assms unfolding load_report_iff validate_loads_def by blast

lemma validate_exit_loaded:
  assumes "validate_loads env (st_files s) a ctx source target old new p h"
    and "printable env a (loaded_report env ctx source target old new p h)"
  shows "fst (main env (Validate a) s) = (if rep_safe (loaded_report env ctx source target old new p h) then 0 else 2)"
proof -
  let ?report = "loaded_report env ctx source target old new p h"
  obtain ls where "report_lines env a ?report = Inr ls"
    using assms(2) report_lines_iff by blast
  moreover have "resolve_validation_context env (va_network a) (va_protocol_version a) = Inr ctx"
    using assms(1) by (simp add: validate_loads_def)
  ultimately have "run env (Validate a) s = (Inr (if rep_safe ?report then 0 else 2), s\<lparr>st_stdout := st_stdout s @ ls\<rparr>)"
    unfolding run_validate_iff using loads_report [OF assms(1)] by blast
  then show ?thesis by (simp add: main_exit_code del: run.simps)
qed

text \<open>A plan of the same inputs.\<close>

definition same_inputs :: "validate_args \<Rightarrow> plan_args \<Rightarrow> bool" where
  "same_inputs a b \<longleftrightarrow> pa_from b = va_from a \<and> pa_to b = va_to a \<and> pa_from_schema b = va_from_schema a
     \<and> pa_to_schema b = va_to_schema a \<and> pa_policy b = va_policy a \<and> pa_schema_history b = va_schema_history a"

lemma plan_refuses_loaded:
  assumes "validate_loads env (st_files s) a ctx source target old new p h" and "same_inputs a b"
    and "\<And>ctx'. \<not> rep_safe (loaded_report env ctx' source target old new p h)"
  shows "st_files (snd (main env (Plan b) s)) = st_files s
    \<and> fst (main env (Plan b) s)
        = (case resolve_validation_context env (Some (pa_network b)) (pa_protocol_version b) of Inl e \<Rightarrow> 1 | Inr ctx' \<Rightarrow> 2)"
proof (cases "resolve_validation_context env (Some (pa_network b)) (pa_protocol_version b)")
  case (Inl e)
  then show ?thesis by (simp add: main_def run_plan_def io_then_def)
next
  case (Inr ctx')
  have "load_report env (st_files s) (pa_from b) (pa_to b) (Some (pa_from_schema b)) (Some (pa_to_schema b)) (pa_policy b)
      ctx' (Some (pa_schema_history b)) = Inr (loaded_report env ctx' source target old new p h)"
    using loads_report [OF assms(1)] assms(2) by (simp add: same_inputs_def)
  then show ?thesis using Inr assms(3) by (simp add: main_def run_plan_def io_then_def)
qed

section \<open>The broken and the reference upgrades\<close>

text \<open>The inputs of the three broken upgrades, as far as the verdict depends on them.\<close>

definition broken_inputs ::
  "artifact \<Rightarrow> artifact \<Rightarrow> storage_schema \<Rightarrow> storage_schema \<Rightarrow> policy \<Rightarrow> schema_history \<Rightarrow> bool" where
  "broken_inputs source target old new p h \<longleftrightarrow>
     old = counter_v1_schema \<and> new = counter_unsafe_schema
     \<or> release_of ''1.0.0'' account_v1_structs source \<and> release_of ''2.0.0'' account_v2_structs target
        \<and> pol_deny_changed_user_types p
     \<or> release_of ''2.0.0'' account_v2_structs source \<and> release_of ''3.0.0'' account_unsafe_structs target
        \<and> (\<exists>sha256. h = cap86_history sha256)"

lemma broken_inputs_blocked:
  assumes "broken_inputs source target old new p h"
  shows "\<not> rep_safe (validate_with_history lib source target (Some old) (Some new) p ctx (Some h))"
  using assms unfolding broken_inputs_def
  by (elim disjE conjE exE) (simp_all only: counter_unsafe_blocked(1) account_v2_blocked(1) account_unsafe_blocked(1) simp_thms)

text \<open>
  C14: The broken upgrades of the repository fail on the command line: whenever the inputs of one of them
  load, \<open>validate\<close> exits with two (its report printed), and every \<open>plan\<close> of the same inputs,
  whatever network, contract, signer or output it names, exits with two, or with one when the network
  evidence cannot be resolved; neither changes a file.
\<close>

theorem broken_examples_exit_with_two:
  assumes "validate_loads env (st_files s) a ctx source target old new p h"
    and "broken_inputs source target old new p h"
    and "printable env a (validate_with_history (pl_core (env_plan_lib env)) source target (Some old) (Some new) p ctx (Some h))"
    and "same_inputs a b"
  shows "fst (main env (Validate a) s) = 2 \<and> st_files (snd (main env (Validate a) s)) = st_files s
    \<and> st_files (snd (main env (Plan b) s)) = st_files s
    \<and> fst (main env (Plan b) s)
        = (case resolve_validation_context env (Some (pa_network b)) (pa_protocol_version b) of Inl e \<Rightarrow> 1 | Inr ctx' \<Rightarrow> 2)"
proof -
  note blocked = broken_inputs_blocked [OF assms(2), where lib = "pl_core (env_plan_lib env)"]
  have "st_files (snd (main env (Validate a) s)) = st_files s"
    using keeps_run_validate [of env a] by (simp add: main_files keeps_files_def)
  moreover have "fst (main env (Validate a) s) = 2"
    using validate_exit_loaded [OF assms(1,3)] blocked by simp
  ultimately show ?thesis using plan_refuses_loaded [OF assms(1,4) blocked] by simp
qed

text \<open>The reference upgrade exits with zero exactly when the evidence that its manifests leave open is there.\<close>

lemma counter_release_exit_code:
  assumes "validate_loads env (st_files s) a ctx source target counter_v1_schema counter_v2_schema default_policy
      (counter_history sha256)"
    and "release_of ''1.0.0'' counter_v1_structs source" and "release_of ''2.0.0'' counter_v2_structs target"
    and "semver_parse (pl_core (env_plan_lib env)) ''1.0.0'' = Some v1"
    and "semver_parse (pl_core (env_plan_lib env)) ''2.0.0'' = Some v2"
    and "semver_less (pl_core (env_plan_lib env)) v1 v2"
    and "printable env a (loaded_report env ctx source target counter_v1_schema counter_v2_schema default_policy
      (counter_history sha256))"
  shows "fst (main env (Validate a) s) = (if counter_evidence source target ctx then 0 else 2)"
  unfolding validate_exit_loaded [OF assms(1,7)] counter_verdict [OF assms(2-6)] ..

section \<open>A sample run\<close>

text \<open>The sample world with the manifests of the first and the unsafe counter behind its two schema files.\<close>

definition unsafe_world :: "nat cli_env" where
  "unsafe_world = world\<lparr>schema_decoder :=
     constant_decoder (\<lambda>bs. Inr (if bs = ''1'' then counter_v1_schema else counter_unsafe_schema))\<rparr>"

definition unsafe_args :: validate_args where
  "unsafe_args = \<lparr>va_from = ''1.0.0'', va_to = ''2.0.0'', va_from_schema = ''old'', va_to_schema = ''new'',
     va_json = True, va_compact = False, va_policy = None, va_network = None, va_protocol_version = Some 28,
     va_schema_history = ''history''\<rparr>"

lemma unsafe_world_loads:
  "validate_loads unsafe_world (st_files world_state) unsafe_args
     (default_context\<lparr>ctx_target_protocol_version := Some 28, ctx_protocol_source := OfflineAssertion,
        ctx_network_name := None\<rparr>)
     (world_release ''1.0.0'') (world_release ''2.0.0'') counter_v1_schema counter_unsafe_schema default_policy
     (sample_history\<lparr>sh_source_sha256 := ''h''\<rparr>)"
proof -
  have same: "open_fault unsafe_world = open_fault world" "file_of unsafe_world = file_of world"
    "not_found unsafe_world = not_found world" "read_fault unsafe_world = read_fault world"
    "env_plan_lib unsafe_world = env_plan_lib world" "history_decoder unsafe_world = history_decoder world"
    "env_wasm_lib unsafe_world = env_wasm_lib world" "env_spec_lib unsafe_world = env_spec_lib world"
    by (simp_all add: unsafe_world_def)
  have unchanged: "read_bounded unsafe_world files path limit kind = read_bounded world files path limit kind"
    "artifact_from_wasm unsafe_world bs = artifact_from_wasm world bs"
    for files path limit kind bs
    unfolding read_bounded_def read_prefix_def artifact_from_wasm_def same by (rule refl)+
  have schemas: "storage_schema_from_json (schema_decoder unsafe_world) ''1'' = Inr counter_v1_schema"
    "storage_schema_from_json (schema_decoder unsafe_world) ''2'' = Inr counter_unsafe_schema"
    by (simp_all add: unsafe_world_def storage_schema_from_json_def parse_json_strict_def constant_decoder_def decoded_def)
  show ?thesis
    unfolding validate_loads_def
    using world_loads(1,2,5,6)
    by (simp add: unsafe_args_def resolve_validation_context_def load_artifact_def load_schema_def load_policy_def
        load_schema_history_def load_json_def load_optional_def unchanged same schemas world_read [OF world_files(3)]
        world_read [OF world_files(4)] MAX_JSON_INPUT_SIZE_BYTES_def)
qed

theorem broken_examples_exit_with_two_witness:
  "fst (main unsafe_world (Validate unsafe_args) world_state) = 2
   \<and> st_files (snd (main unsafe_world (Plan world_args) world_state)) = st_files world_state"
proof -
  have "broken_inputs (world_release ''1.0.0'') (world_release ''2.0.0'') counter_v1_schema counter_unsafe_schema
      default_policy (sample_history\<lparr>sh_source_sha256 := ''h''\<rparr>)"
    by (simp add: broken_inputs_def)
  moreover have "printable unsafe_world unsafe_args report" for report
    by (simp add: printable_def unsafe_world_def world_def)
  moreover have "same_inputs unsafe_args world_args" by (simp add: same_inputs_def unsafe_args_def world_args_def)
  ultimately show ?thesis using broken_examples_exit_with_two [OF unsafe_world_loads] by blast
qed

end
