(* ===== verification/Release_Line.thy ===== *)
theory Release_Line
  imports Release_Safety
begin

text \<open>
  A contract over its releases. One report compares two modules; here every release is validated against
  the one that is deployed, with the manifest of the release before it and a history that extends the
  previous one, and the guarantees of the single reports are carried along the line by rule induction.
\<close>

section \<open>Lines of releases\<close>

record release_line =
  rl_current :: artifact
  rl_past :: "artifact list"
  rl_schema :: storage_schema
  rl_history :: schema_history

text \<open>One upgrade: the validator accepts the target against what is deployed.\<close>

inductive upgrades :: "'v core_lib \<Rightarrow> policy \<Rightarrow> release_line \<Rightarrow> release_line \<Rightarrow> bool"
  for lib :: "'v core_lib" and p :: policy where
  accepted: "rep_safe (validate_with_history lib (rl_current l) t (Some (rl_schema l)) (Some new) p ctx (Some h))
      \<Longrightarrow> history_extends (rl_history l) h
      \<Longrightarrow> upgrades lib p l \<lparr>rl_current = t, rl_past = rl_current l # rl_past l, rl_schema = new, rl_history = h\<rparr>"

inductive_cases upgradesE: "upgrades lib p l l'"

abbreviation reaches :: "'v core_lib \<Rightarrow> policy \<Rightarrow> release_line \<Rightarrow> release_line \<Rightarrow> bool" where
  "reaches lib p \<equiv> (upgrades lib p)\<^sup>*\<^sup>*"

definition releases :: "release_line \<Rightarrow> artifact list" where
  "releases l = rl_current l # rl_past l"

lemma upgrade_reaches: "upgrades lib p l l' \<Longrightarrow> reaches lib p l l'"
  by (rule r_into_rtranclp)

lemma upgrades_releases: "upgrades lib p l l' \<Longrightarrow> releases l' = rl_current l' # releases l"
  by (auto simp: releases_def elim: upgradesE)

text \<open>The facts of one accepted upgrade.\<close>

lemma upgrade_approvable:
  assumes "upgrades lib p l l'"
  shows "\<exists>ctx. approvable lib (rl_current l) (rl_current l') (Some (rl_schema l)) (Some (rl_schema l')) p ctx
      (Some (rl_history l'))"
  using assms by (elim upgradesE) (auto dest: safe_approvable)

lemma upgrade_history: "upgrades lib p l l' \<Longrightarrow> history_extends (rl_history l) (rl_history l')"
  by (auto elim: upgradesE)

lemma upgrade_facts:
  assumes "upgrades lib p l l'"
  shows "\<not> interface_breaks (rl_current l) (rl_current l') p"
    and "pol_require_upgrade_function p \<Longrightarrow> can_upgrade (rl_current l) \<and> can_upgrade (rl_current l')"
    and "pol_require_semver_increase p \<Longrightarrow> version_increases lib (rl_current l) (rl_current l')"
    and "history_ok lib (rl_current l) (rl_current l') (rl_history l')"
    and "storage_compatible (rl_schema l) (rl_schema l')"
  using upgrade_approvable [OF assms]
  by (auto simp: approvable_def history_accepted_def storage_ok_def)

section \<open>Interface, storage keys and versions\<close>

definition declares :: "storage_schema \<Rightarrow> string \<Rightarrow> bool" where
  "declares s key \<longleftrightarrow> (\<exists>e\<in>set (ss_entries s). se_key e = key)"

lemma declares_map: "declares s key \<longleftrightarrow> key \<in> fst ` set (entry_map s)"
proof -
  have "declares s key \<longleftrightarrow> bm_get (entry_map s) key \<noteq> None"
    by (auto simp: declares_def entry_map_def bm_get_of_list map_of_eq_None_iff image_image)
  then show ?thesis by (simp add: bm_get_def map_of_eq_None_iff)
qed

lemma compatible_declares:
  assumes "storage_compatible old new" and "declares old key"
  shows "declares new key"
proof -
  obtain e where "(key, e) \<in> set (entry_map old)" using assms(2) by (auto simp: declares_map)
  then obtain e' where "bm_get (entry_map new) key = Some e'"
    using assms(1) by (fastforce simp: storage_compatible_def entry_kept_def)
  then show ?thesis using bm_get_in by (force simp: declares_map)
qed

lemma line_keeps_slot:
  assumes "reaches lib p l l'" and "denies_all_breaks p" and "art_slot (rl_current l) s = Some e"
  shows "\<exists>e'. art_slot (rl_current l') s = Some e' \<and> ie_canonical e' = ie_canonical e"
  using assms(1)
proof induction
  case base
  with assms(3) show ?case by simp
next
  case (step m n)
  then obtain e' where "art_slot (rl_current m) s = Some e'" "ie_canonical e' = ie_canonical e" by blast
  with interface_kept [OF upgrade_facts(1) [OF step(2)] assms(2)] show ?case by metis
qed

lemma line_keeps_key:
  assumes "reaches lib p l l'" and "declares (rl_schema l) key"
  shows "declares (rl_schema l') key"
  using assms by induction (auto dest: compatible_declares [OF upgrade_facts(5)])

text \<open>The parsed version of a release, and the releases of a line in the order of their versions.\<close>

definition parsed_version :: "'v core_lib \<Rightarrow> artifact \<Rightarrow> 'v option" where
  "parsed_version lib a = option_bind (art_version a) (semver_parse lib)"

definition newer :: "'v core_lib \<Rightarrow> artifact \<Rightarrow> artifact \<Rightarrow> bool" where
  "newer lib a b \<longleftrightarrow> (\<exists>v w. parsed_version lib a = Some v \<and> parsed_version lib b = Some w \<and> semver_less lib w v)"

lemma version_increases_newer: "version_increases lib a b \<longleftrightarrow> newer lib b a"
  by (auto simp: version_increases_def newer_def parsed_version_def option_bind_def split: option.splits)

lemma newer_trans: "transp (semver_less lib) \<Longrightarrow> newer lib a b \<Longrightarrow> newer lib b c \<Longrightarrow> newer lib a c"
  by (fastforce simp: newer_def dest: transpD)

lemma newer_versions_differ: "irreflp (semver_less lib) \<Longrightarrow> newer lib a b \<Longrightarrow> art_version a \<noteq> art_version b"
  by (auto simp: newer_def parsed_version_def dest: irreflpD)

lemma sorted_versions_distinct:
  "irreflp (semver_less lib) \<Longrightarrow> sorted_wrt (newer lib) as \<Longrightarrow> distinct (map art_version as)"
  by (induction as) (auto dest: newer_versions_differ)

lemma line_versions:
  assumes "reaches lib p l l'" and "rl_past l = []" and "pol_require_semver_increase p" and "transp (semver_less lib)"
  shows "sorted_wrt (newer lib) (releases l')"
  using assms(1)
proof induction
  case base
  with assms(2) show ?case by (simp add: releases_def)
next
  case (step m n)
  have "newer lib (rl_current n) (rl_current m)"
    using upgrade_facts(3) [OF step(2) assms(3)] by (simp add: version_increases_newer)
  with step(3) have "\<forall>a\<in>set (releases m). newer lib (rl_current n) a"
    by (auto simp: releases_def intro: newer_trans [OF assms(4)])
  with step(3) show ?case by (simp add: upgrades_releases [OF step(2)])
qed

lemma line_upgradable:
  assumes "(upgrades lib p)\<^sup>+\<^sup>+ l l'" and "rl_past l = []" and "pol_require_upgrade_function p"
  shows "list_all can_upgrade (releases l')"
  using assms(1)
proof induction
  case (base m)
  show ?case
    using upgrade_facts(2) [OF base assms(3)] unfolding upgrades_releases [OF base] by (simp add: releases_def assms(2))
next
  case (step m n)
  then show ?case
    using upgrade_facts(2) [OF step(2) assms(3)] unfolding upgrades_releases [OF step(2)] by simp
qed

section \<open>Names of removed fields\<close>

lemma history_extends_refl: "history_extends h h"
  by (simp add: history_extends_def)

lemma history_extends_trans: "history_extends h i \<Longrightarrow> history_extends i j \<Longrightarrow> history_extends h j"
  unfolding history_extends_def by metis

lemma line_history: "reaches lib p l l' \<Longrightarrow> history_extends (rl_history l) (rl_history l')"
  by (induction rule: rtranclp_induct)
    (auto intro: history_extends_refl history_extends_trans dest: upgrade_history)

definition records :: "schema_history \<Rightarrow> string \<Rightarrow> string \<Rightarrow> json \<Rightarrow> bool" where
  "records h ty fd v \<longleftrightarrow> (\<exists>r. recorded_field h ty fd = Some r \<and> hf_value_type r = v)"

lemma records_extends: "history_extends h h' \<Longrightarrow> records h ty fd v \<Longrightarrow> records h' ty fd v"
  unfolding history_extends_def records_def by metis

lemma records_unique: "records h ty fd v \<Longrightarrow> records h ty fd w \<Longrightarrow> v = w"
  by (auto simp: records_def)

lemma upgrade_fields:
  assumes "upgrades lib p m n"
  shows "struct_field (rl_current m) ty fd v \<Longrightarrow> records (rl_history n) ty fd v"
    and "struct_field (rl_current n) ty fd v \<Longrightarrow> records (rl_history n) ty fd v \<and> \<not> reserved_field (rl_history n) ty fd"
    and "struct_field (rl_current m) ty fd v \<Longrightarrow>
      (\<exists>w. struct_field (rl_current n) ty fd w) \<or> reserved_field (rl_history n) ty fd"
  using upgrade_facts(4) [OF assms] unfolding history_ok_def records_def target_field_ok_def by blast+

lemma line_records:
  assumes "reaches lib p l n" and "struct_field (rl_current l) ty fd v"
  shows "n = l \<or> records (rl_history n) ty fd v"
  using assms(1)
proof induction
  case (step m n)
  then show ?case
    using upgrade_fields(1) [OF step(2)] assms(2) records_extends [OF upgrade_history [OF step(2)]] by blast
qed simp

lemma line_reserves:
  assumes "reaches lib p l n" and "struct_field (rl_current l) ty fd v"
  shows "(\<exists>w. struct_field (rl_current n) ty fd w) \<or> reserved_field (rl_history n) ty fd"
  using assms(1)
proof induction
  case base
  with assms(2) show ?case by blast
next
  case (step m n)
  have "reserved_field (rl_history m) ty fd \<Longrightarrow> reserved_field (rl_history n) ty fd"
    using upgrade_history [OF step(2)] by (simp add: history_extends_def)
  with step(3) upgrade_fields(3) [OF step(2)] show ?case by blast
qed

lemma struct_field_unique: "struct_field a ty fd v \<Longrightarrow> struct_field a ty fd w \<Longrightarrow> v = w"
  by (auto simp: struct_field_def)

text \<open>
  C5: The cumulative history prevents the reuse of a field name along a whole line of releases: whatever the
  policy, a field of a struct keeps its type in every later release that has it, and once a release lacks
  it, no later release has it again.
\<close>

theorem removed_fields_stay_removed:
  assumes "reaches lib p l m" and "reaches lib p m n" and "struct_field (rl_current l) ty fd v"
  shows "(\<forall>w. struct_field (rl_current n) ty fd w \<longrightarrow> w = v)
    \<and> ((\<nexists>w. struct_field (rl_current m) ty fd w) \<longrightarrow> (\<nexists>w. struct_field (rl_current n) ty fd w))"
proof (intro conjI allI impI)
  have ln: "reaches lib p l n" using assms(1,2) by simp
  show "w = v" if "struct_field (rl_current n) ty fd w" for w
  proof (cases "n = l")
    case True
    with that assms(3) show ?thesis by (simp add: struct_field_unique)
  next
    case False
    then obtain k where "upgrades lib p k n" using ln by (metis rtranclp.cases)
    with that False show ?thesis
      using line_records [OF ln assms(3)] upgrade_fields(2) records_unique by metis
  qed
  show "\<nexists>w. struct_field (rl_current n) ty fd w" if gone: "\<nexists>w. struct_field (rl_current m) ty fd w"
    using assms(2)
  proof (cases rule: rtranclp.cases)
    case rtrancl_refl
    with gone show ?thesis by simp
  next
    case (rtrancl_into_rtrancl k)
    have "reserved_field (rl_history m) ty fd" using line_reserves [OF assms(1,3)] gone by blast
    then have "reserved_field (rl_history n) ty fd"
      using line_history [OF assms(2)] by (simp add: history_extends_def)
    with upgrade_fields(2) [OF rtrancl_into_rtrancl(2)] show ?thesis by blast
  qed
qed

section \<open>Schema versions\<close>

text \<open>The layout that a manifest declares for a key, and upgrades whose schema version does not go back.\<close>

definition declared_entry :: "storage_schema \<Rightarrow> string \<Rightarrow> storage_entry option" where
  "declared_entry s key = find (\<lambda>e. se_key e = key) (rev (ss_entries s))"

definition layout_of :: "storage_schema \<Rightarrow> string \<Rightarrow> (durability \<times> string) option" where
  "layout_of s key = map_option (\<lambda>e. (se_durability e, se_value_type e)) (declared_entry s key)"

lemma entry_map_declared: "bm_get (entry_map s) key = declared_entry s key"
proof -
  have "map_of (map (\<lambda>e. (se_key e, e)) es) key = find (\<lambda>e. se_key e = key) es" for es
    by (induction es) auto
  then show ?thesis by (simp add: entry_map_def bm_get_of_list declared_entry_def rev_map)
qed

abbreviation version_of :: "release_line \<Rightarrow> u32" where
  "version_of l \<equiv> ss_schema_version (rl_schema l)"




text \<open>What the comparison of two manifests reports, and when it looks at the schema versions.\<close>

definition layout_changes :: "storage_schema \<Rightarrow> storage_schema \<Rightarrow> bool" where
  "layout_changes old new \<longleftrightarrow> (\<exists>key d. layout_of old key = Some d \<and> layout_of new key \<noteq> Some d)"

lemma entry_map_members: "(key, e) \<in> set (entry_map s) \<longleftrightarrow> declared_entry s key = Some e"
  unfolding entry_map_declared [symmetric] by (rule bm_get_iff [symmetric]) (simp add: entry_map_def)

lemma entry_changes_declared:
  "declared_entry s key = Some e \<Longrightarrow>
     entry_changes (entry_map t) (key, e) \<longleftrightarrow> layout_of t key \<noteq> layout_of s key"
  by (auto simp: entry_changes_def entry_map_declared layout_of_def layout_differs_def split: option.split)

lemma list_ex_entries: "list_ex P (entry_map s) \<longleftrightarrow> (\<exists>key e. declared_entry s key = Some e \<and> P (key, e))"
  unfolding list_ex_iff Bex_def split_paired_Ex entry_map_members ..

lemma layout_changes_entries:
  "layout_changes old new \<longleftrightarrow> (\<exists>key e. declared_entry old key = Some e \<and> layout_of new key \<noteq> layout_of old key)"
proof -
  have "(\<exists>d. layout_of old key = Some d) \<longleftrightarrow> (\<exists>e. declared_entry old key = Some e)" for key
    by (auto simp: layout_of_def)
  then show ?thesis unfolding layout_changes_def by metis
qed

lemma layout_changes_iff: "list_ex (entry_changes (entry_map new)) (entry_map old) \<longleftrightarrow> layout_changes old new"
  unfolding list_ex_entries layout_changes_entries using entry_changes_declared [of old _ _ new] by blast

lemma entry_findings_declared:
  "f \<in> set (entry_findings (entry_map new) (key, e)) \<longleftrightarrow>
     (case declared_entry new key of
        None \<Rightarrow> f = STO001_key_removed key
      | Some e' \<Rightarrow> (se_durability e, se_value_type e) \<noteq> (se_durability e', se_value_type e')
          \<and> (case se_migration e' of Some mig \<Rightarrow> f = STO002_migration_declared key e e' mig
             | None \<Rightarrow> f = STO003_no_migration key e e'))"
  by (auto simp: entry_findings_def compare_storage_entry_def entry_map_declared layout_differs_def split: option.splits)

lemma storage_findings_iff:
  "f \<in> set (compare_storage_schemas old new []) \<longleftrightarrow>
     (\<exists>key e. declared_entry old key = Some e
        \<and> (case declared_entry new key of
             None \<Rightarrow> f = STO001_key_removed key
           | Some e' \<Rightarrow> (se_durability e, se_value_type e) \<noteq> (se_durability e', se_value_type e')
               \<and> (case se_migration e' of Some mig \<Rightarrow> f = STO002_migration_declared key e e' mig
                  | None \<Rightarrow> f = STO003_no_migration key e e')))
     \<or> layout_changes old new \<and> ss_schema_version new \<le> ss_schema_version old
        \<and> f = STO005_version_not_incremented old new"
proof -
  have "f \<in> set (compare_storage_schemas old new []) \<longleftrightarrow>
      (\<exists>(key, e)\<in>set (entry_map old). f \<in> set (entry_findings (entry_map new) (key, e)))
      \<or> layout_changes old new \<and> ss_schema_version new \<le> ss_schema_version old
        \<and> f = STO005_version_not_incremented old new"
    by (auto simp: compare_storage_schemas_def compare_storage_fold layout_changes_iff push_if_def)
  then show ?thesis by (simp add: Bex_def entry_map_members entry_findings_declared)
qed

lemma storage_compatible_unchanged:
  assumes "\<not> layout_changes old new"
  shows "storage_compatible old new"
proof -
  have "layout_of new key = layout_of old key" if "declared_entry old key = Some e" for key e
    using assms that unfolding layout_changes_entries by blast
  then show ?thesis
    by (fastforce simp: storage_compatible_def entry_map_members entry_kept_def entry_map_declared layout_of_def
        layout_differs_def)
qed

lemma version_irrelevant:
  assumes "\<not> layout_changes old new" and "ss_schema_version new \<noteq> 0" and "k \<noteq> 0"
  shows "storage_ok lib source t p (Some old) (Some (new\<lparr>ss_schema_version := k\<rparr>)) \<longleftrightarrow>
    storage_ok lib source t p (Some old) (Some new)"
proof -
  have "\<not> layout_changes old (new\<lparr>ss_schema_version := k\<rparr>)"
    using assms(1) by (simp add: layout_changes_def layout_of_def declared_entry_def)
  with assms show ?thesis
    by (simp add: storage_ok_def storage_compatible_unchanged manifests_ok_def manifest_ok_def)
qed

text \<open>
  C20: The comparison of two storage manifests is exact, and it looks at the schema versions only when a layout
  changes. The last declaration of a key counts. A key of the source that the target does not declare is
  reported as removed, one whose durability or value type differs with its migration or as lacking one, and
  a target version that is not greater is reported exactly when a key was removed or changed its layout;
  nothing else is reported. When no layout changes, the verdict of the whole validation is the same for every
  positive version of the target manifest, smaller ones included, so the premise of the previous theorem is
  not enforced.
\<close>

theorem schema_version_check_exact:
  "(f \<in> set (compare_storage_schemas old new []) \<longleftrightarrow>
     (\<exists>key e. declared_entry old key = Some e
        \<and> (case declared_entry new key of
             None \<Rightarrow> f = STO001_key_removed key
           | Some e' \<Rightarrow> (se_durability e, se_value_type e) \<noteq> (se_durability e', se_value_type e')
               \<and> (case se_migration e' of Some mig \<Rightarrow> f = STO002_migration_declared key e e' mig
                  | None \<Rightarrow> f = STO003_no_migration key e e')))
     \<or> layout_changes old new \<and> ss_schema_version new \<le> ss_schema_version old
        \<and> f = STO005_version_not_incremented old new)
   \<and> (\<not> layout_changes old new \<and> ss_schema_version new \<noteq> 0 \<and> k \<noteq> 0 \<longrightarrow>
        rep_safe (validate_with_history lib source t (Some old) (Some (new\<lparr>ss_schema_version := k\<rparr>)) p ctx h)
          = rep_safe (validate_with_history lib source t (Some old) (Some new) p ctx h))"
proof (intro conjI impI)
  have verdict: "rep_safe (validate_with_history lib source t ss ts p ctx h) = approvable lib source t ss ts p ctx h"
    for ss ts using run.error_iff [of lib source t ss ts p ctx h] by (simp add: rep_safe_findings)
  assume "\<not> layout_changes old new \<and> ss_schema_version new \<noteq> 0 \<and> k \<noteq> 0"
  then show "rep_safe (validate_with_history lib source t (Some old) (Some (new\<lparr>ss_schema_version := k\<rparr>)) p ctx h)
      = rep_safe (validate_with_history lib source t (Some old) (Some new) p ctx h)"
    unfolding verdict approvable_def using version_irrelevant [of old new k lib source t p] by simp
qed (rule storage_findings_iff)

section \<open>A sample line\<close>

definition line_core :: "nat core_lib" where
  "line_core = sample_core\<lparr>semver_parse := map_of [(''1.0.0'', 1), (''2.0.0'', 2), (''3.0.0'', 3), (''4.0.0'', 4)]\<rparr>"

text \<open>Two migrations of one key; the release between them declares the schema version of the first one.\<close>

definition line_root :: release_line where
  "line_root = \<lparr>rl_current = release ''1.0.0'', rl_past = [], rl_schema = sample_schema ''1.0.0'' 1 sample_entry_v1,
     rl_history = sample_history\<rparr>"

definition next_release :: "artifact \<Rightarrow> storage_schema \<Rightarrow> release_line \<Rightarrow> release_line" where
  "next_release t new l = \<lparr>rl_current = t, rl_past = rl_current l # rl_past l, rl_schema = new, rl_history = rl_history l\<rparr>"

definition line_second :: release_line where
  "line_second = next_release (release ''2.0.0'') (sample_schema ''2.0.0'' 2 sample_entry_v2) line_root"

definition line_third :: release_line where
  "line_third = next_release (release ''3.0.0'') (sample_schema ''3.0.0'' 1 sample_entry_v2) line_second"

definition line_fourth :: release_line where
  "line_fourth = next_release (release ''4.0.0'')
     (sample_schema ''4.0.0'' 2 (sample_entry_v2\<lparr>se_durability := Temporary\<rparr>)) line_third"

lemma next_release_upgrades:
  "rep_safe (validate_with_history lib (rl_current l) t (Some (rl_schema l)) (Some new) p ctx (Some (rl_history l)))
     \<Longrightarrow> upgrades lib p l (next_release t new l)"
  unfolding next_release_def by (rule accepted [OF _ history_extends_refl])

lemma next_release_fields [simp]:
  "rl_current (next_release t new l) = t" "rl_schema (next_release t new l) = new"
  "rl_history (next_release t new l) = rl_history l" "rl_past line_root = []"
  "rl_current line_root = release ''1.0.0''" "rl_schema line_root = sample_schema ''1.0.0'' 1 sample_entry_v1"
  "rl_history line_root = sample_history"
  by (simp_all add: next_release_def line_root_def)

lemma line_safe:
  "rep_safe (validate_with_history line_core (release ''1.0.0'') (release ''2.0.0'')
     (Some (sample_schema ''1.0.0'' 1 sample_entry_v1)) (Some (sample_schema ''2.0.0'' 2 sample_entry_v2))
     default_policy sample_context (Some sample_history))"
  "rep_safe (validate_with_history line_core (release ''2.0.0'') (release ''3.0.0'')
     (Some (sample_schema ''2.0.0'' 2 sample_entry_v2)) (Some (sample_schema ''3.0.0'' 1 sample_entry_v2))
     default_policy sample_context (Some sample_history))"
  "rep_safe (validate_with_history line_core (release ''3.0.0'') (release ''4.0.0'')
     (Some (sample_schema ''3.0.0'' 1 sample_entry_v2))
     (Some (sample_schema ''4.0.0'' 2 (sample_entry_v2\<lparr>se_durability := Temporary\<rparr>)))
     default_policy sample_context (Some sample_history))"
  by code_simp+

lemma line_upgrades:
  "upgrades line_core default_policy line_root line_second"
  "upgrades line_core default_policy line_second line_third"
  "upgrades line_core default_policy line_third line_fourth"
  unfolding line_fourth_def line_third_def line_second_def
  by (intro next_release_upgrades, simp only: next_release_fields, rule line_safe)+

lemma line_reached: "reaches line_core default_policy line_second line_fourth"
  "(upgrades line_core default_policy)\<^sup>+\<^sup>+ line_root line_fourth"
proof -
  show second: "reaches line_core default_policy line_second line_fourth"
    using upgrade_reaches [OF line_upgrades(2)] upgrade_reaches [OF line_upgrades(3)] by (rule rtranclp_trans)
  show "(upgrades line_core default_policy)\<^sup>+\<^sup>+ line_root line_fourth"
    by (rule rtranclp_into_tranclp2 [OF line_upgrades(1) second])
qed

lemma sample_layouts:
  "layout_of (sample_schema ''1.0.0'' 1 sample_entry_v1) ''COUNTER'' = Some (Instance, ''u32'')"
  "layout_of (sample_schema v n (sample_entry_v2\<lparr>se_durability := d\<rparr>)) ''COUNTER'' = Some (d, ''u64'')"
  "layout_of (sample_schema v n sample_entry_v2) ''COUNTER'' = Some (Persistent, ''u64'')"
  by (simp_all add: layout_of_def declared_entry_def sample_schema_def sample_entry_v1_def sample_entry_v2_def)

section \<open>The guarantees of a line\<close>

text \<open>
  C4: What the default rules guarantee over any number of upgrades: when every release was accepted against
  the deployed one under a policy that denies every break, requires the upgrade function and requires
  growing versions, the current release still has every function, event and type of the first one with
  the same definition, its manifest still declares every storage key, every release of the line was
  upgradable, and no version was deployed twice. The order on versions is assumed transitive and
  irreflexive.
\<close>

theorem line_of_releases:
  assumes "(upgrades lib p)\<^sup>+\<^sup>+ l l'" and "rl_past l = []" and "denies_all_breaks p"
    and "pol_require_upgrade_function p" and "pol_require_semver_increase p"
    and "transp (semver_less lib)" and "irreflp (semver_less lib)"
  shows "(\<forall>s e. art_slot (rl_current l) s = Some e \<longrightarrow>
        (\<exists>e'. art_slot (rl_current l') s = Some e' \<and> ie_canonical e' = ie_canonical e))
    \<and> (\<forall>key. declares (rl_schema l) key \<longrightarrow> declares (rl_schema l') key)
    \<and> list_all can_upgrade (releases l') \<and> distinct (map art_version (releases l'))"
proof -
  have reached: "reaches lib p l l'" using assms(1) by (rule tranclp_into_rtranclp)
  show ?thesis
    using line_keeps_slot [OF reached assms(3)] line_keeps_key [OF reached] line_upgradable [OF assms(1,2,4)]
      sorted_versions_distinct [OF assms(7) line_versions [OF reached assms(2,5,6)]] by blast
qed

theorem line_of_releases_witness:
  "declares (rl_schema line_fourth) ''COUNTER'' \<and> distinct (map art_version (releases line_fourth))"
proof -
  have "rl_past line_root = []" "denies_all_breaks default_policy" "pol_require_upgrade_function default_policy"
    "pol_require_semver_increase default_policy"
    by (simp_all add: denies_all_breaks_def default_policy_def)
  moreover have "transp (semver_less line_core)" "irreflp (semver_less line_core)"
    by (auto simp: line_core_def sample_core_def intro: transpI irreflpI)
  moreover have "declares (rl_schema line_root) ''COUNTER''"
    by (simp add: declares_def sample_schema_def sample_entry_v1_def)
  ultimately show ?thesis using line_of_releases [OF line_reached(2)] by blast
qed

text \<open>
  What that allows: under the default policy there is a line of safe reports in which two releases declare
  the same schema version and different layouts of the same key.
\<close>

lemma schema_version_is_reused:
  "\<exists>l m n. reaches line_core default_policy l m \<and> reaches line_core default_policy m n
    \<and> version_of m = version_of n
    \<and> (\<exists>key d d'. layout_of (rl_schema m) key = Some d \<and> layout_of (rl_schema n) key = Some d' \<and> d \<noteq> d')"
proof (intro exI conjI)
  show "reaches line_core default_policy line_root line_second" by (rule upgrade_reaches [OF line_upgrades(1)])
  show "reaches line_core default_policy line_second line_fourth" by (rule line_reached)
  show "version_of line_second = version_of line_fourth"
    by (simp add: line_second_def line_fourth_def sample_schema_def)
  show "layout_of (rl_schema line_second) ''COUNTER'' = Some (Persistent, ''u64'')"
    "layout_of (rl_schema line_fourth) ''COUNTER'' = Some (Temporary, ''u64'')"
    by (simp_all add: line_second_def line_fourth_def sample_layouts)
qed simp

text \<open>The third release of the line, with its version set back from two to one, and with any other.\<close>

theorem schema_version_check_exact_witness:
  "rep_safe (validate_with_history line_core (release ''2.0.0'') (release ''3.0.0'')
     (Some (sample_schema ''2.0.0'' 2 sample_entry_v2)) (Some (sample_schema ''3.0.0'' 7 sample_entry_v2))
     default_policy sample_context (Some sample_history))"
proof -
  let ?old = "sample_schema ''2.0.0'' 2 sample_entry_v2" and ?new = "sample_schema ''3.0.0'' 1 sample_entry_v2"
  have "\<not> layout_changes ?old ?new"
    by (simp add: layout_changes_def layout_of_def declared_entry_def sample_schema_def)
  moreover have "ss_schema_version ?new \<noteq> 0" "?new\<lparr>ss_schema_version := 7\<rparr> = sample_schema ''3.0.0'' 7 sample_entry_v2"
    by (simp_all add: sample_schema_def)
  ultimately show ?thesis
    using schema_version_check_exact [of f ?old ?new 7 line_core "release ''2.0.0''" "release ''3.0.0''"
        default_policy sample_context "Some sample_history" for f] line_safe(2) by auto
qed


text \<open>A line that removes a field.\<close>

definition struct_root :: release_line where
  "struct_root = \<lparr>rl_current = struct_release ''1.0.0'' [''x'', ''y''], rl_past = [],
     rl_schema = sample_schema ''1.0.0'' 1 sample_entry_v1, rl_history = struct_history\<rparr>"

definition struct_second :: release_line where
  "struct_second = next_release (struct_release ''2.0.0'' [''x'']) (sample_schema ''2.0.0'' 2 sample_entry_v2) struct_root"

definition struct_third :: release_line where
  "struct_third = next_release (struct_release ''3.0.0'' [''x'']) (sample_schema ''3.0.0'' 2 sample_entry_v2) struct_second"

lemma struct_safe:
  "rep_safe (validate_with_history line_core (struct_release ''1.0.0'' [''x'', ''y'']) (struct_release ''2.0.0'' [''x''])
     (Some (sample_schema ''1.0.0'' 1 sample_entry_v1)) (Some (sample_schema ''2.0.0'' 2 sample_entry_v2))
     lenient_policy sample_context (Some struct_history))"
  "rep_safe (validate_with_history line_core (struct_release ''2.0.0'' [''x'']) (struct_release ''3.0.0'' [''x''])
     (Some (sample_schema ''2.0.0'' 2 sample_entry_v2)) (Some (sample_schema ''3.0.0'' 2 sample_entry_v2))
     lenient_policy sample_context (Some struct_history))"
  by code_simp+

lemma struct_root_fields [simp]:
  "rl_current struct_root = struct_release ''1.0.0'' [''x'', ''y'']"
  "rl_schema struct_root = sample_schema ''1.0.0'' 1 sample_entry_v1" "rl_history struct_root = struct_history"
  by (simp_all add: struct_root_def)

lemma struct_upgrades:
  "upgrades line_core lenient_policy struct_root struct_second"
  "upgrades line_core lenient_policy struct_second struct_third"
  unfolding struct_third_def struct_second_def
  by (intro next_release_upgrades, simp only: next_release_fields struct_root_fields, rule struct_safe)+

theorem removed_fields_stay_removed_witness: "\<nexists>w. struct_field (rl_current struct_third) ''S'' ''y'' w"
proof -
  have had: "struct_field (rl_current struct_root) ''S'' ''y'' (String ''u32'')"
    by (simp add: struct_field_def struct_release_fields bm_get_def)
  have lacks: "\<nexists>w. struct_field (rl_current struct_second) ''S'' ''y'' w"
    by (simp add: struct_second_def struct_field_def struct_release_fields bm_get_def)
  from removed_fields_stay_removed [OF upgrade_reaches [OF struct_upgrades(1)] upgrade_reaches [OF struct_upgrades(2)] had] lacks
  show ?thesis by blast
qed

end
