(* ===== verification/Call_Graph_Steps.thy ===== *)
theory Call_Graph_Steps
  imports Call_Graph
begin

text \<open>
  How many rounds the worklist of \<open>collect_export_call_evidence\<close>
  (\<open>crates/soroban-upgrades-core/src/lib.rs\<close>) takes. \<open>collect_within k\<close> is the loop cut off after \<open>k\<close> rounds;
  its value is \<open>None\<close> when the worklist is not empty by then. A body is expanded at most once, so one round
  for the exported function and one for each direct call of the module are enough.
\<close>

fun collect_within ::
  "nat \<Rightarrow> u32 \<Rightarrow> string list \<Rightarrow> function_body_calls list \<Rightarrow> u32 list \<Rightarrow> u32 bset \<Rightarrow> export_call_evidence
     \<Rightarrow> (core_error + export_call_evidence) option" where
  "collect_within k n names bodies [] visited evidence = Some (Inr evidence)"
| "collect_within 0 n names bodies (current # pending) visited evidence = None"
| "collect_within (Suc k) n names bodies (current # pending) visited evidence =
     (if current < n then
        (case nth_opt names (unat current) of
           None \<Rightarrow> Some (Inl (CallGraphError ''function import index is out of range''))
         | Some import \<Rightarrow>
             collect_within k n names bodies pending visited
               (evidence\<lparr>ev_host_imports := bs_insert import (ev_host_imports evidence)\<rparr>))
      else if bs_member visited current then collect_within k n names bodies pending visited evidence
      else
        (case nth_opt bodies (unat (current - n)) of
           None \<Rightarrow> Some (Inl (CallGraphError ''function body index is out of range''))
         | Some body \<Rightarrow>
             collect_within k n names bodies (direct_calls body @ pending) (bs_insert current visited)
               (evidence\<lparr>ev_dynamic_dispatch_reachable :=
                  ev_dynamic_dispatch_reachable evidence \<or> has_dynamic_dispatch body\<rparr>)))"

text \<open>The direct calls of the bodies that are not expanded yet.\<close>

definition unexpanded :: "u32 \<Rightarrow> function_body_calls list \<Rightarrow> u32 bset \<Rightarrow> nat set" where
  "unexpanded n bodies visited = {i. i < length bodies \<and> n + word_of_nat i \<notin> set visited}"

definition calls_left :: "u32 \<Rightarrow> function_body_calls list \<Rightarrow> u32 bset \<Rightarrow> nat" where
  "calls_left n bodies visited = (\<Sum>i\<in>unexpanded n bodies visited. length (direct_calls (bodies ! i)))"

lemma finite_unexpanded [simp]: "finite (unexpanded n bodies visited)"
  by (simp add: unexpanded_def)

lemma calls_left_expand:
  assumes "nth_opt bodies (unat (current - n)) = Some body" and "\<not> bs_member visited current"
  shows "length (direct_calls body) + calls_left n bodies (bs_insert current visited) \<le> calls_left n bodies visited"
proof -
  let ?i = "unat (current - n)"
  have i: "?i < length bodies" "bodies ! ?i = body" using assms(1) by (simp_all add: nth_opt_Some)
  have at: "n + word_of_nat ?i = current" by simp
  have member: "?i \<in> unexpanded n bodies visited"
    using i(1) assms(2) at by (simp add: unexpanded_def bs_member_def)
  have "unexpanded n bodies (bs_insert current visited) \<subseteq> unexpanded n bodies visited - {?i}"
    using at by (auto simp: unexpanded_def)
  then have "calls_left n bodies (bs_insert current visited)
      \<le> (\<Sum>i\<in>unexpanded n bodies visited - {?i}. length (direct_calls (bodies ! i)))"
    unfolding calls_left_def by (intro sum_mono2) auto
  also have "\<dots> + length (direct_calls body) = calls_left n bodies visited"
    using sum.remove [OF finite_unexpanded member, of "\<lambda>i. length (direct_calls (bodies ! i))"] i(2)
    by (simp add: calls_left_def)
  finally show ?thesis by simp
qed

lemma collect_within_enough:
  "length pending + calls_left n bodies visited \<le> k \<Longrightarrow>
     collect_within k n names bodies pending visited evidence
       = Some (collect_export_call_evidence n names bodies pending visited evidence)"
proof (induction n names bodies pending visited evidence arbitrary: k rule: collect_export_call_evidence.induct)
  case (2 n names bodies current pending visited evidence)
  then obtain j where k: "k = Suc j" by (cases k) simp_all
  show ?case
  proof (cases "current < n")
    case True
    with "2.IH"(1) "2.prems" k show ?thesis by (simp add: collect_step split: option.split)
  next
    case import_free: False
    show ?thesis
    proof (cases "bs_member visited current")
      case True
      with "2.IH"(2) "2.prems" k import_free show ?thesis by (simp add: collect_step)
    next
      case False
      show ?thesis
      proof (cases "nth_opt bodies (unat (current - n))")
        case None
        with import_free False k show ?thesis by (simp add: collect_step)
      next
        case (Some body)
        with "2.IH"(3) [OF import_free False Some] calls_left_expand [OF Some False] "2.prems" k import_free False
        show ?thesis by (simp add: collect_step)
      qed
    qed
  qed
qed simp

lemma calls_left_all: "calls_left n bodies [] = sum_list (map (length \<circ> direct_calls) bodies)"
  by (simp add: calls_left_def unexpanded_def sum_list_sum_nth atLeast0LessThan lessThan_def)

text \<open>
  C29: The call-graph worklist of an export ends after at most one round for the exported function and one
  for every direct call in the module, whatever cycles the calls have: the loop that is cut off after
  that many rounds has the same result.
\<close>

theorem worklist_rounds:
  "collect_within (1 + sum_list (map (length \<circ> direct_calls) bodies)) n names bodies [export] [] no_evidence
     = Some (collect_export_call_evidence n names bodies [export] [] no_evidence)"
  by (rule collect_within_enough) (simp add: calls_left_all)

end
