(* ===== verification/Soroban_Sdk.thy ===== *)
theory Soroban_Sdk
  imports Prelude
begin

text \<open>
  What the example contracts use of \<open>soroban-sdk\<close>. The host is a parameter, the record \<open>sdk\<close>: one
  storage with keys \<open>'k\<close> and host values \<open>'v\<close>, the authorizations of the running invocation, and
  the replacement of the contract's code. \<open>sdk_laws\<close> states the documented behaviour a contract relies
  on: a value that was set is the one a later get returns, other keys are not touched, and neither
  writing nor replacing the code changes storage or authorizations otherwise.

  A contract function maps the host state to a trap or to its result with the new state. The host
  rolls a trapped invocation back, so a trap carries no state. A typed \<open>get\<close> traps when the stored
  value is not one of the type.

  The locale \<open>gated\<close> is the contract of the entrypoints that only the administrator may use.
\<close>

datatype trap = Host_Trap | Unwrap_None | Arithmetic_Overflow | Contract_Error u32

record ('s, 'k, 'v, 'a) sdk =
  sdk_get :: "'s \<Rightarrow> 'k \<Rightarrow> 'v option"
  sdk_set :: "'k \<Rightarrow> 'v \<Rightarrow> 's \<Rightarrow> 's"
  sdk_authorized :: "'s \<Rightarrow> 'a \<Rightarrow> bool"
  sdk_update_wasm :: "bytes \<Rightarrow> 's \<Rightarrow> 's option"

definition sdk_laws :: "('s, 'k, 'v, 'a) sdk \<Rightarrow> bool" where
  "sdk_laws h \<longleftrightarrow>
     (\<forall>s k k' v. sdk_get h (sdk_set h k v s) k' = (if k' = k then Some v else sdk_get h s k'))
     \<and> (\<forall>s k v. sdk_authorized h (sdk_set h k v s) = sdk_authorized h s)
     \<and> (\<forall>s s' w. sdk_update_wasm h w s = Some s' \<longrightarrow>
          sdk_get h s' = sdk_get h s \<and> sdk_authorized h s' = sdk_authorized h s)"

lemma sdk_get_set: "sdk_laws h \<Longrightarrow> sdk_get h (sdk_set h k v s) k' = (if k' = k then Some v else sdk_get h s k')"
  by (simp add: sdk_laws_def)

lemma sdk_set_authorized: "sdk_laws h \<Longrightarrow> sdk_authorized h (sdk_set h k v s) = sdk_authorized h s"
  by (simp add: sdk_laws_def)

lemma sdk_update_get: "sdk_laws h \<Longrightarrow> sdk_update_wasm h w s = Some s' \<Longrightarrow> sdk_get h s' = sdk_get h s"
  unfolding sdk_laws_def by blast

text \<open>A host value of a contract type: how it is written and how it is read back.\<close>

record ('v, 't) codec =
  encode :: "'t \<Rightarrow> 'v"
  decode :: "'v \<Rightarrow> 't option"

definition codec_law :: "('v, 't) codec \<Rightarrow> bool" where
  "codec_law c \<longleftrightarrow> (\<forall>x. decode c (encode c x) = Some x)"

lemma decode_encode [simp]: "codec_law c \<Longrightarrow> decode c (encode c x) = Some x"
  by (simp add: codec_law_def)

definition typed_get :: "('s, 'k, 'v, 'a) sdk \<Rightarrow> ('v, 't) codec \<Rightarrow> 's \<Rightarrow> 'k \<Rightarrow> trap + 't option" where
  "typed_get h c s k =
     (case sdk_get h s k of
        None \<Rightarrow> Inr None
      | Some v \<Rightarrow> (case decode c v of None \<Rightarrow> Inl Host_Trap | Some x \<Rightarrow> Inr (Some x)))"

text \<open>\<open>get(\<dots>).unwrap()\<close>.\<close>

definition get_unwrap :: "('s, 'k, 'v, 'a) sdk \<Rightarrow> ('v, 't) codec \<Rightarrow> 's \<Rightarrow> 'k \<Rightarrow> trap + 't" where
  "get_unwrap h c s k = and_then (typed_get h c s k) (\<lambda>x. ok_or x Unwrap_None)"

definition typed_set :: "('s, 'k, 'v, 'a) sdk \<Rightarrow> ('v, 't) codec \<Rightarrow> 'k \<Rightarrow> 't \<Rightarrow> 's \<Rightarrow> 's" where
  "typed_set h c k x s = sdk_set h k (encode c x) s"

definition holds :: "('s, 'k, 'v, 'a) sdk \<Rightarrow> ('v, 't) codec \<Rightarrow> 's \<Rightarrow> 'k \<Rightarrow> 't \<Rightarrow> bool" where
  "holds h c s k x \<longleftrightarrow> (\<exists>v. sdk_get h s k = Some v \<and> decode c v = Some x)"

lemma get_unwrap_iff: "get_unwrap h c s k = Inr x \<longleftrightarrow> holds h c s k x"
  by (auto simp: get_unwrap_def typed_get_def holds_def split: option.splits)

lemma holds_unique: "holds h c s k x \<Longrightarrow> holds h c s k y \<longleftrightarrow> y = x"
  by (auto simp: holds_def)

lemma holds_set:
  assumes "sdk_laws h" and "codec_law c"
  shows "holds h c (typed_set h c k x s) k y \<longleftrightarrow> y = x"
  using assms by (auto simp: holds_def typed_set_def sdk_get_set)

lemma holds_set_other:
  "sdk_laws h \<Longrightarrow> k' \<noteq> k \<Longrightarrow> holds h c (typed_set h d k x s) k' y \<longleftrightarrow> holds h c s k' y"
  by (simp add: holds_def typed_set_def sdk_get_set)

lemma holds_update: "sdk_laws h \<Longrightarrow> sdk_update_wasm h w s = Some s' \<Longrightarrow> holds h c s' k x \<longleftrightarrow> holds h c s k x"
  by (simp add: holds_def sdk_update_get)

text \<open>\<open>require_auth\<close>, \<open>panic_with_error\<close> under a condition, and \<open>update_current_contract_wasm\<close>.\<close>

definition require_auth :: "('s, 'k, 'v, 'a) sdk \<Rightarrow> 's \<Rightarrow> 'a \<Rightarrow> trap + unit" where
  "require_auth h s a = ensure (sdk_authorized h s a) Host_Trap"

definition update_wasm :: "('s, 'k, 'v, 'a) sdk \<Rightarrow> bytes \<Rightarrow> 's \<Rightarrow> trap + (unit \<times> 's)" where
  "update_wasm h w s = and_then (ok_or (sdk_update_wasm h w s) Host_Trap) (\<lambda>s'. Inr ((), s'))"

lemma update_wasm_iff: "update_wasm h w s = Inr (u, s') \<longleftrightarrow> sdk_update_wasm h w s = Some s'"
  by (auto simp: update_wasm_def and_then_Inr_iff)

text \<open>Addition of \<open>u32\<close> with \<open>overflow-checks\<close>, as the release profile of the workspace sets it.\<close>

definition checked_add_u32 :: "u32 \<Rightarrow> u32 \<Rightarrow> trap + u32" where
  "checked_add_u32 x y = (if unat x + unat y < 2 ^ 32 then Inr (x + y) else Inl Arithmetic_Overflow)"

lemma checked_add_u32_iff:
  "checked_add_u32 x y = Inr z \<longleftrightarrow> unat z = unat x + unat y"
proof -
  have "unat (x + y) = unat x + unat y" if "unat x + unat y < 2 ^ 32"
    using that by (simp add: unat_word_ariths)
  moreover have "unat z < 2 ^ 32" using unsigned_less [of z, where 'a = nat] by simp
  ultimately show ?thesis
    by (auto simp: checked_add_u32_def intro: unsigned_word_eqI [where 'a = nat])
qed

text \<open>\<open>i128\<close> is a word read in two's complement; its addition is checked as well.\<close>

type_synonym i128 = "128 word"

definition checked_add_i128 :: "i128 \<Rightarrow> i128 \<Rightarrow> trap + i128" where
  "checked_add_i128 x y =
     (if - (2 ^ 127) \<le> sint x + sint y \<and> sint x + sint y < 2 ^ 127 then Inr (x + y) else Inl Arithmetic_Overflow)"

lemma checked_add_i128_iff:
  "checked_add_i128 x y = Inr z \<longleftrightarrow> sint z = sint x + sint y"
proof -
  have add: "sint (x + y) = sint x + sint y" if "- (2 ^ 127) \<le> sint x + sint y" "sint x + sint y < 2 ^ 127"
    using that by (simp add: sint_word_add signed_take_bit_int_eq_self)
  have range: "- (2 ^ 127) \<le> sint z" "sint z < 2 ^ 127"
    using sint_ge [of z] sint_lt [of z] by simp_all
  show ?thesis
  proof
    assume "checked_add_i128 x y = Inr z"
    then show "sint z = sint x + sint y" using add by (auto simp: checked_add_i128_def split: if_splits)
  next
    assume z: "sint z = sint x + sint y"
    then have "sint (x + y) = sint z" using add range by simp
    then have "x + y = z" by (rule signed_word_eqI)
    with z range show "checked_add_i128 x y = Inr z" by (simp add: checked_add_i128_def)
  qed
qed

section \<open>Entrypoints behind a gate\<close>

text \<open>
  An entrypoint that succeeds only when its caller passes the gate: a call that does not pass it
  traps, and so leaves the state as it is.
\<close>

locale gated =
  fixes entrypoint :: "'s \<Rightarrow> trap + 'r \<times> 's" and gate :: "'s \<Rightarrow> bool"
  assumes passes: "entrypoint s = Inr result \<Longrightarrow> gate s"
begin

definition after :: "'s \<Rightarrow> 's" where
  "after s = (case entrypoint s of Inl t \<Rightarrow> s | Inr (r, s') \<Rightarrow> s')"

lemma blocked: "\<not> gate s \<Longrightarrow> \<exists>t. entrypoint s = Inl t"
  using passes by (cases "entrypoint s") blast+

lemma blocked_unchanged: "\<not> gate s \<Longrightarrow> after s = s"
  using blocked [of s] by (auto simp: after_def)

end

end
