(* ===== verification/Counter_V1.thy ===== *)
theory Counter_V1
  imports Soroban_Sdk
begin

text \<open>
  The first release of the example counter (\<open>examples/counter-v1/src/lib.rs\<close>): an administrator, a
  count and a schema version in instance storage, behind the SDK of \<open>Soroban_Sdk\<close>.
\<close>

datatype data_key = Admin | Config | SchemaVersion

record config_v1 =
  c1_count :: u32

datatype contract_error = Unauthorized | Paused

fun contract_error_code :: "contract_error \<Rightarrow> u32" where
  "contract_error_code Unauthorized = 1"
| "contract_error_code Paused = 2"

definition panic_with_error :: "contract_error \<Rightarrow> trap + 'r" where
  "panic_with_error e = Inl (Contract_Error (contract_error_code e))"

text \<open>The host values of the types the release stores.\<close>

record ('v, 'a) codecs_v1 =
  cd_address :: "('v, 'a) codec"
  cd_u32 :: "('v, u32) codec"
  cd_config_v1 :: "('v, config_v1) codec"

definition codecs_v1_ok :: "('v, 'a, 'z) codecs_v1_scheme \<Rightarrow> bool" where
  "codecs_v1_ok c \<longleftrightarrow> codec_law (cd_address c) \<and> codec_law (cd_u32 c) \<and> codec_law (cd_config_v1 c)"

definition constructor_v1 ::
  "('s, data_key, 'v, 'a) sdk \<Rightarrow> ('v, 'a, 'z) codecs_v1_scheme \<Rightarrow> 'a \<Rightarrow> 's \<Rightarrow> trap + unit \<times> 's" where
  "constructor_v1 h c admin s =
     Inr ((), typed_set h (cd_u32 c) SchemaVersion 1
       (typed_set h (cd_config_v1 c) Config \<lparr>c1_count = 0\<rparr> (typed_set h (cd_address c) Admin admin s)))"

definition count_v1 ::
  "('s, data_key, 'v, 'a) sdk \<Rightarrow> ('v, 'a, 'z) codecs_v1_scheme \<Rightarrow> 's \<Rightarrow> trap + u32 \<times> 's" where
  "count_v1 h c s = and_then (get_unwrap h (cd_config_v1 c) s Config) (\<lambda>config. Inr (c1_count config, s))"

definition increment_v1 ::
  "('s, data_key, 'v, 'a) sdk \<Rightarrow> ('v, 'a, 'z) codecs_v1_scheme \<Rightarrow> 's \<Rightarrow> trap + u32 \<times> 's" where
  "increment_v1 h c s =
     and_then (get_unwrap h (cd_config_v1 c) s Config) (\<lambda>config.
     and_then (checked_add_u32 (c1_count config) 1) (\<lambda>n.
     Inr (n, typed_set h (cd_config_v1 c) Config (config\<lparr>c1_count := n\<rparr>) s)))"

definition upgrade_v1 ::
  "('s, data_key, 'v, 'a) sdk \<Rightarrow> ('v, 'a, 'z) codecs_v1_scheme \<Rightarrow> bytes \<Rightarrow> 'a \<Rightarrow> 's \<Rightarrow> trap + unit \<times> 's" where
  "upgrade_v1 h c new_wasm_hash operator s =
     and_then (require_auth h s operator) (\<lambda>_.
     and_then (get_unwrap h (cd_address c) s Admin) (\<lambda>admin.
     if admin \<noteq> operator then panic_with_error Unauthorized
     else update_wasm h new_wasm_hash s))"

text \<open>Who may act as the administrator: the stored one, and only with its authorization.\<close>

definition is_admin :: "('s, data_key, 'v, 'a) sdk \<Rightarrow> ('v, 'a, 'z) codecs_v1_scheme \<Rightarrow> 'a \<Rightarrow> 's \<Rightarrow> bool" where
  "is_admin h c operator s \<longleftrightarrow> sdk_authorized h s operator \<and> holds h (cd_address c) s Admin operator"

lemma upgrade_v1_iff:
  "upgrade_v1 h c w operator s = Inr (u, s') \<longleftrightarrow> is_admin h c operator s \<and> sdk_update_wasm h w s = Some s'"
  by (auto simp: upgrade_v1_def is_admin_def require_auth_def and_then_Inr_iff get_unwrap_iff panic_with_error_def
      update_wasm_iff)

interpretation upgrade_v1: gated "upgrade_v1 h c w operator" "is_admin h c operator"
  by unfold_locales (auto simp: upgrade_v1_iff)

lemma increment_v1_iff:
  "increment_v1 h c s = Inr (n, s') \<longleftrightarrow>
     (\<exists>config. holds h (cd_config_v1 c) s Config config \<and> unat n = unat (c1_count config) + 1
        \<and> s' = typed_set h (cd_config_v1 c) Config (config\<lparr>c1_count := n\<rparr>) s)"
  by (auto simp: increment_v1_def and_then_Inr_iff get_unwrap_iff checked_add_u32_iff)

lemma config_v1_eta [simp]: "\<lparr>c1_count = c1_count config\<rparr> = config"
  by (cases config) simp

lemma count_v1_iff:
  "count_v1 h c s = Inr (n, s') \<longleftrightarrow> s' = s \<and> holds h (cd_config_v1 c) s Config \<lparr>c1_count = n\<rparr>"
  by (auto simp: count_v1_def and_then_Inr_iff get_unwrap_iff intro: exI [of _ "\<lparr>c1_count = n\<rparr>"])

end
