(* ===== verification/Counter_V2.thy ===== *)
theory Counter_V2
  imports Counter_V1
begin

text \<open>
  The second release of the example counter (\<open>examples/counter-v2/src/lib.rs\<close>): a pause switch, and
  the conversion of the stored configuration on first use (\<open>load_v2\<close>) or on request (\<open>migrate\<close>). The
  keys, the errors and \<open>ConfigV1\<close> are those of the first release.
\<close>

record config_v2 =
  c2_count :: u32
  c2_paused :: bool

record ('v, 'a) codecs_v2 = "('v, 'a) codecs_v1" +
  cd_config_v2 :: "('v, config_v2) codec"

definition codecs_v2_ok :: "('v, 'a) codecs_v2 \<Rightarrow> bool" where
  "codecs_v2_ok c \<longleftrightarrow> codecs_v1_ok c \<and> codec_law (cd_config_v2 c)"

definition constructor_v2 ::
  "('s, data_key, 'v, 'a) sdk \<Rightarrow> ('v, 'a) codecs_v2 \<Rightarrow> 'a \<Rightarrow> 's \<Rightarrow> trap + unit \<times> 's" where
  "constructor_v2 h c admin s =
     Inr ((), typed_set h (cd_u32 c) SchemaVersion 2
       (typed_set h (cd_config_v2 c) Config \<lparr>c2_count = 0, c2_paused = False\<rparr>
         (typed_set h (cd_address c) Admin admin s)))"

definition require_admin ::
  "('s, data_key, 'v, 'a) sdk \<Rightarrow> ('v, 'a) codecs_v2 \<Rightarrow> 'a \<Rightarrow> 's \<Rightarrow> trap + unit" where
  "require_admin h c operator s =
     and_then (require_auth h s operator) (\<lambda>_.
     and_then (get_unwrap h (cd_address c) s Admin) (\<lambda>admin.
     if admin \<noteq> operator then panic_with_error Unauthorized else Inr ()))"

definition load_v2 ::
  "('s, data_key, 'v, 'a) sdk \<Rightarrow> ('v, 'a) codecs_v2 \<Rightarrow> 's \<Rightarrow> trap + config_v2 \<times> 's" where
  "load_v2 h c s =
     and_then (typed_get h (cd_u32 c) s SchemaVersion) (\<lambda>stored.
     let schema_version = (case stored of None \<Rightarrow> 0 | Some n \<Rightarrow> n) in
     if schema_version < 2 then
       and_then (get_unwrap h (cd_config_v1 c) s Config) (\<lambda>old.
       let new = \<lparr>c2_count = c1_count old, c2_paused = False\<rparr> in
       Inr (new, typed_set h (cd_u32 c) SchemaVersion 2 (typed_set h (cd_config_v2 c) Config new s)))
     else
       and_then (get_unwrap h (cd_config_v2 c) s Config) (\<lambda>config. Inr (config, s)))"

definition count_v2 :: "('s, data_key, 'v, 'a) sdk \<Rightarrow> ('v, 'a) codecs_v2 \<Rightarrow> 's \<Rightarrow> trap + u32 \<times> 's" where
  "count_v2 h c s = and_then (load_v2 h c s) (\<lambda>(config, s). Inr (c2_count config, s))"

definition increment_v2 :: "('s, data_key, 'v, 'a) sdk \<Rightarrow> ('v, 'a) codecs_v2 \<Rightarrow> 's \<Rightarrow> trap + u32 \<times> 's" where
  "increment_v2 h c s =
     and_then (load_v2 h c s) (\<lambda>(config, s).
     if c2_paused config then panic_with_error Paused
     else
       and_then (checked_add_u32 (c2_count config) 1) (\<lambda>n.
       Inr (n, typed_set h (cd_config_v2 c) Config (config\<lparr>c2_count := n\<rparr>) s)))"

definition paused_v2 :: "('s, data_key, 'v, 'a) sdk \<Rightarrow> ('v, 'a) codecs_v2 \<Rightarrow> 's \<Rightarrow> trap + bool \<times> 's" where
  "paused_v2 h c s = and_then (load_v2 h c s) (\<lambda>(config, s). Inr (c2_paused config, s))"

definition set_paused_v2 ::
  "('s, data_key, 'v, 'a) sdk \<Rightarrow> ('v, 'a) codecs_v2 \<Rightarrow> 'a \<Rightarrow> bool \<Rightarrow> 's \<Rightarrow> trap + unit \<times> 's" where
  "set_paused_v2 h c operator paused s =
     and_then (require_admin h c operator s) (\<lambda>_.
     and_then (load_v2 h c s) (\<lambda>(config, s).
     Inr ((), typed_set h (cd_config_v2 c) Config (config\<lparr>c2_paused := paused\<rparr>) s)))"

definition migrate_v2 ::
  "('s, data_key, 'v, 'a) sdk \<Rightarrow> ('v, 'a) codecs_v2 \<Rightarrow> 'a \<Rightarrow> 's \<Rightarrow> trap + unit \<times> 's" where
  "migrate_v2 h c operator s =
     and_then (require_admin h c operator s) (\<lambda>_.
     and_then (load_v2 h c s) (\<lambda>(config, s). Inr ((), s)))"

definition upgrade_v2 ::
  "('s, data_key, 'v, 'a) sdk \<Rightarrow> ('v, 'a) codecs_v2 \<Rightarrow> bytes \<Rightarrow> 'a \<Rightarrow> 's \<Rightarrow> trap + unit \<times> 's" where
  "upgrade_v2 h c new_wasm_hash operator s =
     and_then (require_admin h c operator s) (\<lambda>_. update_wasm h new_wasm_hash s)"

section \<open>The administrator\<close>

lemma require_admin_iff: "require_admin h c operator s = Inr u \<longleftrightarrow> is_admin h c operator s"
  by (auto simp: require_admin_def is_admin_def require_auth_def and_then_Inr_iff get_unwrap_iff
      panic_with_error_def)

interpretation set_paused_v2: gated "set_paused_v2 h c operator paused" "is_admin h c operator"
  by unfold_locales (auto simp: set_paused_v2_def and_then_Inr_iff require_admin_iff)

interpretation migrate_v2: gated "migrate_v2 h c operator" "is_admin h c operator"
  by unfold_locales (auto simp: migrate_v2_def and_then_Inr_iff require_admin_iff)

interpretation upgrade_v2: gated "upgrade_v2 h c w operator" "is_admin h c operator"
  by unfold_locales (auto simp: upgrade_v2_def and_then_Inr_iff require_admin_iff)

end
