(* ===== verification/Counter_Upgrade.thy ===== *)
theory Counter_Upgrade
  imports Counter_V2
begin

text \<open>
  The counter across its upgrade. The abstract counter is an administrator, a natural number and a
  pause switch; \<open>represents\<close> relates it to the storage of either release, before and after the
  conversion of the stored configuration. \<open>step\<close> is the deployed contract as a state machine: the
  successful calls of the running release, the replacement of the code, and the begin of a new
  invocation, which changes the authorizations only.

  The theorems: every step refines a step of the abstract counter, the count of a deployed contract is
  the number of its successful increments across releases, the conversion is idempotent and loses
  nothing, the new release answers every call after the upgrade, and only the administrator gets
  past the gates.
\<close>

section \<open>The abstract counter\<close>

record 'a counter =
  ct_admin :: 'a
  ct_count :: nat
  ct_paused :: bool

datatype 'a call =
    Count
  | Increment
  | Is_Paused
  | Set_Paused 'a bool
  | Migrate 'a
  | Upgrade 'a
  | Begin_Invocation

datatype outcome = Returns_Unit | Returns_U32 u32 | Returns_Bool bool

fun abstract_step :: "'a counter \<Rightarrow> 'a call \<Rightarrow> outcome \<Rightarrow> 'a counter \<Rightarrow> bool" where
  "abstract_step x Count out y \<longleftrightarrow> (\<exists>n. out = Returns_U32 n \<and> unat n = ct_count x) \<and> y = x"
| "abstract_step x Increment out y \<longleftrightarrow>
     \<not> ct_paused x \<and> (\<exists>n. out = Returns_U32 n \<and> unat n = ct_count x + 1) \<and> y = x\<lparr>ct_count := ct_count x + 1\<rparr>"
| "abstract_step x Is_Paused out y \<longleftrightarrow> out = Returns_Bool (ct_paused x) \<and> y = x"
| "abstract_step x (Set_Paused a b) out y \<longleftrightarrow> a = ct_admin x \<and> out = Returns_Unit \<and> y = x\<lparr>ct_paused := b\<rparr>"
| "abstract_step x (Migrate a) out y \<longleftrightarrow> a = ct_admin x \<and> out = Returns_Unit \<and> y = x"
| "abstract_step x (Upgrade a) out y \<longleftrightarrow> a = ct_admin x \<and> out = Returns_Unit \<and> y = x"
| "abstract_step x Begin_Invocation out y \<longleftrightarrow> out = Returns_Unit \<and> y = x"

section \<open>The deployed contract\<close>

datatype release = V1 | V2

inductive step ::
  "('s, data_key, 'v, 'a) sdk \<Rightarrow> ('v, 'a) codecs_v2 \<Rightarrow> bytes \<Rightarrow> release \<times> 's \<Rightarrow> 'a call \<Rightarrow> outcome
     \<Rightarrow> release \<times> 's \<Rightarrow> bool"
  for h c v2_hash where
  count_1: "count_v1 h c s = Inr (n, s') \<Longrightarrow> step h c v2_hash (V1, s) Count (Returns_U32 n) (V1, s')"
| increment_1: "increment_v1 h c s = Inr (n, s') \<Longrightarrow> step h c v2_hash (V1, s) Increment (Returns_U32 n) (V1, s')"
| upgrade_1: "upgrade_v1 h c v2_hash a s = Inr ((), s') \<Longrightarrow> step h c v2_hash (V1, s) (Upgrade a) Returns_Unit (V2, s')"
| count_2: "count_v2 h c s = Inr (n, s') \<Longrightarrow> step h c v2_hash (V2, s) Count (Returns_U32 n) (V2, s')"
| increment_2: "increment_v2 h c s = Inr (n, s') \<Longrightarrow> step h c v2_hash (V2, s) Increment (Returns_U32 n) (V2, s')"
| paused_2: "paused_v2 h c s = Inr (b, s') \<Longrightarrow> step h c v2_hash (V2, s) Is_Paused (Returns_Bool b) (V2, s')"
| set_paused_2: "set_paused_v2 h c a b s = Inr ((), s')
    \<Longrightarrow> step h c v2_hash (V2, s) (Set_Paused a b) Returns_Unit (V2, s')"
| migrate_2: "migrate_v2 h c a s = Inr ((), s') \<Longrightarrow> step h c v2_hash (V2, s) (Migrate a) Returns_Unit (V2, s')"
| upgrade_2: "upgrade_v2 h c v2_hash a s = Inr ((), s') \<Longrightarrow> step h c v2_hash (V2, s) (Upgrade a) Returns_Unit (V2, s')"
| invocation: "sdk_get h s' = sdk_get h s \<Longrightarrow> step h c v2_hash (r, s) Begin_Invocation Returns_Unit (r, s')"

inductive_cases step_cases:
  "step h c v2_hash (V1, s) call out (r, s')"
  "step h c v2_hash (V2, s) call out (r, s')"

inductive runs ::
  "('s, data_key, 'v, 'a) sdk \<Rightarrow> ('v, 'a) codecs_v2 \<Rightarrow> bytes \<Rightarrow> release \<times> 's \<Rightarrow> 'a call list
     \<Rightarrow> release \<times> 's \<Rightarrow> bool"
  for h c v2_hash where
  runs_Nil: "runs h c v2_hash x [] x"
| runs_snoc: "runs h c v2_hash x calls y \<Longrightarrow> step h c v2_hash y call out z \<Longrightarrow> runs h c v2_hash x (calls @ [call]) z"

section \<open>Representation\<close>

definition legacy :: "('s, data_key, 'v, 'a) sdk \<Rightarrow> ('v, 'a) codecs_v2 \<Rightarrow> 's \<Rightarrow> config_v2 \<Rightarrow> bool" where
  "legacy h c s config \<longleftrightarrow>
     holds h (cd_u32 c) s SchemaVersion 1 \<and> holds h (cd_config_v1 c) s Config \<lparr>c1_count = c2_count config\<rparr>
     \<and> \<not> c2_paused config"

definition migrated :: "('s, data_key, 'v, 'a) sdk \<Rightarrow> ('v, 'a) codecs_v2 \<Rightarrow> 's \<Rightarrow> config_v2 \<Rightarrow> bool" where
  "migrated h c s config \<longleftrightarrow>
     (\<exists>v. holds h (cd_u32 c) s SchemaVersion v \<and> 2 \<le> v) \<and> holds h (cd_config_v2 c) s Config config"

definition stored :: "('s, data_key, 'v, 'a) sdk \<Rightarrow> ('v, 'a) codecs_v2 \<Rightarrow> release \<Rightarrow> 's \<Rightarrow> config_v2 \<Rightarrow> bool" where
  "stored h c r s config \<longleftrightarrow> legacy h c s config \<or> r = V2 \<and> migrated h c s config"

definition represents ::
  "('s, data_key, 'v, 'a) sdk \<Rightarrow> ('v, 'a) codecs_v2 \<Rightarrow> release \<times> 's \<Rightarrow> 'a counter \<Rightarrow> bool" where
  "represents h c x st \<longleftrightarrow>
     holds h (cd_address c) (snd x) Admin (ct_admin st)
     \<and> (\<exists>config. stored h c (fst x) (snd x) config \<and> unat (c2_count config) = ct_count st
          \<and> c2_paused config = ct_paused st)"

lemma codecs_laws:
  assumes "codecs_v2_ok c"
  shows "codec_law (cd_address c)" "codec_law (cd_u32 c)" "codec_law (cd_config_v1 c)" "codec_law (cd_config_v2 c)"
  using assms by (simp_all add: codecs_v2_ok_def codecs_v1_ok_def)

lemma load_legacy:
  assumes "legacy h c s config"
  shows "load_v2 h c s = Inr (config,
    typed_set h (cd_u32 c) SchemaVersion 2 (typed_set h (cd_config_v2 c) Config config s))"
proof -
  have "typed_get h (cd_u32 c) s SchemaVersion = Inr (Some 1)"
    using assms by (auto simp: legacy_def holds_def typed_get_def)
  moreover have "get_unwrap h (cd_config_v1 c) s Config = Inr \<lparr>c1_count = c2_count config\<rparr>"
    using assms by (simp add: legacy_def get_unwrap_iff)
  moreover have "\<lparr>c2_count = c2_count config, c2_paused = False\<rparr> = config"
    using assms by (cases config) (simp add: legacy_def)
  ultimately show ?thesis by (simp add: load_v2_def Let_def)
qed

lemma load_migrated:
  assumes "migrated h c s config"
  shows "load_v2 h c s = Inr (config, s)"
proof -
  obtain v where "typed_get h (cd_u32 c) s SchemaVersion = Inr (Some v)" and "\<not> v < 2"
    using assms by (auto simp: migrated_def holds_def typed_get_def not_less)
  moreover have "get_unwrap h (cd_config_v2 c) s Config = Inr config"
    using assms by (simp add: migrated_def get_unwrap_iff)
  ultimately show ?thesis by (simp add: load_v2_def)
qed

text \<open>Storing a configuration in the new layout.\<close>

lemma migrated_set:
  assumes "sdk_laws h" and "codecs_v2_ok c" and "migrated h c s config"
  shows "migrated h c (typed_set h (cd_config_v2 c) Config config' s) config'"
proof -
  obtain v where v: "holds h (cd_u32 c) s SchemaVersion v" "2 \<le> v" using assms(3) by (auto simp: migrated_def)
  have "holds h (cd_u32 c) (typed_set h (cd_config_v2 c) Config config' s) SchemaVersion v"
    using v(1) by (simp add: holds_set_other [OF assms(1)])
  moreover have "holds h (cd_config_v2 c) (typed_set h (cd_config_v2 c) Config config' s) Config config'"
    by (simp add: holds_set [OF assms(1) codecs_laws(4) [OF assms(2)]])
  ultimately show ?thesis using v(2) unfolding migrated_def by blast
qed

lemma migrated_convert:
  assumes "sdk_laws h" and "codecs_v2_ok c"
  shows "migrated h c (typed_set h (cd_u32 c) SchemaVersion 2 (typed_set h (cd_config_v2 c) Config config s)) config"
proof -
  let ?t = "typed_set h (cd_u32 c) SchemaVersion 2 (typed_set h (cd_config_v2 c) Config config s)"
  have "holds h (cd_u32 c) ?t SchemaVersion 2"
    by (simp add: holds_set [OF assms(1) codecs_laws(2) [OF assms(2)]])
  moreover have "holds h (cd_config_v2 c) ?t Config config"
    by (simp add: holds_set_other [OF assms(1)] holds_set [OF assms(1) codecs_laws(4) [OF assms(2)]])
  ultimately show ?thesis unfolding migrated_def by blast
qed

lemma load_stored:
  assumes "sdk_laws h" and "codecs_v2_ok c" and "stored h c V2 s config"
  obtains s' where "load_v2 h c s = Inr (config, s')" and "migrated h c s' config"
    and "\<And>a. holds h (cd_address c) s' Admin a \<longleftrightarrow> holds h (cd_address c) s Admin a"
    and "sdk_authorized h s' = sdk_authorized h s"
proof (cases "migrated h c s config")
  case True
  show ?thesis by (rule that [OF load_migrated [OF True] True refl refl])
next
  case False
  then have "legacy h c s config" using assms(3) by (simp add: stored_def)
  note load = load_legacy [OF this]
  show ?thesis
    by (rule that [OF load migrated_convert [OF assms(1,2)]])
      (simp add: holds_set_other [OF assms(1)], simp add: typed_set_def sdk_set_authorized [OF assms(1)])
qed

section \<open>Refinement\<close>

lemma represents_stored:
  "represents h c (r, s) st \<longleftrightarrow>
     holds h (cd_address c) s Admin (ct_admin st)
     \<and> (\<exists>config. stored h c r s config \<and> unat (c2_count config) = ct_count st \<and> c2_paused config = ct_paused st)"
  by (simp add: represents_def)

lemma represents_migrated:
  "holds h (cd_address c) s Admin (ct_admin st) \<Longrightarrow> migrated h c s config \<Longrightarrow> unat (c2_count config) = ct_count st
     \<Longrightarrow> c2_paused config = ct_paused st \<Longrightarrow> represents h c (V2, s) st"
  by (auto simp: represents_def stored_def)

lemma admin_is_represented:
  "is_admin h c a s \<Longrightarrow> represents h c (r, s) st \<Longrightarrow> a = ct_admin st"
  by (auto simp: is_admin_def represents_def dest: holds_unique)

lemma stored_same_storage:
  assumes "sdk_get h s' = sdk_get h s"
  shows "represents h c (r, s') st \<longleftrightarrow> represents h c (r, s) st"
  by (simp add: represents_def stored_def legacy_def migrated_def holds_def assms)

lemma represents_upgrade: "represents h c (V1, s) st \<Longrightarrow> represents h c (V2, s) st"
  by (auto simp: represents_def stored_def)

text \<open>The calls of the new release, each on a represented state.\<close>

lemma v2_calls:
  assumes laws: "sdk_laws h" "codecs_v2_ok c" and rep: "represents h c (V2, s) st"
  shows "count_v2 h c s = Inr (n, s') \<Longrightarrow> unat n = ct_count st \<and> represents h c (V2, s') st"
    and "paused_v2 h c s = Inr (b, s') \<Longrightarrow> b = ct_paused st \<and> represents h c (V2, s') st"
    and "migrate_v2 h c a s = Inr (u, s') \<Longrightarrow> a = ct_admin st \<and> represents h c (V2, s') st"
    and "set_paused_v2 h c a b s = Inr (u, s') \<Longrightarrow>
      a = ct_admin st \<and> represents h c (V2, s') (st\<lparr>ct_paused := b\<rparr>)"
    and "increment_v2 h c s = Inr (n, s') \<Longrightarrow>
      \<not> ct_paused st \<and> unat n = ct_count st + 1 \<and> represents h c (V2, s') (st\<lparr>ct_count := ct_count st + 1\<rparr>)"
proof -
  obtain config where config: "stored h c V2 s config" "unat (c2_count config) = ct_count st"
    "c2_paused config = ct_paused st" and admin: "holds h (cd_address c) s Admin (ct_admin st)"
    using rep by (auto simp: represents_stored)
  obtain t where load: "load_v2 h c s = Inr (config, t)" and mig: "migrated h c t config"
    and same: "\<And>a. holds h (cd_address c) t Admin a \<longleftrightarrow> holds h (cd_address c) s Admin a"
    using load_stored [OF laws config(1)] by blast
  have t: "represents h c (V2, t) st"
    using admin mig config(2,3) by (intro represents_migrated) (simp_all add: same)
  have set: "represents h c (V2, typed_set h (cd_config_v2 c) Config config' t) st'"
    if "ct_admin st' = ct_admin st" "unat (c2_count config') = ct_count st'" "c2_paused config' = ct_paused st'" for config' st'
    using that admin migrated_set [OF laws mig] by (intro represents_migrated) (simp_all add: same holds_set_other [OF laws(1)])
  have caller: "a = ct_admin st" if "is_admin h c a s" using that rep by (rule admin_is_represented)
  show "count_v2 h c s = Inr (n, s') \<Longrightarrow> unat n = ct_count st \<and> represents h c (V2, s') st"
    and "paused_v2 h c s = Inr (b, s') \<Longrightarrow> b = ct_paused st \<and> represents h c (V2, s') st"
    using t config(2,3) by (auto simp: count_v2_def paused_v2_def load)
  show "migrate_v2 h c a s = Inr (u, s') \<Longrightarrow> a = ct_admin st \<and> represents h c (V2, s') st"
    using t caller by (auto simp: migrate_v2_def load and_then_Inr_iff require_admin_iff)
  show "set_paused_v2 h c a b s = Inr (u, s') \<Longrightarrow>
      a = ct_admin st \<and> represents h c (V2, s') (st\<lparr>ct_paused := b\<rparr>)"
    using set caller config(2) by (auto simp: set_paused_v2_def load and_then_Inr_iff require_admin_iff)
  show "increment_v2 h c s = Inr (n, s') \<Longrightarrow>
      \<not> ct_paused st \<and> unat n = ct_count st + 1 \<and> represents h c (V2, s') (st\<lparr>ct_count := ct_count st + 1\<rparr>)"
    using set config(2,3)
    by (auto simp: increment_v2_def load and_then_Inr_iff checked_add_u32_iff panic_with_error_def split: if_splits)
qed

text \<open>The calls of the first release.\<close>

lemma v1_calls:
  assumes laws: "sdk_laws h" "codecs_v2_ok c" and rep: "represents h c (V1, s) st"
  shows "count_v1 h c s = Inr (n, s') \<Longrightarrow> unat n = ct_count st \<and> s' = s"
    and "increment_v1 h c s = Inr (n, s') \<Longrightarrow>
      \<not> ct_paused st \<and> unat n = ct_count st + 1 \<and> represents h c (V1, s') (st\<lparr>ct_count := ct_count st + 1\<rparr>)"
    and "upgrade_v1 h c w a s = Inr (u, s') \<Longrightarrow> a = ct_admin st \<and> represents h c (V2, s') st"
proof -
  obtain config where config: "legacy h c s config" "unat (c2_count config) = ct_count st" "c2_paused config = ct_paused st"
    and admin: "holds h (cd_address c) s Admin (ct_admin st)"
    using rep by (auto simp: represents_stored stored_def)
  have c1: "holds h (cd_config_v1 c) s Config x \<longleftrightarrow> x = \<lparr>c1_count = c2_count config\<rparr>" for x
    using config(1) holds_unique [of h "cd_config_v1 c" s Config] by (simp add: legacy_def)
  show "count_v1 h c s = Inr (n, s') \<Longrightarrow> unat n = ct_count st \<and> s' = s"
    using config(2) by (auto simp: count_v1_iff c1)
  show "increment_v1 h c s = Inr (n, s') \<Longrightarrow>
      \<not> ct_paused st \<and> unat n = ct_count st + 1 \<and> represents h c (V1, s') (st\<lparr>ct_count := ct_count st + 1\<rparr>)"
  proof -
    assume "increment_v1 h c s = Inr (n, s')"
    then have n: "unat n = ct_count st + 1"
      and s': "s' = typed_set h (cd_config_v1 c) Config \<lparr>c1_count = n\<rparr> s"
      using config(2) by (auto simp: increment_v1_iff c1)
    have "legacy h c s' (config\<lparr>c2_count := n\<rparr>)"
      using config(1) codecs_laws [OF laws(2)] by (simp add: legacy_def s' holds_set [OF laws(1)] holds_set_other [OF laws(1)])
    moreover have "holds h (cd_address c) s' Admin (ct_admin st)"
      using admin by (simp add: s' holds_set_other [OF laws(1)])
    ultimately have "represents h c (V1, s') (st\<lparr>ct_count := ct_count st + 1\<rparr>)"
      using n config(3) unfolding represents_stored stored_def
      by (intro conjI exI [of _ "config\<lparr>c2_count := n\<rparr>"] disjI1) simp_all
    with n config show ?thesis by (simp add: legacy_def)
  qed
  show "upgrade_v1 h c w a s = Inr (u, s') \<Longrightarrow> a = ct_admin st \<and> represents h c (V2, s') st"
    using rep admin_is_represented [of h c a s] represents_upgrade [of h c s' st]
      stored_same_storage [OF sdk_update_get [OF laws(1)], of w s s' c V1 st]
    by (auto simp: upgrade_v1_iff)
qed

lemma v2_upgrade:
  assumes "sdk_laws h" and "represents h c (V2, s) st" and "upgrade_v2 h c w a s = Inr (u, s')"
  shows "a = ct_admin st \<and> represents h c (V2, s') st"
proof -
  have admin: "is_admin h c a s" and w: "sdk_update_wasm h w s = Some s'"
    using assms(3) by (auto simp: upgrade_v2_def and_then_Inr_iff require_admin_iff update_wasm_iff)
  from admin assms(2) have "a = ct_admin st" by (rule admin_is_represented)
  moreover have "represents h c (V2, s') st"
    using assms(2) by (rule iffD2 [OF stored_same_storage [OF sdk_update_get [OF assms(1) w]]])
  ultimately show ?thesis ..
qed

lemma step_refines:
  assumes laws: "sdk_laws h" "codecs_v2_ok c"
    and "step h c v2_hash x call out y" and "represents h c x st"
  shows "\<exists>st'. abstract_step st call out st' \<and> represents h c y st'"
  using assms(3,4)
proof (induction rule: step.induct)
  case (count_1 s n s')
  show ?case using v1_calls(1) [OF laws count_1(2,1)] count_1(2) by (intro exI [of _ "st"]) simp
next
  case (increment_1 s n s')
  show ?case using v1_calls(2) [OF laws increment_1(2,1)] by (intro exI [of _ "st\<lparr>ct_count := ct_count st + 1\<rparr>"]) simp
next
  case (upgrade_1 a s s')
  show ?case using v1_calls(3) [OF laws upgrade_1(2,1)] by (intro exI [of _ "st"]) simp
next
  case (count_2 s n s')
  show ?case using v2_calls(1) [OF laws count_2(2,1)] by (intro exI [of _ "st"]) simp
next
  case (increment_2 s n s')
  show ?case using v2_calls(5) [OF laws increment_2(2,1)] by (intro exI [of _ "st\<lparr>ct_count := ct_count st + 1\<rparr>"]) simp
next
  case (paused_2 s b s')
  show ?case using v2_calls(2) [OF laws paused_2(2,1)] by (intro exI [of _ "st"]) simp
next
  case (set_paused_2 a b s s')
  show ?case using v2_calls(4) [OF laws set_paused_2(2,1)] by (intro exI [of _ "st\<lparr>ct_paused := b\<rparr>"]) simp
next
  case (migrate_2 a s s')
  show ?case using v2_calls(3) [OF laws migrate_2(2,1)] by (intro exI [of _ "st"]) simp
next
  case (upgrade_2 a s s')
  show ?case using v2_upgrade [OF laws(1) upgrade_2(2,1)] by (intro exI [of _ "st"]) simp
next
  case (invocation s' s r)
  from invocation(2) have "represents h c (r, s') st" by (rule iffD2 [OF stored_same_storage [OF invocation(1)]])
  then show ?case by (intro exI [of _ st]) simp
qed

section \<open>A sample host\<close>

text \<open>Storage as a map, the addresses that authorized the invocation, and a replacement that always succeeds.\<close>

datatype host_value = Address_Value nat | U32_Value u32 | V1_Value config_v1 | V2_Value config_v2

type_synonym host_state = "(data_key \<Rightarrow> host_value option) \<times> nat list"

definition sample_host :: "(host_state, data_key, host_value, nat) sdk" where
  "sample_host = \<lparr>sdk_get = (\<lambda>s k. fst s k), sdk_set = (\<lambda>k v s. ((fst s)(k \<mapsto> v), snd s)),
     sdk_authorized = (\<lambda>s a. a \<in> set (snd s)), sdk_update_wasm = (\<lambda>w s. Some s)\<rparr>"

definition sample_codecs :: "(host_value, nat) codecs_v2" where
  "sample_codecs = \<lparr>
     cd_address = \<lparr>encode = Address_Value, decode = (\<lambda>v. case v of Address_Value a \<Rightarrow> Some a | _ \<Rightarrow> None)\<rparr>,
     cd_u32 = \<lparr>encode = U32_Value, decode = (\<lambda>v. case v of U32_Value n \<Rightarrow> Some n | _ \<Rightarrow> None)\<rparr>,
     cd_config_v1 = \<lparr>encode = V1_Value, decode = (\<lambda>v. case v of V1_Value x \<Rightarrow> Some x | _ \<Rightarrow> None)\<rparr>,
     cd_config_v2 = \<lparr>encode = V2_Value, decode = (\<lambda>v. case v of V2_Value x \<Rightarrow> Some x | _ \<Rightarrow> None)\<rparr>\<rparr>"

lemma sample_laws: "sdk_laws sample_host" "codecs_v2_ok sample_codecs"
  by (simp_all add: sdk_laws_def sample_host_def codecs_v2_ok_def codecs_v1_ok_def codec_law_def sample_codecs_def)

text \<open>The states after deployment by address 7, one increment, and the upgrade.\<close>

definition deployed :: host_state where
  "deployed = snd (projr (constructor_v1 sample_host sample_codecs 7 (Map.empty, [7])))"

definition incremented :: host_state where
  "incremented = snd (projr (increment_v1 sample_host sample_codecs deployed))"

lemma sample_construct: "constructor_v1 sample_host sample_codecs 7 (Map.empty, [7]) = Inr ((), deployed)"
  by (simp add: deployed_def constructor_v1_def)

lemma deployed_value:
  "deployed = ([Admin \<mapsto> Address_Value 7, Config \<mapsto> V1_Value \<lparr>c1_count = 0\<rparr>, SchemaVersion \<mapsto> U32_Value 1], [7])"
  by (simp add: deployed_def constructor_v1_def typed_set_def sample_host_def sample_codecs_def)

lemma sample_increment: "increment_v1 sample_host sample_codecs deployed = Inr (1, incremented)"
  unfolding incremented_def
  by (simp add: increment_v1_def get_unwrap_def typed_get_def checked_add_u32_def deployed_value sample_host_def
      sample_codecs_def)

lemma incremented_value:
  "incremented = ([Admin \<mapsto> Address_Value 7, Config \<mapsto> V1_Value \<lparr>c1_count = 1\<rparr>, SchemaVersion \<mapsto> U32_Value 1], [7])"
  unfolding incremented_def
  by (simp add: increment_v1_def get_unwrap_def typed_get_def typed_set_def checked_add_u32_def deployed_value
      sample_host_def sample_codecs_def fun_upd_twist)

lemma sample_admin: "is_admin sample_host sample_codecs 7 incremented"
  by (simp add: is_admin_def holds_def incremented_value sample_host_def sample_codecs_def)

lemma sample_upgrade: "upgrade_v1 sample_host sample_codecs w 7 incremented = Inr ((), incremented)"
  using sample_admin unfolding upgrade_v1_iff by (simp add: sample_host_def)

definition sample_counter :: "nat counter" where
  "sample_counter = \<lparr>ct_admin = 7, ct_count = 1, ct_paused = False\<rparr>"

lemma sample_represents: "represents sample_host sample_codecs (V1, incremented) sample_counter"
  unfolding represents_def
  by (intro conjI exI [of _ "\<lparr>c2_count = 1, c2_paused = False\<rparr>"])
    (simp_all add: stored_def legacy_def holds_def incremented_value sample_host_def sample_codecs_def sample_counter_def)

section \<open>Guarantees\<close>

text \<open>
  C21: Both releases of the counter implement the abstract counter: every successful call on a
  represented state, of the first release, of the second before or after the conversion, and the
  replacement of the code itself, returns what the abstract counter returns and leaves a state that
  represents its successor.
\<close>

theorem counter_refines_abstract_counter:
  assumes "sdk_laws h" and "codecs_v2_ok c" and "step h c v2_hash x call out y" and "represents h c x st"
  shows "\<exists>st'. abstract_step st call out st' \<and> represents h c y st'"
  by (rule step_refines [OF assms])

theorem counter_refines_abstract_counter_witness:
  "\<exists>st'. abstract_step sample_counter (Upgrade 7) Returns_Unit st'
     \<and> represents sample_host sample_codecs (V2, incremented) st'"
  by (rule counter_refines_abstract_counter [OF sample_laws upgrade_1 [OF sample_upgrade] sample_represents])

lemma constructed_represents:
  assumes "sdk_laws h" and "codecs_v2_ok c" and "constructor_v1 h c admin s = Inr ((), s0)"
  shows "represents h c (V1, s0) \<lparr>ct_admin = admin, ct_count = 0, ct_paused = False\<rparr>"
proof -
  have "legacy h c s0 \<lparr>c2_count = 0, c2_paused = False\<rparr>" and "holds h (cd_address c) s0 Admin admin"
    using assms(3) codecs_laws [OF assms(2)]
    by (auto simp: constructor_v1_def legacy_def holds_set_other [OF assms(1)] holds_set [OF assms(1)])
  then show ?thesis unfolding represents_stored stored_def by force
qed

lemma abstract_step_effect:
  "abstract_step st call out st' \<Longrightarrow> ct_admin st' = ct_admin st
     \<and> ct_count st' = ct_count st + length (filter (\<lambda>x. x = Increment) [call])"
  by (cases call) auto

lemma runs_represent:
  assumes "runs h c v2_hash x calls y" and "sdk_laws h" and "codecs_v2_ok c" and "represents h c x st"
  shows "\<exists>st'. represents h c y st' \<and> ct_admin st' = ct_admin st
    \<and> ct_count st' = ct_count st + length (filter (\<lambda>x. x = Increment) calls)"
  using assms(1,4)
proof (induction rule: runs.induct)
  case (runs_Nil x)
  then show ?case by auto
next
  case (runs_snoc x calls y call out z)
  then obtain st1 where "represents h c y st1" and one: "ct_admin st1 = ct_admin st"
    "ct_count st1 = ct_count st + length (filter (\<lambda>x. x = Increment) calls)"
    by blast
  then obtain st2 where "abstract_step st1 call out st2" and "represents h c z st2"
    using step_refines [OF assms(2,3) runs_snoc.hyps(2)] by blast
  with one abstract_step_effect [of st1 call out st2] show ?case by (auto intro!: exI [of _ st2])
qed

text \<open>
  C22: The history of a deployed counter survives its upgrades: after any sequence of successful calls
  and code replacements since the constructor ran, the stored administrator is still the one of the
  deployment and the stored count is the number of successful increments in that sequence,
  whichever release executed them.
\<close>

theorem count_is_number_of_increments:
  assumes "sdk_laws h" and "codecs_v2_ok c" and "constructor_v1 h c admin s = Inr ((), s0)"
    and "runs h c v2_hash (V1, s0) calls y"
  shows "\<exists>st. represents h c y st \<and> ct_admin st = admin
    \<and> ct_count st = length (filter (\<lambda>x. x = Increment) calls)"
  using runs_represent [OF assms(4,1,2) constructed_represents [OF assms(1-3)]] by simp

theorem count_is_number_of_increments_witness:
  "\<exists>st. represents sample_host sample_codecs (V2, incremented) st \<and> ct_admin st = 7
     \<and> ct_count st = length (filter (\<lambda>x. x = Increment) ([] @ [Increment] @ [Upgrade 7]))"
  using count_is_number_of_increments [OF sample_laws sample_construct
      runs_snoc [OF runs_snoc [OF runs_Nil increment_1 [OF sample_increment]] upgrade_1 [OF sample_upgrade]]]
  by simp

lemma v2_answers:
  assumes laws: "sdk_laws h" "codecs_v2_ok c" and rep: "represents h c (V2, s) st"
  shows "\<exists>n s'. count_v2 h c s = Inr (n, s') \<and> unat n = ct_count st"
    and "\<exists>s'. paused_v2 h c s = Inr (ct_paused st, s')"
    and "(\<exists>n s'. increment_v2 h c s = Inr (n, s')) \<longleftrightarrow> \<not> ct_paused st \<and> ct_count st + 1 < 2 ^ 32"
    and "(\<exists>s'. set_paused_v2 h c a b s = Inr ((), s')) \<longleftrightarrow> is_admin h c a s"
    and "(\<exists>s'. migrate_v2 h c a s = Inr ((), s')) \<longleftrightarrow> is_admin h c a s"
proof -
  obtain config where config: "stored h c V2 s config" "unat (c2_count config) = ct_count st"
    "c2_paused config = ct_paused st"
    using rep by (auto simp: represents_stored)
  obtain t where load: "load_v2 h c s = Inr (config, t)"
    using load_stored [OF laws config(1)] by blast
  show "\<exists>n s'. count_v2 h c s = Inr (n, s') \<and> unat n = ct_count st"
    and "\<exists>s'. paused_v2 h c s = Inr (ct_paused st, s')"
    using config(2,3) by (simp_all add: count_v2_def paused_v2_def load)
  show "(\<exists>n s'. increment_v2 h c s = Inr (n, s')) \<longleftrightarrow> \<not> ct_paused st \<and> ct_count st + 1 < 2 ^ 32"
    using config(2,3) by (simp add: increment_v2_def load checked_add_u32_def panic_with_error_def)
  show "(\<exists>s'. set_paused_v2 h c a b s = Inr ((), s')) \<longleftrightarrow> is_admin h c a s"
    and "(\<exists>s'. migrate_v2 h c a s = Inr ((), s')) \<longleftrightarrow> is_admin h c a s"
    by (simp_all add: set_paused_v2_def migrate_v2_def and_then_Inr_iff require_admin_iff load)
qed

lemma upgrade_v2_iff:
  "upgrade_v2 h c w a s = Inr (u, s') \<longleftrightarrow> is_admin h c a s \<and> sdk_update_wasm h w s = Some s'"
  by (auto simp: upgrade_v2_def and_then_Inr_iff require_admin_iff update_wasm_iff)

text \<open>
  C23: An upgrade never bricks the counter: when the first release has replaced its code on a state it
  represents, every entrypoint of the second release answers right away, without a migration call.
  The count it returns is the one the first release returned, it is not paused, an increment succeeds
  exactly while the count is below the maximum of 32 bits, pausing and migrating succeed exactly for the
  administrator, who is the one of the first release, and so does the next upgrade, if the host accepts the
  code.
\<close>

theorem upgrade_keeps_the_counter_alive:
  assumes "sdk_laws h" and "codecs_v2_ok c" and "represents h c (V1, s) st"
    and "upgrade_v1 h c v2_hash operator s = Inr ((), s')"
  shows "(\<exists>n s1 s2. count_v1 h c s = Inr (n, s1) \<and> count_v2 h c s' = Inr (n, s2) \<and> unat n = ct_count st)
    \<and> (\<exists>s2. paused_v2 h c s' = Inr (False, s2))
    \<and> ((\<exists>n s2. increment_v2 h c s' = Inr (n, s2)) \<longleftrightarrow> ct_count st + 1 < 2 ^ 32)
    \<and> ((\<exists>s2. set_paused_v2 h c a b s' = Inr ((), s2)) \<longleftrightarrow> is_admin h c a s')
    \<and> ((\<exists>s2. migrate_v2 h c a s' = Inr ((), s2)) \<longleftrightarrow> is_admin h c a s')
    \<and> (upgrade_v2 h c next_hash a s' = Inr ((), s3) \<longleftrightarrow> is_admin h c a s' \<and> sdk_update_wasm h next_hash s' = Some s3)
    \<and> (is_admin h c a s' \<longleftrightarrow> is_admin h c a s)"
proof -
  have rep: "represents h c (V2, s') st" using v1_calls(3) [OF assms(1-4)] by blast
  have update: "sdk_update_wasm h v2_hash s = Some s'" using assms(4) by (simp add: upgrade_v1_iff)
  then have "sdk_authorized h s' = sdk_authorized h s" using assms(1) unfolding sdk_laws_def by blast
  then have same_admin: "is_admin h c a s' \<longleftrightarrow> is_admin h c a s"
    by (simp add: is_admin_def holds_update [OF assms(1) update])
  note answers = v2_answers [OF assms(1,2) rep]
  obtain config where config: "legacy h c s config" "unat (c2_count config) = ct_count st" "c2_paused config = ct_paused st"
    using assms(3) by (auto simp: represents_stored stored_def)
  then have paused: "\<not> ct_paused st" by (simp add: legacy_def)
  have old: "count_v1 h c s = Inr (c2_count config, s)"
    using config(1) by (simp add: count_v1_iff legacy_def)
  obtain n s2 where n: "count_v2 h c s' = Inr (n, s2)" "unat n = ct_count st" using answers(1) by blast
  then have "n = c2_count config" using config(2) by (simp add: unsigned_word_eqI [where 'a = nat])
  with old n paused answers(2-5) same_admin upgrade_v2_iff [of h c next_hash a s' "()" s3] show ?thesis by auto
qed

theorem upgrade_keeps_the_counter_alive_witness:
  "\<exists>n s2. count_v2 sample_host sample_codecs incremented = Inr (n, s2) \<and> unat n = 1"
  using upgrade_keeps_the_counter_alive [OF sample_laws sample_represents sample_upgrade, THEN conjunct1]
  unfolding sample_counter_def counter.simps by blast

lemma require_admin_same:
  assumes "holds h (cd_address c) s Admin admin" and "holds h (cd_address c) t Admin admin"
    and "sdk_authorized h t = sdk_authorized h s"
  shows "require_admin h c e t = require_admin h c e s"
proof -
  have "get_unwrap h (cd_address c) s Admin = Inr admin" "get_unwrap h (cd_address c) t Admin = Inr admin"
    using assms(1,2) by (simp_all add: get_unwrap_iff)
  then show ?thesis by (simp add: require_admin_def require_auth_def assms(3))
qed

lemma load_after_update:
  assumes "sdk_laws h" and "codecs_v2_ok c" and "stored h c V2 s config" and "sdk_update_wasm h w s = Some u"
  shows "\<exists>t. load_v2 h c u = Inr (config, t)"
proof -
  have "stored h c V2 u config"
    using assms(3) by (simp add: stored_def legacy_def migrated_def holds_update [OF assms(1,4)])
  then show ?thesis using load_stored [OF assms(1,2)] by metis
qed

text \<open>
  C35: Migrating eagerly or lazily makes no difference: after \<open>migrate\<close> the calls \<open>count\<close>, \<open>paused\<close>,
  \<open>increment\<close>, \<open>set_paused\<close> and \<open>migrate\<close> return or trap in the same way, for every caller, and leave the
  same state as they would have without, and migrating again changes nothing. \<open>upgrade\<close> does not touch the
  configuration, so without \<open>migrate\<close> it leaves the old layout in place; it is open to the same caller
  before and after \<open>migrate\<close>, and the configuration that is loaded after it is the same.
\<close>

theorem migration_is_transparent:
  assumes "sdk_laws h" and "codecs_v2_ok c" and "represents h c (V2, s) st" and "migrate_v2 h c a s = Inr ((), s')"
  shows "count_v2 h c s' = count_v2 h c s \<and> paused_v2 h c s' = paused_v2 h c s
    \<and> increment_v2 h c s' = increment_v2 h c s \<and> set_paused_v2 h c e b s' = set_paused_v2 h c e b s
    \<and> migrate_v2 h c e s' = migrate_v2 h c e s \<and> migrate_v2 h c a s' = Inr ((), s')
    \<and> (upgrade_v2 h c w e s = Inr ((), u) \<longleftrightarrow> is_admin h c e s \<and> sdk_update_wasm h w s = Some u)
    \<and> (upgrade_v2 h c w e s' = Inr ((), u') \<longleftrightarrow> is_admin h c e s \<and> sdk_update_wasm h w s' = Some u')
    \<and> (upgrade_v2 h c w e s = Inr ((), u) \<and> upgrade_v2 h c w e s' = Inr ((), u') \<longrightarrow>
         (\<exists>config t t'. load_v2 h c u = Inr (config, t) \<and> load_v2 h c u' = Inr (config, t')))"
proof -
  obtain config where config: "stored h c V2 s config" and held: "holds h (cd_address c) s Admin (ct_admin st)"
    using assms(3) by (auto simp: represents_stored)
  obtain t where load: "load_v2 h c s = Inr (config, t)" and mig: "migrated h c t config"
    and same: "\<And>a. holds h (cd_address c) t Admin a \<longleftrightarrow> holds h (cd_address c) s Admin a"
    and auth: "sdk_authorized h t = sdk_authorized h s"
    using load_stored [OF assms(1,2) config] by metis
  have s': "s' = t" and admin: "require_admin h c a s = Inr ()"
    using assms(4) by (auto simp: migrate_v2_def and_then_Inr_iff load)
  have again: "load_v2 h c t = Inr (config, t)" by (rule load_migrated [OF mig])
  have gate: "require_admin h c x t = require_admin h c x s" for x
    using held same auth by (intro require_admin_same) simp_all
  have open_to: "is_admin h c e t \<longleftrightarrow> is_admin h c e s" by (simp add: is_admin_def same auth)
  have "stored h c V2 t config" using mig by (simp add: stored_def)
  then have after: "(\<exists>x. load_v2 h c u = Inr (config, x)) \<and> (\<exists>x. load_v2 h c u' = Inr (config, x))"
    if "upgrade_v2 h c w e s = Inr ((), u) \<and> upgrade_v2 h c w e t = Inr ((), u')"
    using that config load_after_update [OF assms(1,2)] by (auto simp: upgrade_v2_iff)
  show ?thesis
    using admin after
    by (simp add: count_v2_def paused_v2_def increment_v2_def set_paused_v2_def migrate_v2_def load again s' gate
        upgrade_v2_iff open_to) blast
qed

lemma sample_represents_v2: "represents sample_host sample_codecs (V2, incremented) sample_counter"
  by (rule represents_upgrade [OF sample_represents])

lemma sample_migrates: "\<exists>s'. migrate_v2 sample_host sample_codecs 7 incremented = Inr ((), s')"
  using v2_answers(5) [OF sample_laws sample_represents_v2] sample_admin by blast

theorem migration_is_transparent_witness:
  "\<exists>s'. migrate_v2 sample_host sample_codecs 7 incremented = Inr ((), s')
     \<and> migrate_v2 sample_host sample_codecs 7 s' = Inr ((), s')
     \<and> count_v2 sample_host sample_codecs s' = count_v2 sample_host sample_codecs incremented"
  using sample_migrates migration_is_transparent [OF sample_laws sample_represents_v2] by blast

text \<open>
  Only the administrator gets past the gates: without the authorization of the stored administrator
  under its own address, \<open>upgrade\<close> of either release, \<open>set_paused\<close> and \<open>migrate\<close> trap.
\<close>

theorem only_the_admin_passes:
  assumes "\<not> is_admin h c a s"
  shows "(\<exists>t. upgrade_v1 h c w a s = Inl t) \<and> (\<exists>t. upgrade_v2 h c w a s = Inl t)
    \<and> (\<exists>t. set_paused_v2 h c a b s = Inl t) \<and> (\<exists>t. migrate_v2 h c a s = Inl t)"
  using assms by (intro conjI upgrade_v1.blocked upgrade_v2.blocked set_paused_v2.blocked migrate_v2.blocked)

theorem only_the_admin_passes_witness: "\<exists>t. upgrade_v1 sample_host sample_codecs [] 8 incremented = Inl t"
proof -
  have "\<not> is_admin sample_host sample_codecs 8 incremented"
    by (simp add: is_admin_def incremented_value sample_host_def)
  then show ?thesis by (rule only_the_admin_passes [THEN conjunct1])
qed

end
