(* ===== verification/Counter_Unsafe.thy ===== *)
theory Counter_Unsafe
  imports Counter_Upgrade
begin

text \<open>
  The rejected release of the example counter (\<open>examples/counter-unsafe/src/lib.rs\<close>): another key for the
  count, a wider type and no \<open>upgrade\<close>. Its keys are variants of its own enum; \<open>embeds\<close> says how the
  keys of the two releases share the storage of the contract, the variant \<open>Admin\<close> being common.
  \<open>unsafe_release_forgets\<close> is the reason the release is rejected: deployed over the first release it
  reads a count of zero, whatever was counted, and keeps doing so.
\<close>

datatype unsafe_key = Unsafe_Admin | Unsafe_Count

definition constructor_unsafe ::
  "('s, unsafe_key, 'v, 'a) sdk \<Rightarrow> ('v, 'a) codec \<Rightarrow> ('v, u64) codec \<Rightarrow> 'a \<Rightarrow> 's \<Rightarrow> trap + unit \<times> 's" where
  "constructor_unsafe h address_codec u64_codec admin s =
     Inr ((), typed_set h u64_codec Unsafe_Count 0 (typed_set h address_codec Unsafe_Admin admin s))"

definition count_unsafe ::
  "('s, unsafe_key, 'v, 'a) sdk \<Rightarrow> ('v, u64) codec \<Rightarrow> 's \<Rightarrow> trap + u64 \<times> 's" where
  "count_unsafe h u64_codec s =
     and_then (typed_get h u64_codec s Unsafe_Count) (\<lambda>stored.
     Inr (case stored of None \<Rightarrow> 0 | Some n \<Rightarrow> n, s))"

text \<open>The host as a release with the keys \<open>key\<close> sees it.\<close>

definition at_keys :: "('k \<Rightarrow> 'g) \<Rightarrow> ('s, 'g, 'v, 'a) sdk \<Rightarrow> ('s, 'k, 'v, 'a) sdk" where
  "at_keys key h = \<lparr>sdk_get = (\<lambda>s k. sdk_get h s (key k)), sdk_set = (\<lambda>k. sdk_set h (key k)),
     sdk_authorized = sdk_authorized h, sdk_update_wasm = sdk_update_wasm h\<rparr>"

definition embeds :: "(data_key \<Rightarrow> 'g) \<Rightarrow> (unsafe_key \<Rightarrow> 'g) \<Rightarrow> bool" where
  "embeds old new \<longleftrightarrow> inj old \<and> inj new \<and> new Unsafe_Admin = old Admin \<and> new Unsafe_Count \<notin> range old"

lemma at_keys_laws: "sdk_laws h \<Longrightarrow> inj key \<Longrightarrow> sdk_laws (at_keys key h)"
  by (simp add: sdk_laws_def at_keys_def inj_eq)

text \<open>No call of the first release touches the key of the unsafe release.\<close>

lemma first_release_leaves_count:
  assumes "sdk_laws h" and "embeds old new"
  shows "increment_v1 (at_keys old h) c s = Inr (n, s') \<Longrightarrow>
      sdk_get h s' (new Unsafe_Count) = sdk_get h s (new Unsafe_Count)"
    and "constructor_v1 (at_keys old h) c admin s = Inr ((), s') \<Longrightarrow>
      sdk_get h s' (new Unsafe_Count) = sdk_get h s (new Unsafe_Count)"
    and "upgrade_v1 (at_keys old h) c w admin s = Inr ((), s') \<Longrightarrow>
      sdk_get h s' (new Unsafe_Count) = sdk_get h s (new Unsafe_Count)"
proof -
  have "new Unsafe_Count \<noteq> old k" for k using assms(2) by (auto simp: embeds_def)
  then have other: "sdk_get h (typed_set (at_keys old h) d k x t) (new Unsafe_Count) = sdk_get h t (new Unsafe_Count)"
    for d k x t
    by (simp add: typed_set_def at_keys_def sdk_get_set [OF assms(1)])
  show "increment_v1 (at_keys old h) c s = Inr (n, s') \<Longrightarrow>
      sdk_get h s' (new Unsafe_Count) = sdk_get h s (new Unsafe_Count)"
    by (auto simp: increment_v1_iff other)
  show "constructor_v1 (at_keys old h) c admin s = Inr ((), s') \<Longrightarrow>
      sdk_get h s' (new Unsafe_Count) = sdk_get h s (new Unsafe_Count)"
    by (auto simp: constructor_v1_def other)
  show "upgrade_v1 (at_keys old h) c w admin s = Inr ((), s') \<Longrightarrow>
      sdk_get h s' (new Unsafe_Count) = sdk_get h s (new Unsafe_Count)"
    using sdk_update_get [OF assms(1)] by (auto simp: upgrade_v1_iff at_keys_def)
qed

text \<open>A history of the first release: its constructor, increments, and the replacement of its code.\<close>

inductive first_release :: "('s, data_key, 'v, 'a) sdk \<Rightarrow> ('v, 'a) codecs_v2 \<Rightarrow> 's \<Rightarrow> 's \<Rightarrow> bool"
  for h c s where
  constructed: "constructor_v1 h c admin s = Inr ((), s') \<Longrightarrow> first_release h c s s'"
| incremented: "first_release h c s s' \<Longrightarrow> increment_v1 h c s' = Inr (n, s'') \<Longrightarrow> first_release h c s s''"
| replaced: "first_release h c s s' \<Longrightarrow> upgrade_v1 h c w operator s' = Inr ((), s'') \<Longrightarrow> first_release h c s s''"

lemma unsafe_release_forgets:
  assumes "sdk_laws h" and "embeds old new" and "sdk_get h s (new Unsafe_Count) = None"
    and "first_release (at_keys old h) c s s'"
  shows "count_unsafe (at_keys new h) u64_codec s' = Inr (0, s')"
proof -
  have "sdk_get h s' (new Unsafe_Count) = None"
    using assms(4)
  proof (induction rule: first_release.induct)
    case constructed
    then show ?case using first_release_leaves_count(2) [OF assms(1,2)] assms(3) by metis
  next
    case incremented
    then show ?case using first_release_leaves_count(1) [OF assms(1,2)] by metis
  next
    case replaced
    then show ?case using first_release_leaves_count(3) [OF assms(1,2)] by metis
  qed
  then show ?thesis by (simp add: count_unsafe_def typed_get_def at_keys_def)
qed

end
