(* ===== verification/Cap86.thy ===== *)
theory Cap86
  imports Soroban_Sdk
begin

text \<open>
  The account contracts of the CAP-0086 examples, one persistent entry each:
  \<open>examples/cap86-v1/src/lib.rs\<close>, \<open>examples/cap86-v2/src/lib.rs\<close>, which adds an optional member to the
  stored structure, and \<open>examples/cap86-unsafe/src/lib.rs\<close>, which renames and retypes members.

  How the second release reads what the first one stored depends on the decoder of the host: a strict
  decoder rejects a map that lacks a member, a sparse one reads the member as none. The theorems give
  both consequences.
\<close>

datatype account_key = Account_Key

definition UNAUTHORIZED :: u32 where
  "UNAUTHORIZED = 1"

section \<open>The first release\<close>

record 'a account_v1 =
  a1_owner :: 'a
  a1_balance :: i128

definition constructor_86v1 ::
  "('s, account_key, 'v, 'a) sdk \<Rightarrow> ('v, 'a account_v1) codec \<Rightarrow> 'a \<Rightarrow> 's \<Rightarrow> trap + unit \<times> 's" where
  "constructor_86v1 h c owner s = Inr ((), typed_set h c Account_Key \<lparr>a1_owner = owner, a1_balance = 0\<rparr> s)"

definition balance_86v1 :: "('s, account_key, 'v, 'a) sdk \<Rightarrow> ('v, 'a account_v1) codec \<Rightarrow> 's \<Rightarrow> trap + i128 \<times> 's" where
  "balance_86v1 h c s = and_then (get_unwrap h c s Account_Key) (\<lambda>account. Inr (a1_balance account, s))"

definition account_86v1 ::
  "('s, account_key, 'v, 'a) sdk \<Rightarrow> ('v, 'a account_v1) codec \<Rightarrow> 's \<Rightarrow> trap + 'a account_v1 \<times> 's" where
  "account_86v1 h c s = and_then (get_unwrap h c s Account_Key) (\<lambda>account. Inr (account, s))"

definition deposit_86v1 ::
  "('s, account_key, 'v, 'a) sdk \<Rightarrow> ('v, 'a account_v1) codec \<Rightarrow> i128 \<Rightarrow> 's \<Rightarrow> trap + i128 \<times> 's" where
  "deposit_86v1 h c amount s =
     and_then (get_unwrap h c s Account_Key) (\<lambda>account.
     and_then (checked_add_i128 (a1_balance account) amount) (\<lambda>balance.
     Inr (balance, typed_set h c Account_Key (account\<lparr>a1_balance := balance\<rparr>) s)))"

definition upgrade_86v1 ::
  "('s, account_key, 'v, 'a) sdk \<Rightarrow> ('v, 'a account_v1) codec \<Rightarrow> bytes \<Rightarrow> 'a \<Rightarrow> 's \<Rightarrow> trap + unit \<times> 's" where
  "upgrade_86v1 h c new_wasm_hash operator s =
     and_then (require_auth h s operator) (\<lambda>_.
     and_then (get_unwrap h c s Account_Key) (\<lambda>account.
     if a1_owner account \<noteq> operator then Inl (Contract_Error UNAUTHORIZED)
     else update_wasm h new_wasm_hash s))"

section \<open>The second release\<close>

record 'a account_v2 =
  a2_owner :: 'a
  a2_balance :: i128
  a2_status :: "u32 option"

definition constructor_86v2 ::
  "('s, account_key, 'v, 'a) sdk \<Rightarrow> ('v, 'a account_v2) codec \<Rightarrow> 'a \<Rightarrow> 's \<Rightarrow> trap + unit \<times> 's" where
  "constructor_86v2 h c owner s =
     Inr ((), typed_set h c Account_Key \<lparr>a2_owner = owner, a2_balance = 0, a2_status = None\<rparr> s)"

definition balance_86v2 :: "('s, account_key, 'v, 'a) sdk \<Rightarrow> ('v, 'a account_v2) codec \<Rightarrow> 's \<Rightarrow> trap + i128 \<times> 's" where
  "balance_86v2 h c s = and_then (get_unwrap h c s Account_Key) (\<lambda>account. Inr (a2_balance account, s))"

definition account_86v2 ::
  "('s, account_key, 'v, 'a) sdk \<Rightarrow> ('v, 'a account_v2) codec \<Rightarrow> 's \<Rightarrow> trap + 'a account_v2 \<times> 's" where
  "account_86v2 h c s = and_then (get_unwrap h c s Account_Key) (\<lambda>account. Inr (account, s))"

definition deposit_86v2 ::
  "('s, account_key, 'v, 'a) sdk \<Rightarrow> ('v, 'a account_v2) codec \<Rightarrow> i128 \<Rightarrow> 's \<Rightarrow> trap + i128 \<times> 's" where
  "deposit_86v2 h c amount s =
     and_then (get_unwrap h c s Account_Key) (\<lambda>account.
     and_then (checked_add_i128 (a2_balance account) amount) (\<lambda>balance.
     Inr (balance, typed_set h c Account_Key (account\<lparr>a2_balance := balance\<rparr>) s)))"

definition upgrade_86v2 ::
  "('s, account_key, 'v, 'a) sdk \<Rightarrow> ('v, 'a account_v2) codec \<Rightarrow> bytes \<Rightarrow> 'a \<Rightarrow> 's \<Rightarrow> trap + unit \<times> 's" where
  "upgrade_86v2 h c new_wasm_hash operator s =
     and_then (require_auth h s operator) (\<lambda>_.
     and_then (get_unwrap h c s Account_Key) (\<lambda>account.
     if a2_owner account \<noteq> operator then Inl (Contract_Error UNAUTHORIZED)
     else update_wasm h new_wasm_hash s))"

section \<open>The unsafe release\<close>

record 'a account_v3 =
  a3_owner :: 'a
  a3_amount :: u64
  a3_status :: u32

text \<open>\<open>u64::saturating_add\<close>, and \<open>amount.max(0) as u64\<close>, which keeps the low 64 bits.\<close>

definition saturating_add_u64 :: "u64 \<Rightarrow> u64 \<Rightarrow> u64" where
  "saturating_add_u64 x y = (if unat x + unat y < 2 ^ 64 then x + y else - 1)"

definition deposit_amount :: "i128 \<Rightarrow> u64" where
  "deposit_amount amount = (if sint amount < 0 then 0 else ucast amount)"

definition constructor_86v3 ::
  "('s, account_key, 'v, 'a) sdk \<Rightarrow> ('v, 'a account_v3) codec \<Rightarrow> 'a \<Rightarrow> 's \<Rightarrow> trap + unit \<times> 's" where
  "constructor_86v3 h c owner s =
     Inr ((), typed_set h c Account_Key \<lparr>a3_owner = owner, a3_amount = 0, a3_status = 0\<rparr> s)"

definition balance_86v3 :: "('s, account_key, 'v, 'a) sdk \<Rightarrow> ('v, 'a account_v3) codec \<Rightarrow> 's \<Rightarrow> trap + i128 \<times> 's" where
  "balance_86v3 h c s = and_then (get_unwrap h c s Account_Key) (\<lambda>account. Inr (ucast (a3_amount account), s))"

definition account_86v3 ::
  "('s, account_key, 'v, 'a) sdk \<Rightarrow> ('v, 'a account_v3) codec \<Rightarrow> 's \<Rightarrow> trap + 'a account_v3 \<times> 's" where
  "account_86v3 h c s = and_then (get_unwrap h c s Account_Key) (\<lambda>account. Inr (account, s))"

definition deposit_86v3 ::
  "('s, account_key, 'v, 'a) sdk \<Rightarrow> ('v, 'a account_v3) codec \<Rightarrow> i128 \<Rightarrow> 's \<Rightarrow> trap + i128 \<times> 's" where
  "deposit_86v3 h c amount s =
     and_then (get_unwrap h c s Account_Key) (\<lambda>account.
     let account' = account\<lparr>a3_amount := saturating_add_u64 (a3_amount account) (deposit_amount amount)\<rparr>
     in Inr (ucast (a3_amount account'), typed_set h c Account_Key account' s))"

definition upgrade_86v3 ::
  "('s, account_key, 'v, 'a) sdk \<Rightarrow> ('v, 'a account_v3) codec \<Rightarrow> bytes \<Rightarrow> 'a \<Rightarrow> 's \<Rightarrow> trap + unit \<times> 's" where
  "upgrade_86v3 h c new_wasm_hash operator s =
     and_then (require_auth h s operator) (\<lambda>_.
     and_then (get_unwrap h c s Account_Key) (\<lambda>account.
     if a3_owner account \<noteq> operator then Inl (Contract_Error UNAUTHORIZED)
     else update_wasm h new_wasm_hash s))"

section \<open>The owner\<close>

definition is_owner :: "('s, account_key, 'v, 'a) sdk \<Rightarrow> ('v, 't) codec \<Rightarrow> ('t \<Rightarrow> 'a) \<Rightarrow> 'a \<Rightarrow> 's \<Rightarrow> bool" where
  "is_owner h c owner_of operator s \<longleftrightarrow>
     sdk_authorized h s operator \<and> (\<exists>account. holds h c s Account_Key account \<and> owner_of account = operator)"

lemmas upgrade_86_simps = is_owner_def require_auth_def and_then_Inr_iff get_unwrap_iff

interpretation upgrade_86v1: gated "upgrade_86v1 h c w operator" "is_owner h c a1_owner operator"
  by unfold_locales (auto simp: upgrade_86v1_def upgrade_86_simps split: if_splits)

interpretation upgrade_86v2: gated "upgrade_86v2 h c w operator" "is_owner h c a2_owner operator"
  by unfold_locales (auto simp: upgrade_86v2_def upgrade_86_simps split: if_splits)

interpretation upgrade_86v3: gated "upgrade_86v3 h c w operator" "is_owner h c a3_owner operator"
  by unfold_locales (auto simp: upgrade_86v3_def upgrade_86_simps split: if_splits)

section \<open>A sample host\<close>

datatype 'a account_value = Stored_V1 "'a account_v1" | Stored_V2 "'a account_v2" | Stored_V3 "'a account_v3"

type_synonym account_state = "nat account_value option \<times> nat list"

definition account_host :: "(account_state, account_key, nat account_value, nat) sdk" where
  "account_host = \<lparr>sdk_get = (\<lambda>s k. fst s), sdk_set = (\<lambda>k v s. (Some v, snd s)),
     sdk_authorized = (\<lambda>s a. a \<in> set (snd s)), sdk_update_wasm = (\<lambda>w s. Some s)\<rparr>"

definition account_codec_v1 :: "(nat account_value, nat account_v1) codec" where
  "account_codec_v1 = \<lparr>encode = Stored_V1, decode = (\<lambda>v. case v of Stored_V1 x \<Rightarrow> Some x | _ \<Rightarrow> None)\<rparr>"

definition account_codec_v3 :: "(nat account_value, nat account_v3) codec" where
  "account_codec_v3 = \<lparr>encode = Stored_V3, decode = (\<lambda>v. case v of Stored_V3 x \<Rightarrow> Some x | _ \<Rightarrow> None)\<rparr>"

definition strict_codec_v2 :: "(nat account_value, nat account_v2) codec" where
  "strict_codec_v2 = \<lparr>encode = Stored_V2, decode = (\<lambda>v. case v of Stored_V2 x \<Rightarrow> Some x | _ \<Rightarrow> None)\<rparr>"

definition old_account :: account_state where
  "old_account = (Some (Stored_V1 \<lparr>a1_owner = 7, a1_balance = 5\<rparr>), [7])"

lemma account_host_laws: "sdk_laws account_host"
proof -
  have "k' = k" for k k' :: account_key by (cases k; cases k') simp
  then show ?thesis by (simp add: sdk_laws_def account_host_def)
qed

lemma account_codec_law: "codec_law account_codec_v1" "codec_law account_codec_v3" "codec_law strict_codec_v2"
  by (simp_all add: codec_law_def account_codec_v1_def account_codec_v3_def strict_codec_v2_def)

lemma old_account_holds: "holds account_host account_codec_v1 old_account k \<lparr>a1_owner = 7, a1_balance = 5\<rparr>"
  by (simp add: holds_def account_host_def account_codec_v1_def old_account_def)

section \<open>Reading across the upgrade\<close>

definition widen :: "'a account_v1 \<Rightarrow> 'a account_v2" where
  "widen x = \<lparr>a2_owner = a1_owner x, a2_balance = a1_balance x, a2_status = None\<rparr>"

text \<open>What a sparse decoder and a strict one make of an account of the first release.\<close>

definition sparse_reader :: "('v, 'a account_v1) codec \<Rightarrow> ('v, 'a account_v2) codec \<Rightarrow> bool" where
  "sparse_reader c1 c2 \<longleftrightarrow> (\<forall>v x. decode c1 v = Some x \<longrightarrow> decode c2 v = Some (widen x))"

definition strict_reader :: "('v, 'a account_v1) codec \<Rightarrow> ('v, 'a account_v2) codec \<Rightarrow> bool" where
  "strict_reader c1 c2 \<longleftrightarrow> (\<forall>v x. decode c1 v = Some x \<longrightarrow> decode c2 v = None)"

lemma sparse_get:
  assumes "sparse_reader c1 c2" and "holds h c1 s Account_Key x"
  shows "get_unwrap h c1 s Account_Key = Inr x" and "get_unwrap h c2 s Account_Key = Inr (widen x)"
  using assms by (auto simp: get_unwrap_iff sparse_reader_def holds_def)

lemma strict_get:
  assumes "strict_reader c1 c2" and "holds h c1 s Account_Key x"
  shows "get_unwrap h c2 s Account_Key = Inl Host_Trap"
  using assms by (auto simp: get_unwrap_def typed_get_def strict_reader_def holds_def)

text \<open>
  C25: With a sparse reader the upgrade to the second release changes nothing for its users: on an account
  the first release stored, balance, deposit and upgrade of the second release return exactly what the
  first release returns, trap included, the account reads as before with no status, and after a
  deposit the second release stores the widened form of what the first would have stored.
\<close>

theorem sparse_reader_keeps_the_account:
  assumes "sdk_laws h" and "codec_law c1" and "codec_law c2" and "sparse_reader c1 c2"
    and "holds h c1 s Account_Key x"
  shows "map_sum id fst (balance_86v2 h c2 s) = map_sum id fst (balance_86v1 h c1 s)
    \<and> account_86v2 h c2 s = Inr (widen x, s)
    \<and> upgrade_86v2 h c2 w operator s = upgrade_86v1 h c1 w operator s
    \<and> map_sum id fst (deposit_86v2 h c2 amount s) = map_sum id fst (deposit_86v1 h c1 amount s)
    \<and> (case deposit_86v2 h c2 amount s of Inl t \<Rightarrow> True | Inr (b, s') \<Rightarrow>
         holds h c2 s' Account_Key (widen (x\<lparr>a1_balance := b\<rparr>)))"
proof -
  note get = sparse_get [OF assms(4,5)]
  have "holds h c2 (typed_set h c2 Account_Key y s) Account_Key y" for y
    using holds_set [OF assms(1,3)] by blast
  then show ?thesis
    by (cases "checked_add_i128 (a1_balance x) amount")
      (simp_all add: balance_86v1_def balance_86v2_def account_86v2_def upgrade_86v1_def upgrade_86v2_def
        deposit_86v1_def deposit_86v2_def get widen_def)
qed

definition sparse_codec_v2 :: "(nat account_value, nat account_v2) codec" where
  "sparse_codec_v2 = \<lparr>encode = Stored_V2,
     decode = (\<lambda>v. case v of Stored_V1 x \<Rightarrow> Some (widen x) | Stored_V2 x \<Rightarrow> Some x | Stored_V3 x \<Rightarrow> None)\<rparr>"

lemma sample_readers: "sparse_reader account_codec_v1 sparse_codec_v2" "codec_law sparse_codec_v2"
  "strict_reader account_codec_v1 strict_codec_v2"
  by (auto simp: sparse_reader_def strict_reader_def codec_law_def account_codec_v1_def sparse_codec_v2_def
      strict_codec_v2_def split: account_value.splits)

theorem sparse_reader_keeps_the_account_witness:
  "account_86v2 account_host sparse_codec_v2 old_account = Inr (widen \<lparr>a1_owner = 7, a1_balance = 5\<rparr>, old_account)"
  using sparse_reader_keeps_the_account [OF account_host_laws account_codec_law(1) sample_readers(2,1) old_account_holds]
  by blast

text \<open>
  C24: With a strict reader the same upgrade bricks the contract: once the first release has replaced its
  code, every entrypoint of the second release traps on the stored account, for every caller and in
  every later state with the same storage, \<open>upgrade\<close> included, so the release cannot be replaced
  again.
\<close>

theorem strict_reader_bricks_the_account:
  assumes "sdk_laws h" and "strict_reader c1 c2" and "upgrade_86v1 h c1 w operator s = Inr ((), s')"
    and "sdk_get h s2 = sdk_get h s'"
  shows "(\<exists>t. balance_86v2 h c2 s2 = Inl t) \<and> (\<exists>t. account_86v2 h c2 s2 = Inl t)
    \<and> (\<exists>t. deposit_86v2 h c2 amount s2 = Inl t) \<and> (\<exists>t. upgrade_86v2 h c2 w' caller s2 = Inl t)"
proof -
  obtain x where x: "holds h c1 s Account_Key x" and w: "sdk_update_wasm h w s = Some s'"
    using assms(3) by (auto simp: upgrade_86v1_def upgrade_86_simps update_wasm_iff split: if_splits)
  have "sdk_get h s2 = sdk_get h s" using assms(4) sdk_update_get [OF assms(1) w] by simp
  with x have "holds h c1 s2 Account_Key x" by (simp add: holds_def)
  note get = strict_get [OF assms(2) this]
  then show ?thesis
    by (auto simp: balance_86v2_def account_86v2_def deposit_86v2_def upgrade_86v2_def require_auth_def ensure_def)
qed

lemma old_account_upgrade: "upgrade_86v1 account_host account_codec_v1 w 7 old_account = Inr ((), old_account)"
  by (simp add: upgrade_86v1_def require_auth_def ensure_def get_unwrap_def typed_get_def update_wasm_def
      account_host_def account_codec_v1_def old_account_def)

theorem strict_reader_bricks_the_account_witness:
  "\<exists>t. upgrade_86v2 account_host strict_codec_v2 [] 7 old_account = Inl t"
  using strict_reader_bricks_the_account [OF account_host_laws sample_readers(3) old_account_upgrade refl] by blast

section \<open>The unsafe arithmetic\<close>

lemma saturating_add_bound: "unat (saturating_add_u64 x y) = min (2 ^ 64 - 1) (unat x + unat y)"
proof (cases "unat x + unat y < 2 ^ 64")
  case True
  then show ?thesis by (simp add: saturating_add_u64_def unat_word_ariths)
next
  case False
  then show ?thesis by (simp add: saturating_add_u64_def unsigned_minus_1_eq_mask mask_eq_exp_minus_1)
qed

lemma deposit_amount_value: "unat (deposit_amount amount) = (if sint amount < 0 then 0 else unat amount mod 2 ^ 64)"
  by (simp add: deposit_amount_def unsigned_ucast_eq take_bit_eq_mod)

text \<open>
  The deposit of the unsafe release cannot trap on a stored account and never exceeds 64 bits, but it
  credits only the low 64 bits of the amount: the new amount is the sum with the amount modulo
  \<open>2 ^ 64\<close> (nothing for a negative amount), cut off at the maximum. So a deposit of \<open>2 ^ 64\<close> is
  accepted and credits nothing, although the addition is written to saturate.
\<close>

theorem unsafe_deposit_drops_high_bits:
  assumes "sdk_laws h" and "codec_law c" and "holds h c s Account_Key x"
  shows "\<exists>b s'. deposit_86v3 h c amount s = Inr (b, s')
    \<and> unat b = min (2 ^ 64 - 1) (unat (a3_amount x) + (if sint amount < 0 then 0 else unat amount mod 2 ^ 64))
    \<and> balance_86v3 h c s' = Inr (b, s')"
proof -
  have get: "get_unwrap h c s Account_Key = Inr x" using assms(3) by (simp add: get_unwrap_iff)
  let ?y = "x\<lparr>a3_amount := saturating_add_u64 (a3_amount x) (deposit_amount amount)\<rparr>"
  have "get_unwrap h c (typed_set h c Account_Key ?y s) Account_Key = Inr ?y"
    using holds_set [OF assms(1,2)] by (simp add: get_unwrap_iff)
  moreover have "unat (ucast (a3_amount ?y) :: i128) = unat (a3_amount ?y)"
    by (simp add: unsigned_ucast_eq take_bit_nat_eq_self unsigned_less [THEN less_trans])
  ultimately show ?thesis
    using saturating_add_bound deposit_amount_value by (simp add: deposit_86v3_def balance_86v3_def get Let_def)
qed

definition full_account :: account_state where
  "full_account = (Some (Stored_V3 \<lparr>a3_owner = 7, a3_amount = 5, a3_status = 0\<rparr>), [7])"

theorem unsafe_deposit_drops_high_bits_witness:
  "\<exists>b s'. deposit_86v3 account_host account_codec_v3 (2 ^ 64) full_account = Inr (b, s') \<and> unat b = 5"
proof -
  have "holds account_host account_codec_v3 full_account Account_Key \<lparr>a3_owner = 7, a3_amount = 5, a3_status = 0\<rparr>"
    by (simp add: holds_def account_host_def account_codec_v3_def full_account_def)
  from unsafe_deposit_drops_high_bits [OF account_host_laws account_codec_law(2) this, of "2 ^ 64"]
  show ?thesis by auto
qed

end
