(* ===== verification/Cap86_Guest.thy ===== *)
theory Cap86_Guest
  imports Soroban_Sdk
begin

text \<open>
  The guest of the CAP-0086 runtime experiment (\<open>experiments/cap0086-runtime/guest/src/lib.rs\<close>):
  five exports that write a map with the dense or the sparse host function, read it back with one of
  them and return the values read as a vector.

  The environment of the guest is a parameter, the record \<open>guest_env\<close>: objects are handles into the
  host state \<open>'g\<close>, and a host function that fails traps, which is why the results of the source are
  infallible. \<open>cap86_laws\<close> is what CAP-0086 documents of the dense and the sparse functions. The theorem
  is the matrix of the experiment's \<open>README.md\<close>.
\<close>

record ('g, 'v, 'm, 'o) guest_env =
  map_new_from_slices :: "string list \<Rightarrow> 'v list \<Rightarrow> 'g \<Rightarrow> trap + 'm \<times> 'g"
  sparse_map_new_from_slices :: "string list \<Rightarrow> 'v list \<Rightarrow> 'g \<Rightarrow> trap + 'm \<times> 'g"
  map_unpack_to_slice :: "'m \<Rightarrow> string list \<Rightarrow> 'v list \<Rightarrow> 'g \<Rightarrow> trap + 'v list \<times> 'g"
  sparse_map_unpack_to_slice :: "'m \<Rightarrow> string list \<Rightarrow> 'v list \<Rightarrow> 'g \<Rightarrow> trap + 'v list \<times> 'g"
  vec_new_from_slice :: "'v list \<Rightarrow> 'g \<Rightarrow> trap + 'o \<times> 'g"
  val_from_u32 :: "u32 \<Rightarrow> 'v"
  val_void :: 'v
  payload_of :: "'o \<Rightarrow> u64"

text \<open>
  An unpack function takes the content of the caller's buffer and returns the new one. Each export
  returns the payload of the vector it creates.
\<close>

definition old_dense_map :: "('g, 'v, 'm, 'o) guest_env \<Rightarrow> 'g \<Rightarrow> trap + 'm \<times> 'g" where
  "old_dense_map env = map_new_from_slices env [''owner'', ''value''] [val_from_u32 env 10, val_from_u32 env 20]"

definition new_sparse_map :: "('g, 'v, 'm, 'o) guest_env \<Rightarrow> 'v \<Rightarrow> 'g \<Rightarrow> trap + 'm \<times> 'g" where
  "new_sparse_map env optional = sparse_map_new_from_slices env
     [''extra'', ''owner'', ''value''] [optional, val_from_u32 env 10, val_from_u32 env 20]"

definition as_vector :: "('g, 'v, 'm, 'o) guest_env \<Rightarrow> 'v list \<Rightarrow> 'g \<Rightarrow> trap + u64 \<times> 'g" where
  "as_vector env vs g = and_then (vec_new_from_slice env vs g) (\<lambda>(vector, g). Inr (payload_of env vector, g))"

definition old_to_new_sparse :: "('g, 'v, 'm, 'o) guest_env \<Rightarrow> 'g \<Rightarrow> trap + u64 \<times> 'g" where
  "old_to_new_sparse env g =
     and_then (old_dense_map env g) (\<lambda>(map, g).
     let buffer = [val_from_u32 env 71, val_from_u32 env 72, val_from_u32 env 77] in
     and_then (sparse_map_unpack_to_slice env map [''extra'', ''owner'', ''value''] buffer g) (\<lambda>(out, g).
     as_vector env out g))"

definition old_to_new_dense :: "('g, 'v, 'm, 'o) guest_env \<Rightarrow> 'g \<Rightarrow> trap + u64 \<times> 'g" where
  "old_to_new_dense env g =
     and_then (old_dense_map env g) (\<lambda>(map, g).
     let buffer = [val_from_u32 env 71, val_from_u32 env 72, val_from_u32 env 77] in
     and_then (map_unpack_to_slice env map [''extra'', ''owner'', ''value''] buffer g) (\<lambda>(out, g).
     as_vector env out g))"

definition new_none_to_old_dense :: "('g, 'v, 'm, 'o) guest_env \<Rightarrow> 'g \<Rightarrow> trap + u64 \<times> 'g" where
  "new_none_to_old_dense env g =
     and_then (new_sparse_map env (val_void env) g) (\<lambda>(map, g).
     let buffer = [val_from_u32 env 71, val_from_u32 env 72] in
     and_then (map_unpack_to_slice env map [''owner'', ''value''] buffer g) (\<lambda>(out, g).
     as_vector env out g))"

definition new_some_to_old_dense :: "('g, 'v, 'm, 'o) guest_env \<Rightarrow> 'g \<Rightarrow> trap + u64 \<times> 'g" where
  "new_some_to_old_dense env g =
     and_then (new_sparse_map env (val_from_u32 env 30) g) (\<lambda>(map, g).
     let buffer = [val_from_u32 env 71, val_from_u32 env 72] in
     and_then (map_unpack_to_slice env map [''owner'', ''value''] buffer g) (\<lambda>(out, g).
     as_vector env out g))"

definition new_some_to_new_sparse :: "('g, 'v, 'm, 'o) guest_env \<Rightarrow> 'g \<Rightarrow> trap + u64 \<times> 'g" where
  "new_some_to_new_sparse env g =
     and_then (new_sparse_map env (val_from_u32 env 30) g) (\<lambda>(map, g).
     let buffer = [val_void env, val_void env, val_void env] in
     and_then (sparse_map_unpack_to_slice env map [''extra'', ''owner'', ''value''] buffer g) (\<lambda>(out, g).
     as_vector env out g))"

section \<open>What CAP-0086 documents\<close>

text \<open>
  The content of a map or vector object is observed by \<open>map_of_object\<close> and \<open>vec_of_payload\<close>. The keys
  a guest passes are symbols, of at most 32 letters, digits and underscores, sorted and distinct, and the
  budget is unlimited, as the runner of the experiment sets it. The dense constructor stores every pair, the sparse one
  leaves out those whose value is void. The dense reader traps unless the map has exactly the keys
  asked for; the sparse reader fills a missing key with void. Nothing is said of a sparse read of a
  map with further keys.
\<close>

record ('g, 'v, 'm) guest_view =
  map_of_object :: "'g \<Rightarrow> 'm \<Rightarrow> (string \<times> 'v) list"
  vec_of_payload :: "'g \<Rightarrow> u64 \<Rightarrow> 'v list"

definition symbol_char :: "char \<Rightarrow> bool" where
  "symbol_char c \<longleftrightarrow> is_ascii_alphanumeric c \<or> c = CHR ''_''"

definition keys_ok :: "string list \<Rightarrow> bool" where
  "keys_ok ks \<longleftrightarrow> sorted_wrt (<) ks \<and> list_all (\<lambda>k. length k \<le> 32 \<and> list_all symbol_char k) ks"

definition creates :: "('g, 'v, 'm) guest_view \<Rightarrow> trap + 'm \<times> 'g \<Rightarrow> (string \<times> 'v) list \<Rightarrow> bool" where
  "creates view r kvs \<longleftrightarrow> (\<exists>m g'. r = Inr (m, g') \<and> map_of_object view g' m = kvs)"

definition dense_read :: "(string \<times> 'v) list \<Rightarrow> string list \<Rightarrow> 'v list option" where
  "dense_read kvs ks = (if map fst kvs = ks then Some (map snd kvs) else None)"

definition sparse_read :: "'v \<Rightarrow> (string \<times> 'v) list \<Rightarrow> string list \<Rightarrow> 'v list" where
  "sparse_read void kvs ks = map (\<lambda>k. case map_of kvs k of None \<Rightarrow> void | Some v \<Rightarrow> v) ks"

definition reads :: "trap + 'v list \<times> 'g \<Rightarrow> 'v list option \<Rightarrow> bool" where
  "reads r expected \<longleftrightarrow>
     (case expected of None \<Rightarrow> (\<exists>t. r = Inl t) | Some vs \<Rightarrow> (\<exists>g'. r = Inr (vs, g')))"

definition cap86_laws :: "('g, 'v, 'm, 'o) guest_env \<Rightarrow> ('g, 'v, 'm) guest_view \<Rightarrow> bool" where
  "cap86_laws env view \<longleftrightarrow>
     inj (val_from_u32 env) \<and> val_void env \<notin> range (val_from_u32 env)
     \<and> (\<forall>ks vs g. keys_ok ks \<and> length vs = length ks \<longrightarrow>
          creates view (map_new_from_slices env ks vs g) (zip ks vs)
          \<and> creates view (sparse_map_new_from_slices env ks vs g) (filter (\<lambda>kv. snd kv \<noteq> val_void env) (zip ks vs)))
     \<and> (\<forall>m ks buffer g. keys_ok ks \<and> length buffer = length ks \<longrightarrow>
          reads (map_unpack_to_slice env m ks buffer g) (dense_read (map_of_object view g m) ks))
     \<and> (\<forall>m ks buffer g. keys_ok ks \<and> length buffer = length ks \<and> fst ` set (map_of_object view g m) \<subseteq> set ks \<longrightarrow>
          reads (sparse_map_unpack_to_slice env m ks buffer g)
            (Some (sparse_read (val_void env) (map_of_object view g m) ks)))
     \<and> (\<forall>vs g. \<exists>vector g'. vec_new_from_slice env vs g = Inr (vector, g')
          \<and> vec_of_payload view g' (payload_of env vector) = vs)"

definition returns :: "('g, 'v, 'm) guest_view \<Rightarrow> trap + u64 \<times> 'g \<Rightarrow> 'v list \<Rightarrow> bool" where
  "returns view r vs \<longleftrightarrow> (\<exists>payload g'. r = Inr (payload, g') \<and> vec_of_payload view g' payload = vs)"

definition traps :: "trap + 'r \<Rightarrow> bool" where
  "traps r \<longleftrightarrow> (\<exists>t. r = Inl t)"

lemma keys_ok_guest: "keys_ok [''owner'', ''value'']" "keys_ok [''extra'', ''owner'', ''value'']"
  unfolding keys_ok_def by code_simp+

lemma law_void: "cap86_laws env view \<Longrightarrow> val_from_u32 env n \<noteq> val_void env"
  unfolding cap86_laws_def by (metis rangeI)

lemma law_dense:
  "cap86_laws env view \<Longrightarrow> keys_ok ks \<Longrightarrow> length vs = length ks
     \<Longrightarrow> creates view (map_new_from_slices env ks vs g) (zip ks vs)"
  unfolding cap86_laws_def by blast

lemma law_sparse:
  "cap86_laws env view \<Longrightarrow> keys_ok ks \<Longrightarrow> length vs = length ks
     \<Longrightarrow> creates view (sparse_map_new_from_slices env ks vs g) (filter (\<lambda>kv. snd kv \<noteq> val_void env) (zip ks vs))"
  unfolding cap86_laws_def by blast

lemma law_unpack:
  "cap86_laws env view \<Longrightarrow> keys_ok ks \<Longrightarrow> length buffer = length ks
     \<Longrightarrow> reads (map_unpack_to_slice env m ks buffer g) (dense_read (map_of_object view g m) ks)"
  unfolding cap86_laws_def by blast

lemma law_sparse_unpack:
  "cap86_laws env view \<Longrightarrow> keys_ok ks \<Longrightarrow> length buffer = length ks \<Longrightarrow> fst ` set (map_of_object view g m) \<subseteq> set ks
     \<Longrightarrow> reads (sparse_map_unpack_to_slice env m ks buffer g)
         (Some (sparse_read (val_void env) (map_of_object view g m) ks))"
  unfolding cap86_laws_def by blast

lemma law_vec:
  assumes "cap86_laws env view"
  obtains vector g' where "vec_new_from_slice env vs g = Inr (vector, g')"
    and "vec_of_payload view g' (payload_of env vector) = vs"
  using assms unfolding cap86_laws_def by blast

text \<open>The maps of the guest.\<close>

abbreviation owner_and_value :: "('g, 'v, 'm, 'o) guest_env \<Rightarrow> (string \<times> 'v) list" where
  "owner_and_value env \<equiv> [(''owner'', val_from_u32 env 10), (''value'', val_from_u32 env 20)]"

lemma create_dense:
  assumes "cap86_laws env view"
  obtains m g' where "old_dense_map env g = Inr (m, g')" and "map_of_object view g' m = owner_and_value env"
  using law_dense [OF assms keys_ok_guest(1), of "[val_from_u32 env 10, val_from_u32 env 20]" g]
  by (auto simp: creates_def old_dense_map_def)

lemma create_sparse:
  assumes "cap86_laws env view"
  obtains m g' where "new_sparse_map env v g = Inr (m, g')"
    and "map_of_object view g' m = (if v = val_void env then [] else [(''extra'', v)]) @ owner_and_value env"
  using law_sparse [OF assms keys_ok_guest(2), of "[v, val_from_u32 env 10, val_from_u32 env 20]" g] law_void [OF assms]
  by (auto simp: creates_def new_sparse_map_def split: if_splits)

text \<open>What an export does after its read.\<close>

lemma after_read:
  assumes "cap86_laws env view" and "reads r (Some vs)"
  shows "returns view (and_then r (\<lambda>(out, g). as_vector env out g)) vs"
proof -
  obtain g where r: "r = Inr (vs, g)" using assms(2) by (auto simp: reads_def)
  obtain vector g' where "vec_new_from_slice env vs g = Inr (vector, g')"
    and "vec_of_payload view g' (payload_of env vector) = vs" by (rule law_vec [OF assms(1)])
  then show ?thesis by (auto simp: r as_vector_def returns_def)
qed

lemma after_failed_read: "reads r None \<Longrightarrow> traps (and_then r f)"
  by (auto simp: reads_def traps_def)

text \<open>
  C26: The matrix of the experiment follows from what CAP-0086 documents, from every host state: old data
  reads through the sparse reader with a void extra member and traps in the dense reader of the new
  shape, a sparse write without the extra member is readable by the old dense reader and with it
  traps there, and the sparse reader returns all three members. No returned value comes from the
  buffer the caller passed.
\<close>

theorem guest_matrix:
  assumes "cap86_laws env view"
  shows "returns view (old_to_new_sparse env g) [val_void env, val_from_u32 env 10, val_from_u32 env 20]
    \<and> traps (old_to_new_dense env g)
    \<and> returns view (new_none_to_old_dense env g) [val_from_u32 env 10, val_from_u32 env 20]
    \<and> traps (new_some_to_old_dense env g)
    \<and> returns view (new_some_to_new_sparse env g) [val_from_u32 env 30, val_from_u32 env 10, val_from_u32 env 20]"
proof (intro conjI)
  obtain m g' where old: "old_dense_map env g = Inr (m, g')" "map_of_object view g' m = owner_and_value env"
    by (rule create_dense [OF assms])
  show "returns view (old_to_new_sparse env g) [val_void env, val_from_u32 env 10, val_from_u32 env 20]"
    unfolding old_to_new_sparse_def old and_then_simps case_prod_conv Let_def
    by (rule after_read [OF assms])
      (use law_sparse_unpack [OF assms keys_ok_guest(2), where m = m and g = g'] in \<open>simp add: old sparse_read_def\<close>)
  show "traps (old_to_new_dense env g)"
    unfolding old_to_new_dense_def old and_then_simps case_prod_conv Let_def
    by (rule after_failed_read)
      (use law_unpack [OF assms keys_ok_guest(2), where m = m and g = g'] in \<open>simp add: old dense_read_def\<close>)
  obtain m1 g1 where none: "new_sparse_map env (val_void env) g = Inr (m1, g1)"
    "map_of_object view g1 m1 = owner_and_value env"
    by (rule create_sparse [OF assms, of "val_void env" g]) simp
  show "returns view (new_none_to_old_dense env g) [val_from_u32 env 10, val_from_u32 env 20]"
    unfolding new_none_to_old_dense_def none and_then_simps case_prod_conv Let_def
    by (rule after_read [OF assms])
      (use law_unpack [OF assms keys_ok_guest(1), where m = m1 and g = g1] in \<open>simp add: none dense_read_def\<close>)
  obtain m2 g2 where present: "new_sparse_map env (val_from_u32 env 30) g = Inr (m2, g2)"
    "map_of_object view g2 m2 = (''extra'', val_from_u32 env 30) # owner_and_value env"
    by (rule create_sparse [OF assms, of "val_from_u32 env 30" g]) (simp add: law_void [OF assms])
  show "traps (new_some_to_old_dense env g)"
    unfolding new_some_to_old_dense_def present and_then_simps case_prod_conv Let_def
    by (rule after_failed_read)
      (use law_unpack [OF assms keys_ok_guest(1), where m = m2 and g = g2] in \<open>simp add: present dense_read_def\<close>)
  show "returns view (new_some_to_new_sparse env g) [val_from_u32 env 30, val_from_u32 env 10, val_from_u32 env 20]"
    unfolding new_some_to_new_sparse_def present and_then_simps case_prod_conv Let_def
    by (rule after_read [OF assms])
      (use law_sparse_unpack [OF assms keys_ok_guest(2), where m = m2 and g = g2] in \<open>simp add: present sparse_read_def\<close>)
qed

section \<open>A sample environment\<close>

text \<open>A map object is its content, and the state is the content of the last vector.\<close>

type_synonym sample_map = "(string \<times> u32 option) list"

definition sample_env :: "(u32 option list, u32 option, sample_map, unit) guest_env" where
  "sample_env = \<lparr>map_new_from_slices = (\<lambda>ks vs g. Inr (zip ks vs, g)),
     sparse_map_new_from_slices = (\<lambda>ks vs g. Inr (filter (\<lambda>kv. snd kv \<noteq> None) (zip ks vs), g)),
     map_unpack_to_slice = (\<lambda>m ks buffer g. case dense_read m ks of None \<Rightarrow> Inl Host_Trap | Some vs \<Rightarrow> Inr (vs, g)),
     sparse_map_unpack_to_slice = (\<lambda>m ks buffer g. Inr (sparse_read None m ks, g)),
     vec_new_from_slice = (\<lambda>vs g. Inr ((), vs)), val_from_u32 = Some, val_void = None, payload_of = (\<lambda>_. 0)\<rparr>"

definition sample_view :: "(u32 option list, u32 option, sample_map) guest_view" where
  "sample_view = \<lparr>map_of_object = (\<lambda>g m. m), vec_of_payload = (\<lambda>g payload. g)\<rparr>"

lemma sample_env_laws: "cap86_laws sample_env sample_view"
  by (auto simp: cap86_laws_def sample_env_def sample_view_def creates_def reads_def split: option.split)

theorem guest_matrix_witness:
  "old_to_new_sparse sample_env [] = Inr (0, [None, Some 10, Some 20])
     \<and> traps (new_some_to_old_dense sample_env [])"
  using guest_matrix [OF sample_env_laws, of "[]"]
  by (auto simp: returns_def sample_env_def sample_view_def old_to_new_sparse_def old_dense_map_def as_vector_def)

end
