(* ===== verification/Cap86_Runner.thy ===== *)
theory Cap86_Runner
  imports Plan_Data Std_Text Cap86_Guest
begin

text \<open>
  The runner of the CAP-0086 runtime experiment (\<open>experiments/cap0086-runtime/runner/src/main.rs\<close>): it
  checks the import contract and the call graph of the guest with the inspectors of the core, then
  executes the exports of the guest in a host of protocol 28 and compares what they return.

  The host library is a parameter, the record \<open>host_lib\<close> of the functions the runner calls, over a
  host state that they change; so are the file system and the printers of \<open>runner_env\<close>. Nothing is
  assumed of them. The specification of a passing run is stated apart from the operations of the
  runner: the imports and host calls as literals, a run of an export as the chain of its host calls,
  and the elements of a vector as an inductive relation.
\<close>

section \<open>The host\<close>

definition PROTOCOL_28 :: u32 where
  "PROTOCOL_28 = 28"

definition EXPECTED_FUNCTION_IMPORTS :: "string list" where
  "EXPECTED_FUNCTION_IMPORTS = [''m.9'', ''m.b'', ''v.g'', ''m.a'', ''m.c'']"

record ledger_info =
  li_protocol_version :: u32
  li_sequence_number :: u32
  li_timestamp :: u64
  li_network_id :: "nat list"
  li_base_reserve :: u32
  li_min_persistent_entry_ttl :: u32
  li_min_temp_entry_ttl :: u32
  li_max_entry_ttl :: u32

record ('h, 'v, 'vec, 'e) host_lib =
  host_with_recording_storage :: 'h
  set_ledger_info :: "ledger_info \<Rightarrow> 'h \<Rightarrow> 'e + 'h"
  set_test_prng :: "'h \<Rightarrow> 'h"
  reset_budget_unlimited :: "'h \<Rightarrow> 'e + 'h"
  generate_account_id :: "'h \<Rightarrow> bytes \<times> 'h"
  generate_bytes_array :: "'h \<Rightarrow> bytes \<times> 'h"
  register_test_contract :: "bytes \<Rightarrow> bytes \<Rightarrow> bytes \<Rightarrow> 'h \<Rightarrow> 'e + 'v \<times> 'h"
  symbol_from_str :: "string \<Rightarrow> 'h \<Rightarrow> 'e + 'v \<times> 'h"
  vec_from_slice :: "'v list \<Rightarrow> 'h \<Rightarrow> 'e + 'vec \<times> 'h"
  call_contract :: "'v \<Rightarrow> 'v \<Rightarrow> 'vec \<Rightarrow> 'h \<Rightarrow> 'e + 'v \<times> 'h"
  vec_object_from_val :: "'v \<Rightarrow> 'h \<Rightarrow> 'e + 'vec \<times> 'h"
  vec_len :: "'vec \<Rightarrow> 'h \<Rightarrow> 'e + u32 \<times> 'h"
  vec_get :: "'vec \<Rightarrow> u32 \<Rightarrow> 'h \<Rightarrow> 'e + 'v \<times> 'h"
  is_void :: "'v \<Rightarrow> bool"
  u32_from_val :: "'v \<Rightarrow> 'h \<Rightarrow> 'e + u32 \<times> 'h"
  host_error_text :: "'e \<Rightarrow> string"

definition host_for_protocol :: "('h, 'v, 'vec, 'e) host_lib \<Rightarrow> u32 \<Rightarrow> 'e + 'h" where
  "host_for_protocol lib protocol_version =
     and_then (set_ledger_info lib
       \<lparr>li_protocol_version = protocol_version, li_sequence_number = 1, li_timestamp = 0,
        li_network_id = replicate 32 0, li_base_reserve = 0, li_min_persistent_entry_ttl = 4096,
        li_min_temp_entry_ttl = 16, li_max_entry_ttl = 6312000\<rparr> (host_with_recording_storage lib)) (\<lambda>host.
     reset_budget_unlimited lib (set_test_prng lib host))"

definition invoke :: "('h, 'v, 'vec, 'e) host_lib \<Rightarrow> bytes \<Rightarrow> string \<Rightarrow> u32 \<Rightarrow> 'e + 'h \<times> 'v" where
  "invoke lib wasm export protocol =
     and_then (host_for_protocol lib protocol) (\<lambda>host.
     let (account, host) = generate_account_id lib host; (salt, host) = generate_bytes_array lib host in
     and_then (register_test_contract lib wasm account salt host) (\<lambda>(contract, host).
     and_then (symbol_from_str lib export host) (\<lambda>(function, host).
     and_then (vec_from_slice lib [] host) (\<lambda>(arguments, host).
     and_then (call_contract lib contract function arguments host) (\<lambda>(result, host).
     Inr (host, result))))))"

text \<open>The elements of a vector: a void one is none, every other one must be a \<open>u32\<close>.\<close>

fun vector_items :: "('h, 'v, 'vec, 'e) host_lib \<Rightarrow> 'vec \<Rightarrow> nat list \<Rightarrow> 'h \<Rightarrow> 'e + u32 option list" where
  "vector_items lib vector [] host = Inr []"
| "vector_items lib vector (index # indices) host =
     and_then (vec_get lib vector (word_of_nat index) host) (\<lambda>(item, host).
     and_then (if is_void lib item then Inr (None, host)
               else and_then (u32_from_val lib item host) (\<lambda>(n, host). Inr (Some n, host))) (\<lambda>(first, host).
     and_then (vector_items lib vector indices host) (\<lambda>rest. Inr (first # rest))))"

definition vector_values :: "('h, 'v, 'vec, 'e) host_lib \<Rightarrow> 'h \<Rightarrow> 'v \<Rightarrow> 'e + u32 option list" where
  "vector_values lib host val =
     and_then (vec_object_from_val lib val host) (\<lambda>(vector, host).
     and_then (vec_len lib vector host) (\<lambda>(count, host).
     vector_items lib vector [0..<unat count] host))"

section \<open>Expectations\<close>

text \<open>
  The messages of the source as constructors with their parts; \<open>runner_message\<close> below is their text.
\<close>

datatype 'e runner_error =
    Cannot_Read string string
  | Import_Inspection_Failed core_error
  | Function_Import_Contract "string list"
  | Call_Graph_Inspection_Failed core_error
  | Export_Absent string
  | Reaches_Dynamic_Dispatch string
  | Reaches_Other_Imports string "string bset" "string bset"
  | Should_Execute string 'e
  | Should_Return_Vector string 'e
  | Returned_Other string "u32 option list" "u32 option list"
  | Unexpectedly_Executed string u32

definition map_error :: "('e \<Rightarrow> 'f) \<Rightarrow> 'e + 'a \<Rightarrow> 'f + 'a" where
  "map_error f r = (case r of Inl e \<Rightarrow> Inl (f e) | Inr x \<Rightarrow> Inr x)"

lemma map_error_simps [simp]:
  "map_error f (Inl e) = Inl (f e)"
  "map_error f (Inr x) = Inr x"
  by (simp_all add: map_error_def)

lemma map_error_Inr_iff [simp]: "map_error f r = Inr x \<longleftrightarrow> r = Inr x"
  by (cases r) simp_all

definition expect_values ::
  "('h, 'v, 'vec, 'e) host_lib \<Rightarrow> bytes \<Rightarrow> string \<Rightarrow> u32 option list \<Rightarrow> 'e runner_error + unit" where
  "expect_values lib wasm export expected =
     and_then (map_error (Should_Execute export) (invoke lib wasm export PROTOCOL_28)) (\<lambda>(host, val).
     and_then (map_error (Should_Return_Vector export) (vector_values lib host val)) (\<lambda>observed.
     if observed \<noteq> expected then Inl (Returned_Other export observed expected) else Inr ()))"

definition expect_trap ::
  "('h, 'v, 'vec, 'e) host_lib \<Rightarrow> bytes \<Rightarrow> string \<Rightarrow> u32 \<Rightarrow> 'e runner_error + string" where
  "expect_trap lib wasm export protocol =
     (case invoke lib wasm export protocol of
        Inr _ \<Rightarrow> Inl (Unexpectedly_Executed export protocol)
      | Inl e \<Rightarrow> Inr (host_error_text lib e))"

text \<open>The table in \<open>require_reachable_imports\<close> and one round of its loop.\<close>

definition reachability_expectations :: "(string \<times> string list) list" where
  "reachability_expectations =
     [(''old_to_new_sparse'', [''m.9'', ''m.c'', ''v.g'']),
      (''old_to_new_dense'', [''m.9'', ''m.a'', ''v.g'']),
      (''new_none_to_old_dense'', [''m.a'', ''m.b'', ''v.g'']),
      (''new_some_to_old_dense'', [''m.a'', ''m.b'', ''v.g'']),
      (''new_some_to_new_sparse'', [''m.b'', ''m.c'', ''v.g''])]"

definition check_reachability ::
  "(string, export_call_evidence) bmap \<Rightarrow> unit \<Rightarrow> string \<times> string list \<Rightarrow> 'e runner_error + unit" where
  "check_reachability evidence u = (\<lambda>(export, expected).
     and_then (ok_or (bm_get evidence export) (Export_Absent export)) (\<lambda>observed.
     if ev_dynamic_dispatch_reachable observed then Inl (Reaches_Dynamic_Dispatch export)
     else if ev_host_imports observed \<noteq> bs_of_list expected
     then Inl (Reaches_Other_Imports export (ev_host_imports observed) (bs_of_list expected))
     else Inr ()))"

definition require_reachable_imports :: "wasm_lib \<Rightarrow> bytes \<Rightarrow> 'e runner_error + unit" where
  "require_reachable_imports wlib wasm =
     and_then (map_error Import_Inspection_Failed (inspect_function_imports wlib wasm)) (\<lambda>imports.
     let observed_imports = map canonical_name imports in
     if observed_imports \<noteq> EXPECTED_FUNCTION_IMPORTS then Inl (Function_Import_Contract observed_imports)
     else
       and_then (map_error Call_Graph_Inspection_Failed (inspect_export_call_evidence wlib wasm)) (\<lambda>evidence.
       try_fold (check_reachability evidence) () reachability_expectations))"

section \<open>The run\<close>

text \<open>
  What surrounds the runner: reading a file, the texts of a core error and of a quoted string, and
  the JSON printer.
\<close>

record runner_env =
  read_file :: "string \<Rightarrow> string + bytes"
  core_error_text :: "core_error \<Rightarrow> string"
  str_debug :: "string \<Rightarrow> string"
  json_pretty :: "json \<Rightarrow> string"

definition show_list :: "('a \<Rightarrow> string) \<Rightarrow> 'a list \<Rightarrow> string" where
  "show_list f xs = ''['' @ join '', '' (map f xs) @ '']''"

definition show_set :: "('a \<Rightarrow> string) \<Rightarrow> 'a list \<Rightarrow> string" where
  "show_set f xs = ''{'' @ join '', '' (map f xs) @ ''}''"

definition show_item :: "u32 option \<Rightarrow> string" where
  "show_item x = (case x of None \<Rightarrow> ''None'' | Some n \<Rightarrow> ''Some('' @ show_u32 n @ '')'')"

fun runner_message :: "runner_env \<Rightarrow> ('e \<Rightarrow> string) \<Rightarrow> 'e runner_error \<Rightarrow> string" where
  "runner_message env host_text (Cannot_Read path e) = ''cannot read '' @ from_utf8_lossy path @ '': '' @ e"
| "runner_message env host_text (Import_Inspection_Failed e) =
     ''function-import inspection failed: '' @ core_error_text env e"
| "runner_message env host_text (Function_Import_Contract observed) =
     ''function-import contract is '' @ show_list (str_debug env) observed
       @ ''; expected '' @ show_list (str_debug env) EXPECTED_FUNCTION_IMPORTS"
| "runner_message env host_text (Call_Graph_Inspection_Failed e) =
     ''call-graph inspection failed: '' @ core_error_text env e"
| "runner_message env host_text (Export_Absent export) = ''required export '' @ export @ '' is absent''"
| "runner_message env host_text (Reaches_Dynamic_Dispatch export) =
     export @ '' reaches dynamic dispatch, so its host-call graph is incomplete''"
| "runner_message env host_text (Reaches_Other_Imports export observed expected) =
     export @ '' reaches '' @ show_set (str_debug env) observed @ ''; expected '' @ show_set (str_debug env) expected"
| "runner_message env host_text (Should_Execute export e) =
     export @ '' should execute under protocol 28: '' @ host_text e"
| "runner_message env host_text (Should_Return_Vector export e) =
     export @ '' should return a u32/Void vector: '' @ host_text e"
| "runner_message env host_text (Returned_Other export observed expected) =
     export @ '' returned '' @ show_list show_item observed @ ''; expected '' @ show_list show_item expected"
| "runner_message env host_text (Unexpectedly_Executed export protocol) =
     export @ '' unexpectedly executed under protocol '' @ show_u32 protocol"

definition runner_report :: "string \<Rightarrow> string \<Rightarrow> string \<Rightarrow> json" where
  "runner_report dense_old_to_new present_to_old protocol_27 = object
     [(''status'', String ''PASS''),
      (''hostVersion'', String ''28.0.1''),
      (''protocol'', u32_json 28),
      (''facts'', object
        [(''denseOldToSparseNew'', list_json (opt_json u32_json) [None, Some 10, Some 20]),
         (''denseOldToDenseNew'', String ''TRAP''),
         (''sparseNewNoneToDenseOld'', list_json u32_json [10, 20]),
         (''sparseNewSomeToDenseOld'', String ''TRAP''),
         (''sparseNewSomeToSparseNew'', list_json u32_json [30, 10, 20]),
         (''protocol27RejectsProtocol28Guest'', Bool True)]),
      (''trapEvidence'', object
        [(''denseOldToDenseNew'', String dense_old_to_new),
         (''sparseNewSomeToDenseOld'', String present_to_old),
         (''protocol27'', String protocol_27)]),
      (''inference'', String ''Optional-field rollout can preserve an old dense reader only while the sparse writer omits the new field.''),
      (''unknown'', list_json String
        [''SDK-generated per-type sparse reader binding'',
         ''persisted ledger-state migration'',
         ''complete deployed caller graph'',
         ''public-network protocol activation''])]"

definition run_witness ::
  "runner_env \<Rightarrow> wasm_lib \<Rightarrow> ('h, 'v, 'vec, 'e) host_lib \<Rightarrow> string \<Rightarrow> 'e runner_error + json" where
  "run_witness env wlib lib wasm_path =
     and_then (map_error (Cannot_Read wasm_path) (read_file env wasm_path)) (\<lambda>wasm.
     and_then (require_reachable_imports wlib wasm) (\<lambda>_.
     and_then (expect_values lib wasm ''old_to_new_sparse'' [None, Some 10, Some 20]) (\<lambda>_.
     and_then (expect_trap lib wasm ''old_to_new_dense'' PROTOCOL_28) (\<lambda>dense_old_to_new.
     and_then (expect_values lib wasm ''new_none_to_old_dense'' [Some 10, Some 20]) (\<lambda>_.
     and_then (expect_trap lib wasm ''new_some_to_old_dense'' PROTOCOL_28) (\<lambda>present_to_old.
     and_then (expect_values lib wasm ''new_some_to_new_sparse'' [Some 30, Some 10, Some 20]) (\<lambda>_.
     and_then (expect_trap lib wasm ''old_to_new_sparse'' 27) (\<lambda>protocol_27.
     Inr (runner_report dense_old_to_new present_to_old protocol_27)))))))))"

record runner_outcome =
  ro_exit :: nat
  ro_stdout :: "string list"
  ro_stderr :: "string list"

definition runner_main ::
  "runner_env \<Rightarrow> wasm_lib \<Rightarrow> ('h, 'v, 'vec, 'e) host_lib \<Rightarrow> string list \<Rightarrow> runner_outcome" where
  "runner_main env wlib lib args =
     (case nth_opt args 1 of
        None \<Rightarrow> \<lparr>ro_exit = 2, ro_stdout = [], ro_stderr = [''usage: cap0086-runtime-runner <guest.wasm>'']\<rparr>
      | Some path \<Rightarrow>
          (case run_witness env wlib lib path of
             Inr report \<Rightarrow> \<lparr>ro_exit = 0, ro_stdout = [json_pretty env report], ro_stderr = []\<rparr>
           | Inl e \<Rightarrow> \<lparr>ro_exit = 1, ro_stdout = [],
               ro_stderr = [''CAP-0086 runtime witness failed: '' @ runner_message env (host_error_text lib) e]\<rparr>))"

section \<open>Specification\<close>

text \<open>
  The specification does not mention the operations of the runner. The guest imports exactly the five
  functions of \<open>m\<close> and \<open>v\<close> in their order, and each of the five exports reaches exactly its own
  three of them and no dynamic dispatch, in the results of the two inspectors of the core.
\<close>

definition reaches_exactly :: "(string, export_call_evidence) bmap \<Rightarrow> string \<Rightarrow> string set \<Rightarrow> bool" where
  "reaches_exactly evidence export host_calls \<longleftrightarrow>
     (\<exists>found. bm_get evidence export = Some found \<and> \<not> ev_dynamic_dispatch_reachable found
        \<and> set (ev_host_imports found) = host_calls)"

definition import_contract :: "wasm_lib \<Rightarrow> bytes \<Rightarrow> bool" where
  "import_contract wlib wasm \<longleftrightarrow>
     (\<exists>fs. inspect_function_imports wlib wasm = Inr fs
        \<and> map (\<lambda>f. fi_module f @ ''.'' @ fi_name f) fs = [''m.9'', ''m.b'', ''v.g'', ''m.a'', ''m.c''])
     \<and> (\<exists>evidence. inspect_export_call_evidence wlib wasm = Inr evidence
        \<and> reaches_exactly evidence ''old_to_new_sparse'' {''m.9'', ''m.c'', ''v.g''}
        \<and> reaches_exactly evidence ''old_to_new_dense'' {''m.9'', ''m.a'', ''v.g''}
        \<and> reaches_exactly evidence ''new_none_to_old_dense'' {''m.b'', ''m.a'', ''v.g''}
        \<and> reaches_exactly evidence ''new_some_to_old_dense'' {''m.b'', ''m.a'', ''v.g''}
        \<and> reaches_exactly evidence ''new_some_to_new_sparse'' {''m.b'', ''m.c'', ''v.g''})"

text \<open>
  A run that returns: a fresh host gets a ledger of the given protocol, a new random generator and no
  budget limit; the contract is registered under a generated account and salt and its export is
  called by name without arguments. A run traps when one of its steps fails, so when it does not return.
\<close>

definition returns ::
  "('h, 'v, 'vec, 'e) host_lib \<Rightarrow> bytes \<Rightarrow> string \<Rightarrow> u32 \<Rightarrow> 'h \<Rightarrow> 'v \<Rightarrow> bool" where
  "returns lib wasm export protocol host result \<longleftrightarrow>
     (\<exists>h1 h2 account h3 salt h4 contract h5 name h6 arguments h7.
        set_ledger_info lib
          \<lparr>li_protocol_version = protocol, li_sequence_number = 1, li_timestamp = 0,
           li_network_id = replicate 32 0, li_base_reserve = 0, li_min_persistent_entry_ttl = 4096,
           li_min_temp_entry_ttl = 16, li_max_entry_ttl = 6312000\<rparr> (host_with_recording_storage lib) = Inr h1
        \<and> reset_budget_unlimited lib (set_test_prng lib h1) = Inr h2
        \<and> generate_account_id lib h2 = (account, h3)
        \<and> generate_bytes_array lib h3 = (salt, h4)
        \<and> register_test_contract lib wasm account salt h4 = Inr (contract, h5)
        \<and> symbol_from_str lib export h5 = Inr (name, h6)
        \<and> vec_from_slice lib [] h6 = Inr (arguments, h7)
        \<and> call_contract lib contract name arguments h7 = Inr (result, host))"

text \<open>
  The elements of a vector of \<open>n\<close> elements from index \<open>i\<close> on, each read once and in order: void is
  no number, everything else is read as one.
\<close>

inductive elements ::
  "('h, 'v, 'vec, 'e) host_lib \<Rightarrow> 'vec \<Rightarrow> nat \<Rightarrow> nat \<Rightarrow> 'h \<Rightarrow> u32 option list \<Rightarrow> bool"
  for lib :: "('h, 'v, 'vec, 'e) host_lib" and vector :: 'vec and n :: nat
where
  all_read: "n \<le> i \<Longrightarrow> elements lib vector n i host []"
| void: "i < n \<Longrightarrow> vec_get lib vector (word_of_nat i) host = Inr (item, host') \<Longrightarrow> is_void lib item \<Longrightarrow>
    elements lib vector n (Suc i) host' vs \<Longrightarrow> elements lib vector n i host (None # vs)"
| number: "i < n \<Longrightarrow> vec_get lib vector (word_of_nat i) host = Inr (item, host') \<Longrightarrow> \<not> is_void lib item \<Longrightarrow>
    u32_from_val lib item host' = Inr (k, host'') \<Longrightarrow>
    elements lib vector n (Suc i) host'' vs \<Longrightarrow> elements lib vector n i host (Some k # vs)"

definition observed :: "('h, 'v, 'vec, 'e) host_lib \<Rightarrow> bytes \<Rightarrow> string \<Rightarrow> u32 option list \<Rightarrow> bool" where
  "observed lib wasm export vs \<longleftrightarrow>
     (\<exists>host result vector host' count host''.
        returns lib wasm export 28 host result
        \<and> vec_object_from_val lib result host = Inr (vector, host')
        \<and> vec_len lib vector host' = Inr (count, host'')
        \<and> elements lib vector (unat count) 0 host'' vs)"

definition trapped :: "('h, 'v, 'vec, 'e) host_lib \<Rightarrow> bytes \<Rightarrow> string \<Rightarrow> u32 \<Rightarrow> bool" where
  "trapped lib wasm export protocol \<longleftrightarrow> (\<forall>host result. \<not> returns lib wasm export protocol host result)"

definition matrix_observed :: "('h, 'v, 'vec, 'e) host_lib \<Rightarrow> bytes \<Rightarrow> bool" where
  "matrix_observed lib wasm \<longleftrightarrow>
     observed lib wasm ''old_to_new_sparse'' [None, Some 10, Some 20]
     \<and> trapped lib wasm ''old_to_new_dense'' 28
     \<and> observed lib wasm ''new_none_to_old_dense'' [Some 10, Some 20]
     \<and> trapped lib wasm ''new_some_to_old_dense'' 28
     \<and> observed lib wasm ''new_some_to_new_sparse'' [Some 30, Some 10, Some 20]
     \<and> trapped lib wasm ''old_to_new_sparse'' 27"

lemma invoke_Inr_iff: "invoke lib wasm export protocol = Inr (host, result) \<longleftrightarrow> returns lib wasm export protocol host result"
  by (simp add: invoke_def host_for_protocol_def returns_def and_then_Inr_iff Let_def split_beta prod_eq_iff) fastforce

lemma invoke_Inl_iff: "(\<exists>e. invoke lib wasm export protocol = Inl e) \<longleftrightarrow> trapped lib wasm export protocol"
  by (cases "invoke lib wasm export protocol") (auto simp: trapped_def simp flip: invoke_Inr_iff)

lemma vector_items_iff: "vector_items lib vector [i..<n] host = Inr vs \<longleftrightarrow> elements lib vector n i host vs"
proof (induction "n - i" arbitrary: i host vs)
  case 0
  then show ?case by (subst elements.simps) auto
next
  case (Suc d)
  then have i: "i < n" and d: "d = n - Suc i" by simp_all
  show ?case
    unfolding upt_conv_Cons [OF i] vector_items.simps elements.simps [of lib vector n i] and_then_Inr_iff
      Suc.hyps(1) [OF d]
    using i by (auto simp: and_then_Inr_iff Suc.hyps(1) [OF d] split: if_splits) blast+
qed

lemma observed_iff:
  "observed lib wasm export vs \<longleftrightarrow>
     (\<exists>host val. invoke lib wasm export 28 = Inr (host, val) \<and> vector_values lib host val = Inr vs)"
  unfolding observed_def invoke_Inr_iff vector_values_def and_then_Inr_iff
  by (fastforce simp: and_then_Inr_iff vector_items_iff)

lemma expect_values_iff: "expect_values lib wasm export expected = Inr u \<longleftrightarrow> observed lib wasm export expected"
  by (auto simp: expect_values_def observed_iff PROTOCOL_28_def and_then_Inr_iff)

lemma expect_trap_iff:
  "(\<exists>text. expect_trap lib wasm export protocol = Inr text) \<longleftrightarrow> trapped lib wasm export protocol"
  unfolding invoke_Inl_iff [symmetric] by (auto simp: expect_trap_def split: sum.splits)

lemma evidence_ok:
  assumes "inspect_export_call_evidence wlib wasm = Inr evidence" and "bm_get evidence export = Some x"
  shows "bs_ok (ev_host_imports x)"
proof (rule inspect_exports_get [OF assms(1)])
  fix m n
  assume "\<And>name evidence'. bm_get evidence name = Some evidence' \<longleftrightarrow>
    (\<exists>f. bm_get (mc_function_exports m) name = Some f
       \<and> collect_export_call_evidence n (mc_function_imports m) (mc_function_bodies m) [f] [] no_evidence
           = Inr evidence')"
  with assms(2) show ?thesis by (auto intro: bs_ok_collect [rotated] simp: no_evidence_def)
qed

lemma check_reachability_iff:
  assumes "inspect_export_call_evidence wlib wasm = Inr evidence"
  shows "check_reachability evidence u (export, expected) = Inr u' \<longleftrightarrow>
    reaches_exactly evidence export (set expected)"
proof (cases "bm_get evidence export")
  case (Some x)
  then have "ev_host_imports x = bs_of_list expected \<longleftrightarrow> set (ev_host_imports x) = set expected"
    using bs_eq_iff [OF evidence_ok [OF assms Some] bs_ok_of_list] by simp
  with Some show ?thesis by (simp add: check_reachability_def reaches_exactly_def)
qed (simp add: check_reachability_def reaches_exactly_def)

lemma try_fold_checks:
  "try_fold f () xs = Inr () \<longleftrightarrow> list_all (\<lambda>x. f () x = Inr ()) xs"
  by (induction xs) (auto simp: and_then_Inr_iff)

lemma require_reachable_imports_iff:
  "(require_reachable_imports wlib wasm :: 'e runner_error + unit) = Inr () \<longleftrightarrow> import_contract wlib wasm"
proof (cases "inspect_function_imports wlib wasm")
  case (Inr fis)
  then show ?thesis
  proof (cases "inspect_export_call_evidence wlib wasm")
    case evidence: (Inr evidence)
    have "(try_fold (check_reachability evidence) () xs :: 'e runner_error + unit) = Inr () \<longleftrightarrow>
        list_all (\<lambda>(export, expected). reaches_exactly evidence export (set expected)) xs" for xs
      unfolding try_fold_checks by (rule list_all_cong) (auto simp: check_reachability_iff [OF evidence])
    with Inr evidence show ?thesis
      by (simp add: require_reachable_imports_def import_contract_def reachability_expectations_def
          EXPECTED_FUNCTION_IMPORTS_def canonical_name_def [abs_def] insert_commute Let_def del: try_fold.simps)
  qed (simp add: require_reachable_imports_def import_contract_def Let_def)
qed (simp add: require_reachable_imports_def import_contract_def)

lemma run_witness_passes:
  "(\<exists>report. run_witness env wlib lib path = Inr report) \<longleftrightarrow>
     (\<exists>wasm. read_file env path = Inr wasm \<and> import_contract wlib wasm \<and> matrix_observed lib wasm)"
  by (simp add: run_witness_def and_then_Inr_iff expect_values_iff require_reachable_imports_iff
      matrix_observed_def PROTOCOL_28_def flip: expect_trap_iff) blast

text \<open>
  C27: The exit code of the runner is exact. It is 2 when no path is given. Otherwise it is 0 exactly when
  the file can be read, the guest imports exactly the five host functions in their order, every export
  of the matrix is present, reaches exactly its expected host functions and no dynamic dispatch, and the
  host returns the expected vectors and traps exactly where the matrix says, under protocol 28 and for
  the sparse reader under 27; it is 1 in every other case.
\<close>

theorem runner_exit_code_exact:
  "ro_exit (runner_main env wlib lib args) =
     (case nth_opt args 1 of
        None \<Rightarrow> 2
      | Some path \<Rightarrow>
          if (\<exists>wasm. read_file env path = Inr wasm \<and> import_contract wlib wasm \<and> matrix_observed lib wasm)
          then 0 else 1)"
  unfolding run_witness_passes [symmetric] by (simp add: runner_main_def split: option.split sum.split)

section \<open>The guest in a sample host\<close>

text \<open>
  The module of the runner's tests, with its imports and the calls of its exports as arguments, and a
  host that executes the exports of \<open>Cap86_Guest\<close> from protocol 28 on. On them the runner passes, and
  the tests for a missing, extra, duplicate or reordered import, a swapped call, dynamic dispatch and a
  missing host call are rejections.
\<close>

definition guest_exports :: "string list" where
  "guest_exports = map fst reachability_expectations"

definition guest_module :: "(string \<times> string) list \<Rightarrow> operator list list \<Rightarrow> wasm_lib" where
  "guest_module host_functions bodies = \<lparr>validate_all = (\<lambda>_. Inr ()), parse_all = (\<lambda>_.
     [Inr (ImportSection (map (\<lambda>(m, f). Inr \<lparr>wi_module = m, wi_name = f, wi_is_func = True\<rparr>) host_functions)),
      Inr (ExportSection (map (\<lambda>(i, export). Inr \<lparr>we_name = export, we_is_func = True,
         we_index = word_of_nat (length host_functions + i)\<rparr>) (enumerate 0 guest_exports)))]
     @ map (\<lambda>body. Inr (CodeSectionEntry (Inr (map Inr body)))) bodies)\<rparr>"

definition host_functions :: "(string \<times> string) list" where
  "host_functions = [(''m'', ''9''), (''m'', ''b''), (''v'', ''g''), (''m'', ''a''), (''m'', ''c'')]"

definition guest_bodies :: "operator list list" where
  "guest_bodies = [[Call 0, Call 4, Call 2], [Call 0, Call 3, Call 2], [Call 1, Call 3, Call 2],
     [Call 1, Call 3, Call 2], [Call 1, Call 4, Call 2]]"

abbreviation accepts_module :: "(string \<times> string) list \<Rightarrow> operator list list \<Rightarrow> nat runner_error + unit" where
  "accepts_module imps bodies \<equiv> require_reachable_imports (guest_module imps bodies) []"

lemma guest_module_accepted: "accepts_module host_functions guest_bodies = Inr ()"
  by code_simp

lemma guest_module_rejections:
  "accepts_module (host_functions @ [(''m'', ''manual_lookup'')]) guest_bodies
     = Inl (Function_Import_Contract (EXPECTED_FUNCTION_IMPORTS @ [''m.manual_lookup'']))"
  "accepts_module (butlast host_functions) guest_bodies
     = Inl (Function_Import_Contract (butlast EXPECTED_FUNCTION_IMPORTS))"
  "accepts_module (host_functions @ [(''m'', ''c'')]) guest_bodies
     = Inl (Function_Import_Contract (EXPECTED_FUNCTION_IMPORTS @ [''m.c'']))"
  "accepts_module [(''m'', ''b''), (''m'', ''9''), (''v'', ''g''), (''m'', ''a''), (''m'', ''c'')] guest_bodies
     = Inl (Function_Import_Contract [''m.b'', ''m.9'', ''v.g'', ''m.a'', ''m.c''])"
  "accepts_module host_functions ([Call 0, Call 3, Call 2] # tl guest_bodies)
     = Inl (Reaches_Other_Imports ''old_to_new_sparse'' [''m.9'', ''m.a'', ''v.g''] [''m.9'', ''m.c'', ''v.g''])"
  "accepts_module host_functions ([CallIndirect] # tl guest_bodies)
     = Inl (Reaches_Dynamic_Dispatch ''old_to_new_sparse'')"
  "accepts_module host_functions ([Call 2] # tl guest_bodies)
     = Inl (Reaches_Other_Imports ''old_to_new_sparse'' [''v.g''] [''m.9'', ''m.c'', ''v.g''])"
  by code_simp+

datatype sample_val = Contract | Symbol string | Item "u32 option" | Handle

definition guest_function :: "string \<Rightarrow> (u32 option list \<Rightarrow> trap + u64 \<times> u32 option list) option" where
  "guest_function = map_of (zip guest_exports
     [old_to_new_sparse sample_env, old_to_new_dense sample_env, new_none_to_old_dense sample_env,
      new_some_to_old_dense sample_env, new_some_to_new_sparse sample_env])"

definition call_guest :: "sample_val \<Rightarrow> u32 option list \<times> u32 \<Rightarrow> nat + sample_val \<times> u32 option list \<times> u32" where
  "call_guest function = (\<lambda>(g, protocol).
     case function of
       Symbol export \<Rightarrow>
         (case guest_function export of
            None \<Rightarrow> Inl 3
          | Some f \<Rightarrow> if protocol < 28 then Inl 2
              else (case f g of Inl t \<Rightarrow> Inl 1 | Inr (payload, g) \<Rightarrow> Inr (Handle, g, protocol)))
     | _ \<Rightarrow> Inl 0)"

definition guest_host :: "(u32 option list \<times> u32, sample_val, unit, nat) host_lib" where
  "guest_host = \<lparr>host_with_recording_storage = ([], 0),
     set_ledger_info = (\<lambda>info (g, p). Inr (g, li_protocol_version info)), set_test_prng = (\<lambda>h. h),
     reset_budget_unlimited = Inr, generate_account_id = (\<lambda>h. ([], h)), generate_bytes_array = (\<lambda>h. ([], h)),
     register_test_contract = (\<lambda>_ _ _ h. Inr (Contract, h)), symbol_from_str = (\<lambda>name h. Inr (Symbol name, h)),
     vec_from_slice = (\<lambda>_ h. Inr ((), h)), call_contract = (\<lambda>_ function _. call_guest function),
     vec_object_from_val = (\<lambda>v h. if v = Handle then Inr ((), h) else Inl 4),
     vec_len = (\<lambda>_ h. Inr (word_of_nat (length (fst h)), h)),
     vec_get = (\<lambda>_ i h. Inr (Item (fst h ! unat i), h)), is_void = (\<lambda>v. v = Item None),
     u32_from_val = (\<lambda>v h. case v of Item (Some n) \<Rightarrow> Inr (n, h) | _ \<Rightarrow> Inl 5),
     host_error_text = show_nat\<rparr>"

definition guest_runner_env :: runner_env where
  "guest_runner_env = \<lparr>read_file = (\<lambda>_. Inr []), core_error_text = (\<lambda>_. []), str_debug = id, json_pretty = (\<lambda>_. [])\<rparr>"

lemma guest_run_passes:
  "run_witness guest_runner_env (guest_module host_functions guest_bodies) guest_host ''guest.wasm''
     = Inr (runner_report ''1'' ''1'' ''2'')"
  by code_simp

end
