(* ===== verification/Core_Tests.thy ===== *)
theory Core_Tests
  imports Core_Fixtures
begin

text \<open>
  The unit tests of the checks, the readers and the impact search (module \<open>tests\<close> of
  \<open>crates/soroban-upgrades-core/src/lib.rs\<close>), each a Boolean that is true when every assertion of the
  test holds. A module that a test writes as text is given by the payloads the parser crate yields.
  \<open>core_checks_conform\<close> evaluates them all on the model.
\<close>

section \<open>Storage\<close>

definition eager_migration :: migration where
  "eager_migration = \<lparr>mig_strategy = ''eager'', mig_entrypoint = Some ''migrate'', mig_notes = None\<rparr>"

definition storage_change_without_migration_is_an_error :: bool where
  "storage_change_without_migration_is_an_error \<longleftrightarrow>
     has_code ''STO003''
       (compare_storage_schemas (schema_fixture 1 ''ConfigV1'' None) (schema_fixture 2 ''ConfigV2'' None) [])"

definition acknowledged_storage_change_is_a_warning :: bool where
  "acknowledged_storage_change_is_a_warning \<longleftrightarrow>
     (let findings = compare_storage_schemas (schema_fixture 1 ''ConfigV1'' None)
        (schema_fixture 2 ''ConfigV2'' (Some eager_migration)) []
      in has_code ''STO002'' findings \<and> \<not> has_error findings)"

definition documentation_is_not_part_of_the_abi_comparison :: bool where
  "documentation_is_not_part_of_the_abi_comparison \<longleftrightarrow>
     strip_documentation (object [(''function_v0'', object
       [(''doc'', String ''function docs''),
        (''inputs'', Array [object [(''doc'', String ''argument docs''), (''name'', String ''value''),
           (''type_'', String ''u32'')]])])])
     = object [(''function_v0'', object
         [(''inputs'', Array [object [(''name'', String ''value''), (''type_'', String ''u32'')]])])]"

definition manifest_must_match_wasm_and_export_migration :: "'v core_lib \<Rightarrow> bool" where
  "manifest_must_match_wasm_and_export_migration lib \<longleftrightarrow>
     (let target_schema = (schema_fixture 2 ''ConfigV2'' (Some eager_migration))\<lparr>ss_contract_version := ''2.0.1''\<rparr>;
          findings = validate_schema_manifests lib (artifact_fixture ''1.0.0'' [''upgrade''])
            (artifact_fixture ''2.0.0'' [''upgrade'']) (schema_fixture 1 ''ConfigV1'' None) target_schema []
      in has_code ''STO007'' findings \<and> has_code ''STO009'' findings)"

definition migration_declaration_requires_a_strategy_and_entrypoint :: "'v core_lib \<Rightarrow> bool" where
  "migration_declaration_requires_a_strategy_and_entrypoint lib \<longleftrightarrow>
     (let target_schema = schema_fixture 2 ''ConfigV2''
            (Some \<lparr>mig_strategy = '' '', mig_entrypoint = None, mig_notes = None\<rparr>);
          findings = validate_schema_manifests lib (artifact_fixture ''1.0.0'' [''upgrade''])
            (artifact_fixture ''2.0.0'' [''upgrade'']) (schema_fixture 1 ''ConfigV1'' None) target_schema []
      in has_code ''STO013'' findings \<and> has_code ''STO014'' findings)"

section \<open>History\<close>

definition history_versions_and_reservations_are_consistent :: "'v core_lib \<Rightarrow> bool" where
  "history_versions_and_reservations_are_consistent lib \<longleftrightarrow>
     (let history = \<lparr>sh_format_version = 1, sh_complete = True,
            sh_types = bm_of_list [(''OldType'', \<lparr>th_fields = bm_of_list
              [(''invalid'', \<lparr>hf_value_type = String ''u32'', hf_first_seen = ''not-semver'', hf_retired_in = None\<rparr>),
               (''late'', \<lparr>hf_value_type = String ''u32'', hf_first_seen = ''2.0.0'', hf_retired_in = Some ''1.0.0''\<rparr>)],
              th_reserved_fields = bs_of_list [''unknown'']\<rparr>)],
            sh_source_sha256 = repeat_str 32 ''00''\<rparr>;
          findings = validate_schema_history lib (artifact_fixture ''1.0.0'' [''upgrade''])
            (artifact_fixture ''2.0.0'' [''upgrade'']) history []
      in list_all (\<lambda>code. has_code code findings) [''HIS013'', ''HIS014'', ''HIS015'', ''HIS016''])"

text \<open>The two releases of the type \<open>Account\<close> that several tests share.\<close>

definition account_fields :: "(string \<times> json) list" where
  "account_fields = [(''balance'', String ''i128'')]"

definition account_fields_with_status :: "(string \<times> json) list" where
  "account_fields_with_status =
     account_fields @ [(''status'', object [(''option'', object [(''value_type'', String ''u32'')])])]"

definition with_account :: "(string \<times> json) list \<Rightarrow> artifact \<Rightarrow> artifact" where
  "with_account members = insert_type ''Account'' (struct_entry ''Account'' members)"

definition account_history :: "(string \<times> historical_field) list \<Rightarrow> string list \<Rightarrow> string \<Rightarrow> schema_history" where
  "account_history members reserved sha = \<lparr>sh_format_version = 1, sh_complete = True,
     sh_types = bm_of_list [(''Account'', \<lparr>th_fields = bm_of_list members, th_reserved_fields = bs_of_list reserved\<rparr>)],
     sh_source_sha256 = sha\<rparr>"

definition schema_history_accepts_an_exact_cumulative_record :: "'v core_lib \<Rightarrow> bool" where
  "schema_history_accepts_an_exact_cumulative_record lib \<longleftrightarrow>
     validate_schema_history lib
       (with_account account_fields (artifact_fixture ''1.0.0'' [''upgrade'']))
       (with_account account_fields_with_status (artifact_fixture ''2.0.0'' [''upgrade'']))
       (account_history
         [(''balance'', \<lparr>hf_value_type = String ''i128'', hf_first_seen = ''1.0.0'', hf_retired_in = None\<rparr>),
          (''status'', \<lparr>hf_value_type = object [(''option'', object [(''value_type'', String ''u32'')])],
             hf_first_seen = ''2.0.0'', hf_retired_in = None\<rparr>)] [] (repeat_str 32 ''22'')) [] = []"

definition schema_history_blocks_retired_field_reuse :: "'v core_lib \<Rightarrow> bool" where
  "schema_history_blocks_retired_field_reuse lib \<longleftrightarrow>
     (let findings = validate_schema_history lib (artifact_fixture ''1.0.0'' [''upgrade''])
            (with_account [(''balance'', String ''u64'')] (artifact_fixture ''2.0.0'' [''upgrade'']))
            (account_history
              [(''balance'', \<lparr>hf_value_type = String ''i128'', hf_first_seen = ''0.5.0'',
                 hf_retired_in = Some ''1.0.0''\<rparr>)] [''balance''] (repeat_str 32 ''33'')) []
      in has_code ''HIS005'' findings \<and> has_code ''HIS007'' findings \<and> has_code ''HIS008'' findings)"

definition removed_field_must_be_retired_and_reserved :: "'v core_lib \<Rightarrow> bool" where
  "removed_field_must_be_retired_and_reserved lib \<longleftrightarrow>
     has_code ''HIS010'' (validate_schema_history lib
       (with_account account_fields (artifact_fixture ''1.0.0'' [''upgrade'']))
       (with_account [] (artifact_fixture ''2.0.0'' [''upgrade'']))
       (account_history
         [(''balance'', \<lparr>hf_value_type = String ''i128'', hf_first_seen = ''1.0.0'', hf_retired_in = None\<rparr>)]
         [] (repeat_str 32 ''44'')) [])"

section \<open>Interfaces\<close>

definition transfer_event :: "string list \<Rightarrow> interface_entry" where
  "transfer_event parameters = \<lparr>ie_kind = ''event'', ie_name = ''transfer'',
     ie_canonical = object [(''params'', Array (map String parameters))]\<rparr>"

definition event_removal_and_schema_change_are_blocked :: bool where
  "event_removal_and_schema_change_are_blocked \<longleftrightarrow>
     (let source = insert_event ''transfer'' (transfer_event [''from'', ''to'']) (artifact_fixture ''1.0.0'' [''upgrade'']);
          changed = insert_event ''transfer'' (transfer_event [''from'', ''to'', ''amount''])
            (artifact_fixture ''2.0.0'' [''upgrade''])
      in has_code ''EVT002'' (compare_interfaces source changed default_policy default_context [])
        \<and> has_code ''EVT001'' (compare_interfaces source (artifact_fixture ''2.0.0'' [''upgrade''])
             default_policy default_context []))"

definition duplicate_spec_members_are_rejected :: bool where
  "duplicate_spec_members_are_rejected \<longleftrightarrow>
     (case ensure_unique_spec_members ''function'' ''transfer'' [''to'', ''to''] of
        Inl (DuplicateSpecMember _ _ _) \<Rightarrow> True | _ \<Rightarrow> False)"

definition at_protocol :: "u32 \<Rightarrow> validation_context" where
  "at_protocol version = default_context\<lparr>ctx_target_protocol_version := Some version\<rparr>"

definition optional_field_addition_requires_per_type_cap_0086_evidence :: bool where
  "optional_field_addition_requires_per_type_cap_0086_evidence \<longleftrightarrow>
     (let source = with_account account_fields (artifact_fixture ''1.0.0'' [''upgrade'']);
          t = insert_import CAP_0086_SPARSE_READ_IMPORT
            (with_account account_fields_with_status (artifact_fixture ''2.0.0'' [''upgrade'']));
          findings = compare_interfaces source t default_policy (at_protocol 28) []
      in has_code ''CAP005'' findings \<and> has_error findings)"

definition optional_field_addition_is_blocked_without_both_cap_requirements :: bool where
  "optional_field_addition_is_blocked_without_both_cap_requirements \<longleftrightarrow>
     (let source = with_account account_fields (artifact_fixture ''1.0.0'' [''upgrade'']);
          t = with_account account_fields_with_status (artifact_fixture ''2.0.0'' [''upgrade''])
      in list_all (\<lambda>ctx. has_code ''CAP006'' (compare_interfaces source t default_policy ctx []))
           [at_protocol 27, at_protocol 28])"

definition cap_0086_never_approves_field_rename_or_type_change :: bool where
  "cap_0086_never_approves_field_rename_or_type_change \<longleftrightarrow>
     (let source = with_account account_fields (artifact_fixture ''1.0.0'' [''upgrade'']);
          t = insert_import CAP_0086_SPARSE_READ_IMPORT
            (with_account [(''amount'', String ''u64'')] (artifact_fixture ''2.0.0'' [''upgrade'']))
      in has_code ''ABI004'' (compare_interfaces source t default_policy (at_protocol 28) []))"

section \<open>Capabilities and context\<close>

definition named_upgrade_without_host_update_is_blocked :: bool where
  "named_upgrade_without_host_update_is_blocked \<longleftrightarrow>
     (let candidate = (artifact_fixture ''2.0.0'' [''upgrade''])\<lparr>art_export_call_evidence :=
            [(''upgrade'', \<lparr>ev_host_imports = [], ev_dynamic_dispatch_reachable = False\<rparr>)]\<rparr>
      in list_ex (\<lambda>f. f_code f = ''UPG004'' \<and> f_severity f = Error)
           (check_upgrade_host_capability candidate ''target'' ''UPG004'' []))"

definition cap_0086_import_is_blocked_before_protocol_28 :: bool where
  "cap_0086_import_is_blocked_before_protocol_28 \<longleftrightarrow>
     has_code ''CAP001'' (check_cap_0086
       (insert_import CAP_0086_SPARSE_READ_IMPORT (artifact_fixture ''2.0.0'' [''upgrade''])) (at_protocol 27) [])"

definition cap_0086_requires_export_reachability_and_flags_dynamic_dispatch :: bool where
  "cap_0086_requires_export_reachability_and_flags_dynamic_dispatch \<longleftrightarrow>
     (let t = insert_import CAP_0086_SPARSE_READ_IMPORT (artifact_fixture ''2.0.0'' [''account'', ''upgrade'']);
          reached = t\<lparr>art_export_call_evidence := bm_insert ''account''
            \<lparr>ev_host_imports = [CAP_0086_SPARSE_READ_IMPORT], ev_dynamic_dispatch_reachable = True\<rparr>
            (art_export_call_evidence t)\<rparr>;
          findings = check_cap_0086 reached (at_protocol 28) []
      in has_code ''CAP007'' (check_cap_0086 t (at_protocol 28) [])
        \<and> \<not> has_code ''CAP007'' findings \<and> has_code ''CAP008'' findings)"

definition offline_protocol_assertion_is_explicitly_warned :: bool where
  "offline_protocol_assertion_is_explicitly_warned \<longleftrightarrow>
     (let findings = check_protocol_context asserted_context []
      in has_code ''NET003'' findings \<and> \<not> has_error findings)"

definition complete_live_protocol_evidence_is_accepted :: bool where
  "complete_live_protocol_evidence_is_accepted \<longleftrightarrow>
     (let findings = check_protocol_context
            \<lparr>ctx_target_protocol_version = Some 27, ctx_protocol_source = StellarCliNetworkInfo,
             ctx_network_name = Some ''testnet'', ctx_network_id = Some ''network-id'',
             ctx_network_passphrase = Some ''Test SDF Network ; September 2015'',
             ctx_rpc_version = Some ''27.1.1'', ctx_captive_core_version = Some ''stellar-core 27.1.0'',
             ctx_observed_at_unix_seconds = Some 1786000000\<rparr> []
      in has_code ''NET005'' findings \<and> \<not> has_error findings)"

definition incomplete_live_protocol_evidence_is_rejected :: bool where
  "incomplete_live_protocol_evidence_is_rejected \<longleftrightarrow>
     (let findings = check_protocol_context
            (default_context\<lparr>ctx_target_protocol_version := Some 27, ctx_protocol_source := StellarCliNetworkInfo,
               ctx_network_name := Some ''testnet''\<rparr>) []
      in has_code ''NET006'' findings \<and> has_error findings)"

definition protocol_without_provenance_is_rejected :: bool where
  "protocol_without_provenance_is_rejected \<longleftrightarrow>
     (let findings = check_protocol_context (at_protocol 27) []
      in has_code ''NET002'' findings \<and> has_error findings)"

definition environment_protocol_and_prerelease_are_release_gates :: bool where
  "environment_protocol_and_prerelease_are_release_gates \<longleftrightarrow>
     (let t = (artifact_fixture ''2.0.0'' [''upgrade''])\<lparr>art_env_protocol_version := 28, art_env_pre_release := 1\<rparr>;
          findings = check_environment_compatibility t asserted_context []
      in has_code ''ENV001'' findings \<and> has_code ''ENV002'' findings)"

definition default_policy_blocks_missing_storage_evidence :: "'v core_lib \<Rightarrow> bool" where
  "default_policy_blocks_missing_storage_evidence lib \<longleftrightarrow>
     (let report = validate_with_history lib (artifact_fixture ''1.0.0'' [''upgrade''])
            (artifact_fixture ''2.0.0'' [''upgrade'']) None None default_policy asserted_context None;
          blocks = (\<lambda>code. list_ex (\<lambda>f. f_code f = code \<and> f_severity f = Error) (rep_findings report))
      in \<not> rep_safe report \<and> blocks ''STO000'' \<and> blocks ''HIS000'')"

definition evidence_coverage_distinguishes_live_fact_from_offline_inference :: bool where
  "evidence_coverage_distinguishes_live_fact_from_offline_inference \<longleftrightarrow>
     (let live = build_evidence_coverage
            (default_context\<lparr>ctx_target_protocol_version := Some 28, ctx_protocol_source := StellarCliNetworkInfo,
               ctx_network_name := Some ''testnet'', ctx_network_id := Some ''network-id'',
               ctx_observed_at_unix_seconds := Some 1\<rparr>) True True;
          offline = build_evidence_coverage
            (default_context\<lparr>ctx_target_protocol_version := Some 28, ctx_protocol_source := OfflineAssertion\<rparr>)
            False False
      in ei_status (ec_target_network_protocol live) = Fact
        \<and> ei_status (ec_ledger_storage_coverage live) = Unknown
        \<and> ei_status (ec_target_network_protocol offline) = Inference
        \<and> ei_status (ec_declared_storage_schema offline) = Unknown)"

section \<open>Readers\<close>

text \<open>A module of imported functions, defined functions and exports; everything else is left out.\<close>

definition test_module ::
  "(string \<times> string) list \<Rightarrow> operator list list \<Rightarrow> (string \<times> u32) list \<Rightarrow> (string + payload) list" where
  "test_module imps bodies exports =
     [Inr (ImportSection (map (\<lambda>(m, f). Inr \<lparr>wi_module = m, wi_name = f, wi_is_func = True\<rparr>) imps)),
      Inr (ExportSection (map (\<lambda>(export, i). Inr \<lparr>we_name = export, we_is_func = True, we_index = i\<rparr>) exports))]
     @ map (\<lambda>body. Inr (CodeSectionEntry (Inr (map Inr body)))) bodies"

definition test_parser :: "(string + payload) list \<Rightarrow> wasm_lib" where
  "test_parser payloads = \<lparr>validate_all = (\<lambda>_. Inr ()), parse_all = (\<lambda>_. payloads)\<rparr>"

definition wasm_import_reader_detects_cap_0086_functions :: bool where
  "wasm_import_reader_detects_cap_0086_functions \<longleftrightarrow>
     (case read_host_imports (test_parser (test_module [(''m'', ''b''), (''m'', ''c'')] [] [])) [] of
        Inl e \<Rightarrow> False
      | Inr imps \<Rightarrow> bs_member imps CAP_0086_SPARSE_WRITE_IMPORT \<and> bs_member imps CAP_0086_SPARSE_READ_IMPORT)"

definition export_call_evidence_separates_directly_reachable_host_functions :: bool where
  "export_call_evidence_separates_directly_reachable_host_functions \<longleftrightarrow>
     (case inspect_export_call_evidence (test_parser (test_module [(''m'', ''c''), (''m'', ''a'')]
         [[Call 0], [Call 2], [Call 1]] [(''read_sparse'', 3), (''read_dense'', 4)])) [] of
        Inl e \<Rightarrow> False
      | Inr evidence \<Rightarrow>
          (case (bm_get evidence ''read_sparse'', bm_get evidence ''read_dense'') of
             (Some sparse, Some dense) \<Rightarrow> ev_host_imports sparse = bs_of_list [''m.c'']
               \<and> ev_host_imports dense = bs_of_list [''m.a''] \<and> \<not> ev_dynamic_dispatch_reachable sparse
           | _ \<Rightarrow> False))"

definition function_import_inspection_preserves_order_and_duplicates :: bool where
  "function_import_inspection_preserves_order_and_duplicates \<longleftrightarrow>
     (case inspect_function_imports (test_parser (test_module [(''m'', ''c''), (''m'', ''a''), (''m'', ''c'')] [] [])) [] of
        Inl e \<Rightarrow> False
      | Inr imps \<Rightarrow> map canonical_name imps = [''m.c'', ''m.a'', ''m.c''] \<and> map fi_function_index imps = [0, 1, 2])"

definition export_call_evidence_flags_dynamic_dispatch :: bool where
  "export_call_evidence_flags_dynamic_dispatch \<longleftrightarrow>
     (case inspect_export_call_evidence
         (test_parser (test_module [] [[], [OtherOperator, CallIndirect]] [(''dispatch'', 1)])) [] of
        Inl e \<Rightarrow> False
      | Inr evidence \<Rightarrow>
          (case bm_get evidence ''dispatch'' of
             None \<Rightarrow> False
           | Some x \<Rightarrow> ev_dynamic_dispatch_reachable x \<and> ev_host_imports x = []))"

definition artifact_rejects_duplicate_contract_spec_sections :: "spec_lib \<Rightarrow> bool" where
  "artifact_rejects_duplicate_contract_spec_sections sl \<longleftrightarrow>
     (case from_wasm (test_parser (replicate 2 (Inr (CustomSection ''contractspecv0'' [])))) sl id [] of
        Inl (ContractSpecSectionCount n) \<Rightarrow> n = 2 | _ \<Rightarrow> False)"

definition artifact_rejects_input_above_the_parser_limit :: "wasm_lib \<Rightarrow> spec_lib \<Rightarrow> bool" where
  "artifact_rejects_input_above_the_parser_limit wlib sl \<longleftrightarrow>
     (case from_wasm wlib sl id (replicate (MAX_ARTIFACT_SIZE_BYTES + 1) (CHR 0x00)) of
        Inl (ArtifactTooLarge _ _) \<Rightarrow> True | _ \<Rightarrow> False)"

definition artifact_rejects_duplicate_user_type_names :: bool where
  "artifact_rejects_duplicate_user_type_names \<longleftrightarrow>
     (case insert_user_type [] ''struct'' ''State'' (Object []) of
        Inl e \<Rightarrow> False
      | Inr types \<Rightarrow>
          (case insert_user_type types ''enum'' ''State'' (Object []) of
             Inl (DuplicateSpecName _ _) \<Rightarrow> True | _ \<Rightarrow> False))"

section \<open>Public impact\<close>

definition chain_type :: "nat \<Rightarrow> string" where
  "chain_type index = ''Type'' @ show_nat index"

definition add_chain_type :: "nat \<Rightarrow> artifact \<Rightarrow> artifact" where
  "add_chain_type index a =
     (let a = insert_type (chain_type index)
            \<lparr>ie_kind = ''struct'', ie_name = chain_type index, ie_canonical = Object []\<rparr> a
      in if index \<le> MAX_PUBLIC_IMPACT_DEPTH
         then a\<lparr>art_type_references := art_type_references a
           @ [TypeReference (chain_type index) ''next'' (chain_type (index + 1))]\<rparr>
         else a)"

definition public_impact_traversal_stops_at_the_depth_limit :: bool where
  "public_impact_traversal_stops_at_the_depth_limit \<longleftrightarrow>
     routes_to_type (fold add_chain_type [0..<MAX_PUBLIC_IMPACT_DEPTH + 2] (artifact_fixture ''1.0.0'' [''read'']))
       (chain_type 0) (chain_type (MAX_PUBLIC_IMPACT_DEPTH + 1)) = ([], True)"

text \<open>The two releases of a retained function whose output holds a changed type.\<close>

definition with_portfolio ::
  "type_reference list \<Rightarrow> (string \<times> (string \<times> json) list) list \<Rightarrow> string \<Rightarrow> artifact \<Rightarrow> artifact" where
  "with_portfolio references types amount a =
     (let a = insert_type ''Balance'' (struct_entry ''Balance'' [(''amount'', String amount)]) a;
          a = a\<lparr>art_public_type_boundaries := art_public_type_boundaries a
                @ [PublicTypeBoundary ''portfolio'' Output 0 None ''Portfolio''],
              art_type_references := art_type_references a @ references\<rparr>
      in fold (\<lambda>(name, members). insert_type name (struct_entry name members)) types a)"

definition portfolio_impacts ::
  "type_reference list \<Rightarrow> (string \<times> (string \<times> json) list) list \<Rightarrow> public_impact list \<times> bool" where
  "portfolio_impacts references types = trace_public_impacts
     (with_portfolio references types ''i128'' (artifact_fixture ''1.0.0'' [''portfolio'', ''upgrade'']))
     (with_portfolio references types ''u64'' (artifact_fixture ''2.0.0'' [''portfolio'', ''upgrade'']))"

definition changed_nested_type_traces_to_a_retained_public_boundary :: bool where
  "changed_nested_type_traces_to_a_retained_public_boundary \<longleftrightarrow>
     (case portfolio_impacts
         [TypeReference ''Portfolio'' ''position'' ''Position'', TypeReference ''Position'' ''balance'' ''Balance'']
         [(''Portfolio'', [(''position'', String ''Position'')]), (''Position'', [(''balance'', String ''Balance'')])] of
        ([impact], limited) \<Rightarrow> \<not> limited \<and> pi_changed_type impact = ''Balance''
          \<and> map is_member (pi_steps impact) = [''position'', ''balance'']
          \<and> pi_structural_reachability impact = Fact \<and> pi_runtime_compatibility impact = Unknown
      | _ \<Rightarrow> False)"

definition public_impact_keeps_distinct_fields_that_reach_the_same_type :: bool where
  "public_impact_keeps_distinct_fields_that_reach_the_same_type \<longleftrightarrow>
     (case portfolio_impacts
         [TypeReference ''Portfolio'' ''left'' ''Balance'', TypeReference ''Portfolio'' ''right'' ''Balance'']
         [(''Portfolio'', [(''left'', String ''Balance''), (''right'', String ''Balance'')])] of
        ([first, second], limited) \<Rightarrow> \<not> limited \<and> is_member (pi_steps first ! 0) = ''left''
          \<and> is_member (pi_steps second ! 0) = ''right''
      | _ \<Rightarrow> False)"

section \<open>The tests hold\<close>

text \<open>The chain of types that is one longer than the depth limit.\<close>

definition chain_refs :: "nat \<Rightarrow> type_reference list" where
  "chain_refs n = map (\<lambda>i. TypeReference (chain_type i) ''next'' (chain_type (i + 1))) [0..<n]"

lemma chain_types_distinct: "distinct (map chain_type [0..<66])"
  by code_simp

lemma chain_type_eq: "i < 66 \<Longrightarrow> j < 66 \<Longrightarrow> chain_type i = chain_type j \<longleftrightarrow> i = j"
  using nth_eq_iff_index_eq [OF chain_types_distinct, of i j] by simp

lemma add_chain_type_parts:
  "art_type_references (add_chain_type i a) = art_type_references a
     @ (if i \<le> 64 then [TypeReference (chain_type i) ''next'' (chain_type (i + 1))] else [])"
  "art_user_types (add_chain_type i a) = bm_insert (chain_type i)
     \<lparr>ie_kind = ''struct'', ie_name = chain_type i, ie_canonical = Object []\<rparr> (art_user_types a)"
  by (simp_all add: add_chain_type_def insert_type_def Let_def MAX_PUBLIC_IMPACT_DEPTH_def)

lemma chain_references:
  "art_type_references (fold add_chain_type [0..<n] a) = art_type_references a @ chain_refs (min n 65)"
proof (induction n)
  case (Suc n)
  then show ?case
    by (cases "n \<le> 64") (simp_all add: add_chain_type_parts chain_refs_def min_absorb1 min_absorb2)
qed (simp add: chain_refs_def)

lemma chain_root:
  "bm_contains (art_user_types (fold add_chain_type [0..<Suc n] a)) (chain_type 0)"
  by (induction n) (auto simp: add_chain_type_parts bm_contains_keys bm_keys_def fst_bm_insert)

lemma chain_edges: "k < 65 \<Longrightarrow> filter (\<lambda>edge. tr_owner_type edge = chain_type k) (chain_refs n) =
    (if k < n then [TypeReference (chain_type k) ''next'' (chain_type (k + 1))] else [])" if "n \<le> 65"
  using that by (induction n) (auto simp: chain_refs_def chain_type_eq)

lemma chain_loop:
  assumes "k \<le> 65" and "length steps = k" and "set active \<subseteq> chain_type ` {..<k}"
  shows "route_loop (chain_type 65) (chain_refs 65) k [(chain_type k, steps, active)] [] = ([], True)"
  using assms
proof (induction "65 - k" arbitrary: k steps active)
  case 0
  then show ?case by (simp add: MAX_PUBLIC_IMPACT_DEPTH_def)
next
  case (Suc m)
  then have k: "k < 65" by simp
  then have "chain_type k \<noteq> chain_type 65" and "\<not> bs_member active (chain_type k)"
    using Suc.prems(3) by (auto simp: chain_type_eq bs_member_def)
  moreover have "filter (\<lambda>edge. tr_owner_type edge = chain_type k) (rev (chain_refs 65))
      = [TypeReference (chain_type k) ''next'' (chain_type (k + 1))]"
    using chain_edges [of 65 k] k by (simp add: rev_filter [symmetric])
  moreover have "route_loop (chain_type 65) (chain_refs 65) (k + 1)
      [(chain_type (k + 1), steps @ [step_of (TypeReference (chain_type k) ''next'' (chain_type (k + 1)))],
        bs_insert (chain_type k) active)] [] = ([], True)"
    by (rule Suc.hyps(1)) (use Suc k in auto)
  ultimately show ?case
    using k Suc.prems(2)
    by (simp add: MAX_PUBLIC_IMPACT_DEPTH_def MAX_PUBLIC_IMPACT_STEPS_def MAX_PUBLIC_IMPACT_PATHS_def)
qed

lemma public_impact_traversal_stops_at_the_depth_limit_holds: "public_impact_traversal_stops_at_the_depth_limit"
proof -
  have "MAX_PUBLIC_IMPACT_DEPTH + 2 = 66" and "MAX_PUBLIC_IMPACT_DEPTH + 1 = 65"
    by (simp_all add: MAX_PUBLIC_IMPACT_DEPTH_def)
  moreover have "art_type_references (fold add_chain_type [0..<66] (artifact_fixture ''1.0.0'' [''read''])) = chain_refs 65"
    by (simp add: chain_references artifact_fixture_def)
  ultimately show ?thesis
    using chain_root [of 65 "artifact_fixture ''1.0.0'' [''read'']"] chain_loop [of 0 "[]" "[]"]
    by (simp only: public_impact_traversal_stops_at_the_depth_limit_def routes_to_type_def if_True) simp
qed

lemma artifact_rejects_duplicate_contract_spec_sections_holds: "artifact_rejects_duplicate_contract_spec_sections sl"
proof -
  let ?parser = "test_parser (replicate 2 (Inr (CustomSection ''contractspecv0'' [])))"
  have "require_single_contract_spec_section ?parser [] = Inl (ContractSpecSectionCount 2)" by code_simp
  moreover have "validate_all ?parser [] = Inr ()" by (simp add: test_parser_def)
  ultimately show ?thesis
    by (simp add: artifact_rejects_duplicate_contract_spec_sections_def from_wasm_def ensure_def)
qed

lemma artifact_rejects_input_above_the_parser_limit_holds: "artifact_rejects_input_above_the_parser_limit wlib sl"
  unfolding artifact_rejects_input_above_the_parser_limit_def from_wasm_def length_replicate
  by (simp add: ensure_def)

text \<open>The other tests are evaluated.\<close>

lemma storage_change_without_migration_is_an_error_holds: "storage_change_without_migration_is_an_error"
  by code_simp

lemma acknowledged_storage_change_is_a_warning_holds: "acknowledged_storage_change_is_a_warning"
  by code_simp

lemma documentation_is_not_part_of_the_abi_comparison_holds: "documentation_is_not_part_of_the_abi_comparison"
  by code_simp

lemma event_removal_and_schema_change_are_blocked_holds: "event_removal_and_schema_change_are_blocked"
  by code_simp

lemma duplicate_spec_members_are_rejected_holds: "duplicate_spec_members_are_rejected"
  by code_simp

lemma optional_field_addition_requires_per_type_cap_0086_evidence_holds: "optional_field_addition_requires_per_type_cap_0086_evidence"
  by code_simp

lemma optional_field_addition_is_blocked_without_both_cap_requirements_holds: "optional_field_addition_is_blocked_without_both_cap_requirements"
  by code_simp

lemma cap_0086_never_approves_field_rename_or_type_change_holds: "cap_0086_never_approves_field_rename_or_type_change"
  by code_simp

lemma named_upgrade_without_host_update_is_blocked_holds: "named_upgrade_without_host_update_is_blocked"
  by code_simp

lemma cap_0086_import_is_blocked_before_protocol_28_holds: "cap_0086_import_is_blocked_before_protocol_28"
  by code_simp

lemma cap_0086_requires_export_reachability_and_flags_dynamic_dispatch_holds: "cap_0086_requires_export_reachability_and_flags_dynamic_dispatch"
  by code_simp

lemma offline_protocol_assertion_is_explicitly_warned_holds: "offline_protocol_assertion_is_explicitly_warned"
  by code_simp

lemma complete_live_protocol_evidence_is_accepted_holds: "complete_live_protocol_evidence_is_accepted"
  by code_simp

lemma incomplete_live_protocol_evidence_is_rejected_holds: "incomplete_live_protocol_evidence_is_rejected"
  by code_simp

lemma protocol_without_provenance_is_rejected_holds: "protocol_without_provenance_is_rejected"
  by code_simp

lemma environment_protocol_and_prerelease_are_release_gates_holds: "environment_protocol_and_prerelease_are_release_gates"
  by code_simp

lemma evidence_coverage_distinguishes_live_fact_from_offline_inference_holds: "evidence_coverage_distinguishes_live_fact_from_offline_inference"
  by code_simp

lemma wasm_import_reader_detects_cap_0086_functions_holds: "wasm_import_reader_detects_cap_0086_functions"
  by code_simp

lemma export_call_evidence_separates_directly_reachable_host_functions_holds: "export_call_evidence_separates_directly_reachable_host_functions"
  by code_simp

lemma function_import_inspection_preserves_order_and_duplicates_holds: "function_import_inspection_preserves_order_and_duplicates"
  by code_simp

lemma export_call_evidence_flags_dynamic_dispatch_holds: "export_call_evidence_flags_dynamic_dispatch"
  by code_simp

lemma artifact_rejects_duplicate_user_type_names_holds: "artifact_rejects_duplicate_user_type_names"
  by code_simp

lemma changed_nested_type_traces_to_a_retained_public_boundary_holds: "changed_nested_type_traces_to_a_retained_public_boundary"
  by code_simp

lemma public_impact_keeps_distinct_fields_that_reach_the_same_type_holds: "public_impact_keeps_distinct_fields_that_reach_the_same_type"
  by code_simp

lemma manifest_must_match_wasm_and_export_migration_holds: "manifest_must_match_wasm_and_export_migration test_core"
  by code_simp

lemma migration_declaration_requires_a_strategy_and_entrypoint_holds: "migration_declaration_requires_a_strategy_and_entrypoint test_core"
  by code_simp

lemma history_versions_and_reservations_are_consistent_holds: "history_versions_and_reservations_are_consistent test_core"
  by code_simp

lemma schema_history_accepts_an_exact_cumulative_record_holds: "schema_history_accepts_an_exact_cumulative_record test_core"
  by code_simp

lemma schema_history_blocks_retired_field_reuse_holds: "schema_history_blocks_retired_field_reuse test_core"
  by code_simp

lemma removed_field_must_be_retired_and_reserved_holds: "removed_field_must_be_retired_and_reserved test_core"
  by code_simp

lemma default_policy_blocks_missing_storage_evidence_holds: "default_policy_blocks_missing_storage_evidence test_core"
  by code_simp

text \<open>
  The evidence section calls the protocol a fact for a live reading that the check of the same context
  refuses as incomplete, as in the first context of
  \<open>evidence_coverage_distinguishes_live_fact_from_offline_inference\<close>: the passphrase and the RPC version are
  missing.
\<close>

definition partial_live_context :: validation_context where
  "partial_live_context = default_context\<lparr>ctx_target_protocol_version := Some 28,
     ctx_protocol_source := StellarCliNetworkInfo, ctx_network_name := Some ''testnet'',
     ctx_network_id := Some ''network-id'', ctx_observed_at_unix_seconds := Some 1\<rparr>"

lemma fact_from_incomplete_evidence:
  "ei_status (ec_target_network_protocol (build_evidence_coverage partial_live_context True True)) = Fact"
  "has_code ''NET006'' (check_protocol_context partial_live_context [])"
  by code_simp+

text \<open>
  The unit tests of the checks, of the readers and of the impact search pass on the model: every
  assertion holds, on an instance of the crates that knows the versions the tests name, and for every
  specification decoder where a test does not reach it.
\<close>

theorem checks_pass_their_tests:
  "public_impact_traversal_stops_at_the_depth_limit
   \<and> artifact_rejects_duplicate_contract_spec_sections sl
   \<and> artifact_rejects_input_above_the_parser_limit wlib sl
   \<and> storage_change_without_migration_is_an_error
   \<and> acknowledged_storage_change_is_a_warning
   \<and> documentation_is_not_part_of_the_abi_comparison
   \<and> event_removal_and_schema_change_are_blocked
   \<and> duplicate_spec_members_are_rejected
   \<and> optional_field_addition_requires_per_type_cap_0086_evidence
   \<and> optional_field_addition_is_blocked_without_both_cap_requirements
   \<and> cap_0086_never_approves_field_rename_or_type_change
   \<and> named_upgrade_without_host_update_is_blocked
   \<and> cap_0086_import_is_blocked_before_protocol_28
   \<and> cap_0086_requires_export_reachability_and_flags_dynamic_dispatch
   \<and> offline_protocol_assertion_is_explicitly_warned
   \<and> complete_live_protocol_evidence_is_accepted
   \<and> incomplete_live_protocol_evidence_is_rejected
   \<and> protocol_without_provenance_is_rejected
   \<and> environment_protocol_and_prerelease_are_release_gates
   \<and> evidence_coverage_distinguishes_live_fact_from_offline_inference
   \<and> wasm_import_reader_detects_cap_0086_functions
   \<and> export_call_evidence_separates_directly_reachable_host_functions
   \<and> function_import_inspection_preserves_order_and_duplicates
   \<and> export_call_evidence_flags_dynamic_dispatch
   \<and> artifact_rejects_duplicate_user_type_names
   \<and> changed_nested_type_traces_to_a_retained_public_boundary
   \<and> public_impact_keeps_distinct_fields_that_reach_the_same_type
   \<and> manifest_must_match_wasm_and_export_migration test_core
   \<and> migration_declaration_requires_a_strategy_and_entrypoint test_core
   \<and> history_versions_and_reservations_are_consistent test_core
   \<and> schema_history_accepts_an_exact_cumulative_record test_core
   \<and> schema_history_blocks_retired_field_reuse test_core
   \<and> removed_field_must_be_retired_and_reserved test_core
   \<and> default_policy_blocks_missing_storage_evidence test_core"
  by (intro conjI
      public_impact_traversal_stops_at_the_depth_limit_holds
      artifact_rejects_duplicate_contract_spec_sections_holds
      artifact_rejects_input_above_the_parser_limit_holds
      storage_change_without_migration_is_an_error_holds
      acknowledged_storage_change_is_a_warning_holds
      documentation_is_not_part_of_the_abi_comparison_holds
      event_removal_and_schema_change_are_blocked_holds
      duplicate_spec_members_are_rejected_holds
      optional_field_addition_requires_per_type_cap_0086_evidence_holds
      optional_field_addition_is_blocked_without_both_cap_requirements_holds
      cap_0086_never_approves_field_rename_or_type_change_holds
      named_upgrade_without_host_update_is_blocked_holds
      cap_0086_import_is_blocked_before_protocol_28_holds
      cap_0086_requires_export_reachability_and_flags_dynamic_dispatch_holds
      offline_protocol_assertion_is_explicitly_warned_holds
      complete_live_protocol_evidence_is_accepted_holds
      incomplete_live_protocol_evidence_is_rejected_holds
      protocol_without_provenance_is_rejected_holds
      environment_protocol_and_prerelease_are_release_gates_holds
      evidence_coverage_distinguishes_live_fact_from_offline_inference_holds
      wasm_import_reader_detects_cap_0086_functions_holds
      export_call_evidence_separates_directly_reachable_host_functions_holds
      function_import_inspection_preserves_order_and_duplicates_holds
      export_call_evidence_flags_dynamic_dispatch_holds
      artifact_rejects_duplicate_user_type_names_holds
      changed_nested_type_traces_to_a_retained_public_boundary_holds
      public_impact_keeps_distinct_fields_that_reach_the_same_type_holds
      manifest_must_match_wasm_and_export_migration_holds
      migration_declaration_requires_a_strategy_and_entrypoint_holds
      history_versions_and_reservations_are_consistent_holds
      schema_history_accepts_an_exact_cumulative_record_holds
      schema_history_blocks_retired_field_reuse_holds
      removed_field_must_be_retired_and_reserved_holds
      default_policy_blocks_missing_storage_evidence_holds)

end
