(* ===== verification/Plan_Tests.thy ===== *)
theory Plan_Tests
  imports Core_Fixtures Plan_Safety Cli Decoders
begin

text \<open>
  The unit tests of plans and of the private-key scan (module \<open>tests\<close> of
  \<open>crates/soroban-upgrades-core/src/lib.rs\<close>). The text of a private key comes from the strkey crate: the
  function \<open>seed\<close> gives it for a key of 32 equal bytes. Where a test decodes a JSON text, the value that the
  text holds is given, and the derived decoder of \<open>Decoders\<close> reads it.
\<close>

section \<open>Fixtures\<close>

definition test_plan :: "'v plan_lib \<Rightarrow> validation_report \<Rightarrow> core_error + upgrade_plan" where
  "test_plan lib report = create_plan lib report ''testnet'' TEST_CONTRACT_ID ''deployer'' ''target.wasm'' None"

text \<open>\<open>unwrap\<close> followed by assertions, \<open>is_err\<close>, and the match on a plan error whose message contains a text.\<close>

definition unwrap_and :: "'e + 'a \<Rightarrow> ('a \<Rightarrow> bool) \<Rightarrow> bool" where
  "unwrap_and r f = (case r of Inl e \<Rightarrow> False | Inr x \<Rightarrow> f x)"

definition is_err :: "'e + 'a \<Rightarrow> bool" where
  "is_err r = (case r of Inl e \<Rightarrow> True | Inr x \<Rightarrow> False)"

definition plan_error_with :: "string \<Rightarrow> core_error + 'a \<Rightarrow> bool" where
  "plan_error_with needle r = (case r of Inl (PlanError message) \<Rightarrow> str_contains needle message | _ \<Rightarrow> False)"

section \<open>Digest and canonical form\<close>

definition plan_digest_detects_any_mutation :: "'v plan_lib \<Rightarrow> bool" where
  "plan_digest_detects_any_mutation lib \<longleftrightarrow>
     unwrap_and (test_plan lib (safe_report (pl_core lib))) (\<lambda>p.
       verify_plan_digest lib p = Inr True
       \<and> verify_plan_digest lib (p\<lparr>up_plan_sha256 := repeat_str 32 ''ff''\<rparr>) = Inr False)"

text \<open>\<open>plan.plan_sha256 = calculate_plan_sha256(&plan).unwrap()\<close>.\<close>

definition with_new_digest :: "'v plan_lib \<Rightarrow> upgrade_plan \<Rightarrow> (upgrade_plan \<Rightarrow> bool) \<Rightarrow> bool" where
  "with_new_digest lib p f = unwrap_and (calculate_plan_sha256 lib p) (\<lambda>sha. f (p\<lparr>up_plan_sha256 := sha\<rparr>))"

definition plan_verification_rejects_recomputed_digest_for_noncanonical_command :: "'v plan_lib \<Rightarrow> bool" where
  "plan_verification_rejects_recomputed_digest_for_noncanonical_command lib \<longleftrightarrow>
     unwrap_and (test_plan lib (safe_report (pl_core lib))) (\<lambda>p.
       let changed = p\<lparr>up_steps := (up_steps p)[0 := (up_steps p ! 0)
             \<lparr>ps_command := ''stellar contract upload --wasm substituted.wasm''\<rparr>]\<rparr>
       in with_new_digest lib changed (\<lambda>p. plan_error_with ''canonical'' (verify_plan_digest lib p)))"

definition plan_verification_rejects_recomputed_digest_for_hash_mismatch :: "'v plan_lib \<Rightarrow> bool" where
  "plan_verification_rejects_recomputed_digest_for_hash_mismatch lib \<longleftrightarrow>
     unwrap_and (test_plan lib (safe_report (pl_core lib))) (\<lambda>p.
       with_new_digest lib (p\<lparr>up_target_wasm_sha256 := repeat_str 32 ''ff''\<rparr>) (\<lambda>p.
         plan_error_with [] (verify_plan_digest lib p)))"

definition plan_verification_rejects_a_forged_embedded_report :: "'v plan_lib \<Rightarrow> bool" where
  "plan_verification_rejects_a_forged_embedded_report lib \<longleftrightarrow>
     unwrap_and (test_plan lib (safe_report (pl_core lib))) (\<lambda>p.
       with_new_digest lib (p\<lparr>up_validation := (up_validation p)\<lparr>rep_safe := False\<rparr>\<rparr>) (\<lambda>p.
         plan_error_with ''fresh validation'' (verify_plan_digest lib p)))"

text \<open>The document of the test repeats the digest in front of the members of the printed plan.\<close>

fun doc_of_value :: "json \<Rightarrow> json_doc" where
  "doc_of_value Null = Doc_Unit"
| "doc_of_value (Bool b) = Doc_Bool b"
| "doc_of_value (Number (Int_Number i)) = Doc_Int i"
| "doc_of_value (Number (Float_Number f)) = Doc_Float f"
| "doc_of_value (String s) = Doc_Str s"
| "doc_of_value (Array xs) = Doc_Seq (map doc_of_value xs)"
| "doc_of_value (Object kvs) = Doc_Map (map (\<lambda>(k, v). Entry k (doc_of_value v)) kvs)"

definition plan_json_rejects_duplicate_digest_fields ::
  "'v plan_lib \<Rightarrow> (bytes \<Rightarrow> string + upgrade_plan) \<Rightarrow> bool" where
  "plan_json_rejects_duplicate_digest_fields lib from_bytes \<longleftrightarrow>
     unwrap_and (test_plan lib (safe_report (pl_core lib))) (\<lambda>p.
       case doc_of_value (plan_json p) of
         Doc_Map entries \<Rightarrow>
           (case upgrade_plan_from_json
               \<lparr>doc_of = (\<lambda>_. Doc_Map (Entry ''planSha256'' (Doc_Str (up_plan_sha256 p)) # entries)),
                doc_end = (\<lambda>_. Inr ()), from_slice = from_bytes\<rparr> [] of
              Inl (JsonError _) \<Rightarrow> True | _ \<Rightarrow> False)
       | _ \<Rightarrow> False)"

definition policy_json_rejects_duplicate_fields :: "(bytes \<Rightarrow> string + policy) \<Rightarrow> bool" where
  "policy_json_rejects_duplicate_fields from_bytes \<longleftrightarrow>
     (case policy_from_json \<lparr>doc_of = (\<lambda>_. Doc_Map [Entry ''formatVersion'' (Doc_Int 1), Entry ''formatVersion'' (Doc_Int 1)]),
         doc_end = (\<lambda>_. Inr ()), from_slice = from_bytes\<rparr> [] of
        Inl (JsonError _) \<Rightarrow> True | _ \<Rightarrow> False)"

text \<open>A text layer that reads the given value from every text.\<close>

definition text_of :: "json_text \<Rightarrow> json \<Rightarrow> json_text" where
  "text_of t v = t\<lparr>tx_value := (\<lambda>_. Inr v)\<rparr>"

definition policy_json_rejects_unknown_fields :: "json_text \<Rightarrow> bytes \<Rightarrow> bool" where
  "policy_json_rejects_unknown_fields t json \<longleftrightarrow>
     (case policy_from_json (typed_decoder (text_of t (object [(''formatVersion'', Number (Int_Number 1)),
         (''name'', String ''strict''), (''requireUpgradeFuncton'', Bool False)])) decode_policy) json of
        Inl (JsonError _) \<Rightarrow> True | _ \<Rightarrow> False)"

definition plan_json_rejects_unbound_unknown_fields :: "'v plan_lib \<Rightarrow> json_text \<Rightarrow> bytes \<Rightarrow> bool" where
  "plan_json_rejects_unbound_unknown_fields lib t json \<longleftrightarrow>
     unwrap_and (test_plan lib (safe_report (pl_core lib))) (\<lambda>p.
       case plan_json p of
         Object members \<Rightarrow>
           (case upgrade_plan_from_json (typed_decoder (text_of t
               (Object (bm_insert ''unsignedInstruction'' (String ''approve'') members))) decode_plan) json of
              Inl (JsonError _) \<Rightarrow> True | _ \<Rightarrow> False)
       | _ \<Rightarrow> False)"

section \<open>Inputs of a plan\<close>

definition plan_rejects_invalid_contract_id :: "'v plan_lib \<Rightarrow> bool" where
  "plan_rejects_invalid_contract_id lib \<longleftrightarrow>
     (case create_plan lib (safe_report (pl_core lib)) ''testnet'' ''C-not-a-contract'' ''deployer'' ''target.wasm'' None of
        Inl (InvalidContractId _) \<Rightarrow> True | _ \<Rightarrow> False)"

definition plan_rejects_private_source_identity :: "'v plan_lib \<Rightarrow> (nat \<Rightarrow> string) \<Rightarrow> bool" where
  "plan_rejects_private_source_identity lib seed \<longleftrightarrow>
     plan_error_with ''private key''
       (create_plan lib (safe_report (pl_core lib)) ''testnet'' TEST_CONTRACT_ID (seed 7) ''target.wasm'' None)"

definition private_key_scanner_rejects_a_seed_at_every_byte_offset :: "'v plan_lib \<Rightarrow> (nat \<Rightarrow> string) \<Rightarrow> bool" where
  "private_key_scanner_rejects_a_seed_at_every_byte_offset lib seed \<longleftrightarrow>
     list_all (\<lambda>offset. contains_stellar_private_key lib
       (repeat_str offset ''x'' @ seed 8 @ repeat_str (128 - offset) ''y'')) [0..<128]"

definition private_key_scanner_handles_unicode_and_near_matches :: "'v plan_lib \<Rightarrow> (nat \<Rightarrow> string) \<Rightarrow> bool" where
  "private_key_scanner_handles_unicode_and_near_matches lib seed \<longleftrightarrow>
     (let secret = seed 10;
          invalid_checksum = butlast secret @ [if last secret = CHR ''A'' then CHR ''B'' else CHR ''A'']
      in contains_stellar_private_key lib
           (''blue='' @ [CHR 0xF0, CHR 0x9F, CHR 0x94, CHR 0x92] @ secret @ '':end'')
         \<and> \<not> contains_stellar_private_key lib invalid_checksum
         \<and> \<not> contains_stellar_private_key lib (repeat_str 56 ''S''))"

definition test_paths :: "string \<Rightarrow> plan_input_paths" where
  "test_paths target_wasm = \<lparr>pip_source_wasm = ''source.wasm'', pip_target_wasm = target_wasm,
     pip_source_schema = ''source.schema.json'', pip_target_schema = ''target.schema.json'',
     pip_schema_history = ''schema-history.json'', pip_policy = None\<rparr>"

definition test_invariant :: "string \<Rightarrow> plan_operations" where
  "test_invariant argument = \<lparr>po_migration = None,
     po_invariant_check = \<lparr>ic_program = ''verify-upgrade'', ic_arguments = [argument]\<rparr>\<rparr>"

definition plan_rejects_private_key_in_invariant_arguments :: "'v plan_lib \<Rightarrow> (nat \<Rightarrow> string) \<Rightarrow> bool" where
  "plan_rejects_private_key_in_invariant_arguments lib seed \<longleftrightarrow>
     plan_error_with ''private key''
       (create_plan_with_paths lib (safe_report (pl_core lib)) ''testnet'' TEST_CONTRACT_ID ''deployer''
         (test_paths ''target.wasm'') (test_invariant (seed 9)))"

definition plan_rejects_private_keys_embedded_in_structured_arguments_and_paths ::
  "'v plan_lib \<Rightarrow> (nat \<Rightarrow> string) \<Rightarrow> bool" where
  "plan_rejects_private_keys_embedded_in_structured_arguments_and_paths lib seed \<longleftrightarrow>
     (let secret = seed 11; report = safe_report (pl_core lib);
          attempt = create_plan_with_paths lib report ''testnet'' TEST_CONTRACT_ID ''deployer''
      in plan_error_with ''private key''
           (attempt (test_paths (''artifacts/'' @ secret @ ''/target.wasm'')) (test_invariant ''testnet''))
         \<and> plan_error_with ''private key''
             (attempt (test_paths ''target.wasm'') (test_invariant (''{\"secret\":\"'' @ secret @ ''\"}''))))"

definition plan_rejects_private_keys_embedded_in_artifact_evidence :: "'v plan_lib \<Rightarrow> (nat \<Rightarrow> string) \<Rightarrow> bool" where
  "plan_rejects_private_keys_embedded_in_artifact_evidence lib seed \<longleftrightarrow>
     (let report = safe_report (pl_core lib); t = rep_target report;
          changed = report\<lparr>rep_target := t\<lparr>art_metadata :=
            bm_insert ''operator_hint'' (''ref:'' @ seed 12) (art_metadata t)\<rparr>\<rparr>
      in plan_error_with ''private key'' (test_plan lib changed))"

definition plan_commands_quote_untrusted_arguments_and_preserve_structure :: "'v plan_lib \<Rightarrow> bool" where
  "plan_commands_quote_untrusted_arguments_and_preserve_structure lib \<longleftrightarrow>
     (let report = safe_report (pl_core lib);
          network = ''testnet; echo compromised'';
          report = report\<lparr>rep_context := (rep_context report)\<lparr>ctx_network_name := Some network\<rparr>\<rparr>
      in unwrap_and (create_plan lib report network TEST_CONTRACT_ID ''operator'' ''target file.wasm'' None) (\<lambda>p.
           case filter (\<lambda>step. ps_kind step = UploadTargetWasm) (up_steps p) of
             [] \<Rightarrow> False
           | upload # _ \<Rightarrow> ps_program upload = ''stellar'' \<and> ps_arguments upload ! 3 = ''target file.wasm''
               \<and> list_ex (\<lambda>argument. argument = ''--optimize=false'') (ps_arguments upload)
               \<and> str_contains (CHR 39 # ''target file.wasm'' @ [CHR 39]) (ps_command upload)
               \<and> str_contains (CHR 39 # network @ [CHR 39]) (ps_command upload)))"

definition plan_rejects_network_evidence_mismatch :: "'v plan_lib \<Rightarrow> bool" where
  "plan_rejects_network_evidence_mismatch lib \<longleftrightarrow>
     is_err (create_plan lib (safe_report (pl_core lib)) ''mainnet'' TEST_CONTRACT_ID ''deployer'' ''target.wasm'' None)"

definition plan_refuses_unsafe_report :: "'v plan_lib \<Rightarrow> bool" where
  "plan_refuses_unsafe_report lib \<longleftrightarrow>
     (let report = safe_report (pl_core lib);
          forged = report\<lparr>rep_findings := rep_findings report
            @ [error ''ABI001'' ''removed'' ''removed function'' ''restore it'']\<rparr>
      in rep_safe forged \<and> is_err (test_plan lib forged))"

definition plan_requires_declared_storage_migration :: "'v plan_lib \<Rightarrow> bool" where
  "plan_requires_declared_storage_migration lib \<longleftrightarrow>
     (let report = safe_report (pl_core lib);
          mig = \<lparr>mig_strategy = ''eager'', mig_entrypoint = Some ''migrate'', mig_notes = None\<rparr>;
          declared = report\<lparr>
            rep_target_schema := map_option (\<lambda>schema. schema\<lparr>ss_entries :=
              (ss_entries schema)[0 := (ss_entries schema ! 0)\<lparr>se_migration := Some mig\<rparr>]\<rparr>) (rep_target_schema report),
            rep_findings := rep_findings report
              @ [warning ''STO002'' ''migration required'' ''storage changed'' ''run migrate'']\<rparr>
      in is_err (test_plan lib declared)
         \<and> \<not> is_err (create_plan lib declared ''testnet'' TEST_CONTRACT_ID ''deployer'' ''target.wasm'' (Some ''migrate'')))"

definition plan_requires_protocol_storage_and_history_evidence :: "'v plan_lib \<Rightarrow> bool" where
  "plan_requires_protocol_storage_and_history_evidence lib \<longleftrightarrow>
     (let report = safe_report (pl_core lib)
      in is_err (test_plan lib (report\<lparr>rep_context := (rep_context report)\<lparr>ctx_target_protocol_version := None\<rparr>\<rparr>))
         \<and> is_err (test_plan lib (report\<lparr>rep_storage_schema_checked := False\<rparr>))
         \<and> is_err (test_plan lib (report\<lparr>rep_schema_history_checked := False, rep_schema_history_sha256 := None\<rparr>)))"

section \<open>The crates\<close>

text \<open>Texts of 56 bytes stand for the keys; the printer prints the metadata, which one test looks for.\<close>

definition test_seed :: "nat \<Rightarrow> string" where
  "test_seed n = ''S'' @ repeat_str 54 ''7'' @ [digit_char (n mod 10)]"

definition test_plan_lib :: "nat plan_lib" where
  "test_plan_lib = \<lparr>pl_core = test_core, contract_from_string = (\<lambda>s. s = TEST_CONTRACT_ID),
     private_key_from_string = (\<lambda>s. list_ex (\<lambda>n. s = test_seed n) [7, 8, 9, 10, 11, 12]),
     plan_to_string = (\<lambda>p. Inr (concat (map snd (art_metadata (rep_target (up_validation p)))))),
     value_to_vec = (\<lambda>_. Inr ''digest'')\<rparr>"

section \<open>Changed plans\<close>

text \<open>
  A created plan changed in anything but its digest, its inputs and the arguments of the upload is
  refused as not canonical, whatever its digest.
\<close>

lemma changed_plan_refused:
  assumes "create_plan_with_paths lib report network contract_id source_identity paths ops = Inr p"
    and "revalidate lib report = report"
    and "up_format_version q = up_format_version p" "up_validation q = up_validation p" "up_network q = up_network p"
      "up_contract_id q = up_contract_id p" "up_source_identity q = up_source_identity p" "up_inputs q = up_inputs p"
      "up_migration q = up_migration p" "up_invariant_check q = up_invariant_check p"
      "steps_of_kind UploadTargetWasm q = steps_of_kind UploadTargetWasm p"
      "steps_of_kind ExecuteMigration q = steps_of_kind ExecuteMigration p"
    and "q\<lparr>up_plan_sha256 := []\<rparr> \<noteq> p\<lparr>up_plan_sha256 := []\<rparr>"
  shows "verify_plan_digest lib q
    = Inl (PlanError ''plan fields or commands do not match the canonical validation-derived plan'')"
proof -
  have "validate_plan_structure lib p = Inr ()" by (rule created_structure [OF assms(1,2)])
  then have p: "up_format_version p = 3" "revalidate lib (up_validation p) = up_validation p"
    "length (steps_of_kind UploadTargetWasm p) = 1"
    "argument_after (ps_arguments (hd (steps_of_kind UploadTargetWasm p))) ''--wasm'' = Some (pip_target_wasm (up_inputs p))"
    "\<not> 1 < length (steps_of_kind ExecuteMigration p)"
    "length (steps_of_kind ExecuteMigration p) = (if up_migration p \<noteq> None then 1 else 0)"
    by (auto simp only: validate_plan_structure_def and_then_Inr_iff ensure_Inr_iff ok_or_Inr_iff)
  obtain sha where plan: "p = (assemble_plan report network contract_id source_identity paths ops)\<lparr>up_plan_sha256 := sha\<rparr>"
    using assms(1) unfolding create_plan_iff by blast
  have "create_plan_with_paths lib (up_validation p) (up_network p) (up_contract_id p) (up_source_identity p)
      (up_inputs p) \<lparr>po_migration = up_migration p, po_invariant_check = up_invariant_check p\<rparr> = Inr p"
    using assms(1) by (simp add: plan assemble_fields operations_eta)
  with p assms(13) have "validate_plan_structure lib q
      = Inl (PlanError ''plan fields or commands do not match the canonical validation-derived plan'')"
    by (simp only: validate_plan_structure_def assms(3-12) ensure_def if_True if_False and_then_simps ok_or_simps simp_thms)
  then show ?thesis by (simp add: verify_plan_digest_def)
qed

text \<open>A created plan whose embedded report is not the one its evidence gives.\<close>

lemma forged_report_refused:
  assumes "up_format_version q = 3" and "revalidate lib (up_validation q) \<noteq> up_validation q"
  shows "verify_plan_digest lib q
    = Inl (PlanError ''embedded validation report does not match a fresh validation of its evidence'')"
  using assms by (simp add: verify_plan_digest_def validate_plan_structure_def ensure_def)

lemma filter_first_kept: "\<not> P (xs ! 0) \<Longrightarrow> \<not> P x \<Longrightarrow> filter P (xs[0 := x]) = filter P xs"
  by (cases xs) simp_all

text \<open>The plan of the tests, for every instance of the crates that creates it.\<close>

lemma test_plan_created:
  "test_plan lib (safe_report (pl_core lib)) = Inr p \<Longrightarrow>
     \<exists>paths ops. create_plan_with_paths lib (safe_report (pl_core lib)) ''testnet'' TEST_CONTRACT_ID
       ''deployer'' paths ops = Inr p"
  by (auto simp: test_plan_def create_plan_def)

lemma safe_report_fresh: "revalidate lib (safe_report (pl_core lib)) = safe_report (pl_core lib)"
  by (simp add: safe_report_def revalidate_fresh)

lemma test_plan_parts:
  assumes "test_plan lib (safe_report (pl_core lib)) = Inr p"
  shows "up_validation p = safe_report (pl_core lib)" and "up_format_version p = 3"
    and "rep_safe (safe_report (pl_core lib))" and "up_target_wasm_sha256 p = repeat_str 32 ''00''"
    and "up_steps p ! 0 = new_step 1 VerifyCurrentExecutable ''stellar''
      [''contract'', ''fetch'', ''--id'', TEST_CONTRACT_ID, ''--network'', ''testnet'', ''--out-file'', ''current.wasm'']
      (''Fetched WASM SHA-256 equals '' @ repeat_str 32 ''00'')"
    and "up_steps p \<noteq> []"
proof -
  obtain paths ops sha where plan: "p = (assemble_plan (safe_report (pl_core lib)) ''testnet'' TEST_CONTRACT_ID ''deployer'' paths ops)
      \<lparr>up_plan_sha256 := sha\<rparr>"
    and ok: "plan_admissible lib (safe_report (pl_core lib)) ''testnet'' TEST_CONTRACT_ID ''deployer'' paths ops"
    using test_plan_created [OF assms] unfolding create_plan_iff by blast
  have hashes: "art_sha256 (rep_source (safe_report (pl_core lib))) = repeat_str 32 ''00''"
    "art_sha256 (rep_target (safe_report (pl_core lib))) = repeat_str 32 ''00''"
    by (simp_all only: safe_report_def report_inputs artifact_fixture_def artifact.simps)
  show "rep_safe (safe_report (pl_core lib))" using ok by (simp only: plan_admissible_def)
  show "up_validation p = safe_report (pl_core lib)" and "up_format_version p = 3"
    by (simp_all add: plan assemble_fields)
  show "up_target_wasm_sha256 p = repeat_str 32 ''00''" by (simp add: plan assemble_plan_def hashes)
  have "up_steps p = plan_steps ''testnet'' TEST_CONTRACT_ID ''deployer'' (pip_target_wasm paths)
      (repeat_str 32 ''00'') (repeat_str 32 ''00'') (po_migration ops) (po_invariant_check ops)"
    by (simp add: plan assemble_fields hashes)
  then show "up_steps p \<noteq> []" and "up_steps p ! 0 = new_step 1 VerifyCurrentExecutable ''stellar''
      [''contract'', ''fetch'', ''--id'', TEST_CONTRACT_ID, ''--network'', ''testnet'', ''--out-file'', ''current.wasm'']
      (''Fetched WASM SHA-256 equals '' @ repeat_str 32 ''00'')"
    by (simp_all add: plan_steps_def upgrade_steps_def Let_def)
qed

lemma test_plan_verifies:
  assumes "test_plan lib (safe_report (pl_core lib)) = Inr p"
  shows "verify_plan_digest lib p = Inr True"
  using test_plan_created [OF assms] created_verifies [OF _ safe_report_def] by blast

lemma test_plan_changed:
  assumes "test_plan lib (safe_report (pl_core lib)) = Inr p"
    and "up_format_version q = up_format_version p" "up_validation q = up_validation p" "up_network q = up_network p"
      "up_contract_id q = up_contract_id p" "up_source_identity q = up_source_identity p" "up_inputs q = up_inputs p"
      "up_migration q = up_migration p" "up_invariant_check q = up_invariant_check p"
      "steps_of_kind UploadTargetWasm q = steps_of_kind UploadTargetWasm p"
      "steps_of_kind ExecuteMigration q = steps_of_kind ExecuteMigration p"
    and "q\<lparr>up_plan_sha256 := []\<rparr> \<noteq> p\<lparr>up_plan_sha256 := []\<rparr>"
  shows "verify_plan_digest lib q
    = Inl (PlanError ''plan fields or commands do not match the canonical validation-derived plan'')"
  using test_plan_created [OF assms(1)] changed_plan_refused [OF _ safe_report_fresh assms(2-12)] by blast

lemma test_plan_digest: "verify_plan_digest lib p = Inr True \<Longrightarrow> sha \<noteq> up_plan_sha256 p \<Longrightarrow>
    verify_plan_digest lib (p\<lparr>up_plan_sha256 := sha\<rparr>) = Inr False"
proof -
  assume p: "verify_plan_digest lib p = Inr True" and sha: "sha \<noteq> up_plan_sha256 p"
  have "validate_plan_structure lib (p\<lparr>up_plan_sha256 := sha\<rparr>) = validate_plan_structure lib p"
    by (simp add: validate_plan_structure_def steps_of_kind_def)
  with p sha show ?thesis
    by (auto simp: verify_plan_digest_def and_then_Inr_iff calculate_ignores_digest)
qed

text \<open>The digest that the tests recompute is always there.\<close>

lemma with_new_digestI:
  assumes "test_plan lib (safe_report (pl_core lib)) = Inr p" and "\<And>bs. value_to_vec lib bs = Inr (digest bs)"
    and "\<And>sha. f (q\<lparr>up_plan_sha256 := sha\<rparr>)"
  shows "with_new_digest lib q f"
  using assms(2,3) by (simp add: with_new_digest_def unwrap_and_def calculate_plan_sha256_eq)

section \<open>The tests hold\<close>

lemma test_plan_exists: "\<exists>p. test_plan test_plan_lib (safe_report (pl_core test_plan_lib)) = Inr p"
proof -
  have "\<not> is_err (test_plan test_plan_lib (safe_report (pl_core test_plan_lib)))" by code_simp
  then show ?thesis by (simp add: is_err_def split: sum.splits)
qed

lemma test_plan_lib_digest: "value_to_vec test_plan_lib bs = Inr ''digest''"
  by (simp add: test_plan_lib_def)

lemma test_plan_digest_text:
  assumes "test_plan test_plan_lib (safe_report (pl_core test_plan_lib)) = Inr p"
  shows "up_plan_sha256 p = ''digest''"
  using test_plan_created [OF assms]
  by (auto simp: create_plan_iff calculate_plan_sha256_eq test_plan_lib_def test_core_def)

lemma plan_digest_detects_any_mutation_holds: "plan_digest_detects_any_mutation test_plan_lib"
proof -
  obtain p where p: "test_plan test_plan_lib (safe_report (pl_core test_plan_lib)) = Inr p"
    using test_plan_exists by blast
  have "repeat_str 32 ''ff'' \<noteq> ''digest''" by code_simp
  with p show ?thesis
    using test_plan_verifies [OF p] test_plan_digest [OF test_plan_verifies [OF p], of "repeat_str 32 ''ff''"]
    by (simp add: plan_digest_detects_any_mutation_def unwrap_and_def test_plan_digest_text)
qed

lemma noncanonical_command:
  "render_command ''stellar'' [''contract'', ''fetch'', ''--id'', TEST_CONTRACT_ID, ''--network'', ''testnet'',
     ''--out-file'', ''current.wasm''] \<noteq> ''stellar contract upload --wasm substituted.wasm''"
  by code_simp

lemma canonical_message:
  "plan_error_with ''canonical''
     (Inl (PlanError ''plan fields or commands do not match the canonical validation-derived plan''))"
  "plan_error_with ''fresh validation''
     (Inl (PlanError ''embedded validation report does not match a fresh validation of its evidence''))"
  by code_simp+

lemma plan_verification_rejects_recomputed_digest_for_noncanonical_command_holds:
  "plan_verification_rejects_recomputed_digest_for_noncanonical_command test_plan_lib"
proof -
  obtain p where p: "test_plan test_plan_lib (safe_report (pl_core test_plan_lib)) = Inr p"
    using test_plan_exists by blast
  note parts = test_plan_parts [OF p]
  let ?step = "(up_steps p ! 0)\<lparr>ps_command := ''stellar contract upload --wasm substituted.wasm''\<rparr>"
  let ?q = "p\<lparr>up_steps := (up_steps p)[0 := ?step]\<rparr>"
  have kind: "ps_kind ?step = VerifyCurrentExecutable" "ps_kind (up_steps p ! 0) = VerifyCurrentExecutable"
    by (simp_all add: parts(5) new_step_def)
  have command: "ps_command ?step \<noteq> ps_command (up_steps p ! 0)"
    using noncanonical_command by (simp add: parts(5) new_step_def)
  have steps: "up_steps ?q \<noteq> up_steps p"
  proof
    assume "up_steps ?q = up_steps p"
    then have "?step = up_steps p ! 0" using parts(6) by (simp add: list_update_same_conv)
    with command show False by simp
  qed
  have changed: "?q\<lparr>up_plan_sha256 := sha, up_plan_sha256 := []\<rparr> \<noteq> p\<lparr>up_plan_sha256 := []\<rparr>" for sha
    using steps by (auto dest: arg_cong [where f = up_steps])
  have "verify_plan_digest test_plan_lib (?q\<lparr>up_plan_sha256 := sha\<rparr>)
    = Inl (PlanError ''plan fields or commands do not match the canonical validation-derived plan'')" for sha
    by (rule test_plan_changed [OF p _ _ _ _ _ _ _ _ _ _ changed])
      (use kind in \<open>simp_all add: steps_of_kind_def filter_first_kept\<close>)
  then have "with_new_digest test_plan_lib ?q (\<lambda>p. plan_error_with ''canonical'' (verify_plan_digest test_plan_lib p))"
    by (intro with_new_digestI [OF p test_plan_lib_digest]) (simp add: canonical_message)
  with p show ?thesis
    by (simp add: plan_verification_rejects_recomputed_digest_for_noncanonical_command_def unwrap_and_def Let_def)
qed

lemma plan_verification_rejects_recomputed_digest_for_hash_mismatch_holds:
  "plan_verification_rejects_recomputed_digest_for_hash_mismatch test_plan_lib"
proof -
  obtain p where p: "test_plan test_plan_lib (safe_report (pl_core test_plan_lib)) = Inr p"
    using test_plan_exists by blast
  have "repeat_str 32 ''ff'' \<noteq> repeat_str 32 ''00''" by code_simp
  then have other: "repeat_str 32 ''ff'' \<noteq> up_target_wasm_sha256 p" using test_plan_parts(4) [OF p] by simp
  let ?q = "p\<lparr>up_target_wasm_sha256 := repeat_str 32 ''ff''\<rparr>"
  have changed: "?q\<lparr>up_plan_sha256 := sha, up_plan_sha256 := []\<rparr> \<noteq> p\<lparr>up_plan_sha256 := []\<rparr>" for sha
    using other by (auto dest: arg_cong [where f = up_target_wasm_sha256])
  have "verify_plan_digest test_plan_lib (?q\<lparr>up_plan_sha256 := sha\<rparr>)
    = Inl (PlanError ''plan fields or commands do not match the canonical validation-derived plan'')" for sha
    by (rule test_plan_changed [OF p _ _ _ _ _ _ _ _ _ _ changed]) (simp_all add: steps_of_kind_def)
  moreover have "str_contains [] message" for message by (cases message) simp_all
  ultimately have "with_new_digest test_plan_lib ?q (\<lambda>p. plan_error_with [] (verify_plan_digest test_plan_lib p))"
    by (intro with_new_digestI [OF p test_plan_lib_digest]) (simp add: plan_error_with_def)
  with p show ?thesis
    by (simp add: plan_verification_rejects_recomputed_digest_for_hash_mismatch_def unwrap_and_def)
qed

lemma plan_verification_rejects_a_forged_embedded_report_holds:
  "plan_verification_rejects_a_forged_embedded_report test_plan_lib"
proof -
  obtain p where p: "test_plan test_plan_lib (safe_report (pl_core test_plan_lib)) = Inr p"
    using test_plan_exists by blast
  note parts = test_plan_parts [OF p]
  let ?q = "p\<lparr>up_validation := (up_validation p)\<lparr>rep_safe := False\<rparr>\<rparr>"
  have "revalidate test_plan_lib (up_validation ?q) = safe_report (pl_core test_plan_lib)"
    using safe_report_fresh [of test_plan_lib] by (simp add: parts(1) revalidate_def)
  moreover have "rep_safe (up_validation ?q) \<noteq> rep_safe (safe_report (pl_core test_plan_lib))" using parts(3) by simp
  ultimately have "verify_plan_digest test_plan_lib (?q\<lparr>up_plan_sha256 := sha\<rparr>)
    = Inl (PlanError ''embedded validation report does not match a fresh validation of its evidence'')" for sha
    by (intro forged_report_refused) (use parts(2) in auto)
  then have "with_new_digest test_plan_lib ?q (\<lambda>p. plan_error_with ''fresh validation'' (verify_plan_digest test_plan_lib p))"
    by (intro with_new_digestI [OF p test_plan_lib_digest]) (simp add: canonical_message)
  with p show ?thesis
    by (simp add: plan_verification_rejects_a_forged_embedded_report_def unwrap_and_def)
qed

lemma private_key_scanner_rejects_a_seed_at_every_byte_offset_holds:
  "private_key_scanner_rejects_a_seed_at_every_byte_offset test_plan_lib test_seed"
proof -
  have "length (test_seed 8) = 56 \<and> test_seed 8 ! 0 = CHR ''S'' \<and> list_all is_ascii (test_seed 8)" by code_simp
  then have "contains_stellar_private_key test_plan_lib (pre @ test_seed 8 @ post)" for pre post
    unfolding contains_private_key_iff by (intro exI conjI) (auto simp: test_plan_lib_def)
  then show ?thesis by (simp add: private_key_scanner_rejects_a_seed_at_every_byte_offset_def list_all_iff)
qed

text \<open>What the creation of the plan of the tests says of each input check.\<close>

abbreviation cargo_test :: plan_operations where
  "cargo_test \<equiv> \<lparr>po_migration = None,
     po_invariant_check = \<lparr>ic_program = ''cargo'', ic_arguments = [''test'', ''--workspace'']\<rparr>\<rparr>"

lemma create_test_plan:
  "create_plan lib report network contract_id source_identity target_wasm None
     = create_plan_with_paths lib report network contract_id source_identity (test_paths target_wasm) cargo_test"
  by (simp add: create_plan_def test_paths_def)

lemma test_plan_admissible:
  "plan_admissible test_plan_lib (safe_report (pl_core test_plan_lib)) ''testnet'' TEST_CONTRACT_ID ''deployer''
     (test_paths ''target.wasm'') cargo_test"
  using test_plan_exists by (auto simp: test_plan_def create_test_plan create_plan_iff)

lemma test_checks_pass:
  "validate_plan_input_paths test_plan_lib (test_paths ''target.wasm'') = Inr ()"
  "validate_plan_string test_plan_lib ''network'' ''testnet'' 256 = Inr ()"
  "contract_from_string test_plan_lib TEST_CONTRACT_ID"
  "rep_safe (safe_report (pl_core test_plan_lib))"
  "\<not> has_error (rep_findings (safe_report (pl_core test_plan_lib)))"
  "check_plan_network (safe_report (pl_core test_plan_lib)) ''testnet'' = Inr ()"
  "rep_storage_schema_checked (safe_report (pl_core test_plan_lib))"
  "rep_schema_history_checked (safe_report (pl_core test_plan_lib))"
  "rep_schema_history_sha256 (safe_report (pl_core test_plan_lib)) \<noteq> None"
  "validate_source_identity test_plan_lib ''deployer'' = Inr ()"
  "check_plan_migration (safe_report (pl_core test_plan_lib)) None = Inr ()"
  "validate_standard_upgrade_entrypoint test_plan_lib (rep_source (safe_report (pl_core test_plan_lib))) = Inr ()"
  "validate_standard_upgrade_entrypoint test_plan_lib (rep_target (safe_report (pl_core test_plan_lib))) = Inr ()"
  using test_plan_admissible
  unfolding plan_admissible_def validate_paths_iff validate_plan_string_iff check_plan_network_iff validate_identity_iff
    check_plan_migration_iff upgrade_call_ok_def
  by simp_all

lemma is_errI:
  "\<not> plan_admissible lib report network contract_id source_identity paths ops \<Longrightarrow>
     is_err (create_plan_with_paths lib report network contract_id source_identity paths ops)"
  using create_plan_iff [of lib report network contract_id source_identity paths ops]
  by (auto simp: is_err_def split: sum.split)

lemma plan_rejects_invalid_contract_id_holds: "plan_rejects_invalid_contract_id test_plan_lib"
proof -
  have "\<not> contract_from_string test_plan_lib ''C-not-a-contract''"
    by (simp add: test_plan_lib_def TEST_CONTRACT_ID_def)
  then show ?thesis
    by (simp add: plan_rejects_invalid_contract_id_def create_test_plan create_plan_with_paths_def test_checks_pass ensure_def)
qed

lemma plan_rejects_private_source_identity_holds: "plan_rejects_private_source_identity test_plan_lib test_seed"
proof -
  have "plan_error_with ''private key'' (validate_source_identity test_plan_lib (test_seed 7))" by code_simp
  then obtain message where "validate_source_identity test_plan_lib (test_seed 7) = Inl (PlanError message)"
    and "str_contains ''private key'' message"
    by (auto simp: plan_error_with_def split: sum.splits core_error.splits)
  then show ?thesis
    by (simp add: plan_rejects_private_source_identity_def create_test_plan create_plan_with_paths_def test_checks_pass
        ensure_def plan_error_with_def)
qed

lemma private_invariant_refused:
  assumes "plan_error_with ''private key'' (validate_invariant_check test_plan_lib
    \<lparr>ic_program = ''verify-upgrade'', ic_arguments = [argument]\<rparr>)"
  shows "plan_error_with ''private key''
    (create_plan_with_paths test_plan_lib (safe_report (pl_core test_plan_lib)) ''testnet'' TEST_CONTRACT_ID ''deployer''
      (test_paths ''target.wasm'') (test_invariant argument))"
proof -
  obtain message where "validate_invariant_check test_plan_lib
      \<lparr>ic_program = ''verify-upgrade'', ic_arguments = [argument]\<rparr> = Inl (PlanError message)"
    and "str_contains ''private key'' message"
    using assms by (auto simp: plan_error_with_def split: sum.splits core_error.splits)
  then show ?thesis
    by (simp add: create_plan_with_paths_def test_checks_pass ensure_def plan_error_with_def test_invariant_def)
qed

lemma plan_rejects_private_key_in_invariant_arguments_holds:
  "plan_rejects_private_key_in_invariant_arguments test_plan_lib test_seed"
  unfolding plan_rejects_private_key_in_invariant_arguments_def
  by (rule private_invariant_refused) code_simp

lemma plan_rejects_private_keys_embedded_in_structured_arguments_and_paths_holds:
  "plan_rejects_private_keys_embedded_in_structured_arguments_and_paths test_plan_lib test_seed"
proof -
  have "plan_error_with ''private key'' (validate_plan_input_paths test_plan_lib
      (test_paths (''artifacts/'' @ test_seed 11 @ ''/target.wasm'')))" by code_simp
  then obtain message where "validate_plan_input_paths test_plan_lib
      (test_paths (''artifacts/'' @ test_seed 11 @ ''/target.wasm'')) = Inl (PlanError message)"
    and "str_contains ''private key'' message"
    by (auto simp: plan_error_with_def split: sum.splits core_error.splits)
  then have "plan_error_with ''private key''
      (create_plan_with_paths test_plan_lib (safe_report (pl_core test_plan_lib)) ''testnet'' TEST_CONTRACT_ID ''deployer''
        (test_paths (''artifacts/'' @ test_seed 11 @ ''/target.wasm'')) (test_invariant ''testnet''))"
    by (simp add: create_plan_with_paths_def plan_error_with_def)
  moreover have "plan_error_with ''private key''
      (create_plan_with_paths test_plan_lib (safe_report (pl_core test_plan_lib)) ''testnet'' TEST_CONTRACT_ID ''deployer''
        (test_paths ''target.wasm'') (test_invariant (''{\"secret\":\"'' @ test_seed 11 @ ''\"}'')))"
    by (rule private_invariant_refused) code_simp
  ultimately show ?thesis
    by (simp only: plan_rejects_private_keys_embedded_in_structured_arguments_and_paths_def Let_def)
qed

lemma plan_rejects_network_evidence_mismatch_holds: "plan_rejects_network_evidence_mismatch test_plan_lib"
  unfolding plan_rejects_network_evidence_mismatch_def create_test_plan
  by (rule is_errI) (simp add: plan_admissible_def safe_report_def asserted_context_def)

lemma plan_refuses_unsafe_report_holds: "plan_refuses_unsafe_report test_plan_lib"
  using test_checks_pass(4)
  by (auto simp: plan_refuses_unsafe_report_def Let_def test_plan_def create_test_plan plan_admissible_def error_def
      intro!: is_errI)

lemma plan_requires_protocol_storage_and_history_evidence_holds:
  "plan_requires_protocol_storage_and_history_evidence test_plan_lib"
  by (auto simp: plan_requires_protocol_storage_and_history_evidence_def Let_def test_plan_def create_test_plan
      plan_admissible_def intro!: is_errI)

text \<open>The other tests are evaluated.\<close>

lemma private_key_scanner_handles_unicode_and_near_matches_holds: "private_key_scanner_handles_unicode_and_near_matches test_plan_lib test_seed"
  by code_simp

lemma plan_rejects_private_keys_embedded_in_artifact_evidence_holds: "plan_rejects_private_keys_embedded_in_artifact_evidence test_plan_lib test_seed"
  by code_simp

lemma plan_commands_quote_untrusted_arguments_and_preserve_structure_holds: "plan_commands_quote_untrusted_arguments_and_preserve_structure test_plan_lib"
  by code_simp

lemma plan_requires_declared_storage_migration_holds: "plan_requires_declared_storage_migration test_plan_lib"
  by code_simp

lemma policy_json_rejects_duplicate_fields_holds: "policy_json_rejects_duplicate_fields from_bytes"
  by (simp add: policy_json_rejects_duplicate_fields_def policy_from_json_def parse_json_strict_def bs_member_def)

lemma entry_keys_member: "Entry k v \<in> set entries \<Longrightarrow> k \<in> set (entry_keys entries)"
  by (induction entries rule: entry_keys.induct) auto

lemma plan_json_has_digest: "Entry ''planSha256'' (Doc_Str (up_plan_sha256 p)) \<in> set (map (\<lambda>(k, v). Entry k (doc_of_value v))
    (bm_of_list (plan_members p)))"
proof -
  have "bm_get (bm_of_list (plan_members p)) ''planSha256'' = Some (String (up_plan_sha256 p))"
    by (simp add: bm_get_of_list plan_members_def)
  then have "(''planSha256'', String (up_plan_sha256 p)) \<in> set (bm_of_list (plan_members p))" by (rule bm_get_in)
  then show ?thesis by force
qed

lemma plan_json_rejects_duplicate_digest_fields_holds:
  "plan_json_rejects_duplicate_digest_fields test_plan_lib from_bytes"
proof -
  obtain p where p: "test_plan test_plan_lib (safe_report (pl_core test_plan_lib)) = Inr p"
    using test_plan_exists by blast
  let ?entries = "map (\<lambda>(k, v). Entry k (doc_of_value v)) (bm_of_list (plan_members p))"
  let ?d = "\<lparr>doc_of = (\<lambda>_. Doc_Map (Entry ''planSha256'' (Doc_Str (up_plan_sha256 p)) # ?entries)),
    doc_end = (\<lambda>_. Inr ()), from_slice = from_bytes\<rparr>"
  have "''planSha256'' \<in> set (entry_keys ?entries)"
    by (rule entry_keys_member [OF plan_json_has_digest])
  then have "parse_json_strict ?d [] \<noteq> Inr x" for x by (simp add: parse_json_strict_iff)
  then obtain e where "parse_json_strict ?d [] = Inl e" by (cases "parse_json_strict ?d []") auto
  with p show ?thesis
    by (simp add: plan_json_rejects_duplicate_digest_fields_def unwrap_and_def plan_json_def object_def
        upgrade_plan_from_json_def)
qed

lemma undecoded_value:
  assumes "d v = None"
  shows "\<exists>e. parse_json_strict (typed_decoder (text_of t v) d) json = Inl e"
proof -
  have "parse_json_strict (typed_decoder (text_of t v) d) json \<noteq> Inr x" for x
    using assms by (simp add: typed_strict_iff holds_value_def text_of_def)
  then show ?thesis by (cases "parse_json_strict (typed_decoder (text_of t v) d) json") auto
qed

lemma policy_json_rejects_unknown_fields_holds: "policy_json_rejects_unknown_fields t json"
proof -
  let ?v = "object [(''formatVersion'', Number (Int_Number 1)), (''name'', String ''strict''),
    (''requireUpgradeFuncton'', Bool False)]"
  have "decode_policy ?v = None" by code_simp
  then obtain e where "parse_json_strict (typed_decoder (text_of t ?v) decode_policy) json = Inl e"
    using undecoded_value by blast
  then show ?thesis by (simp add: policy_json_rejects_unknown_fields_def policy_from_json_def)
qed

lemma plan_json_rejects_unbound_unknown_fields_holds: "plan_json_rejects_unbound_unknown_fields test_plan_lib t json"
proof -
  obtain p where p: "test_plan test_plan_lib (safe_report (pl_core test_plan_lib)) = Inr p"
    using test_plan_exists by blast
  let ?members = "bm_of_list (plan_members p)"
  let ?v = "Object (bm_insert ''unsignedInstruction'' (String ''approve'') ?members)"
  have "''unsignedInstruction'' \<in> fst ` set (bm_insert ''unsignedInstruction'' (String ''approve'') ?members)"
    by (simp add: fst_bm_insert)
  then have "decode_plan ?v = None"
    unfolding decode_plan_def by (subst unknown_member_rejected) simp_all
  then obtain e where "parse_json_strict (typed_decoder (text_of t ?v) decode_plan) json = Inl e"
    using undecoded_value by blast
  with p show ?thesis
    by (simp add: plan_json_rejects_unbound_unknown_fields_def unwrap_and_def plan_json_def object_def
        upgrade_plan_from_json_def)
qed

text \<open>The parser takes a policy of any format version; the version is a finding of the validation.\<close>

lemma unsupported_policy_version_is_a_finding:
  "policy_from_json \<lparr>doc_of = (\<lambda>_. Doc_Map []), doc_end = (\<lambda>_. Inr ()),
       from_slice = (\<lambda>_. Inr (default_policy\<lparr>pol_format_version := 2\<rparr>))\<rparr> []
     = Inr (default_policy\<lparr>pol_format_version := 2\<rparr>)"
  "has_code ''POL001'' (check_policy (default_policy\<lparr>pol_format_version := 2\<rparr>) [])"
  by code_simp+

end
