(* ===== verification/Cli_Tests.thy ===== *)
theory Cli_Tests
  imports Core_Fixtures Cli
begin

text \<open>
  The tests of the command line interface that do not only exercise the argument parser or the schema
  generator: the unit tests of \<open>crates/soroban-upgrades-cli/src/main.rs\<close> and
  \<open>inspect_reports_a_contextual_missing_artifact_error\<close> of \<open>tests/cli.rs\<close>. They hold in every environment;
  the decoder of the network information is set to give the value of the JSON text of the test.
\<close>

definition TESTNET_INFO :: network_info where
  "TESTNET_INFO = \<lparr>ni_id = ''cee0302d59844d32bdca915c8203dd44b33fbb7edc19051ea37abedf28ecd472'',
     ni_version = ''27.1.1-7e71d70'', ni_captive_core_version = Some ''stellar-core 27.1.0'',
     ni_protocol_version = 27, ni_passphrase = ''Test SDF Network ; September 2015''\<rparr>"

definition parses_live_network_info_into_complete_evidence :: "'v cli_env \<Rightarrow> bytes \<Rightarrow> bool" where
  "parses_live_network_info_into_complete_evidence env json \<longleftrightarrow>
     (case context_from_network_info (env\<lparr>network_info_from_slice := (\<lambda>_. Inr TESTNET_INFO)\<rparr>) ''testnet'' json 123 of
        Inl e \<Rightarrow> False
      | Inr ctx \<Rightarrow> ctx_target_protocol_version ctx = Some 27
          \<and> ctx_protocol_source ctx = StellarCliNetworkInfo
          \<and> ctx_network_name ctx = Some ''testnet''
          \<and> ctx_observed_at_unix_seconds ctx = Some 123
          \<and> ctx_network_id ctx \<noteq> None \<and> ctx_network_passphrase ctx \<noteq> None \<and> ctx_rpc_version ctx \<noteq> None)"

definition protocol_flag_creates_an_offline_assertion :: "'v cli_env \<Rightarrow> bool" where
  "protocol_flag_creates_an_offline_assertion env \<longleftrightarrow>
     (case resolve_validation_context env (Some ''testnet'') (Some 28) of
        Inl e \<Rightarrow> False
      | Inr ctx \<Rightarrow> ctx_target_protocol_version ctx = Some 28
          \<and> ctx_protocol_source ctx = OfflineAssertion
          \<and> ctx_network_name ctx = Some ''testnet'' \<and> ctx_network_id ctx = None)"

definition short_hash_is_stable_for_full_and_short_inputs :: bool where
  "short_hash_is_stable_for_full_and_short_inputs \<longleftrightarrow>
     short_hash ''1234567890abcdef'' = ''1234567890ab'' \<and> short_hash ''short'' = ''short''"

definition inspect_reports_a_contextual_missing_artifact_error :: "'v cli_env \<Rightarrow> bool" where
  "inspect_reports_a_contextual_missing_artifact_error env \<longleftrightarrow>
     (case main env (Inspect ''definitely-missing-contract.wasm'' False)
         \<lparr>st_files = (\<lambda>_. None), st_stdout = [], st_stderr = []\<rparr> of
        (code, s) \<Rightarrow> code \<noteq> 0
          \<and> list_ex (str_contains ''reading definitely-missing-contract.wasm'') (st_stderr s))"

section \<open>The tests hold\<close>

lemma parses_live_network_info_into_complete_evidence_holds:
  "parses_live_network_info_into_complete_evidence env json"
  by (simp add: parses_live_network_info_into_complete_evidence_def context_from_network_info_def TESTNET_INFO_def
      wrap_error_def)

lemma protocol_flag_creates_an_offline_assertion_holds: "protocol_flag_creates_an_offline_assertion env"
  by (simp add: protocol_flag_creates_an_offline_assertion_def resolve_validation_context_def default_context_def)

lemma short_hash_is_stable_for_full_and_short_inputs_holds: "short_hash_is_stable_for_full_and_short_inputs"
  by code_simp

lemma missing_artifact_path: "display_path ''definitely-missing-contract.wasm'' = ''definitely-missing-contract.wasm''"
  by code_simp

lemma read_prefix_missing: "files (file_of env path) = None \<Longrightarrow> \<exists>e. read_prefix env files path n = Inl e"
  by (simp add: read_prefix_def split: option.splits)

lemma join_starts: "\<exists>post. join sep (x # xs) = x @ post"
  by (cases xs) simp_all

lemma inspect_reports_a_contextual_missing_artifact_error_holds:
  "inspect_reports_a_contextual_missing_artifact_error env"
proof -
  let ?path = "''definitely-missing-contract.wasm''"
  obtain e where "read_prefix env (\<lambda>_. None) ?path (MAX_ARTIFACT_SIZE_BYTES + 1) = Inl e"
    using read_prefix_missing [of "\<lambda>_. None"] by blast
  then have load: "load_artifact env (\<lambda>_. None) ?path = Inl (With_Context (''reading '' @ ?path) e)"
    by (simp only: load_artifact_def read_bounded_def missing_artifact_path with_context_simps and_then_simps)
  obtain post where "join '': '' ((''reading '' @ ?path) # error_chain env e) = (''reading '' @ ?path) @ post"
    using join_starts by blast
  with load show ?thesis
    using str_containsI [of "''reading '' @ ?path" "''Error: ''" post]
    by (simp add: inspect_reports_a_contextual_missing_artifact_error_def main_def run_inspect_def io_then_def
        io_read_def)
qed

end
