(* ===== verification/Runner_Tests.thy ===== *)
theory Runner_Tests
  imports Core_Fixtures Cap86_Runner
begin

text \<open>
  The unit tests of the runner of the CAP-0086 experiment (module \<open>tests\<close> of
  \<open>experiments/cap0086-runtime/runner/src/main.rs\<close>). A module that a test writes as text is given by its
  imports, the bodies of functions in front of the exported ones and the bodies of the exports; the
  calls carry the indices that the names of the text stand for. The messages use the printers of the
  environment, of which the tests need nothing.
\<close>

definition IMPORTS :: "(string \<times> string) list" where
  "IMPORTS = [(''m'', ''9''), (''m'', ''b''), (''v'', ''g''), (''m'', ''a''), (''m'', ''c'')]"

text \<open>The exports, with the indices of \<open>dense_write\<close>, \<open>sparse_write\<close>, \<open>vec_new\<close>, \<open>dense_read\<close>, \<open>sparse_read\<close>.\<close>

definition EXPORTS :: "(string \<times> operator list) list" where
  "EXPORTS =
     [(''old_to_new_sparse'', [Call 0, Call 4, Call 2]),
      (''old_to_new_dense'', [Call 0, Call 3, Call 2]),
      (''new_none_to_old_dense'', [Call 1, Call 3, Call 2]),
      (''new_some_to_old_dense'', [Call 1, Call 3, Call 2]),
      (''new_some_to_new_sparse'', [Call 1, Call 4, Call 2])]"

text \<open>\<open>replacen\<close> on the text of the exports changes the first of them in every test.\<close>

definition with_first_body :: "operator list \<Rightarrow> (string \<times> operator list) list \<Rightarrow> (string \<times> operator list) list" where
  "with_first_body body exports = (case exports of [] \<Rightarrow> [] | (export, _) # rest \<Rightarrow> (export, body) # rest)"

definition test_wasm ::
  "(string \<times> string) list \<Rightarrow> operator list list \<Rightarrow> (string \<times> operator list) list \<Rightarrow> wasm_lib" where
  "test_wasm imps locals exports = \<lparr>validate_all = (\<lambda>_. Inr ()), parse_all = (\<lambda>_.
     [Inr (ImportSection (map (\<lambda>(m, f). Inr \<lparr>wi_module = m, wi_name = f, wi_is_func = True\<rparr>) imps)),
      Inr (ExportSection (map (\<lambda>(i, export). Inr \<lparr>we_name = export, we_is_func = True,
         we_index = word_of_nat (length imps + length locals + i)\<rparr>) (enumerate 0 (map fst exports))))]
     @ map (\<lambda>body. Inr (CodeSectionEntry (Inr (map Inr body)))) (locals @ map snd exports))\<rparr>"

definition rejection ::
  "runner_env \<Rightarrow> (string \<times> string) list \<Rightarrow> operator list list \<Rightarrow> (string \<times> operator list) list \<Rightarrow> string option" where
  "rejection env imps locals exports =
     (case (require_reachable_imports (test_wasm imps locals exports) [] :: nat runner_error + unit) of
        Inl e \<Rightarrow> Some (runner_message env show_nat e) | Inr _ \<Rightarrow> None)"

definition rejected_with :: "string \<Rightarrow> string option \<Rightarrow> bool" where
  "rejected_with needle r = (case r of None \<Rightarrow> False | Some message \<Rightarrow> str_contains needle message)"

section \<open>Tests\<close>

definition canonical_witness_contract_passes :: "runner_env \<Rightarrow> bool" where
  "canonical_witness_contract_passes env \<longleftrightarrow> rejection env IMPORTS [] EXPORTS = None"

definition extra_manual_lookup_import_fails_closed :: "runner_env \<Rightarrow> bool" where
  "extra_manual_lookup_import_fails_closed env \<longleftrightarrow>
     rejected_with ''function-import contract'' (rejection env (IMPORTS @ [(''m'', ''manual_lookup'')]) [] EXPORTS)"

definition missing_sparse_reader_import_fails_closed :: "runner_env \<Rightarrow> bool" where
  "missing_sparse_reader_import_fails_closed env \<longleftrightarrow>
     rejected_with ''function-import contract''
       (rejection env (filter (\<lambda>imp. imp \<noteq> (''m'', ''c'')) IMPORTS) [[]] EXPORTS)"

definition duplicate_import_fails_closed :: "runner_env \<Rightarrow> bool" where
  "duplicate_import_fails_closed env \<longleftrightarrow>
     rejected_with ''function-import contract'' (rejection env (IMPORTS @ [(''m'', ''c'')]) [] EXPORTS)"

definition reordered_imports_fail_closed :: "runner_env \<Rightarrow> bool" where
  "reordered_imports_fail_closed env \<longleftrightarrow>
     rejected_with ''function-import contract''
       (rejection env [(''m'', ''b''), (''m'', ''9''), (''v'', ''g''), (''m'', ''a''), (''m'', ''c'')] []
          (map (\<lambda>(export, body). (export, map (\<lambda>op. case op of
             Call f \<Rightarrow> Call (if f = 0 then 1 else if f = 1 then 0 else f) | _ \<Rightarrow> op) body)) EXPORTS))"

definition swapped_sparse_selector_in_call_graph_fails_closed :: "runner_env \<Rightarrow> bool" where
  "swapped_sparse_selector_in_call_graph_fails_closed env \<longleftrightarrow>
     rejected_with ''old_to_new_sparse reaches''
       (rejection env IMPORTS [] (with_first_body [Call 0, Call 3, Call 2] EXPORTS))"

definition dynamic_dispatch_fails_closed :: "runner_env \<Rightarrow> bool" where
  "dynamic_dispatch_fails_closed env \<longleftrightarrow>
     rejected_with ''reaches dynamic dispatch''
       (rejection env IMPORTS [[]] (with_first_body [OtherOperator, CallIndirect] EXPORTS))"

definition hardcoded_result_cannot_substitute_for_host_calls :: "runner_env \<Rightarrow> bool" where
  "hardcoded_result_cannot_substitute_for_host_calls env \<longleftrightarrow>
     rejected_with ''old_to_new_sparse reaches'' (rejection env IMPORTS [] (with_first_body [Call 2] EXPORTS))"

section \<open>The tests hold\<close>

text \<open>What the runner finds in each module is evaluated; the messages are compared by their parts.\<close>

abbreviation verdict ::
  "(string \<times> string) list \<Rightarrow> operator list list \<Rightarrow> (string \<times> operator list) list \<Rightarrow> nat runner_error + unit" where
  "verdict imps locals exports \<equiv> require_reachable_imports (test_wasm imps locals exports) []"

fun about_imports :: "nat runner_error + unit \<Rightarrow> bool" where
  "about_imports (Inl (Function_Import_Contract _)) \<longleftrightarrow> True"
| "about_imports _ \<longleftrightarrow> False"

fun about_first_export :: "nat runner_error + unit \<Rightarrow> bool" where
  "about_first_export (Inl (Reaches_Other_Imports export _ _)) \<longleftrightarrow> export = ''old_to_new_sparse''"
| "about_first_export _ \<longleftrightarrow> False"

fun about_dispatch :: "nat runner_error + unit \<Rightarrow> bool" where
  "about_dispatch (Inl (Reaches_Dynamic_Dispatch _)) \<longleftrightarrow> True"
| "about_dispatch _ \<longleftrightarrow> False"

lemma rejected_imports:
  "about_imports (verdict imps locals exports) \<Longrightarrow>
     rejected_with ''function-import contract'' (rejection env imps locals exports)"
  using str_containsI [of "''function-import contract''" "[]"]
  by (auto simp: rejected_with_def rejection_def elim!: about_imports.elims)

lemma rejected_first_export:
  "about_first_export (verdict imps locals exports) \<Longrightarrow>
     rejected_with ''old_to_new_sparse reaches'' (rejection env imps locals exports)"
  using str_containsI [of "''old_to_new_sparse reaches''" "[]"]
  by (auto simp: rejected_with_def rejection_def elim!: about_first_export.elims)

lemma rejected_dispatch:
  "about_dispatch (verdict imps locals exports) \<Longrightarrow>
     rejected_with ''reaches dynamic dispatch'' (rejection env imps locals exports)"
proof -
  assume "about_dispatch (verdict imps locals exports)"
  then obtain export where verdict: "verdict imps locals exports = Inl (Reaches_Dynamic_Dispatch export)"
    by (auto elim!: about_dispatch.elims)
  have "runner_message env show_nat (Reaches_Dynamic_Dispatch export :: nat runner_error)
      = (export @ '' '') @ ''reaches dynamic dispatch'' @ '', so its host-call graph is incomplete''" by simp
  with verdict show ?thesis
    using str_containsI [of "''reaches dynamic dispatch''" "export @ '' ''" "'', so its host-call graph is incomplete''"]
    by (simp only: rejected_with_def rejection_def sum.case option.case)
qed

lemma canonical_witness_contract_passes_holds: "canonical_witness_contract_passes env"
proof -
  have "verdict IMPORTS [] EXPORTS = Inr ()" by code_simp
  then show ?thesis by (simp add: canonical_witness_contract_passes_def rejection_def)
qed

lemma extra_manual_lookup_import_fails_closed_holds: "extra_manual_lookup_import_fails_closed env"
  unfolding extra_manual_lookup_import_fails_closed_def by (rule rejected_imports) code_simp

lemma missing_sparse_reader_import_fails_closed_holds: "missing_sparse_reader_import_fails_closed env"
  unfolding missing_sparse_reader_import_fails_closed_def by (rule rejected_imports) code_simp

lemma duplicate_import_fails_closed_holds: "duplicate_import_fails_closed env"
  unfolding duplicate_import_fails_closed_def by (rule rejected_imports) code_simp

lemma reordered_imports_fail_closed_holds: "reordered_imports_fail_closed env"
  unfolding reordered_imports_fail_closed_def by (rule rejected_imports) code_simp

lemma swapped_sparse_selector_in_call_graph_fails_closed_holds:
  "swapped_sparse_selector_in_call_graph_fails_closed env"
  unfolding swapped_sparse_selector_in_call_graph_fails_closed_def by (rule rejected_first_export) code_simp

lemma dynamic_dispatch_fails_closed_holds: "dynamic_dispatch_fails_closed env"
  unfolding dynamic_dispatch_fails_closed_def by (rule rejected_dispatch) code_simp

lemma hardcoded_result_cannot_substitute_for_host_calls_holds:
  "hardcoded_result_cannot_substitute_for_host_calls env"
  unfolding hardcoded_result_cannot_substitute_for_host_calls_def by (rule rejected_first_export) code_simp

end
