(* ===== verification/Test_Suite.thy ===== *)
theory Test_Suite
  imports Core_Tests Plan_Tests Cli_Tests Runner_Tests
begin

text \<open>
  The tests of plans, of the command line interface and of the runner, together. The tests of the
  checks are collected in \<open>Core_Tests\<close>.
\<close>

text \<open>
  The unit tests of plans pass on the model with an instance of the crates that creates the plan of
  the tests, and those of the command line interface and of the runner pass in every environment: plans
  refuse a changed digest, command, hash or report, private keys at any place and missing evidence, and
  the runner refuses every deviation from its import contract.
\<close>

theorem tools_pass_their_tests:
  "plan_digest_detects_any_mutation test_plan_lib
   \<and> plan_verification_rejects_recomputed_digest_for_noncanonical_command test_plan_lib
   \<and> plan_verification_rejects_recomputed_digest_for_hash_mismatch test_plan_lib
   \<and> plan_verification_rejects_a_forged_embedded_report test_plan_lib
   \<and> private_key_scanner_rejects_a_seed_at_every_byte_offset test_plan_lib test_seed
   \<and> plan_rejects_invalid_contract_id test_plan_lib
   \<and> plan_rejects_private_source_identity test_plan_lib test_seed
   \<and> plan_rejects_private_key_in_invariant_arguments test_plan_lib test_seed
   \<and> plan_rejects_private_keys_embedded_in_structured_arguments_and_paths test_plan_lib test_seed
   \<and> plan_rejects_network_evidence_mismatch test_plan_lib
   \<and> plan_refuses_unsafe_report test_plan_lib
   \<and> plan_requires_protocol_storage_and_history_evidence test_plan_lib
   \<and> private_key_scanner_handles_unicode_and_near_matches test_plan_lib test_seed
   \<and> plan_rejects_private_keys_embedded_in_artifact_evidence test_plan_lib test_seed
   \<and> plan_commands_quote_untrusted_arguments_and_preserve_structure test_plan_lib
   \<and> plan_requires_declared_storage_migration test_plan_lib
   \<and> policy_json_rejects_duplicate_fields policy_of_bytes
   \<and> plan_json_rejects_duplicate_digest_fields test_plan_lib plan_of_bytes
   \<and> policy_json_rejects_unknown_fields text json
   \<and> plan_json_rejects_unbound_unknown_fields test_plan_lib text json
   \<and> parses_live_network_info_into_complete_evidence cli json
   \<and> protocol_flag_creates_an_offline_assertion cli
   \<and> short_hash_is_stable_for_full_and_short_inputs
   \<and> inspect_reports_a_contextual_missing_artifact_error cli
   \<and> canonical_witness_contract_passes runner
   \<and> extra_manual_lookup_import_fails_closed runner
   \<and> missing_sparse_reader_import_fails_closed runner
   \<and> duplicate_import_fails_closed runner
   \<and> reordered_imports_fail_closed runner
   \<and> swapped_sparse_selector_in_call_graph_fails_closed runner
   \<and> dynamic_dispatch_fails_closed runner
   \<and> hardcoded_result_cannot_substitute_for_host_calls runner"
  by (intro conjI
      plan_digest_detects_any_mutation_holds
      plan_verification_rejects_recomputed_digest_for_noncanonical_command_holds
      plan_verification_rejects_recomputed_digest_for_hash_mismatch_holds
      plan_verification_rejects_a_forged_embedded_report_holds
      private_key_scanner_rejects_a_seed_at_every_byte_offset_holds
      plan_rejects_invalid_contract_id_holds
      plan_rejects_private_source_identity_holds
      plan_rejects_private_key_in_invariant_arguments_holds
      plan_rejects_private_keys_embedded_in_structured_arguments_and_paths_holds
      plan_rejects_network_evidence_mismatch_holds
      plan_refuses_unsafe_report_holds
      plan_requires_protocol_storage_and_history_evidence_holds
      private_key_scanner_handles_unicode_and_near_matches_holds
      plan_rejects_private_keys_embedded_in_artifact_evidence_holds
      plan_commands_quote_untrusted_arguments_and_preserve_structure_holds
      plan_requires_declared_storage_migration_holds
      policy_json_rejects_duplicate_fields_holds
      plan_json_rejects_duplicate_digest_fields_holds
      policy_json_rejects_unknown_fields_holds
      plan_json_rejects_unbound_unknown_fields_holds
      parses_live_network_info_into_complete_evidence_holds
      protocol_flag_creates_an_offline_assertion_holds
      short_hash_is_stable_for_full_and_short_inputs_holds
      inspect_reports_a_contextual_missing_artifact_error_holds
      canonical_witness_contract_passes_holds
      extra_manual_lookup_import_fails_closed_holds
      missing_sparse_reader_import_fails_closed_holds
      duplicate_import_fails_closed_holds
      reordered_imports_fail_closed_holds
      swapped_sparse_selector_in_call_graph_fails_closed_holds
      dynamic_dispatch_fails_closed_holds
      hardcoded_result_cannot_substitute_for_host_calls_holds)

end
