(* ===== verification/Accepted_Modules.thy ===== *)
theory Accepted_Modules
  imports Spec_Reader
begin

text \<open>
  Which modules \<open>Artifact::from_wasm\<close> (\<open>crates/soroban-upgrades-core/src/lib.rs\<close>) accepts, stated over
  the payloads of the module alone. The readers of \<open>Spec_Reader\<close> and \<open>Call_Graph\<close> walk the payloads one
  by one and stop at the first error; here a module is described by the lists of its custom sections,
  imported and exported functions and function bodies, and each reader is shown to succeed exactly when
  the lists satisfy its condition.
\<close>

section \<open>What a module contains\<close>

fun decoded :: "payload \<Rightarrow> bool" where
  "decoded (ImportSection xs) = list_all (\<lambda>x. \<not> isl x) xs"
| "decoded (ExportSection xs) = list_all (\<lambda>x. \<not> isl x) xs"
| "decoded (CodeSectionEntry (Inl e)) = False"
| "decoded (CodeSectionEntry (Inr ops)) = list_all (\<lambda>x. \<not> isl x) ops"
| "decoded (CustomSection name data) = True"
| "decoded OtherPayload = True"

fun custom_section :: "string \<Rightarrow> payload \<Rightarrow> bytes list" where
  "custom_section wanted (CustomSection name data) = (if name = wanted then [data] else [])"
| "custom_section wanted p = []"

fun imported_names :: "payload \<Rightarrow> string list" where
  "imported_names (ImportSection xs) = [wi_module i @ ''.'' @ wi_name i. Inr i \<leftarrow> xs, wi_is_func i]"
| "imported_names p = []"

fun exported_functions :: "payload \<Rightarrow> (string \<times> u32) list" where
  "exported_functions (ExportSection xs) = [(we_name x, we_index x). Inr x \<leftarrow> xs, we_is_func x]"
| "exported_functions p = []"

fun callee :: "operator \<Rightarrow> u32 list" where
  "callee (Call i) = [i]"
| "callee (ReturnCall i) = [i]"
| "callee op = []"

definition dynamic_operators :: "operator set" where
  "dynamic_operators = {CallIndirect, ReturnCallIndirect, CallRef, ReturnCallRef}"

definition calls_in :: "operator list \<Rightarrow> function_body_calls" where
  "calls_in ops = \<lparr>direct_calls = concat (map callee ops),
     has_dynamic_dispatch = (set ops \<inter> dynamic_operators \<noteq> {})\<rparr>"

fun function_bodies :: "payload \<Rightarrow> function_body_calls list" where
  "function_bodies (CodeSectionEntry (Inr ops)) = [calls_in [op. Inr op \<leftarrow> ops]]"
| "function_bodies p = []"

definition of_payloads :: "(payload \<Rightarrow> 'a list) \<Rightarrow> payload list \<Rightarrow> 'a list" where
  "of_payloads f ps = concat (map f ps)"

lemma of_payloads_simps [simp]:
  "of_payloads f [] = []"
  "of_payloads f (p # ps) = f p @ of_payloads f ps"
  by (simp_all add: of_payloads_def)

text \<open>
  No exported function reaches an index outside the module through direct calls; of two exports of the
  same name the last one counts.
\<close>

definition exports_resolve :: "payload list \<Rightarrow> bool" where
  "exports_resolve ps \<longleftrightarrow>
     (let names = of_payloads imported_names ps; bodies = of_payloads function_bodies ps;
          n = word_of_nat (length names) in
      \<forall>name f. map_of (rev (of_payloads exported_functions ps)) name = Some f \<longrightarrow>
        \<not> (\<exists>g. call_reachable n bodies f g \<and> dangling n names bodies g))"

section \<open>The custom sections\<close>

lemma section_data_iff:
  "section_data lib wanted bs = Inr (count, raw) \<longleftrightarrow>
     (\<exists>ps. parse_all lib bs = map Inr ps \<and> count = length (of_payloads (custom_section wanted) ps)
        \<and> raw = concat (of_payloads (custom_section wanted) ps))"
proof -
  have "try_fold (\<lambda>(count, raw) item. and_then (lift_error WasmError item) (\<lambda>payload.
           case payload of
             CustomSection name data \<Rightarrow>
               Inr (if name = wanted then (count + 1, raw @ data) else (count, raw))
           | _ \<Rightarrow> Inr (count, raw))) (c, r) items = Inr (count, raw) \<longleftrightarrow>
      (\<exists>ps. items = map Inr ps \<and> count = c + length (of_payloads (custom_section wanted) ps)
        \<and> raw = r @ concat (of_payloads (custom_section wanted) ps))" for c r items
  proof (induction items arbitrary: c r)
    case (Cons item items)
    show ?case
    proof (cases item)
      case (Inr p)
      then show ?thesis by (cases p) (auto simp: Cons.IH Cons_eq_map_conv)
    qed (auto simp: Cons_eq_map_conv)
  qed auto
  from this [of 0 "[]"] show ?thesis by (simp add: section_data_def)
qed

lemma require_single_iff:
  "require_single_contract_spec_section lib bs = Inr () \<longleftrightarrow>
     (\<exists>ps. parse_all lib bs = map Inr ps \<and> length (of_payloads (custom_section ''contractspecv0'') ps) = 1)"
proof -
  have "try_fold (\<lambda>count item. and_then (lift_error WasmError item) (\<lambda>payload.
           case payload of
             CustomSection name _ \<Rightarrow> Inr (count + (if name = ''contractspecv0'' then 1 else 0))
           | _ \<Rightarrow> Inr count)) c items = Inr count \<longleftrightarrow>
      (\<exists>ps. items = map Inr ps \<and> count = c + length (of_payloads (custom_section ''contractspecv0'') ps))" for c count items
  proof (induction items arbitrary: c)
    case (Cons item items)
    show ?case
    proof (cases item)
      case (Inr p)
      then show ?thesis by (cases p) (auto simp: Cons.IH Cons_eq_map_conv)
    qed (auto simp: Cons_eq_map_conv)
  qed auto
  from this [of 0] show ?thesis
    by (auto simp: require_single_contract_spec_section_def and_then_Inr_iff)
qed

lemma env_metadata_iff:
  "(\<exists>version. read_contract_env_metadata lib sl bs = Inr version) \<longleftrightarrow>
     (\<exists>ps data v. parse_all lib bs = map Inr ps \<and> of_payloads (custom_section ''contractenvmetav0'') ps = [data]
        \<and> env_meta_entries sl data = [Inr v])"
proof -
  have single: "(case entries of [v] \<Rightarrow> Inr (f v) | _ \<Rightarrow> Inl e) = Inr version \<longleftrightarrow> (\<exists>v. entries = [v] \<and> version = f v)"
    for entries :: "interface_version list" and f and e :: core_error and version :: "u32 \<times> u32"
    by (auto split: list.splits)
  have "read_contract_env_metadata lib sl bs = Inr version \<longleftrightarrow>
      (\<exists>raw v. section_data lib ''contractenvmetav0'' bs = Inr (1, raw) \<and> env_meta_entries sl raw = [Inr v]
         \<and> version = (iv_protocol v, iv_pre_release v))" for version
    unfolding read_contract_env_metadata_def and_then_Inr_iff
    by (auto simp: and_then_Inr_iff collect_results_Inr_iff single Cons_eq_map_conv
        map_eq_Cons_conv split: if_splits)
  then show ?thesis by (fastforce simp: section_data_iff length_Suc_conv eq_commute [of "Suc 0"])
qed

lemma metadata_iff:
  "(\<exists>m. read_contract_metadata lib sl bs = Inr m) \<longleftrightarrow>
     (\<exists>ps entries. parse_all lib bs = map Inr ps
        \<and> meta_entries sl (concat (of_payloads (custom_section ''contractmetav0'') ps)) = map Inr entries
        \<and> distinct (map (\<lambda>e. utf8_lossy sl (fst e)) entries))"
proof -
  have "\<exists>m. bm_ok m \<and> bm_get m = map_of kvs" if "distinct (map fst kvs)" for kvs :: "(string \<times> string) list"
    using that map_of_inject_set [of "rev kvs" kvs]
    by (intro exI [of _ "bm_of_list kvs"]) (simp add: bm_get_of_list rev_map [symmetric])
  then have "(\<exists>m. insert_new bm_get bm_insert DuplicateMetadataKey [] kvs = Inr m) \<longleftrightarrow> distinct (map fst kvs)"
    for kvs :: "(string \<times> string) list"
    by (auto simp: btree_map.insert_new_empty)
  from this [of "map (\<lambda>(key, val). (utf8_lossy sl key, utf8_lossy sl val)) entries" for entries]
  have keys: "(\<exists>m. insert_new bm_get bm_insert DuplicateMetadataKey []
        (map (\<lambda>(key, val). (utf8_lossy sl key, utf8_lossy sl val)) entries) = Inr m) \<longleftrightarrow>
      distinct (map (\<lambda>e. utf8_lossy sl (fst e)) entries)" for entries
    by (simp add: comp_def split_beta)
  show ?thesis
    unfolding read_contract_metadata_def keys [symmetric]
    by (auto simp: and_then_Inr_iff collect_results_Inr_iff section_data_iff)
qed

section \<open>Imports, exports and bodies\<close>

lemma add_import_names_iff:
  "try_fold add_import_name names xs = Inr names' \<longleftrightarrow>
     decoded (ImportSection xs) \<and> names' = names @ imported_names (ImportSection xs)"
proof (induction xs arbitrary: names)
  case (Cons x xs)
  then show ?case by (cases x) (auto simp: add_import_name_def)
qed auto

lemma add_function_exports_iff:
  "try_fold add_function_export m xs = Inr m' \<longleftrightarrow>
     decoded (ExportSection xs)
     \<and> m' = fold (\<lambda>(name, f). bm_insert name f) (exported_functions (ExportSection xs)) m"
proof (induction xs arbitrary: m)
  case (Cons x xs)
  then show ?case by (cases x) (auto simp: add_function_export_def)
qed auto

lemma add_operator_Inr:
  "add_operator c (Inr op) = Inr (c\<lparr>direct_calls := direct_calls c @ callee op,
     has_dynamic_dispatch := has_dynamic_dispatch c \<or> op \<in> dynamic_operators\<rparr>)"
  by (cases op) (simp_all add: add_operator_def dynamic_operators_def)

lemma add_operators_iff:
  "try_fold add_operator c xs = Inr c' \<longleftrightarrow>
     decoded (CodeSectionEntry (Inr xs))
     \<and> direct_calls c' = direct_calls c @ direct_calls (calls_in [op. Inr op \<leftarrow> xs])
     \<and> (has_dynamic_dispatch c' \<longleftrightarrow> has_dynamic_dispatch c \<or> has_dynamic_dispatch (calls_in [op. Inr op \<leftarrow> xs]))"
proof (induction xs arbitrary: c)
  case (Cons x xs)
  show ?case
  proof (cases x)
    case (Inr op)
    then show ?thesis by (simp add: add_operator_Inr Cons.IH calls_in_def)
  qed (simp add: add_operator_def)
qed (auto simp: calls_in_def)

lemma body_calls_iff:
  "try_fold add_operator \<lparr>direct_calls = [], has_dynamic_dispatch = False\<rparr> xs = Inr c \<longleftrightarrow>
     decoded (CodeSectionEntry (Inr xs)) \<and> [c] = function_bodies (CodeSectionEntry (Inr xs))"
  by (cases c) (simp add: add_operators_iff calls_in_def)

lemma scan_payload_iff:
  "scan_payload m (Inr p) = Inr m' \<longleftrightarrow>
     decoded p \<and> m' = \<lparr>mc_function_imports = mc_function_imports m @ imported_names p,
       mc_function_exports = fold (\<lambda>(name, f). bm_insert name f) (exported_functions p) (mc_function_exports m),
       mc_function_bodies = mc_function_bodies m @ function_bodies p\<rparr>"
proof (cases p)
  case (CodeSectionEntry reader)
  then show ?thesis
    by (cases reader) (auto simp: scan_payload_def and_then_Inr_iff body_calls_iff)
qed (auto simp: scan_payload_def and_then_Inr_iff add_import_names_iff add_function_exports_iff)

lemma scan_iff:
  "try_fold scan_payload m items = Inr m' \<longleftrightarrow>
     (\<exists>ps. items = map Inr ps \<and> list_all decoded ps
        \<and> m' = \<lparr>mc_function_imports = mc_function_imports m @ of_payloads imported_names ps,
          mc_function_exports = fold (\<lambda>(name, f). bm_insert name f) (of_payloads exported_functions ps) (mc_function_exports m),
          mc_function_bodies = mc_function_bodies m @ of_payloads function_bodies ps\<rparr>)"
proof (induction items arbitrary: m)
  case (Cons item items)
  show ?case
  proof (cases item)
    case (Inl e)
    then show ?thesis by (auto simp: scan_payload_def)
  next
    case (Inr p)
    then show ?thesis
      by (auto simp: and_then_Inr_iff scan_payload_iff Cons.IH Cons_eq_map_conv) 
  qed
qed auto

lemma import_section_accepts:
  "length fis + length (imported_names (ImportSection xs)) < 2 ^ 32 \<Longrightarrow> decoded (ImportSection xs) \<Longrightarrow>
   \<exists>fis'. try_fold add_function_import fis xs = Inr fis'
     \<and> length fis' = length fis + length (imported_names (ImportSection xs))"
proof (induction xs arbitrary: fis)
  case (Cons x xs)
  then obtain i where x: "x = Inr i" by (cases x) auto
  define fis1 where "fis1 = (if wi_is_func i then fis @ [\<lparr>fi_function_index = word_of_nat (length fis),
    fi_module = wi_module i, fi_name = wi_name i\<rparr>] else fis)"
  have "add_function_import fis x = Inr fis1"
    using Cons.prems by (simp add: x fis1_def add_function_import_Inr u32_try_from_def)
  with Cons.IH [of fis1] Cons.prems show ?case by (auto simp: x fis1_def split: if_splits)
qed simp

lemma imports_accepted:
  "length fis + length (of_payloads imported_names ps) < 2 ^ 32 \<Longrightarrow> list_all decoded ps \<Longrightarrow>
   \<exists>fis'. try_fold (\<lambda>fis item. and_then (lift_error WasmError item) (\<lambda>payload.
       case payload of ImportSection section \<Rightarrow> try_fold add_function_import fis section | _ \<Rightarrow> Inr fis))
     fis (map Inr ps) = Inr fis'"
proof (induction ps arbitrary: fis)
  case (Cons p ps)
  show ?case
  proof (cases "\<exists>xs. p = ImportSection xs")
    case True
    then obtain xs where p: "p = ImportSection xs" by blast
    with Cons.prems import_section_accepts [of fis xs] obtain fis1
      where "try_fold add_function_import fis xs = Inr fis1"
        and "length fis1 = length fis + length (imported_names p)" by auto
    with Cons.IH [of fis1] Cons.prems p show ?thesis by simp
  next
    case False
    with Cons.IH [of fis] Cons.prems show ?thesis by (cases p) simp_all
  qed
qed simp

lemma evidence_fold_accepts:
  "(\<exists>result'. try_fold (add_export_evidence n names bodies) result exports = Inr result') \<longleftrightarrow>
     (\<forall>(name, f)\<in>set exports. \<not> (\<exists>g. call_reachable n bodies f g \<and> dangling n names bodies g))"
proof (induction exports arbitrary: result)
  case (Cons ex exports)
  obtain name f where ex: "ex = (name, f)" by force
  show ?case
  proof (cases "collect_export_call_evidence n names bodies [f] [] no_evidence")
    case (Inl e)
    then show ?thesis using collect_evidence_exact [of n bodies f names] by (auto simp: ex add_export_evidence_def)
  next
    case (Inr evidence)
    then show ?thesis
      using collect_evidence_exact [of n bodies f names] Cons.IH [of "bm_insert name evidence result"]
      by (simp add: ex add_export_evidence_def)
  qed
qed simp

lemma evidence_iff:
  "(\<exists>evidence. inspect_export_call_evidence lib bs = Inr evidence) \<longleftrightarrow>
     (\<exists>ps. parse_all lib bs = map Inr ps \<and> list_all decoded ps
        \<and> length (of_payloads imported_names ps) < 2 ^ 32 \<and> exports_resolve ps)"
proof -
  have "(name, f) \<in> set (fold (\<lambda>(name, f). bm_insert name f) xs []) \<longleftrightarrow> map_of (rev xs) name = Some f"
    for xs :: "(string \<times> u32) list" and name f
    using bm_get_iff [OF bm_ok_of_list [of xs]] by (simp add: bm_get_of_list bm_of_list_def [symmetric])
  then have members: "(\<forall>(name, f)\<in>set (fold (\<lambda>(name, f). bm_insert name f) xs []). P f) \<longleftrightarrow>
      (\<forall>name f. map_of (rev xs) name = Some f \<longrightarrow> P f)" for xs :: "(string \<times> u32) list" and P
    by (simp add: Ball_def)
  have one_point: "(\<exists>m. (\<exists>ps. A ps \<and> B ps \<and> m = X ps) \<and> Q m) \<longleftrightarrow> (\<exists>ps. A ps \<and> B ps \<and> Q (X ps))"
    for A B X and Q :: "module_calls \<Rightarrow> bool" by blast
  have fits: "(\<exists>n. u32_try_from k = Some n \<and> Q n) \<longleftrightarrow> k < 2 ^ 32 \<and> Q (word_of_nat k)" for k Q
    by (simp add: u32_try_from_def)
  have "(\<exists>evidence. inspect_export_call_evidence lib bs = Inr evidence) \<longleftrightarrow>
      (\<exists>m. try_fold scan_payload \<lparr>mc_function_imports = [], mc_function_exports = [], mc_function_bodies = []\<rparr>
          (parse_all lib bs) = Inr m
         \<and> (\<exists>n. u32_try_from (length (mc_function_imports m)) = Some n
         \<and> (\<exists>evidence. try_fold (add_export_evidence n (mc_function_imports m) (mc_function_bodies m)) []
              (mc_function_exports m) = Inr evidence)))"
    by (auto simp: inspect_export_call_evidence_def and_then_Inr_iff)
  then show ?thesis
    unfolding scan_iff evidence_fold_accepts one_point fits
    by (simp add: members exports_resolve_def Let_def)
qed

section \<open>Acceptance\<close>

text \<open>
  C36: \<open>Artifact::from_wasm\<close> accepts a module exactly when it has at most 16 MiB, validates, parses into
  payloads without error, has exactly one specification section and exactly one environment section with
  exactly one interface version, when its metadata sections decode and repeat no key, its imports, exports
  and function bodies decode, it has fewer than \<open>2 ^ 32\<close> imported functions, no export reaches a missing
  function, and the specification decodes and repeats neither a name in a name space (structs, unions and
  both kinds of enums share one) nor a member name inside an entry.
\<close>

theorem from_wasm_accepts:
  "(\<exists>a. from_wasm lib sl sha256_hex bs = Inr a) \<longleftrightarrow>
     length bs \<le> 16 * 1024 * 1024 \<and> validate_all lib bs = Inr ()
     \<and> (\<exists>ps. parse_all lib bs = map Inr ps
          \<and> length (of_payloads (custom_section ''contractspecv0'') ps) = 1
          \<and> (\<exists>data v. of_payloads (custom_section ''contractenvmetav0'') ps = [data]
               \<and> env_meta_entries sl data = [Inr v])
          \<and> (\<exists>entries. meta_entries sl (concat (of_payloads (custom_section ''contractmetav0'') ps)) = map Inr entries
               \<and> distinct (map (\<lambda>e. utf8_lossy sl (fst e)) entries))
          \<and> list_all decoded ps \<and> length (of_payloads imported_names ps) < 2 ^ 32 \<and> exports_resolve ps)
     \<and> (\<exists>spec. spec_from_wasm sl bs = Inr spec \<and> spec_well_formed sl spec)"
proof -
  have hosts: "\<exists>hosts. read_host_imports lib bs = Inr hosts"
    if "\<exists>evidence. inspect_export_call_evidence lib bs = Inr evidence"
    using that imports_accepted [of "[]"]
    by (auto simp: evidence_iff read_host_imports_def inspect_function_imports_def and_then_Inr_iff)
  have spec: "(\<exists>st. try_fold (add_spec_entry sl) empty_scan spec = Inr st) \<longleftrightarrow> spec_well_formed sl spec" for spec
    using scan_spec_iff [OF scan_ok_empty(1), of sl spec] by (simp add: scan_ok_empty(2))
  have "(\<exists>a. from_wasm lib sl sha256_hex bs = Inr a) \<longleftrightarrow>
     length bs \<le> MAX_ARTIFACT_SIZE_BYTES \<and> validate_all lib bs = Inr ()
     \<and> require_single_contract_spec_section lib bs = Inr ()
     \<and> (\<exists>version. read_contract_env_metadata lib sl bs = Inr version)
     \<and> (\<exists>metadata. read_contract_metadata lib sl bs = Inr metadata)
     \<and> (\<exists>evidence. inspect_export_call_evidence lib bs = Inr evidence)
     \<and> (\<exists>spec. spec_from_wasm sl bs = Inr spec \<and> spec_well_formed sl spec)"
    unfolding from_wasm_Inr spec [symmetric] using hosts by auto
  also note require_single_iff
  also note env_metadata_iff
  also note metadata_iff
  also note evidence_iff
  finally show ?thesis by (auto simp: MAX_ARTIFACT_SIZE_BYTES_def inj_map_eq_map)
qed

end
