(* ===== verification/Spec2Isabelle.thy ===== *)
theory Spec2Isabelle
  imports Plan_Roundtrip Cli_Examples Release_Line Call_Graph_Steps Counter_Unsafe Cap86 Cap86_Runner Examples_Judged Test_Suite
    Accepted_Modules
begin

text \<open>
  A model of \<open>soroban-upgrades\<close>: a validator that decides whether one compiled Soroban contract may
  replace another, the upgrade plans it derives from an approved pair, and the contracts and the
  experiment that come with it.

  \<^bold>\<open>The program.\<close> The core (\<open>crates/soroban-upgrades-core/src/lib.rs\<close>) reads two WASM modules into
  artifacts: metadata, host imports, the contract specification and, for every export, the host
  functions that direct calls reach. \<open>validate_with_history\<close> runs ten checks over the artifacts, a policy,
  storage manifests, a schema history and the context of the network; each check appends findings,
  and the report is safe when no finding is an error. \<open>create_plan\<close> turns a safe report into a plan of
  commands with a digest, and \<open>verify_plan_digest\<close> recomputes the report and the plan. The command line
  interface (\<open>crates/soroban-upgrades-cli/src/main.rs\<close>) loads the inputs, asks the \<open>stellar\<close> program for
  the network and the deployed code, prints, and is the only part that writes a file. The examples
  (\<open>examples\<close>) are releases the validator accepts or blocks; the experiment
  (\<open>experiments/cap0086-runtime\<close>) tests the assumption about sparse maps behind its CAP-0086 check.

  \<^bold>\<open>Theories and code.\<close> Definitions have the names of the source, with a suffix where a name is taken.

  \<^item> \<open>Prelude\<close>, \<open>Collections\<close>: machine integers, \<open>Result\<close>, text, and the ordered map and set of the
    standard library, with the locales \<open>seen_set\<close> and \<open>keyed_map\<close> for the loops that reject duplicates.
  \<^item> \<open>Json\<close>: \<open>UniqueJson\<close>, \<open>parse_json_strict\<close>, \<open>strip_documentation\<close>.
  \<^item> \<open>Artifact\<close>: the data model, limits and errors. \<open>Call_Graph\<close>: \<open>inspect_function_imports\<close> and
    \<open>inspect_export_call_evidence\<close>, with \<open>Call_Graph_Steps\<close> for their cost. \<open>Spec_Reader\<close>: \<open>Artifact::from_wasm\<close> and its sections,
    with \<open>Accepted_Modules\<close> for the modules it accepts.
  \<^item> \<open>Type_Graph\<close>: \<open>trace_public_impacts\<close> with its bounded route search.
  \<^item> \<open>Findings\<close>, \<open>Checks_Context\<close>, \<open>Checks_Interface\<close>, \<open>Checks_Storage\<close>, \<open>Checks_History\<close>: the findings and
    the ten checks; each is an interpretation of the locale \<open>check_contract\<close>, which says that a check
    only appends and under which condition it blocks. \<open>Validate\<close>: the report and its evidence.
  \<^item> \<open>Plan_Data\<close>, \<open>Shell\<close>, \<open>Plan\<close>: the plan with its JSON form, command rendering and the private-key
    scan, creation and verification. \<open>Decoders\<close>: the derived \<open>Deserialize\<close> of every type as its \<open>serde\<close>
    attributes determine it, from JSON values; each decoder with its encoder is an interpretation of the
    locale \<open>json_codec\<close>.
  \<^item> \<open>Std_Text\<close>, \<open>Cli_Data\<close>, \<open>Cli_Print\<close>, \<open>Cli\<close>: UTF-8, the state of a run (files and printed lines), the
    printers, and every subcommand up to \<open>main\<close>.
  \<^item> \<open>Soroban_Sdk\<close>: what a contract uses of the SDK, and the locale \<open>gated\<close>. \<open>Counter_V1\<close>, \<open>Counter_V2\<close>,
    \<open>Counter_Unsafe\<close>: \<open>examples/counter-v1\<close>, \<open>counter-v2\<close>, \<open>counter-unsafe\<close>. \<open>Cap86\<close>: \<open>cap86-v1\<close>,
    \<open>cap86-v2\<close>, \<open>cap86-unsafe\<close>.
  \<^item> \<open>Cap86_Guest\<close>, \<open>Cap86_Runner\<close>: the guest and the runner of the experiment.
  \<^item> \<open>Examples_Judged\<close>: the manifests and histories of \<open>examples/schemas\<close> and the structs of the example
    sources, under the validator.
  \<^item> \<open>Release_Line\<close>: an \<open>inductive\<close> step relation over a deployed contract, in which each step is a safe report
    against what is deployed. \<open>Plan_Roundtrip\<close>: the plan file between \<open>plan\<close> and \<open>verify-plan\<close>. \<open>Cli_Examples\<close>: the
    commands on the examples.
  \<^item> \<open>Core_Fixtures\<close>, \<open>Core_Tests\<close>, \<open>Plan_Tests\<close>, \<open>Cli_Tests\<close>, \<open>Runner_Tests\<close>, \<open>Test_Suite\<close>: the test modules of
    the core, of the command line interface and of the runner, one Boolean for each test.

  \<^bold>\<open>What is shown.\<close>

  \<^item> Reading: a module is accepted exactly under conditions on the list of its payloads, and its artifact is
    exactly the content of its specification; the call-graph worklist terminates and computes exactly the
    reachable host functions; the route search and the public impacts are exact unless a limit is reported.
  \<^item> \<open>Validate\<close>, \<open>Release_Safety\<close>: when a report is safe, condition by condition, and what a safe report
    guarantees of the interface, the upgrade path, the storage layout and the names of removed fields.
  \<^item> \<open>Release_Line\<close>: over any number of upgrades the interface and the storage keys of the first release are
    kept, every release is upgradable, no version is deployed twice and no removed field returns. The schema
    version identifies the storage layout when it never goes back; the validator does not demand that: the
    comparison of manifests is exact and looks at the versions only when a layout changes, and a line of
    safe reports that reuses a schema version for another layout is given.
  \<^item> \<open>Plan_Safety\<close>: a plan that verifies is the canonical plan of a fresh, approvable validation;
    created plans verify; their steps, digest and required migration.
  \<^item> \<open>Cli_Safety\<close>: the exit codes of \<open>validate\<close> and \<open>verify-plan\<close>, bounded reading, the network context the
    arguments ask for, and the one file a run may write. \<open>Plan_Roundtrip\<close>: every plan survives its JSON form,
    whatever is decoded fits its Rust type, and a plan just written verifies in the world it leaves, if the JSON
    text printed for it holds its value: \<open>serde_json\<close> refuses texts nested deeper than 128 levels. \<open>Cli_Examples\<close>: the exit codes on the examples.
  \<^item> \<open>Counter_Upgrade\<close>: both counter releases refine one abstract counter across the replacement of the
    code, by a step relation and an invariant over its runs; \<open>Cap86\<close>: the consequence of strict and of
    sparse decoding for a stored account, and the truncation in the unsafe deposit.
  \<^item> \<open>Cap86_Guest\<close>: the matrix of the experiment from the CAP-0086 laws; \<open>Cap86_Runner\<close>: when the runner
    passes, with its expectations and the runs of the exports stated apart from its code, and a run on a
    sample host.
  \<^item> \<open>Examples_Judged\<close>: the three broken upgrades of the repository are blocked whatever else is in their
    modules, with the findings that say why; the reference upgrade is accepted exactly when the remaining
    evidence is there, and every plan of it runs \<open>migrate\<close>.
  \<^item> \<open>Core_Tests\<close>, \<open>Test_Suite\<close>: every modelled test passes on the model, so that the definitions agree with
    the program wherever its authors test it.

  \<^bold>\<open>Bounds and termination.\<close> No definition of the program uses fuel. The call-graph worklist ends because
  each round either shortens the list or marks one more body visited, and \<open>Call_Graph_Steps\<close> compares it with
  the loop that is cut off after one round for the export and one for each direct call; the route search ends because a path never
  repeats a type, and it is cut off at the limits of the source: 64 steps deep, 256 paths and 10000 pending or
  visited steps. Artifacts are limited to 16 MiB and JSON inputs to 8 MiB; the readers take at
  most one byte more, so that nothing beyond it changes their result. Indices and counters are 32-bit words whose arithmetic wraps or is checked where
  the source says so.

  \<^bold>\<open>Parameters.\<close> Third-party code is an argument of the definitions: the WASM parser and validator and
  the XDR decoder (\<open>wasm_lib\<close>, \<open>spec_lib\<close>), semantic versions, SHA-256 and key decoding (\<open>core_lib\<close>,
  \<open>plan_lib\<close>), the text layer and the printers of JSON, the argument parser, the operating system and the
  \<open>stellar\<close> program (\<open>cli_env\<close>), the Soroban SDK and host (\<open>sdk\<close>, \<open>guest_env\<close>, \<open>host_lib\<close>). Most theorems
  assume nothing of them; those that do name the law, such as \<open>sdk_laws\<close> or \<open>cap86_laws\<close>, and have a
  witness over a concrete instance.

  \<^bold>\<open>Not modelled.\<close> The text layer of \<open>serde_json\<close> (between bytes and JSON values) and the wording of its errors;
  the texts of clap's usage and of the JSON schemas, which are generated, with the four integration tests that
  only exercise them; the fuzz targets, which only call modelled functions on arbitrary bytes; the scripts and
  the packaging; ledger time, fees and the archival of entries, which the contracts do not touch. The
  compiled example modules are not in the repository, so the verdicts on them are for every pair of modules
  with the versions and structs of the sources.
\<close>

end
